(* ===== verification/Prelude.thy ===== *)
theory Prelude
  imports Main "HOL-Library.AList" "HOL-Library.Char_ord" "HOL-Library.List_Lexorder"
    "HOL-Library.State_Monad" "HOL-Library.Word"
begin

text \<open>
  Shared vocabulary of the development: Go slices and maps, the lemma collections and the
  generic facts on lists and association lists that the components use.

  A Go slice that the code compares with \<open>reflect.DeepEqual\<close> or marshals distinguishes nil from
  empty, so it is a \<open>slice\<close>: \<^verbatim>\<open>None\<close> is nil, \<^verbatim>\<open>Some []\<close> an empty non-nil slice.
  A Go map is an association list with distinct keys; the order of the list is the order in which
  a \<open>range\<close> over the map visits it, which Go leaves open, so a statement about every list is a
  statement about every iteration order.
\<close>

named_theorems gomap_simps \<open>evaluation of the operations on Go maps\<close>
named_theorems gomap_wf \<open>operations on Go maps keep the keys distinct\<close>
named_theorems status_ops \<open>operations on a network status keep its maps well formed\<close>

type_synonym int64 = "64 word"
type_synonym 'a slice = "'a list option"
type_synonym 'v gomap = "(string \<times> 'v) list"

text \<open>The elements a \<open>range\<close> over a slice visits; none for a nil slice.\<close>

definition elems :: "'a slice \<Rightarrow> 'a list" where
  "elems s = (case s of None \<Rightarrow> [] | Some xs \<Rightarrow> xs)"

lemma elems_simps [simp]: "elems None = []" "elems (Some xs) = xs"
  by (simp_all add: elems_def)

definition wf_map :: "'v gomap \<Rightarrow> bool" where
  "wf_map m \<longleftrightarrow> distinct (map fst m)"

definition map_lookup :: "'v gomap \<Rightarrow> string \<Rightarrow> 'v option" where
  "map_lookup m k = map_of m k"

definition map_assign :: "string \<Rightarrow> 'v \<Rightarrow> 'v gomap \<Rightarrow> 'v gomap" where
  "map_assign k v m = AList.update k v m"

definition map_delete :: "string \<Rightarrow> 'v gomap \<Rightarrow> 'v gomap" where
  "map_delete k m = AList.delete k m"

text \<open>\<open>maps.DeleteFunc\<close>: the entries on which the callback answers true are removed.\<close>

definition maps_DeleteFunc :: "(string \<Rightarrow> 'v \<Rightarrow> bool) \<Rightarrow> 'v gomap \<Rightarrow> 'v gomap" where
  "maps_DeleteFunc p m = filter (\<lambda>(k, v). \<not> p k v) m"

definition map_keys :: "'v gomap \<Rightarrow> string list" where
  "map_keys m = map fst m"

definition map_values :: "'v gomap \<Rightarrow> 'v list" where
  "map_values m = map snd m"

lemma map_of_filter_keys:
  "distinct (map fst m) \<Longrightarrow>
   map_of (filter (\<lambda>(k, v). P k v) m) k =
     (case map_of m k of None \<Rightarrow> None | Some v \<Rightarrow> if P k v then Some v else None)"
  by (induction m) (auto split: option.splits simp: map_of_eq_None_iff)

lemma map_lookup_empty [gomap_simps, simp]: "map_lookup [] k = None"
  by (simp add: map_lookup_def)

lemma map_lookup_Cons [gomap_simps]:
  "map_lookup ((k, v) # m) l = (if l = k then Some v else map_lookup m l)"
  by (simp add: map_lookup_def)

lemma map_lookup_assign [gomap_simps]:
  "map_lookup (map_assign k v m) l = (if l = k then Some v else map_lookup m l)"
  by (simp add: map_lookup_def map_assign_def update_conv')

lemma map_lookup_delete [gomap_simps]:
  "map_lookup (map_delete k m) l = (if l = k then None else map_lookup m l)"
  by (simp add: map_lookup_def map_delete_def delete_conv')

lemma map_lookup_DeleteFunc [gomap_simps]:
  "wf_map m \<Longrightarrow> map_lookup (maps_DeleteFunc p m) k =
     (case map_lookup m k of None \<Rightarrow> None | Some v \<Rightarrow> if p k v then None else Some v)"
  by (simp add: map_lookup_def maps_DeleteFunc_def wf_map_def map_of_filter_keys
      split: option.splits)

lemma wf_map_empty [gomap_wf, simp]: "wf_map []"
  by (simp add: wf_map_def)

lemma wf_map_assign [gomap_wf]: "wf_map m \<Longrightarrow> wf_map (map_assign k v m)"
  by (simp add: wf_map_def map_assign_def distinct_update)

lemma wf_map_delete [gomap_wf]: "wf_map m \<Longrightarrow> wf_map (map_delete k m)"
  by (simp add: wf_map_def map_delete_def distinct_delete)

lemma wf_map_DeleteFunc [gomap_wf]: "wf_map m \<Longrightarrow> wf_map (maps_DeleteFunc p m)"
  by (induction m) (auto simp: wf_map_def maps_DeleteFunc_def)

lemma map_keys_iff: "k \<in> set (map_keys m) \<longleftrightarrow> map_lookup m k \<noteq> None"
  by (simp add: map_keys_def map_lookup_def map_of_eq_None_iff image_iff)

lemma map_lookup_Some_iff:
  "wf_map m \<Longrightarrow> map_lookup m k = Some v \<longleftrightarrow> (k, v) \<in> set m"
  by (simp add: wf_map_def map_lookup_def)

text \<open>
  The map interface the components rely on: read over write and preservation of distinct keys.
  A client lemma proved here holds for every provider of the interface.
\<close>

locale go_map =
  fixes lookup :: "'m \<Rightarrow> string \<Rightarrow> 'v option"
    and assign :: "string \<Rightarrow> 'v \<Rightarrow> 'm \<Rightarrow> 'm"
    and remove :: "string \<Rightarrow> 'm \<Rightarrow> 'm"
    and wf :: "'m \<Rightarrow> bool"
  assumes lookup_assign: "lookup (assign k v m) l = (if l = k then Some v else lookup m l)"
    and lookup_remove: "lookup (remove k m) l = (if l = k then None else lookup m l)"
    and wf_assign: "wf m \<Longrightarrow> wf (assign k v m)"
    and wf_remove: "wf m \<Longrightarrow> wf (remove k m)"
begin

lemma lookup_fold_assign:
  "lookup (fold (\<lambda>k. assign k (f k)) ks m) l = (if l \<in> set ks then Some (f l) else lookup m l)"
  by (induction ks arbitrary: m) (auto simp: lookup_assign)

lemma lookup_fold_remove:
  "lookup (fold remove ks m) l = (if l \<in> set ks then None else lookup m l)"
  by (induction ks arbitrary: m) (auto simp: lookup_remove)

lemma wf_fold_assign: "wf m \<Longrightarrow> wf (fold (\<lambda>k. assign k (f k)) ks m)"
  by (induction ks arbitrary: m) (auto simp: wf_assign)

lemma wf_fold_remove: "wf m \<Longrightarrow> wf (fold remove ks m)"
  by (induction ks arbitrary: m) (auto simp: wf_remove)

end

interpretation alist: go_map map_lookup map_assign map_delete wf_map
  by unfold_locales (auto simp: gomap_simps intro: gomap_wf)

text \<open>A \<open>range\<close> that rewrites every value in place keeps the keys.\<close>

definition map_range :: "(string \<Rightarrow> 'v \<Rightarrow> 'w) \<Rightarrow> 'v gomap \<Rightarrow> 'w gomap" where
  "map_range f m = map (\<lambda>(k, v). (k, f k v)) m"

lemma map_lookup_range [gomap_simps]:
  "map_lookup (map_range f m) k = map_option (f k) (map_lookup m k)"
  by (induction m) (auto simp: map_lookup_def map_range_def)

lemma wf_map_range [gomap_wf]: "wf_map m \<Longrightarrow> wf_map (map_range f m)"
  by (simp add: wf_map_def map_range_def comp_def case_prod_beta)

end
