(* ===== verification/GoStrings.thy ===== *)
theory GoStrings
  imports Prelude
begin

text \<open>
  The parts of Go's packages \<open>strings\<close> and \<open>strconv\<close> that the program calls. A string is its
  list of bytes. \<open>strconv\<close> returns a value together with an error; both are modelled, because the
  code ignores the error at several call sites and goes on with the value.
\<close>

subsection \<open>Package strings\<close>

definition strings_Compare :: "string \<Rightarrow> string \<Rightarrow> int" where
  "strings_Compare a b = (if a = b then 0 else if a < b then -1 else 1)"

fun has_prefix :: "string \<Rightarrow> string \<Rightarrow> bool" where
  "has_prefix s [] = True"
| "has_prefix [] (p # ps) = False"
| "has_prefix (c # cs) (p # ps) = (c = p \<and> has_prefix cs ps)"

fun strings_Cut :: "string \<Rightarrow> string \<Rightarrow> string \<times> string \<times> bool" where
  "strings_Cut [] sep = ([], [], sep = [])"
| "strings_Cut (c # cs) sep =
     (if has_prefix (c # cs) sep then ([], drop (length sep) (c # cs), True)
      else (case strings_Cut cs sep of (before, after, found) \<Rightarrow>
              (c # before, after, found)))"

definition strings_Contains :: "string \<Rightarrow> string \<Rightarrow> bool" where
  "strings_Contains s sub = snd (snd (strings_Cut s sub))"

fun strings_Join :: "string list \<Rightarrow> string \<Rightarrow> string" where
  "strings_Join [] sep = []"
| "strings_Join [x] sep = x"
| "strings_Join (x # y # xs) sep = x @ sep @ strings_Join (y # xs) sep"

text \<open>\<open>strings.Split\<close> with a one-byte separator.\<close>

fun strings_Split :: "string \<Rightarrow> char \<Rightarrow> string list" where
  "strings_Split [] sep = [[]]"
| "strings_Split (c # cs) sep =
     (if c = sep then [] # strings_Split cs sep
      else (case strings_Split cs sep of [] \<Rightarrow> [[c]] | x # xs \<Rightarrow> (c # x) # xs))"

definition is_space :: "char \<Rightarrow> bool" where
  "is_space c \<longleftrightarrow> c = CHR '' '' \<or> c = CHR 0x09 \<or> c = CHR 0x0A \<or> c = CHR 0x0B \<or> c = CHR 0x0C \<or> c = CHR 0x0D"

definition strings_TrimSpace :: "string \<Rightarrow> string" where
  "strings_TrimSpace s = rev (dropWhile is_space (rev (dropWhile is_space s)))"

lemma strings_Compare_less: "strings_Compare a b < 0 \<longleftrightarrow> a < b"
  by (auto simp: strings_Compare_def)

lemma strings_Compare_eq: "strings_Compare a b = 0 \<longleftrightarrow> a = b"
  by (auto simp: strings_Compare_def)

lemma has_prefix_append: "has_prefix (p @ s) p"
  by (induction p) auto

lemma has_prefix_drop: "has_prefix s p \<Longrightarrow> s = p @ drop (length p) s"
  by (induction s p rule: has_prefix.induct) auto

lemma strings_Cut_found:
  "strings_Cut s sep = (b, a, True) \<Longrightarrow> s = b @ sep @ a"
proof (induction s arbitrary: b)
  case Nil
  then show ?case by auto
next
  case (Cons c cs)
  show ?case
  proof (cases "has_prefix (c # cs) sep")
    case True
    with Cons.prems has_prefix_drop [OF True] show ?thesis by auto
  next
    case False
    with Cons show ?thesis by (auto split: prod.splits)
  qed
qed

lemma strings_Cut_not_found:
  "strings_Cut s sep = (b, a, False) \<Longrightarrow> b = s \<and> a = []"
  by (induction s arbitrary: b) (auto split: prod.splits if_splits)

text \<open>Cutting at a one-byte separator: the first field never contains it.\<close>

lemma strings_Cut_char:
  "strings_Cut s [c] =
     (takeWhile (\<lambda>x. x \<noteq> c) s, drop 1 (dropWhile (\<lambda>x. x \<noteq> c) s), c \<in> set s)"
proof (induction s)
  case Nil
  then show ?case by simp
next
  case (Cons x xs)
  then show ?case by (cases "x = c") auto
qed

lemma strings_Cut_char_append:
  "c \<notin> set b \<Longrightarrow> strings_Cut (b @ c # a) [c] = (b, a, True)"
  by (induction b) auto

lemma strings_Cut_char_none:
  "c \<notin> set b \<Longrightarrow> strings_Cut b [c] = (b, [], False)"
  by (induction b) auto

lemma strings_Split_nonempty: "strings_Split s c \<noteq> []"
  by (cases s) (auto split: list.splits)

lemma strings_Split_no_sep: "c \<notin> set s \<Longrightarrow> strings_Split s c = [s]"
  by (induction s) auto

lemma strings_Split_append:
  "c \<notin> set b \<Longrightarrow> strings_Split (b @ c # a) c = b # strings_Split a c"
  by (induction b) auto

lemma strings_Split_Join:
  "xs \<noteq> [] \<Longrightarrow> \<forall>x \<in> set xs. c \<notin> set x \<Longrightarrow> strings_Split (strings_Join xs [c]) c = xs"
  by (induction xs "[c]" rule: strings_Join.induct)
    (auto simp: strings_Split_no_sep strings_Split_append)

subsection \<open>Package strconv\<close>

datatype num_error = ErrSyntax | ErrRange

definition is_digit :: "char \<Rightarrow> bool" where
  "is_digit c \<longleftrightarrow> 48 \<le> (of_char c :: nat) \<and> (of_char c :: nat) \<le> 57"

definition digit_val :: "char \<Rightarrow> nat" where
  "digit_val c = of_char c - 48"

definition digit_char :: "nat \<Rightarrow> char" where
  "digit_char d = char_of (48 + d)"

text \<open>The digit loop of \<open>ParseUint\<close>: it stops at the first bad byte or at the first overflow.\<close>

fun parse_digits :: "nat \<Rightarrow> nat \<Rightarrow> string \<Rightarrow> nat \<times> num_error option" where
  "parse_digits mx n [] = (n, None)"
| "parse_digits mx n (c # cs) =
     (if \<not> is_digit c then (0, Some ErrSyntax)
      else if n * 10 + digit_val c > mx then (mx, Some ErrRange)
      else parse_digits mx (n * 10 + digit_val c) cs)"

definition strconv_ParseUint :: "string \<Rightarrow> nat \<Rightarrow> nat \<times> num_error option" where
  "strconv_ParseUint s bits =
     (if s = [] then (0, Some ErrSyntax) else parse_digits (2 ^ bits - 1) 0 s)"

definition strconv_ParseInt :: "string \<Rightarrow> nat \<Rightarrow> int \<times> num_error option" where
  "strconv_ParseInt s bits =
     (if s = [] then (0, Some ErrSyntax)
      else
        let neg = (hd s = CHR ''-'');
            body = (if hd s = CHR ''+'' \<or> hd s = CHR ''-'' then tl s else s);
            cutoff = (2 :: nat) ^ (bits - 1)
        in (case strconv_ParseUint body bits of
              (un, Some ErrSyntax) \<Rightarrow> (0, Some ErrSyntax)
            | (un, err) \<Rightarrow>
                if \<not> neg \<and> un \<ge> cutoff then (int (cutoff - 1), Some ErrRange)
                else if neg \<and> un > cutoff then (- int cutoff, Some ErrRange)
                else (if neg then - int un else int un, None)))"

fun fmt_nat :: "nat \<Rightarrow> string" where
  "fmt_nat n = (if n < 10 then [digit_char n] else fmt_nat (n div 10) @ [digit_char (n mod 10)])"

declare fmt_nat.simps [simp del]

definition strconv_FormatInt :: "int \<Rightarrow> string" where
  "strconv_FormatInt i = (if i < 0 then CHR ''-'' # fmt_nat (nat (- i)) else fmt_nat (nat i))"

lemma digit_char_props:
  assumes "d < 10"
  shows "is_digit (digit_char d)" and "digit_val (digit_char d) = d"
  using assms by (simp_all add: is_digit_def digit_val_def digit_char_def)

lemma is_digit_not_sign: "is_digit c \<Longrightarrow> c \<noteq> CHR ''-'' \<and> c \<noteq> CHR ''+''"
  by (auto simp: is_digit_def)

lemma fmt_nat_nonempty: "fmt_nat n \<noteq> []"
  by (subst fmt_nat.simps) simp

lemma fmt_nat_digits: "\<forall>c \<in> set (fmt_nat n). is_digit c"
proof (induction n rule: fmt_nat.induct)
  case (1 n)
  then show ?case
    by (subst fmt_nat.simps) (auto simp: digit_char_props)
qed

definition dec_value :: "nat \<Rightarrow> string \<Rightarrow> nat" where
  "dec_value a s = foldl (\<lambda>n c. n * 10 + digit_val c) a s"

lemma dec_value_ge: "a \<le> dec_value a s"
proof (induction s arbitrary: a)
  case Nil
  then show ?case by (simp add: dec_value_def)
next
  case (Cons c s)
  from Cons [of "a * 10 + digit_val c"] show ?case by (simp add: dec_value_def)
qed

lemma dec_value_fmt_nat: "dec_value 0 (fmt_nat n) = n"
proof (induction n rule: fmt_nat.induct)
  case (1 n)
  then show ?case
    by (subst fmt_nat.simps) (auto simp: digit_char_props dec_value_def)
qed

lemma parse_digits_value:
  "\<forall>c \<in> set s. is_digit c \<Longrightarrow> dec_value a s \<le> mx \<Longrightarrow> parse_digits mx a s = (dec_value a s, None)"
proof (induction s arbitrary: a)
  case Nil
  then show ?case by (simp add: dec_value_def)
next
  case (Cons c s)
  have "a * 10 + digit_val c \<le> dec_value (a * 10 + digit_val c) s" by (rule dec_value_ge)
  with Cons show ?case by (simp add: dec_value_def)
qed

lemma parse_digits_error_value:
  "parse_digits mx a s = (v, None) \<Longrightarrow> (\<forall>c \<in> set s. is_digit c) \<and> v = dec_value a s"
  by (induction s arbitrary: a) (auto simp: dec_value_def split: if_splits)

lemma parse_digits_le: "a \<le> mx \<Longrightarrow> fst (parse_digits mx a s) \<le> mx"
  by (induction s arbitrary: a) auto

lemma ParseUint_fmt_nat:
  "n < 2 ^ bits \<Longrightarrow> strconv_ParseUint (fmt_nat n) bits = (n, None)"
  by (simp add: strconv_ParseUint_def fmt_nat_nonempty parse_digits_value fmt_nat_digits
      dec_value_fmt_nat)

lemma fmt_nat_hd: "hd (fmt_nat n) \<noteq> CHR ''-'' \<and> hd (fmt_nat n) \<noteq> CHR ''+''"
  using fmt_nat_digits fmt_nat_nonempty hd_in_set is_digit_not_sign by blast

text \<open>Printing and parsing a signed integer of any width is the identity.\<close>

lemma ParseInt_FormatInt:
  assumes "0 < bits" and lo: "- (2 ^ (bits - 1)) \<le> i" and hi: "i < 2 ^ (bits - 1)"
  shows "strconv_ParseInt (strconv_FormatInt i) bits = (i, None)"
proof -
  have pow: "(2::nat) ^ (bits - 1) < 2 ^ bits" using \<open>0 < bits\<close> by simp
  show ?thesis
  proof (cases "i < 0")
    case True
    have le: "nat (- i) \<le> 2 ^ (bits - 1)" using lo by (simp add: nat_le_iff)
    with pow have lt: "nat (- i) < 2 ^ bits" by linarith
    from True show ?thesis
      using le by (simp add: strconv_ParseInt_def strconv_FormatInt_def ParseUint_fmt_nat [OF lt] Let_def)
  next
    case False
    have le: "nat i < 2 ^ (bits - 1)" using hi False by (simp add: nat_less_iff)
    with pow have lt: "nat i < 2 ^ bits" by linarith
    from False show ?thesis
      using le fmt_nat_hd [of "nat i"]
      by (simp add: strconv_ParseInt_def strconv_FormatInt_def ParseUint_fmt_nat [OF lt]
          fmt_nat_nonempty Let_def)
  qed
qed

lemma ParseInt_FormatInt_word:
  "strconv_ParseInt (strconv_FormatInt (sint (w :: int64))) 64 = (sint w, None)"
proof (rule ParseInt_FormatInt)
  show "- (2 ^ (64 - 1)) \<le> sint w" using sint_ge [of w] by simp
  show "sint w < 2 ^ (64 - 1)" using sint_lt [of w] by simp
qed simp

end
