(* ===== verification/GoSlices.thy ===== *)
theory GoSlices
  imports GoStrings "HOL-Library.Multiset"
begin

text \<open>
  The parts of Go's package \<open>slices\<close> that the program calls, and the interface of a comparison
  function: a \<open>cmp\<close> that orders values by a key. \<open>SortFunc\<close> is the library's insertion
  sort (the one it runs on short slices); it is stable, which the library does not promise for
  long ones, so the lemma \<open>SortFunc_unique\<close> shows when the choice cannot matter.
\<close>

subsection \<open>Searching and deleting\<close>

definition slices_Contains :: "'a list \<Rightarrow> 'a \<Rightarrow> bool" where
  "slices_Contains xs x = List.member xs x"

definition slices_ContainsFunc :: "'a list \<Rightarrow> ('a \<Rightarrow> bool) \<Rightarrow> bool" where
  "slices_ContainsFunc xs p = list_ex p xs"

definition slices_DeleteFunc :: "('a \<Rightarrow> bool) \<Rightarrow> 'a list \<Rightarrow> 'a list" where
  "slices_DeleteFunc p xs = filter (\<lambda>x. \<not> p x) xs"

text \<open>\<open>slices.Min\<close> panics on an empty slice: \<^verbatim>\<open>None\<close>.\<close>

fun slices_Min :: "int list \<Rightarrow> int option" where
  "slices_Min [] = None"
| "slices_Min (x # xs) = Some (foldl min x xs)"

lemma slices_Contains_iff [simp]: "slices_Contains xs x \<longleftrightarrow> x \<in> set xs"
  by (simp add: slices_Contains_def)

lemma slices_ContainsFunc_iff [simp]: "slices_ContainsFunc xs p \<longleftrightarrow> (\<exists>x \<in> set xs. p x)"
  by (simp add: slices_ContainsFunc_def list_ex_iff)

lemma foldl_min_le: "foldl min (x :: int) xs \<le> x \<and> (\<forall>y \<in> set xs. foldl min x xs \<le> y)"
proof (induction xs arbitrary: x)
  case Nil
  then show ?case by simp
next
  case (Cons y ys)
  from Cons [of "min x y"] show ?case by auto
qed

lemma foldl_min_in: "foldl min (x :: int) xs \<in> insert x (set xs)"
proof (induction xs arbitrary: x)
  case Nil
  then show ?case by simp
next
  case (Cons y ys)
  from Cons [of "min x y"] show ?case by (auto simp: min_def split: if_splits)
qed

lemma slices_Min_Some:
  "slices_Min xs = Some m \<Longrightarrow> m \<in> set xs \<and> (\<forall>y \<in> set xs. m \<le> y)"
  using foldl_min_le foldl_min_in by (cases xs) force+

lemma slices_Min_None: "slices_Min xs = None \<longleftrightarrow> xs = []"
  by (cases xs) auto

subsection \<open>Sorting and binary search\<close>

fun insert_cmp :: "('a \<Rightarrow> 'a \<Rightarrow> int) \<Rightarrow> 'a \<Rightarrow> 'a list \<Rightarrow> 'a list" where
  "insert_cmp cmp x [] = [x]"
| "insert_cmp cmp x (y # ys) =
     (if cmp x y < 0 then x # y # ys else y # insert_cmp cmp x ys)"

definition slices_SortFunc :: "('a \<Rightarrow> 'a \<Rightarrow> int) \<Rightarrow> 'a list \<Rightarrow> 'a list" where
  "slices_SortFunc cmp xs = foldl (\<lambda>acc x. insert_cmp cmp x acc) [] xs"

text \<open>The loop of \<open>slices.BinarySearchFunc\<close> over the window from \<open>i\<close> to \<open>j\<close>.\<close>

function search_loop :: "('a \<Rightarrow> 'a \<Rightarrow> int) \<Rightarrow> 'a list \<Rightarrow> 'a \<Rightarrow> nat \<Rightarrow> nat \<Rightarrow> nat" where
  "search_loop cmp xs t i j =
     (if i < j then
        let h = (i + j) div 2 in
          if cmp (xs ! h) t < 0 then search_loop cmp xs t (h + 1) j
          else search_loop cmp xs t i h
      else i)"
  by pat_completeness auto
termination
  by (relation "measure (\<lambda>(cmp, xs, t, i, j). j - i)") auto

declare search_loop.simps [simp del]

definition slices_BinarySearchFunc ::
    "'a list \<Rightarrow> 'a \<Rightarrow> ('a \<Rightarrow> 'a \<Rightarrow> int) \<Rightarrow> nat \<times> bool" where
  "slices_BinarySearchFunc xs t cmp =
     (let i = search_loop cmp xs t 0 (length xs)
      in (i, i < length xs \<and> cmp (xs ! i) t = 0))"

text \<open>
  The interface of a comparison function: the sign of \<open>cmp\<close> is the order of the keys. From it
  follow that the sort is a sorted permutation and that the binary search finds exactly the keys
  that occur, at the position of a value with that key.
\<close>

locale keyed_cmp =
  fixes cmp :: "'a \<Rightarrow> 'a \<Rightarrow> int"
    and key :: "'a \<Rightarrow> 'k :: linorder"
  assumes cmp_less: "cmp a b < 0 \<longleftrightarrow> key a < key b"
    and cmp_eq: "cmp a b = 0 \<longleftrightarrow> key a = key b"
begin

lemma insert_cmp_mset: "mset (insert_cmp cmp x xs) = add_mset x (mset xs)"
  by (induction xs) auto

lemma insert_cmp_sorted:
  "sorted (map key xs) \<Longrightarrow> sorted (map key (insert_cmp cmp x xs))"
proof (induction xs)
  case Nil
  then show ?case by simp
next
  case (Cons y ys)
  have "set (insert_cmp cmp x ys) = insert x (set ys)"
    using insert_cmp_mset [of x ys] by (metis set_mset_mset set_mset_add_mset_insert)
  with Cons show ?case by (auto simp: cmp_less intro: less_imp_le order.trans)
qed

lemma foldl_insert_mset:
  "mset (foldl (\<lambda>acc x. insert_cmp cmp x acc) acc xs) = mset acc + mset xs"
  by (induction xs arbitrary: acc) (auto simp: insert_cmp_mset)

lemma foldl_insert_sorted:
  "sorted (map key acc) \<Longrightarrow> sorted (map key (foldl (\<lambda>acc x. insert_cmp cmp x acc) acc xs))"
  by (induction xs arbitrary: acc) (auto simp: insert_cmp_sorted)

lemma SortFunc_mset: "mset (slices_SortFunc cmp xs) = mset xs"
  by (simp add: slices_SortFunc_def foldl_insert_mset)

lemma SortFunc_set: "set (slices_SortFunc cmp xs) = set xs"
  using SortFunc_mset by (metis set_mset_mset)

lemma SortFunc_length: "length (slices_SortFunc cmp xs) = length xs"
  using SortFunc_mset by (metis size_mset)

lemma SortFunc_sorted: "sorted (map key (slices_SortFunc cmp xs))"
  by (simp add: slices_SortFunc_def foldl_insert_sorted)

lemma SortFunc_distinct:
  "distinct (map key xs) \<Longrightarrow> distinct (map key (slices_SortFunc cmp xs))"
  using SortFunc_mset [of xs] by (metis mset_eq_imp_distinct_iff mset_map)

text \<open>With distinct keys every sorting algorithm gives this list.\<close>

lemma SortFunc_unique:
  assumes "mset ys = mset xs" and "sorted (map key ys)" and "distinct (map key xs)"
  shows "ys = slices_SortFunc cmp xs"
proof (rule map_sorted_distinct_set_unique [where f = key])
  show "inj_on key (set ys \<union> set (slices_SortFunc cmp xs))"
    using assms(1,3) SortFunc_set by (metis distinct_map set_mset_mset sup.idem)
  show "sorted (map key ys)" "sorted (map key (slices_SortFunc cmp xs))"
    by (rule assms(2), rule SortFunc_sorted)
  show "distinct (map key ys)" "distinct (map key (slices_SortFunc cmp xs))"
    using assms(1,3) SortFunc_distinct by (metis mset_eq_imp_distinct_iff mset_map)+
  show "set ys = set (slices_SortFunc cmp xs)"
    using assms(1) SortFunc_set by (metis set_mset_mset)
qed

lemma search_loop_spec:
  assumes "sorted (map key xs)" and "i \<le> j" and "j \<le> length xs"
    and "\<forall>m < i. key (xs ! m) < key t" and "\<forall>m. j \<le> m \<and> m < length xs \<longrightarrow> key t \<le> key (xs ! m)"
  shows "search_loop cmp xs t i j \<le> length xs \<and>
    (\<forall>m < search_loop cmp xs t i j. key (xs ! m) < key t) \<and>
    (\<forall>m. search_loop cmp xs t i j \<le> m \<and> m < length xs \<longrightarrow> key t \<le> key (xs ! m))"
  using assms
proof (induction "j - i" arbitrary: i j rule: less_induct)
  case less
  have mono: "key (xs ! a) \<le> key (xs ! b)" if "a \<le> b" "b < length xs" for a b
    using sorted_nth_mono [OF less.prems(1), of a b] that by simp
  show ?case
  proof (cases "i < j")
    case False
    then have "search_loop cmp xs t i j = i" by (simp add: search_loop.simps [of cmp xs t i j])
    with False less.prems show ?thesis by auto
  next
    case True
    define h where "h = (i + j) div 2"
    have h: "i \<le> h" "h < j" using True by (auto simp: h_def)
    have hlen: "h < length xs" using h(2) less.prems(3) by simp
    show ?thesis
    proof (cases "cmp (xs ! h) t < 0")
      case lt: True
      have below: "\<forall>m < h + 1. key (xs ! m) < key t"
      proof (intro allI impI)
        fix m assume "m < h + 1"
        then have "key (xs ! m) \<le> key (xs ! h)" using mono [OF _ hlen] by simp
        also have "\<dots> < key t" using lt by (simp add: cmp_less)
        finally show "key (xs ! m) < key t" .
      qed
      have dec: "j - (h + 1) < j - i" and le: "h + 1 \<le> j" using h by linarith+
      have eq: "search_loop cmp xs t i j = search_loop cmp xs t (h + 1) j"
        using True lt by (simp add: search_loop.simps [of cmp xs t i j] Let_def h_def)
      show ?thesis
        unfolding eq by (rule less.hyps [OF dec less.prems(1) le less.prems(3) below less.prems(5)])
    next
      case ge: False
      have above: "\<forall>m. h \<le> m \<and> m < length xs \<longrightarrow> key t \<le> key (xs ! m)"
        using ge mono [of h] order.trans unfolding cmp_less not_less by blast
      have dec: "h - i < j - i" and le: "h \<le> length xs" using h hlen by linarith+
      have eq: "search_loop cmp xs t i j = search_loop cmp xs t i h"
        using True ge by (simp add: search_loop.simps [of cmp xs t i j] Let_def h_def)
      show ?thesis
        unfolding eq by (rule less.hyps [OF dec less.prems(1) h(1) le less.prems(4) above])
    qed
  qed
qed

text \<open>The search succeeds exactly when the key occurs, and then at a value with that key.\<close>

lemma BinarySearch_found:
  assumes "sorted (map key xs)"
  shows "snd (slices_BinarySearchFunc xs t cmp) \<longleftrightarrow> key t \<in> key ` set xs"
proof -
  define i where "i = search_loop cmp xs t 0 (length xs)"
  have i: "\<forall>m < i. key (xs ! m) < key t"
    and i2: "\<forall>m. i \<le> m \<and> m < length xs \<longrightarrow> key t \<le> key (xs ! m)"
    using search_loop_spec [OF assms le0 le_refl, of t] by (simp_all add: i_def not_less [symmetric])
  have res: "snd (slices_BinarySearchFunc xs t cmp) \<longleftrightarrow> i < length xs \<and> key (xs ! i) = key t"
    by (simp add: slices_BinarySearchFunc_def Let_def i_def cmp_eq)
  show ?thesis
  proof
    assume "snd (slices_BinarySearchFunc xs t cmp)"
    with res show "key t \<in> key ` set xs" by (metis image_eqI nth_mem)
  next
    assume "key t \<in> key ` set xs"
    then obtain m where m: "m < length xs" "key (xs ! m) = key t"
      by (metis imageE in_set_conv_nth)
    with i have "i \<le> m" by (metis less_irrefl not_le)
    with m have "i < length xs" by linarith
    moreover have "key (xs ! i) \<le> key (xs ! m)"
      using sorted_nth_mono [OF assms, of i m] \<open>i \<le> m\<close> m(1) by simp
    ultimately show "snd (slices_BinarySearchFunc xs t cmp)"
      using res i2 m by (metis antisym le_refl)
  qed
qed

lemma BinarySearch_index:
  assumes "slices_BinarySearchFunc xs t cmp = (i, True)"
  shows "i < length xs \<and> key (xs ! i) = key t"
  using assms by (auto simp: slices_BinarySearchFunc_def Let_def cmp_eq)

text \<open>With distinct keys the search returns the one value that carries the key.\<close>

lemma BinarySearch_lookup:
  assumes "sorted (map key xs)" and "distinct (map key xs)"
    and "x \<in> set xs" and "key x = key t"
  shows "\<exists>i. slices_BinarySearchFunc xs t cmp = (i, True) \<and> xs ! i = x"
proof -
  have "snd (slices_BinarySearchFunc xs t cmp)"
    unfolding BinarySearch_found [OF assms(1)] using assms(3,4) by (metis image_eqI)
  then obtain i where i: "slices_BinarySearchFunc xs t cmp = (i, True)"
    by (metis prod.collapse)
  from BinarySearch_index [OF this] have "i < length xs" "key (xs ! i) = key x"
    using assms(4) by auto
  with assms(2,3) have "xs ! i = x"
    by (metis distinct_map inj_onD nth_mem)
  with i show ?thesis by blast
qed

end

text \<open>\<open>strings.Compare\<close> on any string-valued key is such a comparison.\<close>

lemma keyed_cmp_strings: "keyed_cmp (\<lambda>a b. strings_Compare (f a) (f b)) f"
  by unfold_locales (auto simp: strings_Compare_less strings_Compare_eq)

interpretation by_string: keyed_cmp strings_Compare "\<lambda>s. s"
  by unfold_locales (auto simp: strings_Compare_less strings_Compare_eq)

end
