(* ===== verification/Errors.thy ===== *)
theory Errors
  imports GoStrings
begin

text \<open>
  The errors of \<open>pkg/errors\<close> and of the controller and webhook packages as one datatype, with
  their texts, what each unwraps to, and the tests \<open>errors.Is\<close> and \<open>apierrors.IsNotFound\<close> (and
  its kin), which walk the tree of wrapped errors.
\<close>

subsection \<open>Error values\<close>

datatype sentinel =
    ErrK8sClient | ErrUnrecoverable | ErrNilUnrecoverable | ErrInternal | ErrParsing
  | ErrTryAgain | ErrUnimplemented | ErrTypeMismatch | ErrMissingAnnotation | ErrNoIPInPool
  | ErrNoManagerPods | ErrManagerNotReady | ErrDaemonPodTimeout | ErrDaemonSetTimeout | ErrNetInUse

text \<open>The reason of an API server error that the code distinguishes.\<close>

datatype api_reason = NotFound | AlreadyExists | Conflict | OtherReason string

text \<open>
  \<open>ApiStatus\<close> is an error of the API server, \<open>Foreign\<close> one of any other library,
  \<open>Errorf\<close>, \<open>Wrapf\<close> and \<open>WrapBoth\<close> are \<open>fmt.Errorf\<close> with no, one (\<open>"...: %w"\<close>) and two
  (\<open>"%w: %w"\<close>) wrapped errors. An \<open>Err\<close> field that the code may leave nil is an option.
\<close>

datatype go_error =
    ApiStatus api_reason string
  | Foreign string
  | Sentinel sentinel
  | Errorf string
  | Wrapf string go_error
  | WrapBoth go_error go_error
  | ClientRequestError string go_error
  | RequestError string go_error
  | UnrecoverableError string "go_error option"
  | InternalError string
  | ParsingError string "go_error option"
  | TryAgainError go_error
  | UnimplementedError string
  | TypeMismatchError string string
  | MissingAnnotationError string
  | NoIPInPoolError string string
  | NoManagerPodsError string string
  | ManagerNotReadyError string string
  | DaemonSetTimeoutError string int int bool "go_error option"
  | DaemonPodTimeoutError string bool "go_error option"
  | ReconcileError string go_error
  | ReconcileErrorList "go_error list"
  | NetInUseError "string list" string

definition NewClientRequestError :: "string \<Rightarrow> go_error \<Rightarrow> go_error" where
  "NewClientRequestError act err = WrapBoth (Sentinel ErrK8sClient) (ClientRequestError act err)"

definition NewParsingError :: "string \<Rightarrow> go_error option \<Rightarrow> go_error" where
  "NewParsingError source err = WrapBoth (Sentinel ErrParsing) (ParsingError source err)"

text \<open>The \<open>%T\<close> of the object is the name of its Go type.\<close>

definition NewTypeMismatchError :: "string \<Rightarrow> string \<Rightarrow> go_error" where
  "NewTypeMismatchError wher got = TypeMismatchError wher got"

subsection \<open>Unwrapping\<close>

fun Unwrap :: "go_error \<Rightarrow> go_error list" where
  "Unwrap (Wrapf p e) = [e]"
| "Unwrap (WrapBoth a b) = [a, b]"
| "Unwrap (ClientRequestError a e) = [e]"
| "Unwrap (RequestError a e) = [e]"
| "Unwrap (UnrecoverableError c e) = (case e of None \<Rightarrow> [] | Some x \<Rightarrow> [x])"
| "Unwrap (InternalError c) = [Sentinel ErrInternal]"
| "Unwrap (ParsingError s e) = (case e of None \<Rightarrow> [] | Some x \<Rightarrow> [x])"
| "Unwrap (TryAgainError e) = [Sentinel ErrTryAgain]"
| "Unwrap (UnimplementedError f) = [Sentinel ErrUnimplemented]"
| "Unwrap (TypeMismatchError w g) = [Sentinel ErrTypeMismatch]"
| "Unwrap (MissingAnnotationError r) = [Sentinel ErrMissingAnnotation]"
| "Unwrap (NoIPInPoolError r p) = [Sentinel ErrNoIPInPool]"
| "Unwrap (NoManagerPodsError r n) = [Sentinel ErrNoManagerPods]"
| "Unwrap (ManagerNotReadyError r m) = [Sentinel ErrManagerNotReady]"
| "Unwrap (DaemonSetTimeoutError n r t ok e) = [Sentinel ErrDaemonSetTimeout]"
| "Unwrap (DaemonPodTimeoutError n ok e) = [Sentinel ErrDaemonPodTimeout]"
| "Unwrap (ReconcileError a e) = [e]"
| "Unwrap (NetInUseError ps n) = [Sentinel ErrNetInUse]"
| "Unwrap _ = []"

text \<open>
  The errors that \<open>errors.Is\<close> and \<open>errors.As\<close> inspect, in their order: the error, then depth
  first what it unwraps to.
\<close>

fun err_depth :: "go_error \<Rightarrow> nat" where
  "err_depth (Sentinel s) = 0"
| "err_depth (Wrapf p e) = Suc (err_depth e)"
| "err_depth (WrapBoth a b) = Suc (err_depth a + err_depth b)"
| "err_depth (ClientRequestError a e) = Suc (err_depth e)"
| "err_depth (RequestError a e) = Suc (err_depth e)"
| "err_depth (UnrecoverableError c (Some e)) = Suc (err_depth e)"
| "err_depth (ParsingError s (Some e)) = Suc (err_depth e)"
| "err_depth (ReconcileError a e) = Suc (err_depth e)"
| "err_depth _ = 1"

lemma Unwrap_depth: "u \<in> set (Unwrap e) \<Longrightarrow> err_depth u < err_depth e"
  by (cases e rule: err_depth.cases) auto

function err_chain :: "go_error \<Rightarrow> go_error list" where
  "err_chain e = e # concat (map err_chain (Unwrap e))"
  by pat_completeness auto
termination
  by (relation "measure err_depth") (auto simp: Unwrap_depth)

declare err_chain.simps [simp del]

definition errors_Is :: "go_error \<Rightarrow> sentinel \<Rightarrow> bool" where
  "errors_Is e s = list_ex (\<lambda>x. x = Sentinel s) (err_chain e)"

fun first_reason :: "go_error list \<Rightarrow> api_reason option" where
  "first_reason [] = None"
| "first_reason (ApiStatus r m # es) = Some r"
| "first_reason (e # es) = first_reason es"

definition ReasonForError :: "go_error option \<Rightarrow> api_reason option" where
  "ReasonForError err = (case err of None \<Rightarrow> None | Some e \<Rightarrow> first_reason (err_chain e))"

definition IsNotFound :: "go_error option \<Rightarrow> bool" where
  "IsNotFound err \<longleftrightarrow> ReasonForError err = Some NotFound"

definition IsAlreadyExists :: "go_error option \<Rightarrow> bool" where
  "IsAlreadyExists err \<longleftrightarrow> ReasonForError err = Some AlreadyExists"

definition IsConflict :: "go_error option \<Rightarrow> bool" where
  "IsConflict err \<longleftrightarrow> ReasonForError err = Some Conflict"

lemma err_chain_simps [simp]:
  "err_chain (ApiStatus r m) = [ApiStatus r m]"
  "err_chain (Foreign s) = [Foreign s]"
  "err_chain (Sentinel t) = [Sentinel t]"
  "err_chain (Errorf s) = [Errorf s]"
  "err_chain (Wrapf p e) = Wrapf p e # err_chain e"
  "err_chain (WrapBoth a b) = WrapBoth a b # err_chain a @ err_chain b"
  "err_chain (ClientRequestError c e) = ClientRequestError c e # err_chain e"
  "err_chain (RequestError c e) = RequestError c e # err_chain e"
  "err_chain (UnrecoverableError c (Some e)) = UnrecoverableError c (Some e) # err_chain e"
  "err_chain (UnrecoverableError c None) = [UnrecoverableError c None]"
  "err_chain (ParsingError c (Some e)) = ParsingError c (Some e) # err_chain e"
  "err_chain (ParsingError c None) = [ParsingError c None]"
  "err_chain (ReconcileError c e) = ReconcileError c e # err_chain e"
  "err_chain (ReconcileErrorList es) = [ReconcileErrorList es]"
  by (subst err_chain.simps, simp)+

lemma err_chain_leaf [simp]:
  "err_chain (InternalError c) = [InternalError c, Sentinel ErrInternal]"
  "err_chain (TryAgainError e) = [TryAgainError e, Sentinel ErrTryAgain]"
  "err_chain (UnimplementedError f) = [UnimplementedError f, Sentinel ErrUnimplemented]"
  "err_chain (TypeMismatchError w g) = [TypeMismatchError w g, Sentinel ErrTypeMismatch]"
  "err_chain (MissingAnnotationError r) = [MissingAnnotationError r, Sentinel ErrMissingAnnotation]"
  "err_chain (NoIPInPoolError r p) = [NoIPInPoolError r p, Sentinel ErrNoIPInPool]"
  "err_chain (NoManagerPodsError r n) = [NoManagerPodsError r n, Sentinel ErrNoManagerPods]"
  "err_chain (ManagerNotReadyError r m) = [ManagerNotReadyError r m, Sentinel ErrManagerNotReady]"
  "err_chain (DaemonSetTimeoutError n rd tot ok ce) =
     [DaemonSetTimeoutError n rd tot ok ce, Sentinel ErrDaemonSetTimeout]"
  "err_chain (DaemonPodTimeoutError n ok ce) =
     [DaemonPodTimeoutError n ok ce, Sentinel ErrDaemonPodTimeout]"
  "err_chain (NetInUseError ps n) = [NetInUseError ps n, Sentinel ErrNetInUse]"
  by (subst err_chain.simps, simp)+

lemma ReasonForError_simps [simp]:
  "ReasonForError None = None"
  "ReasonForError (Some (ApiStatus r m)) = Some r"
  "ReasonForError (Some (Foreign s)) = None"
  "ReasonForError (Some (InternalError c)) = None"
  by (simp_all add: ReasonForError_def)

lemma first_reason_append:
  "first_reason (xs @ ys) = (case first_reason xs of None \<Rightarrow> first_reason ys | Some r \<Rightarrow> Some r)"
  by (induction xs rule: first_reason.induct) auto

subsection \<open>Wrapping\<close>

text \<open>
  The interface of a wrapper: what it puts before the wrapped error carries no API status. A
  client of the interface then sees the reason of the wrapped error through any number of
  wrappers, which is what the retry loop of \<open>Reconcile\<close> relies on.
\<close>

locale error_wrapper =
  fixes wrap :: "go_error \<Rightarrow> go_error"
    and front :: "go_error \<Rightarrow> go_error list"
  assumes chain_wrap: "err_chain (wrap e) = front e @ err_chain e"
    and no_reason: "first_reason (front e) = None"
begin

lemma reason_wrap: "ReasonForError (Some (wrap e)) = ReasonForError (Some e)"
  by (simp add: ReasonForError_def first_reason_append chain_wrap no_reason)

lemma IsNotFound_wrap: "IsNotFound (Some (wrap e)) = IsNotFound (Some e)"
  by (simp add: IsNotFound_def reason_wrap)

lemma IsConflict_wrap: "IsConflict (Some (wrap e)) = IsConflict (Some e)"
  by (simp add: IsConflict_def reason_wrap)

lemma IsAlreadyExists_wrap: "IsAlreadyExists (Some (wrap e)) = IsAlreadyExists (Some e)"
  by (simp add: IsAlreadyExists_def reason_wrap)

lemma Is_wrap: "errors_Is e s \<Longrightarrow> errors_Is (wrap e) s"
  by (auto simp: errors_Is_def chain_wrap)

end

interpretation client_wrap: error_wrapper "ClientRequestError act" "\<lambda>e. [ClientRequestError act e]" for act
  by unfold_locales simp_all

interpretation request_wrap: error_wrapper "RequestError act" "\<lambda>e. [RequestError act e]" for act
  by unfold_locales simp_all

interpretation prefix_wrap: error_wrapper "Wrapf p" "\<lambda>e. [Wrapf p e]" for p
  by unfold_locales simp_all

interpretation reconcile_wrap: error_wrapper "ReconcileError act" "\<lambda>e. [ReconcileError act e]" for act
  by unfold_locales simp_all

interpretation fatal_wrap: error_wrapper "\<lambda>e. UnrecoverableError ctx (Some e)"
    "\<lambda>e. [UnrecoverableError ctx (Some e)]" for ctx
  by unfold_locales simp_all

interpretation new_client_wrap: error_wrapper "NewClientRequestError act"
    "\<lambda>e. [NewClientRequestError act e, Sentinel ErrK8sClient, ClientRequestError act e]" for act
  by unfold_locales (simp_all add: NewClientRequestError_def)

interpretation new_parsing_wrap: error_wrapper "\<lambda>e. NewParsingError src (Some e)"
    "\<lambda>e. [NewParsingError src (Some e), Sentinel ErrParsing, ParsingError src (Some e)]" for src
  by unfold_locales (simp_all add: NewParsingError_def)

lemma NewClientRequestError_Is: "errors_Is (NewClientRequestError act e) ErrK8sClient"
  by (simp add: errors_Is_def NewClientRequestError_def)

subsection \<open>Texts\<close>

text \<open>
  \<open>Error()\<close> of every error. The argument \<open>ci\<close> is the text of the caller information, which
  depends on the goroutine's stack. The result \<^verbatim>\<open>None\<close> is the panic of calling \<open>Error()\<close> on a
  nil \<open>Err\<close> field.
\<close>

fun sentinel_text :: "sentinel \<Rightarrow> string" where
  "sentinel_text ErrK8sClient = ''K8s client request error''"
| "sentinel_text ErrUnrecoverable = ''Fatal unrecoverable error''"
| "sentinel_text ErrNilUnrecoverable = ''value required to progress is nil''"
| "sentinel_text ErrInternal = ''Internal error''"
| "sentinel_text ErrParsing = ''Error parsing''"
| "sentinel_text ErrTryAgain = ''Recoverable error''"
| "sentinel_text ErrUnimplemented = ''Unimplemented''"
| "sentinel_text ErrTypeMismatch = ''Unexpected type''"
| "sentinel_text ErrMissingAnnotation = ''At least one of the annotations are missing''"
| "sentinel_text ErrNoIPInPool = ''This pod's pool doesn't have a free IP address''"
| "sentinel_text ErrNoManagerPods = ''This network doesn't have any manager pods''"
| "sentinel_text ErrManagerNotReady = ''Manager for this pod is not ready yet''"
| "sentinel_text ErrDaemonPodTimeout = ''Daemon pod timeout error''"
| "sentinel_text ErrDaemonSetTimeout = ''Daemonset timeout error''"
| "sentinel_text ErrNetInUse = ''Network is still used by pods''"

text \<open>The messages of the two timeout errors end with the outcome of the cleanup.\<close>

definition cleanup_text :: "bool \<Rightarrow> string option \<Rightarrow> string option" where
  "cleanup_text ok err =
     (if ok then Some ''Cleaned up successfully.''
      else map_option (\<lambda>m. ''Cleanup failed: '' @ m) err)"

definition quote :: string where
  "quote = [CHR 0x27]"

text \<open>The \<open>Error()\<close> methods, given the text of the wrapped error.\<close>

definition ClientRequestError_text :: "string \<Rightarrow> string \<Rightarrow> string \<Rightarrow> string" where
  "ClientRequestError_text ci a m = ''Error requesting '' @ a @ '' in '' @ ci @ '' via k8s client: '' @ m"

definition RequestError_text :: "string \<Rightarrow> string \<Rightarrow> string \<Rightarrow> string" where
  "RequestError_text ci a m = ''Error requesting '' @ a @ '' in '' @ ci @ '' via http client: '' @ m"

definition UnrecoverableError_text :: "string \<Rightarrow> string \<Rightarrow> string \<Rightarrow> string" where
  "UnrecoverableError_text ci c m =
     ''Fatal unrecoverable error occured in '' @ ci @ ''. Context: '' @ c @ '', error: '' @ m"

definition InternalError_text :: "string \<Rightarrow> string" where
  "InternalError_text c =
     ''Internal error, please open an issue on github with this error message and related information. Context: '' @ c"

definition ParsingError_text :: "string \<Rightarrow> string \<Rightarrow> string" where
  "ParsingError_text s m = ''Error parsing '' @ s @ '': '' @ m"

definition TryAgainError_text :: "string \<Rightarrow> string" where
  "TryAgainError_text m = sentinel_text ErrTryAgain @ '': '' @ m"

definition UnimplementedError_text :: "string \<Rightarrow> string" where
  "UnimplementedError_text f = ''unimplemented: '' @ f"

definition TypeMismatchError_text :: "string \<Rightarrow> string \<Rightarrow> string" where
  "TypeMismatchError_text w g = ''Type mismatch error in '' @ w @ '', expected VlanNetwork but got: '' @ g"

definition MissingAnnotationError_text :: "string \<Rightarrow> string" where
  "MissingAnnotationError_text r = ''At least one of the required annotations is missing on resource: '' @ r"

definition NoIPInPoolError_text :: "string \<Rightarrow> string \<Rightarrow> string" where
  "NoIPInPoolError_text r p = ''Pod '' @ r @ '' belongs to a pool ('' @ p @ '') with no free IP addresses''"

definition NoManagerPodsError_text :: "string \<Rightarrow> string \<Rightarrow> string" where
  "NoManagerPodsError_text r n = ''Pod '' @ r @ '' belongs to a network ('' @ n @
     '') with no existing manager pods (check logs of controller)''"

definition ManagerNotReadyError_text :: "string \<Rightarrow> string \<Rightarrow> string" where
  "ManagerNotReadyError_text r m = ''This pod's ('' @ r @ '') manager ('' @ m @ '') is not ready yet, try again''"

definition DaemonSetTimeoutError_text :: "string \<Rightarrow> int \<Rightarrow> int \<Rightarrow> string \<Rightarrow> string" where
  "DaemonSetTimeoutError_text n r t m = ''Timeout waiting for '' @ quote @ n @ quote @
     '' daemonset to become available after 30 tries ('' @ strconv_FormatInt r @
     '' Ready, '' @ strconv_FormatInt t @ '' Total). '' @ m"

definition DaemonPodTimeoutError_text :: "string \<Rightarrow> string \<Rightarrow> string" where
  "DaemonPodTimeoutError_text n m = ''Timeout waiting for daemon '' @ quote @ n @ quote @
     '' to get assigned IP after 30 tries. '' @ m"

definition ReconcileError_text :: "string \<Rightarrow> string \<Rightarrow> string" where
  "ReconcileError_text a m = ''Error doing '' @ a @ '': '' @ m"

definition ReconcileErrorList_text :: "string list \<Rightarrow> string" where
  "ReconcileErrorList_text ms = strconv_FormatInt (int (length ms)) @
     '' Unrecoverable errors encountered: '' @ strings_Join ms '' |+| ''"

definition NetInUseError_text :: "string list \<Rightarrow> string \<Rightarrow> string" where
  "NetInUseError_text ps n = ''Network '' @ n @ '' is still used by '' @
     strconv_FormatInt (int (length ps)) @ '' pods: '' @ strings_Join ps '', ''"

fun Error :: "string \<Rightarrow> go_error \<Rightarrow> string option" where
  "Error ci (ApiStatus r m) = Some m"
| "Error ci (Foreign m) = Some m"
| "Error ci (Sentinel s) = Some (sentinel_text s)"
| "Error ci (Errorf m) = Some m"
| "Error ci (Wrapf p e) = map_option (\<lambda>m. p @ '': '' @ m) (Error ci e)"
| "Error ci (WrapBoth a b) =
     (case (Error ci a, Error ci b) of (Some x, Some y) \<Rightarrow> Some (x @ '': '' @ y) | _ \<Rightarrow> None)"
| "Error ci (ClientRequestError a e) = map_option (ClientRequestError_text ci a) (Error ci e)"
| "Error ci (RequestError a e) = map_option (RequestError_text ci a) (Error ci e)"
| "Error ci (UnrecoverableError c e) =
     (case e of None \<Rightarrow> None | Some x \<Rightarrow> map_option (UnrecoverableError_text ci c) (Error ci x))"
| "Error ci (InternalError c) = Some (InternalError_text c)"
| "Error ci (ParsingError s e) =
     (case e of None \<Rightarrow> None | Some x \<Rightarrow> map_option (ParsingError_text s) (Error ci x))"
| "Error ci (TryAgainError e) = map_option TryAgainError_text (Error ci e)"
| "Error ci (UnimplementedError f) = Some (UnimplementedError_text f)"
| "Error ci (TypeMismatchError w g) = Some (TypeMismatchError_text w g)"
| "Error ci (MissingAnnotationError r) = Some (MissingAnnotationError_text r)"
| "Error ci (NoIPInPoolError r p) = Some (NoIPInPoolError_text r p)"
| "Error ci (NoManagerPodsError r n) = Some (NoManagerPodsError_text r n)"
| "Error ci (ManagerNotReadyError r m) = Some (ManagerNotReadyError_text r m)"
| "Error ci (DaemonSetTimeoutError n r t ok e) =
     map_option (DaemonSetTimeoutError_text n r t)
       (cleanup_text ok (case e of None \<Rightarrow> None | Some x \<Rightarrow> Error ci x))"
| "Error ci (DaemonPodTimeoutError n ok e) =
     map_option (DaemonPodTimeoutError_text n)
       (cleanup_text ok (case e of None \<Rightarrow> None | Some x \<Rightarrow> Error ci x))"
| "Error ci (ReconcileError a e) = map_option (ReconcileError_text a) (Error ci e)"
| "Error ci (ReconcileErrorList es) = map_option ReconcileErrorList_text (those (map (Error ci) es))"
| "Error ci (NetInUseError ps n) = Some (NetInUseError_text ps n)"

text \<open>What \<open>runtime.Callers\<close> and \<open>CallersFrames\<close> returned decides the caller information.\<close>

record CallerInfo =
  ci_FunctionName :: string
  ci_File :: string
  ci_Line :: int
  ci_Err :: "go_error option"

definition GetCallerInfo :: "nat \<Rightarrow> (string \<times> string \<times> int) option \<Rightarrow> CallerInfo" where
  "GetCallerInfo n frame =
     (if n \<noteq> 1 then
        \<lparr> ci_FunctionName = [], ci_File = [], ci_Line = 0,
          ci_Err = Some (UnrecoverableError ''Couldn't get runtime.callers for logging, returned 0''
            (Some (Sentinel ErrNilUnrecoverable))) \<rparr>
      else case frame of
        None \<Rightarrow> \<lparr> ci_FunctionName = [], ci_File = [], ci_Line = 0,
          ci_Err = Some (UnrecoverableError ''Frames pointer returned from CallersFrames is nil''
            (Some (Sentinel ErrNilUnrecoverable))) \<rparr>
      | Some (fn, file, line) \<Rightarrow>
          \<lparr> ci_FunctionName = fn, ci_File = file, ci_Line = line, ci_Err = None \<rparr>)"

text \<open>\<open>errText\<close> is the text of the error field, computed by another call of \<open>Error()\<close>.\<close>

definition CallerInfo_String :: "(go_error \<Rightarrow> string) \<Rightarrow> CallerInfo \<Rightarrow> string" where
  "CallerInfo_String errText ci =
     (case ci_Err ci of
        Some e \<Rightarrow> ''|Error extracting location information: '' @ errText e @ ''|''
      | None \<Rightarrow> ''|'' @ ci_FunctionName ci @ '' in file '' @ ci_File ci @ '' at line '' @
                strconv_FormatInt (ci_Line ci) @ ''|'')"

text \<open>The errors all of whose \<open>Err\<close> fields are set where their text needs them.\<close>

fun no_nil_err :: "go_error \<Rightarrow> bool" where
  "no_nil_err (Wrapf p e) = no_nil_err e"
| "no_nil_err (WrapBoth a b) = (no_nil_err a \<and> no_nil_err b)"
| "no_nil_err (ClientRequestError a e) = no_nil_err e"
| "no_nil_err (RequestError a e) = no_nil_err e"
| "no_nil_err (UnrecoverableError c e) = (case e of None \<Rightarrow> False | Some x \<Rightarrow> no_nil_err x)"
| "no_nil_err (ParsingError c e) = (case e of None \<Rightarrow> False | Some x \<Rightarrow> no_nil_err x)"
| "no_nil_err (TryAgainError e) = no_nil_err e"
| "no_nil_err (DaemonSetTimeoutError n r t ok e) =
     (ok \<or> (case e of None \<Rightarrow> False | Some x \<Rightarrow> no_nil_err x))"
| "no_nil_err (DaemonPodTimeoutError n ok e) =
     (ok \<or> (case e of None \<Rightarrow> False | Some x \<Rightarrow> no_nil_err x))"
| "no_nil_err (ReconcileError a e) = no_nil_err e"
| "no_nil_err (ReconcileErrorList es) = list_all no_nil_err es"
| "no_nil_err _ = True"

lemma those_map_None_iff: "those (map f xs) = None \<longleftrightarrow> (\<exists>x \<in> set xs. f x = None)"
  by (induction xs) (auto split: option.splits)

lemma Error_defined: "Error ci e = None \<longleftrightarrow> \<not> no_nil_err e"
  by (induction e rule: Error.induct)
    (auto simp: cleanup_text_def those_map_None_iff list_all_iff
      split: option.splits if_splits)

end
