(* ===== verification/KubeTypes.thy ===== *)
theory KubeTypes
  imports Prelude
begin

text \<open>
  The Kubernetes objects the program reads or writes, each with the fields it uses. A field
  path of the Go type becomes one record field with a prefix for its type. Parts the program only
  copies and compares (preferred scheduling terms, pod affinities) are kept as opaque payloads.
\<close>

record ObjectMeta =
  meta_Name :: string
  meta_Namespace :: string
  meta_ResourceVersion :: string
  meta_Labels :: "string gomap"
  meta_Annotations :: "string gomap"

definition zero_meta :: ObjectMeta where
  "zero_meta = \<lparr> meta_Name = [], meta_Namespace = [], meta_ResourceVersion = [],
                 meta_Labels = [], meta_Annotations = [] \<rparr>"

record EnvVar =
  ev_Name :: string
  ev_Value :: string

record ContainerPort =
  cp_Name :: string
  cp_Protocol :: string
  cp_ContainerPort :: int

record Container =
  ct_Name :: string
  ct_Image :: string
  ct_ImagePullPolicy :: string
  ct_Command :: "string list"
  ct_Env :: "EnvVar list"
  ct_Ports :: "ContainerPort list"
  ct_Capabilities :: "string list"

text \<open>\<open>NodeSelectorOperator\<close> is a string type of the API; the code compares it with \<open>NotIn\<close>.\<close>

definition NodeSelectorOpNotIn :: string where
  "NodeSelectorOpNotIn = ''NotIn''"

record NodeSelectorRequirement =
  nsr_Key :: string
  nsr_Operator :: string
  nsr_Values :: "string slice"

record NodeSelectorTerm =
  nst_MatchExpressions :: "NodeSelectorRequirement slice"
  nst_MatchFields :: "NodeSelectorRequirement slice"

datatype NodeSelector = NodeSelector (NodeSelectorTerms: "NodeSelectorTerm slice")

record NodeAffinity =
  na_Required :: "NodeSelector option"
  na_Preferred :: "string slice"

datatype PodAffinity = PodAffinity (pa_payload: string)
datatype PodAntiAffinity = PodAntiAffinity (paa_payload: string)

record Affinity =
  aff_NodeAffinity :: "NodeAffinity option"
  aff_PodAffinity :: "PodAffinity option"
  aff_PodAntiAffinity :: "PodAntiAffinity option"

record PodSpec =
  ps_ServiceAccountName :: string
  ps_HostPID :: bool
  ps_HostNetwork :: bool
  ps_NodeName :: string
  ps_NodeSelector :: "string gomap"
  ps_InitContainers :: "Container list"
  ps_Containers :: "Container list"
  ps_Affinity :: "Affinity option"
  ps_RestartPolicy :: string
  ps_TerminationGracePeriodSeconds :: "int option"

definition zero_podspec :: PodSpec where
  "zero_podspec = \<lparr> ps_ServiceAccountName = [], ps_HostPID = False, ps_HostNetwork = False,
     ps_NodeName = [], ps_NodeSelector = [], ps_InitContainers = [], ps_Containers = [],
     ps_Affinity = None, ps_RestartPolicy = [], ps_TerminationGracePeriodSeconds = None \<rparr>"

text \<open>\<open>PodPhase\<close> is a string type; the deletion validator distinguishes two of its values.\<close>

definition PodPending :: string where "PodPending = ''Pending''"
definition PodRunning :: string where "PodRunning = ''Running''"

record Pod =
  pod_Meta :: ObjectMeta
  pod_Spec :: PodSpec
  pod_Phase :: string
  pod_PodIP :: string

definition zero_pod :: Pod where
  "zero_pod = \<lparr> pod_Meta = zero_meta, pod_Spec = zero_podspec, pod_Phase = [], pod_PodIP = [] \<rparr>"

definition pod_Name :: "Pod \<Rightarrow> string" where
  "pod_Name p = meta_Name (pod_Meta p)"

definition pod_Namespace :: "Pod \<Rightarrow> string" where
  "pod_Namespace p = meta_Namespace (pod_Meta p)"

record Node =
  node_Name :: string

text \<open>\<open>dss_Rest\<close> stands for the fields of the status that the code only compares with zero.\<close>

record DaemonSetStatus =
  dss_CurrentNumberScheduled :: int
  dss_DesiredNumberScheduled :: int
  dss_NumberUnavailable :: int
  dss_Rest :: string

definition zero_daemonset_status :: DaemonSetStatus where
  "zero_daemonset_status = \<lparr> dss_CurrentNumberScheduled = 0, dss_DesiredNumberScheduled = 0,
     dss_NumberUnavailable = 0, dss_Rest = [] \<rparr>"

record DaemonSet =
  ds_Meta :: ObjectMeta
  ds_Selector :: "string gomap"
  ds_UpdateStrategy :: string
  ds_TemplateLabels :: "string gomap"
  ds_PodSpec :: PodSpec
  ds_Status :: DaemonSetStatus

record ServicePort =
  svp_Name :: string
  svp_Protocol :: string
  svp_Port :: int
  svp_TargetPort :: int

record Service =
  svc_Meta :: ObjectMeta
  svc_Selector :: "string gomap"
  svc_InternalTrafficPolicy :: "string option"
  svc_Ports :: "ServicePort list"

record Job =
  job_Meta :: ObjectMeta
  job_TTLSecondsAfterFinished :: "int option"
  job_PodSpec :: PodSpec
  job_Active :: int

record PodMonitor =
  pm_Meta :: ObjectMeta
  pm_SelectorKey :: string
  pm_SelectorOperator :: string
  pm_Port :: string
  pm_Path :: string
  pm_Interval :: string

end
