(* ===== verification/Api.thy ===== *)
theory Api
  imports KubeTypes GoStrings
begin

text \<open>
  The custom resource of \<open>api/v1\<close>: constants, the types of a VlanNetwork, and the summary of the
  connection states (\<open>UpdateShortState\<close>). A map field of the status may be nil (\<^verbatim>\<open>None\<close>).
\<close>

subsection \<open>Constants\<close>

definition PodVlanmanNetworkAnnotation :: string where
  "PodVlanmanNetworkAnnotation = ''vlanman.dialo.ai/network''"
definition PodVlanmanIPPoolAnnotation :: string where
  "PodVlanmanIPPoolAnnotation = ''vlanman.dialo.ai/pool''"
definition ManagerSetLabelKey :: string where
  "ManagerSetLabelKey = ''vlanman.dialo.ai/manager''"
definition WorkerPodLabelKey :: string where
  "WorkerPodLabelKey = ''vlanman.dialo.ai/worker''"
definition LeaseName :: string where
  "LeaseName = ''vlanman-ipam-lease''"
definition LeaderElectionLeaseName :: string where
  "LeaderElectionLeaseName = ''vlanman-leader-election''"
definition ManagerSetNamePrefix :: string where
  "ManagerSetNamePrefix = ''vlan-manager''"
definition WaitForDaemonTimeout :: nat where
  "WaitForDaemonTimeout = 30"
definition ServiceNameSuffix :: string where
  "ServiceNameSuffix = ''service''"
definition JobNamePrefix :: string where
  "JobNamePrefix = ''create-vlan-job''"
definition ManagerContainerName :: string where
  "ManagerContainerName = ''vlan-manager''"
definition ManagerIPMonitorContainerName :: string where
  "ManagerIPMonitorContainerName = ''ip-monitor''"
definition WorkerInitContainerName :: string where
  "WorkerInitContainerName = ''init-vlan''"
definition ManagerPodAPIPort :: int where
  "ManagerPodAPIPort = 61410"
definition ManagerPodAPIPortName :: string where
  "ManagerPodAPIPortName = ''api''"
definition PodMonitorName :: string where
  "PodMonitorName = ''vlanman-pod-monitor''"
definition ReconcilerPendingIPsTimeoutSeconds :: int where
  "ReconcilerPendingIPsTimeoutSeconds = 35"
definition UpdateStatusMaxRetries :: nat where
  "UpdateStatusMaxRetries = 5"

subsection \<open>Types\<close>

type_synonym ConnectionState = string

definition StateUp :: ConnectionState where "StateUp = ''Up''"
definition StateDown :: ConnectionState where "StateDown = ''Down''"

record Route =
  rt_Destination :: string
  rt_Via :: "string option"
  rt_Source :: string
  rt_ScopeLink :: bool

record Gateway =
  gw_Address :: string
  gw_Routes :: "Route slice"

record IPMapping =
  im_NodeName :: string
  im_Interface :: string

record VlanNetworkPool =
  pool_Description :: string
  pool_Routes :: "Route slice"
  pool_Addresses :: "string slice"
  pool_Name :: string

record VlanNetworkSpec =
  sp_Gateways :: "Gateway slice"
  sp_VlanID :: int64
  sp_ManagerAffinity :: "Affinity option"
  sp_Pools :: "VlanNetworkPool slice"
  sp_Mappings :: "IPMapping slice"

record VlanNetworkStatus =
  st_FreeIPs :: "string slice gomap option"
  st_PendingIPs :: "string gomap option gomap option"
  st_State :: "ConnectionState gomap option"
  st_ShortState :: string

record VlanNetwork =
  net_Meta :: ObjectMeta
  net_Spec :: VlanNetworkSpec
  net_Status :: VlanNetworkStatus

definition net_Name :: "VlanNetwork \<Rightarrow> string" where
  "net_Name n = meta_Name (net_Meta n)"

definition zero_spec :: VlanNetworkSpec where
  "zero_spec = \<lparr> sp_Gateways = None, sp_VlanID = 0, sp_ManagerAffinity = None,
                 sp_Pools = None, sp_Mappings = None \<rparr>"

definition zero_status :: VlanNetworkStatus where
  "zero_status = \<lparr> st_FreeIPs = None, st_PendingIPs = None, st_State = None, st_ShortState = [] \<rparr>"

definition zero_network :: VlanNetwork where
  "zero_network = \<lparr> net_Meta = zero_meta, net_Spec = zero_spec, net_Status = zero_status \<rparr>"

subsection \<open>UpdateShortState\<close>

text \<open>The loop over the states: the verdict so far and the number of connections not up.\<close>

fun short_state_loop :: "ConnectionState list \<Rightarrow> string \<Rightarrow> nat \<Rightarrow> string \<times> nat" where
  "short_state_loop [] state down = (state, down)"
| "short_state_loop (v # vs) state down =
     (if v \<noteq> StateUp then short_state_loop vs ''Unhealthy'' (down + 1)
      else short_state_loop vs state down)"

definition UpdateShortState :: "VlanNetworkStatus \<Rightarrow> VlanNetworkStatus" where
  "UpdateShortState s =
     (let vs = map_values (elems (st_State s));
          (state, down) = short_state_loop vs ''Healthy'' 0
      in s\<lparr>st_ShortState := state @ '' ('' @
            strconv_FormatInt (int (length vs) - int down) @ ''/'' @
            strconv_FormatInt (int (length vs)) @ '')''\<rparr>)"

lemma short_state_loop_eq:
  "short_state_loop vs state down =
     (if \<exists>v \<in> set vs. v \<noteq> StateUp then ''Unhealthy'' else state,
      down + length (filter (\<lambda>v. v \<noteq> StateUp) vs))"
  by (induction vs arbitrary: state down) auto

text \<open>The summary counts the connections that are up and says whether all of them are.\<close>

definition up_count :: "ConnectionState gomap \<Rightarrow> nat" where
  "up_count m = length (filter (\<lambda>v. v = StateUp) (map_values m))"

lemma up_count_le: "up_count m \<le> length m"
  using length_filter_le [of "\<lambda>v. v = StateUp" "map_values m"]
  by (simp add: up_count_def map_values_def)

lemma up_down_count:
  "length (filter (\<lambda>v. v = x) vs) + length (filter (\<lambda>v. v \<noteq> x) vs) = length vs"
  using sum_length_filter_compl [of "\<lambda>v. v = x" vs] by simp

lemma UpdateShortState_value:
  "st_ShortState (UpdateShortState s) =
     (if \<forall>(k, v) \<in> set (elems (st_State s)). v = StateUp then ''Healthy'' else ''Unhealthy'') @
     '' ('' @ strconv_FormatInt (int (up_count (elems (st_State s)))) @ ''/'' @
     strconv_FormatInt (int (length (elems (st_State s)))) @ '')''"
proof -
  let ?vs = "map_values (elems (st_State s))"
  have "int (length ?vs) - int (length (filter (\<lambda>v. v \<noteq> StateUp) ?vs)) =
      int (up_count (elems (st_State s)))"
    using up_down_count [of StateUp ?vs] by (simp add: up_count_def)
  moreover have "(\<exists>v \<in> set ?vs. v \<noteq> StateUp) =
      (\<not> (\<forall>(k, v) \<in> set (elems (st_State s)). v = StateUp))"
    by (force simp: map_values_def)
  moreover have "length ?vs = length (elems (st_State s))" by (simp add: map_values_def)
  ultimately show ?thesis
    unfolding UpdateShortState_def Let_def short_state_loop_eq by simp
qed

lemma UpdateShortState_frame:
  "st_FreeIPs (UpdateShortState s) = st_FreeIPs s"
  "st_PendingIPs (UpdateShortState s) = st_PendingIPs s"
  "st_State (UpdateShortState s) = st_State s"
  by (simp_all add: UpdateShortState_def Let_def case_prod_beta)

subsection \<open>Setting the state of one connection\<close>

text \<open>
  The three places that record a connection's state (the operator after it created an interface,
  the manager daemon when the interface is gone) all make the map if it is nil, write one entry and
  refresh the summary.
\<close>

definition set_connection_state :: "string \<Rightarrow> ConnectionState \<Rightarrow> VlanNetworkStatus \<Rightarrow> VlanNetworkStatus" where
  "set_connection_state name v s =
     UpdateShortState (s\<lparr>st_State := Some (map_assign name v (elems (st_State s)))\<rparr>)"

lemma set_connection_state_lookup:
  "map_lookup (elems (st_State (set_connection_state name v s))) k =
     (if k = name then Some v else map_lookup (elems (st_State s)) k)"
  by (simp add: set_connection_state_def UpdateShortState_frame gomap_simps)

subsection \<open>Well-formed statuses\<close>

text \<open>Every map of a status has distinct keys; a Go map cannot be otherwise.\<close>

definition wf_status :: "VlanNetworkStatus \<Rightarrow> bool" where
  "wf_status s \<longleftrightarrow> wf_map (elems (st_FreeIPs s)) \<and> wf_map (elems (st_PendingIPs s)) \<and>
     (\<forall>(k, m) \<in> set (elems (st_PendingIPs s)). wf_map (elems m)) \<and>
     wf_map (elems (st_State s))"

text \<open>
  The contract of an operation on a status, shared by the webhook, the reconciler and the manager
  daemon: it keeps the maps well formed. The client lemma lifts it to any sequence of operations.
\<close>

locale status_op =
  fixes opn :: "VlanNetworkStatus \<Rightarrow> VlanNetworkStatus"
  assumes keeps_wf: "wf_status s \<Longrightarrow> wf_status (opn s)"
begin

lemma iterate_wf: "wf_status s \<Longrightarrow> wf_status ((opn ^^ n) s)"
  by (induction n) (auto simp: keeps_wf)

end

lemma UpdateShortState_wf [status_ops]: "wf_status s \<Longrightarrow> wf_status (UpdateShortState s)"
  by (simp add: wf_status_def UpdateShortState_frame)

lemma set_connection_state_wf [status_ops]:
  "wf_status s \<Longrightarrow> wf_status (set_connection_state name v s)"
  by (simp add: wf_status_def set_connection_state_def UpdateShortState_frame wf_map_assign)

interpretation short_state: status_op UpdateShortState
  by unfold_locales (rule UpdateShortState_wf)

interpretation connection_state: status_op "set_connection_state name v" for name v
  by unfold_locales (rule set_connection_state_wf)

end
