(* ===== verification/GoJson.thy ===== *)
theory GoJson
  imports GoStrings
begin

text \<open>
  Go's \<open>encoding/json\<close> as far as the program uses it: the text of a JSON value, the parser, and
  the contract of a type's codec with its round trip. A number keeps its literal, as Go does until
  it knows the target type. Strings are bytes; the lemmas are about ASCII strings, for which Go's
  treatment of invalid UTF-8 plays no part.
\<close>

datatype json =
    JNull
  | JBool bool
  | JNum string
  | JStr string
  | JArr "json list"
  | JObj "(string \<times> json) list"

subsection \<open>Printing\<close>

definition hex_digit :: "nat \<Rightarrow> char" where
  "hex_digit d = (if d < 10 then char_of (48 + d) else char_of (87 + d))"

text \<open>\<open>json.Marshal\<close> escapes quotes, backslashes, control characters and the three HTML bytes.\<close>

definition json_escape :: "char \<Rightarrow> string" where
  "json_escape c =
     (if c = CHR 0x22 \<or> c = CHR 0x5C then [CHR 0x5C, c]
      else if c = CHR 0x08 then [CHR 0x5C, CHR ''b'']
      else if c = CHR 0x0C then [CHR 0x5C, CHR ''f'']
      else if c = CHR 0x0A then [CHR 0x5C, CHR ''n'']
      else if c = CHR 0x0D then [CHR 0x5C, CHR ''r'']
      else if c = CHR 0x09 then [CHR 0x5C, CHR ''t'']
      else if (of_char c :: nat) < 32 \<or> c = CHR ''<'' \<or> c = CHR ''>'' \<or> c = CHR ''&'' then
        [CHR 0x5C, CHR ''u'', CHR ''0'', CHR ''0'',
         hex_digit (of_char c div 16), hex_digit (of_char c mod 16)]
      else [c])"

definition print_string :: "string \<Rightarrow> string" where
  "print_string s = [CHR 0x22] @ concat (map json_escape s) @ [CHR 0x22]"

fun print_json :: "json \<Rightarrow> string" where
  "print_json JNull = ''null''"
| "print_json (JBool b) = (if b then ''true'' else ''false'')"
| "print_json (JNum l) = l"
| "print_json (JStr s) = print_string s"
| "print_json (JArr xs) = ''['' @ strings_Join (map print_json xs) '','' @ '']''"
| "print_json (JObj ms) =
     ''{'' @ strings_Join (map (\<lambda>(k, v). print_string k @ '':'' @ print_json v) ms) '','' @ ''}''"

subsection \<open>Parsing\<close>

definition is_json_space :: "char \<Rightarrow> bool" where
  "is_json_space c \<longleftrightarrow> c = CHR '' '' \<or> c = CHR 0x09 \<or> c = CHR 0x0A \<or> c = CHR 0x0D"

definition skip_ws :: "string \<Rightarrow> string" where
  "skip_ws s = dropWhile is_json_space s"

definition hex_val :: "char \<Rightarrow> nat option" where
  "hex_val c =
     (let n = (of_char c :: nat) in
        if 48 \<le> n \<and> n \<le> 57 then Some (n - 48)
        else if 97 \<le> n \<and> n \<le> 102 then Some (n - 87)
        else if 65 \<le> n \<and> n \<le> 70 then Some (n - 55)
        else None)"

text \<open>\<open>getu4\<close>: the code unit of a \<open>\\uXXXX\<close> escape without its first two bytes.\<close>

fun hex4 :: "string \<Rightarrow> nat option" where
  "hex4 (a # b # c # d # r) =
     (case (hex_val a, hex_val b, hex_val c, hex_val d) of
        (Some w, Some x, Some y, Some z) \<Rightarrow> Some (w * 4096 + x * 256 + y * 16 + z)
      | _ \<Rightarrow> None)"
| "hex4 _ = None"

definition utf8_encode :: "nat \<Rightarrow> string" where
  "utf8_encode n =
     (if n < 128 then [char_of n]
      else if n < 2048 then [char_of (192 + n div 64), char_of (128 + n mod 64)]
      else if n < 65536 then
        [char_of (224 + n div 4096), char_of (128 + n div 64 mod 64), char_of (128 + n mod 64)]
      else
        [char_of (240 + n div 262144), char_of (128 + n div 4096 mod 64),
         char_of (128 + n div 64 mod 64), char_of (128 + n mod 64)])"

definition simple_escape :: "char \<Rightarrow> char option" where
  "simple_escape e =
     (if e = CHR 0x22 \<or> e = CHR 0x5C \<or> e = CHR ''/'' then Some e
      else if e = CHR ''b'' then Some (CHR 0x08)
      else if e = CHR ''f'' then Some (CHR 0x0C)
      else if e = CHR ''n'' then Some (CHR 0x0A)
      else if e = CHR ''r'' then Some (CHR 0x0D)
      else if e = CHR ''t'' then Some (CHR 0x09)
      else None)"

text \<open>The code point of an escape and how many bytes of a following low surrogate it takes.\<close>

definition escape_rune :: "nat \<Rightarrow> string \<Rightarrow> nat \<times> nat" where
  "escape_rune n r =
     (if n < 0xD800 \<or> 0xDFFF < n then (n, 0)
      else if has_prefix r [CHR 0x5C, CHR ''u''] \<and> n < 0xDC00 then
        (case hex4 (drop 2 r) of
           Some m \<Rightarrow> if 0xDC00 \<le> m \<and> m \<le> 0xDFFF
                     then (0x10000 + (n - 0xD800) * 1024 + (m - 0xDC00), 6) else (0xFFFD, 0)
         | None \<Rightarrow> (0xFFFD, 0))
      else (0xFFFD, 0))"

definition push_front :: "string \<Rightarrow> (string \<times> string) option \<Rightarrow> (string \<times> string) option" where
  "push_front p r = map_option (\<lambda>(s, rest). (p @ s, rest)) r"

text \<open>The body of a string, after its opening quote: the unquoted bytes and the rest.\<close>

function unquote :: "string \<Rightarrow> (string \<times> string) option" where
  "unquote [] = None"
| "unquote (c # r) =
     (if c = CHR 0x22 then Some ([], r)
      else if c = CHR 0x5C then
        (case r of
           [] \<Rightarrow> None
         | e # r' \<Rightarrow>
             if e = CHR ''u'' then
               (case hex4 r' of
                  None \<Rightarrow> None
                | Some n \<Rightarrow>
                    let (rune, extra) = escape_rune n (drop 4 r')
                    in push_front (utf8_encode rune) (unquote (drop (4 + extra) r')))
             else (case simple_escape e of
                     None \<Rightarrow> None
                   | Some x \<Rightarrow> push_front [x] (unquote r')))
      else if (of_char c :: nat) < 32 then None
      else push_front [c] (unquote r))"
  by pat_completeness auto
termination
  by (relation "measure length") auto

text \<open>The number grammar of JSON: sign, integer part, fraction, exponent.\<close>

definition scan_digits :: "string \<Rightarrow> (string \<times> string) option" where
  "scan_digits s =
     (if takeWhile is_digit s = [] then None else Some (takeWhile is_digit s, dropWhile is_digit s))"

definition scan_int :: "string \<Rightarrow> (string \<times> string) option" where
  "scan_int s =
     (case s of [] \<Rightarrow> None
      | c # r \<Rightarrow> if c = CHR ''0'' then Some ([c], r) else scan_digits s)"

definition scan_frac :: "string \<Rightarrow> (string \<times> string) option" where
  "scan_frac s =
     (case s of [] \<Rightarrow> Some ([], [])
      | c # r \<Rightarrow> if c = CHR ''.'' then push_front [c] (scan_digits r) else Some ([], s))"

definition scan_exp :: "string \<Rightarrow> (string \<times> string) option" where
  "scan_exp s =
     (case s of [] \<Rightarrow> Some ([], [])
      | c # r \<Rightarrow>
          if c = CHR ''e'' \<or> c = CHR ''E'' then
            (case r of [] \<Rightarrow> None
             | d # r' \<Rightarrow> if d = CHR ''+'' \<or> d = CHR ''-'' then push_front [c, d] (scan_digits r')
                        else push_front [c] (scan_digits r))
          else Some ([], s))"

definition scan_num :: "string \<Rightarrow> (string \<times> string) option" where
  "scan_num s =
     (let (sign, s1) = (case s of [] \<Rightarrow> ([], []) | c # r \<Rightarrow> if c = CHR ''-'' then ([c], r) else ([], s))
      in case scan_int s1 of None \<Rightarrow> None
         | Some (i, s2) \<Rightarrow>
             (case scan_frac s2 of None \<Rightarrow> None
              | Some (f, s3) \<Rightarrow> push_front (sign @ i @ f) (scan_exp s3)))"

definition scan_word :: "string \<Rightarrow> string \<Rightarrow> json \<Rightarrow> (json \<times> string) option" where
  "scan_word w s v = (if has_prefix s w then Some (v, drop (length w) s) else None)"

text \<open>
  The recursive descent, with fuel. \<open>parse_fuel\<close> below is enough for every input, by
  \<open>parse_fuel_irrelevant\<close>.
\<close>

fun parse_value :: "nat \<Rightarrow> string \<Rightarrow> (json \<times> string) option"
  and parse_elems :: "nat \<Rightarrow> string \<Rightarrow> (json list \<times> string) option"
  and parse_members :: "nat \<Rightarrow> string \<Rightarrow> ((string \<times> json) list \<times> string) option" where
  "parse_value 0 s = None"
| "parse_value (Suc n) s =
     (case skip_ws s of
        [] \<Rightarrow> None
      | c # r \<Rightarrow>
          if c = CHR 0x22 then map_option (\<lambda>(t, r'). (JStr t, r')) (unquote r)
          else if c = CHR ''['' then
            (case skip_ws r of [] \<Rightarrow> None
             | d # r' \<Rightarrow> if d = CHR '']'' then Some (JArr [], r')
                        else map_option (\<lambda>(xs, q). (JArr xs, q)) (parse_elems n r))
          else if c = CHR ''{'' then
            (case skip_ws r of [] \<Rightarrow> None
             | d # r' \<Rightarrow> if d = CHR ''}'' then Some (JObj [], r')
                        else map_option (\<lambda>(ms, q). (JObj ms, q)) (parse_members n r))
          else if c = CHR ''t'' then scan_word ''true'' (c # r) (JBool True)
          else if c = CHR ''f'' then scan_word ''false'' (c # r) (JBool False)
          else if c = CHR ''n'' then scan_word ''null'' (c # r) JNull
          else map_option (\<lambda>(l, q). (JNum l, q)) (scan_num (c # r)))"
| "parse_elems 0 s = None"
| "parse_elems (Suc n) s =
     (case parse_value n s of
        None \<Rightarrow> None
      | Some (v, r) \<Rightarrow>
          (case skip_ws r of
             [] \<Rightarrow> None
           | c # r' \<Rightarrow>
               if c = CHR '','' then map_option (\<lambda>(vs, q). (v # vs, q)) (parse_elems n r')
               else if c = CHR '']'' then Some ([v], r')
               else None))"
| "parse_members 0 s = None"
| "parse_members (Suc n) s =
     (case skip_ws s of
        [] \<Rightarrow> None
      | c # r \<Rightarrow>
          if c \<noteq> CHR 0x22 then None
          else
            (case unquote r of
               None \<Rightarrow> None
             | Some (k, r1) \<Rightarrow>
                 (case skip_ws r1 of
                    [] \<Rightarrow> None
                  | d # r2 \<Rightarrow>
                      if d \<noteq> CHR '':'' then None
                      else
                        (case parse_value n r2 of
                           None \<Rightarrow> None
                         | Some (v, r3) \<Rightarrow>
                             (case skip_ws r3 of
                                [] \<Rightarrow> None
                              | e # r4 \<Rightarrow>
                                  if e = CHR '','' then
                                    map_option (\<lambda>(ms, q). ((k, v) # ms, q)) (parse_members n r4)
                                  else if e = CHR ''}'' then Some ([(k, v)], r4)
                                  else None)))))"

definition parse_fuel :: "string \<Rightarrow> nat" where
  "parse_fuel s = 2 * length s + 2"

text \<open>\<open>json.Unmarshal\<close> up to the typed target: one value and then nothing but white space.\<close>

definition parse_json :: "string \<Rightarrow> json option" where
  "parse_json s =
     (case parse_value (parse_fuel s) s of
        None \<Rightarrow> None
      | Some (v, r) \<Rightarrow> if skip_ws r = [] then Some v else None)"

subsection \<open>Every input has enough fuel\<close>

declare unquote.simps [simp del]

lemma skip_ws_length: "length (skip_ws s) \<le> length s"
  by (simp add: skip_ws_def length_dropWhile_le)

lemma skip_ws_Cons_length: "skip_ws s = c # r \<Longrightarrow> length r < length s"
  using skip_ws_length [of s] by simp

lemma push_front_Some:
  "push_front p r = Some (s, q) \<longleftrightarrow> (\<exists>t. r = Some (t, q) \<and> s = p @ t)"
  by (auto simp: push_front_def)

lemma unquote_length: "unquote s = Some (t, q) \<Longrightarrow> length q < length s"
proof (induction "length s" arbitrary: s t rule: less_induct)
  case less
  have IH: "length q < length s'" if "unquote s' = Some (t', q)" "length s' < length s" for s' t'
    using less.hyps that by blast
  show ?case
  proof (cases s)
    case Nil
    with less.prems show ?thesis by (simp add: unquote.simps)
  next
    case (Cons c r)
    with less.prems show ?thesis
      by (subst (asm) Cons, subst (asm) unquote.simps)
        (auto split: if_splits list.splits option.splits prod.splits simp: push_front_Some Let_def
          dest!: IH)
  qed
qed

lemma scan_digits_length: "scan_digits s = Some (d, q) \<Longrightarrow> length q < length s"
proof -
  assume "scan_digits s = Some (d, q)"
  then have "takeWhile is_digit s \<noteq> []" "q = dropWhile is_digit s"
    by (auto simp: scan_digits_def split: if_splits)
  moreover have "length (takeWhile is_digit s) + length (dropWhile is_digit s) = length s"
    by (metis length_append takeWhile_dropWhile_id)
  ultimately show ?thesis by (cases "takeWhile is_digit s") auto
qed

lemma scan_int_length: "scan_int s = Some (i, q) \<Longrightarrow> length q < length s"
  using scan_digits_length [of s i q] by (auto simp: scan_int_def split: list.splits if_splits)

lemma scan_frac_length: "scan_frac s = Some (f, q) \<Longrightarrow> length q \<le> length s"
  by (auto simp: scan_frac_def push_front_Some split: list.splits if_splits
      dest!: scan_digits_length)

lemma scan_exp_length: "scan_exp s = Some (f, q) \<Longrightarrow> length q \<le> length s"
  by (auto simp: scan_exp_def push_front_Some split: list.splits if_splits
      dest!: scan_digits_length)

lemma scan_num_length: "scan_num s = Some (l, q) \<Longrightarrow> length q < length s"
  by (auto simp: scan_num_def push_front_Some split: list.splits if_splits option.splits
      dest!: scan_int_length scan_frac_length scan_exp_length)

lemma scan_word_length: "scan_word w s v = Some (x, q) \<Longrightarrow> w \<noteq> [] \<Longrightarrow> length q < length s"
  by (cases s; cases w) (auto simp: scan_word_def split: if_splits)

lemma parse_length:
  "(\<forall>s v q. parse_value n s = Some (v, q) \<longrightarrow> length q < length s) \<and>
   (\<forall>s vs q. parse_elems n s = Some (vs, q) \<longrightarrow> length q < length s) \<and>
   (\<forall>s ms q. parse_members n s = Some (ms, q) \<longrightarrow> length q < length s)"
proof (induction n)
  case 0
  then show ?case by simp
next
  case (Suc n)
  have V: "parse_value n s = Some (v, q) \<Longrightarrow> length q < length s" for s v q
    using Suc by blast
  have E: "parse_elems n s = Some (vs, q) \<Longrightarrow> length q < length s" for s vs q
    using Suc by blast
  have M: "parse_members n s = Some (ms, q) \<Longrightarrow> length q < length s" for s ms q
    using Suc by blast
  have "length q < length s" if "parse_value (Suc n) s = Some (v, q)" for s v q
    using that by (auto split: list.splits if_splits
        dest!: skip_ws_Cons_length unquote_length scan_word_length scan_num_length E M)
  moreover have "length q < length s" if "parse_elems (Suc n) s = Some (vs, q)" for s vs q
    using that by (auto split: list.splits option.splits prod.splits if_splits
        dest!: skip_ws_Cons_length E V)
  moreover have "length q < length s" if "parse_members (Suc n) s = Some (ms, q)" for s ms q
    using that by (auto split: list.splits option.splits prod.splits if_splits
        dest!: skip_ws_Cons_length unquote_length M V)
  ultimately show ?case by blast
qed

lemma parse_value_length: "parse_value n s = Some (v, q) \<Longrightarrow> length q < length s"
  using parse_length by blast

text \<open>Fuel of twice the length is enough: more of it does not change the result.\<close>

lemma parse_enough:
  "(\<forall>s m. 2 * length s + 2 \<le> n \<and> n \<le> m \<longrightarrow> parse_value m s = parse_value n s) \<and>
   (\<forall>s m. 2 * length s + 3 \<le> n \<and> n \<le> m \<longrightarrow> parse_elems m s = parse_elems n s) \<and>
   (\<forall>s m. 2 * length s + 3 \<le> n \<and> n \<le> m \<longrightarrow> parse_members m s = parse_members n s)"
proof (induction n)
  case 0
  then show ?case by simp
next
  case (Suc n)
  have V: "parse_value m s = parse_value n s" if "2 * length s + 2 \<le> n" "n \<le> m" for s m
    using Suc that by blast
  have E: "parse_elems m s = parse_elems n s" if "2 * length s + 3 \<le> n" "n \<le> m" for s m
    using Suc that by blast
  have M: "parse_members m s = parse_members n s" if "2 * length s + 3 \<le> n" "n \<le> m" for s m
    using Suc that by blast
  have "parse_value (Suc m) s = parse_value (Suc n) s" if "2 * length s + 2 \<le> Suc n" "n \<le> m" for s m
  proof (cases "skip_ws s")
    case (Cons c r)
    with skip_ws_Cons_length [OF Cons] that
    have "parse_elems m r = parse_elems n r" "parse_members m r = parse_members n r"
      by (auto intro!: E M)
    then show ?thesis by (simp add: Cons split: list.split)
  qed simp
  moreover have "parse_elems (Suc m) s = parse_elems (Suc n) s"
    if "2 * length s + 3 \<le> Suc n" "n \<le> m" for s m
  proof -
    have "parse_elems m r' = parse_elems n r'"
      if "parse_value n s = Some (v, r)" "skip_ws r = c # r'" for v r c r'
      using parse_value_length [OF that(1)] skip_ws_Cons_length [OF that(2)]
        \<open>2 * length s + 3 \<le> Suc n\<close> \<open>n \<le> m\<close> by (intro E) auto
    moreover have "parse_value m s = parse_value n s" using that by (intro V) auto
    ultimately show ?thesis by (auto split: option.splits list.splits)
  qed
  moreover have "parse_members (Suc m) s = parse_members (Suc n) s"
    if "2 * length s + 3 \<le> Suc n" "n \<le> m" for s m
  proof -
    have A: "parse_value m r = parse_value n r" if "length r < length s" for r
      using that \<open>2 * length s + 3 \<le> Suc n\<close> \<open>n \<le> m\<close> by (intro V) auto
    have B: "parse_members m r = parse_members n r" if "length r < length s" for r
      using that \<open>2 * length s + 3 \<le> Suc n\<close> \<open>n \<le> m\<close> by (intro M) auto
    have C: "parse_value m r2 = parse_value n r2"
      if "skip_ws s = c # r" "unquote r = Some (k, r1)" "skip_ws r1 = d # r2" for c r k r1 d r2
      using skip_ws_Cons_length [OF that(1)] unquote_length [OF that(2)]
        skip_ws_Cons_length [OF that(3)] by (intro A) simp
    have D: "parse_members m r4 = parse_members n r4"
      if "skip_ws s = c # r" "unquote r = Some (k, r1)" "skip_ws r1 = d # r2"
        "parse_value n r2 = Some (v, r3)" "skip_ws r3 = e # r4" for c r k r1 d r2 v r3 e r4
      using skip_ws_Cons_length [OF that(1)] unquote_length [OF that(2)]
        skip_ws_Cons_length [OF that(3)] parse_value_length [OF that(4)]
        skip_ws_Cons_length [OF that(5)] by (intro B) simp
    show ?thesis by (auto split: option.splits list.splits simp: C D)
  qed
  moreover have "\<exists>m'. m = Suc m' \<and> n \<le> m'" if "Suc n \<le> m" for m
    using that by (metis Suc_le_D Suc_le_mono)
  ultimately show ?case by blast
qed

lemma parse_fuel_irrelevant:
  "parse_fuel s \<le> n \<Longrightarrow> parse_value n s = parse_value (parse_fuel s) s"
  using parse_enough [of "parse_fuel s"] by (simp add: parse_fuel_def)

subsection \<open>Printed values parse back\<close>

lemma hex_val_digit: "d < 16 \<Longrightarrow> hex_val (hex_digit d) = Some d"
  by (auto simp: hex_val_def hex_digit_def Let_def)

lemma unquote_plain:
  "c \<noteq> CHR 0x22 \<Longrightarrow> c \<noteq> CHR 0x5C \<Longrightarrow> 32 \<le> (of_char c :: nat) \<Longrightarrow>
   unquote (c # r) = push_front [c] (unquote r)"
  by (subst unquote.simps) simp

lemma unquote_simple:
  "e \<noteq> CHR ''u'' \<Longrightarrow> simple_escape e = Some x \<Longrightarrow>
   unquote (CHR 0x5C # e # r) = push_front [x] (unquote r)"
  by (subst unquote.simps) simp

lemma unquote_hex:
  assumes "n < 128"
  shows "unquote (CHR 0x5C # CHR ''u'' # CHR ''0'' # CHR ''0'' # hex_digit (n div 16) #
           hex_digit (n mod 16) # r) = push_front [char_of n] (unquote r)"
proof -
  have "hex_val (CHR ''0'') = Some 0" by (simp add: hex_val_def Let_def)
  then have "hex4 (CHR ''0'' # CHR ''0'' # hex_digit (n div 16) # hex_digit (n mod 16) # r) = Some n"
    using assms by (simp add: hex_val_digit)
  then show ?thesis
    using assms by (subst unquote.simps) (simp add: escape_rune_def utf8_encode_def)
qed

lemma unquote_escape: "unquote (json_escape c @ r) = push_front [c] (unquote r)"
proof (cases "(of_char c :: nat) < 32 \<or> c = CHR ''<'' \<or> c = CHR ''>'' \<or> c = CHR ''&''")
  case True
  then have "(of_char c :: nat) < 128" by auto
  from True unquote_hex [OF this, of r] show ?thesis
    by (auto simp: json_escape_def unquote_simple simple_escape_def)
next
  case False
  then show ?thesis
    by (auto simp: json_escape_def unquote_simple simple_escape_def unquote_plain not_less)
qed

lemma unquote_quote:
  "unquote (concat (map json_escape s) @ CHR 0x22 # rest) = Some (s, rest)"
  by (induction s) (auto simp: unquote_escape push_front_def unquote.simps)

definition num_follow :: "string \<Rightarrow> bool" where
  "num_follow r \<longleftrightarrow> r = [] \<or> hd r \<in> {CHR '','', CHR '']'', CHR ''}'', CHR 0x0A}"

lemma takeWhile_digits_append:
  "\<forall>c \<in> set ds. is_digit c \<Longrightarrow> num_follow r \<Longrightarrow>
   takeWhile is_digit (ds @ r) = ds \<and> dropWhile is_digit (ds @ r) = r"
  by (induction ds) (cases r; auto simp: num_follow_def is_digit_def)+

lemma fmt_nat_leading: "hd (fmt_nat n) = CHR ''0'' \<Longrightarrow> fmt_nat n = ''0''"
proof (induction n rule: fmt_nat.induct)
  case (1 n)
  show ?case
  proof (cases "n < 10")
    case True
    have "d < 10 \<Longrightarrow> digit_char d = CHR ''0'' \<Longrightarrow> d = 0" for d
      using digit_char_props(2) [of d] by (simp add: digit_val_def)
    with True "1.prems" show ?thesis by (subst fmt_nat.simps) (simp add: fmt_nat.simps [of n])
  next
    case False
    have eq: "fmt_nat n = fmt_nat (n div 10) @ [digit_char (n mod 10)]"
      using False by (subst fmt_nat.simps) simp
    with "1.prems" have "hd (fmt_nat (n div 10)) = CHR ''0''" by (simp add: fmt_nat_nonempty)
    with "1.IH" False have "fmt_nat (n div 10) = ''0''" by simp
    then have "dec_value 0 (fmt_nat (n div 10)) = 0" by (simp add: dec_value_def digit_val_def)
    with dec_value_fmt_nat False show ?thesis by (metis div_eq_0_iff less_one not_less not_less_eq num.distinct(1) numeral_eq_one_iff zero_less_numeral less_numeral_extra(3))
  qed
qed

lemma scan_int_fmt:
  assumes "num_follow r"
  shows "scan_int (fmt_nat n @ r) = Some (fmt_nat n, r)"
proof (cases "hd (fmt_nat n) = CHR ''0''")
  case True
  from fmt_nat_leading [OF this] show ?thesis by (simp add: scan_int_def)
next
  case False
  obtain c cs where c: "fmt_nat n = c # cs" using fmt_nat_nonempty by (cases "fmt_nat n") auto
  have "scan_digits (fmt_nat n @ r) = Some (fmt_nat n, r)"
    using takeWhile_digits_append [OF fmt_nat_digits assms, of n]
    by (simp add: scan_digits_def fmt_nat_nonempty)
  with False c show ?thesis by (simp add: scan_int_def)
qed

lemma scan_num_FormatInt:
  assumes "num_follow r"
  shows "scan_num (strconv_FormatInt i @ r) = Some (strconv_FormatInt i, r)"
proof -
  have frac: "scan_frac r = Some ([], r)" and ex: "scan_exp r = Some ([], r)"
    using assms by (auto simp: num_follow_def scan_frac_def scan_exp_def split: list.split)
  show ?thesis
  proof (cases "i < 0")
    case True
    then show ?thesis
      using assms frac ex
      by (simp add: scan_num_def strconv_FormatInt_def scan_int_fmt push_front_def)
  next
    case False
    obtain c cs where c: "fmt_nat (nat i) = c # cs"
      using fmt_nat_nonempty by (cases "fmt_nat (nat i)") auto
    then have "c \<noteq> CHR ''-''" using fmt_nat_hd [of "nat i"] by simp
    with False c show ?thesis
      using assms frac ex scan_int_fmt [OF assms, of "nat i"]
      by (simp add: scan_num_def strconv_FormatInt_def push_front_def)
  qed
qed

text \<open>
  The values \<open>json.Marshal\<close> produces for the program's types: integer literals and ASCII strings.
\<close>

definition ascii :: "string \<Rightarrow> bool" where
  "ascii s \<longleftrightarrow> list_all (\<lambda>c. (of_char c :: nat) < 128) s"

definition is_int_literal :: "string \<Rightarrow> bool" where
  "is_int_literal l \<longleftrightarrow> (case strconv_ParseInt l 64 of (i, err) \<Rightarrow> err = None \<and> strconv_FormatInt i = l)"

fun wf_json :: "json \<Rightarrow> bool" where
  "wf_json JNull = True"
| "wf_json (JBool b) = True"
| "wf_json (JNum l) = is_int_literal l"
| "wf_json (JStr s) = ascii s"
| "wf_json (JArr xs) = list_all wf_json xs"
| "wf_json (JObj ms) = list_all (\<lambda>(k, v). ascii k \<and> wf_json v) ms"

lemma is_int_literal_D: "is_int_literal l \<Longrightarrow> \<exists>i. l = strconv_FormatInt i"
  by (auto simp: is_int_literal_def)

lemma is_int_literal_FormatInt: "is_int_literal (strconv_FormatInt (sint (w :: int64)))"
  by (simp add: is_int_literal_def ParseInt_FormatInt_word)

text \<open>The value \<open>v\<close> parses back from its text, whatever follows, once there is fuel.\<close>

definition parses_back :: "json \<Rightarrow> bool" where
  "parses_back v \<longleftrightarrow> (\<exists>N. \<forall>n \<ge> N. \<forall>rest. num_follow rest \<longrightarrow>
     parse_value n (print_json v @ rest) = Some (v, rest))"

lemma parses_backE:
  assumes "parses_back v"
  obtains N where
    "\<And>n rest. N \<le> n \<Longrightarrow> num_follow rest \<Longrightarrow> parse_value n (print_json v @ rest) = Some (v, rest)"
  using assms unfolding parses_back_def by blast

definition value_start :: "string \<Rightarrow> bool" where
  "value_start s \<longleftrightarrow> s \<noteq> [] \<and> \<not> is_json_space (hd s) \<and> hd s \<noteq> CHR '']'' \<and> hd s \<noteq> CHR ''}''"

lemma skip_ws_nonspace: "s = [] \<or> \<not> is_json_space (hd s) \<Longrightarrow> skip_ws s = s"
  by (cases s) (auto simp: skip_ws_def)

lemma FormatInt_start:
  "\<exists>c r. strconv_FormatInt i = c # r \<and> (is_digit c \<or> c = CHR ''-'')"
  using fmt_nat_digits fmt_nat_nonempty
  by (cases "fmt_nat (nat i)") (auto simp: strconv_FormatInt_def, metis list.set_intros(1))

lemma print_json_start: "wf_json v \<Longrightarrow> value_start (print_json v)"
proof (cases v)
  case (JNum l)
  assume "wf_json v"
  with JNum obtain i where "l = strconv_FormatInt i" using is_int_literal_D by auto
  with FormatInt_start [of i] JNum show ?thesis
    by (auto simp: value_start_def is_json_space_def is_digit_def)
qed (auto simp: value_start_def is_json_space_def print_string_def)

lemma print_json_skip:
  assumes "value_start s"
  shows "skip_ws (s @ rest) = s @ rest"
  using assms by (intro skip_ws_nonspace) (auto simp: value_start_def)

lemma parse_elems_back:
  assumes "\<forall>x \<in> set xs. parses_back x" and "xs \<noteq> []"
  shows "\<exists>N. \<forall>n \<ge> N. \<forall>rest. parse_elems n (strings_Join (map print_json xs) '','' @ CHR '']'' # rest)
           = Some (xs, rest)"
  using assms
proof (induction xs)
  case Nil
  then show ?case by simp
next
  case (Cons x xs)
  from Cons.prems(1) have "parses_back x" by simp
  then obtain N where N: "\<And>n rest. N \<le> n \<Longrightarrow> num_follow rest \<Longrightarrow>
      parse_value n (print_json x @ rest) = Some (x, rest)"
    by (rule parses_backE) blast
  show ?case
  proof (cases xs)
    case Nil
    have "parse_elems n (print_json x @ CHR '']'' # rest) = Some ([x], rest)" if "n \<ge> Suc N" for n rest
      using that N [of "n - 1" "CHR '']'' # rest"]
      by (cases n) (auto simp: num_follow_def skip_ws_def is_json_space_def)
    with Nil show ?thesis by auto
  next
    case (Cons y ys)
    with Cons.IH Cons.prems obtain M where
      M: "parse_elems n (strings_Join (map print_json xs) '','' @ CHR '']'' # rest) = Some (xs, rest)"
      if "n \<ge> M" for n rest
      by auto
    have "parse_elems n (print_json x @ CHR '','' # strings_Join (map print_json xs) '','' @ CHR '']'' # rest)
        = Some (x # xs, rest)" if "n \<ge> Suc (max N M)" for n rest
      using that N [of "n - 1" "CHR '','' # strings_Join (map print_json xs) '','' @ CHR '']'' # rest"]
        M [of "n - 1" rest]
      by (cases n) (auto simp: num_follow_def skip_ws_def is_json_space_def)
    with Cons show ?thesis by auto
  qed
qed

abbreviation print_member :: "string \<times> json \<Rightarrow> string" where
  "print_member \<equiv> (\<lambda>(k, v). print_string k @ '':'' @ print_json v)"

lemma parse_member_step:
  assumes "parse_value n (print_json v @ rest) = Some (v, rest)"
  shows "parse_members (Suc n) (print_member (k, v) @ rest) =
    (case skip_ws rest of [] \<Rightarrow> None
     | e # r4 \<Rightarrow> if e = CHR '','' then map_option (\<lambda>(ms, q). ((k, v) # ms, q)) (parse_members n r4)
                 else if e = CHR ''}'' then Some ([(k, v)], r4) else None)"
  using assms unquote_quote [of k "CHR '':'' # print_json v @ rest"]
  by (simp add: print_string_def skip_ws_def is_json_space_def)

lemma parse_members_back:
  assumes "\<forall>(k, v) \<in> set ms. parses_back v" and "ms \<noteq> []"
  shows "\<exists>N. \<forall>n \<ge> N. \<forall>rest. parse_members n (strings_Join (map print_member ms) '','' @ CHR ''}'' # rest)
           = Some (ms, rest)"
  using assms
proof (induction ms)
  case Nil
  then show ?case by simp
next
  case (Cons m ms)
  obtain k v where m: "m = (k, v)" by (cases m)
  with Cons.prems(1) have "parses_back v" by simp
  then obtain N where N: "\<And>n rest. N \<le> n \<Longrightarrow> num_follow rest \<Longrightarrow>
      parse_value n (print_json v @ rest) = Some (v, rest)"
    by (rule parses_backE) blast
  show ?case
  proof (cases ms)
    case Nil
    have "parse_members n (print_member m @ CHR ''}'' # rest) = Some ([m], rest)"
      if "n \<ge> Suc N" for n rest
      using that parse_member_step [OF N [of "n - 1" "CHR ''}'' # rest"], of k] m
      by (cases n) (auto simp: num_follow_def skip_ws_def is_json_space_def)
    with Nil show ?thesis by auto
  next
    case (Cons y ys)
    with Cons.IH Cons.prems obtain M where
      M: "parse_members n (strings_Join (map print_member ms) '','' @ CHR ''}'' # rest) = Some (ms, rest)"
      if "n \<ge> M" for n rest
      by auto
    have "parse_members n (print_member m @ CHR '','' # strings_Join (map print_member ms) '','' @ CHR ''}'' # rest)
        = Some (m # ms, rest)" if "n \<ge> Suc (max N M)" for n rest
      using that M [of "n - 1" rest] m
        parse_member_step [OF N [of "n - 1" "CHR '','' # strings_Join (map print_member ms) '','' @ CHR ''}'' # rest"], of k]
      by (cases n) (auto simp: num_follow_def skip_ws_def is_json_space_def)
    with Cons show ?thesis by auto
  qed
qed

lemma parses_back_wf: "wf_json v \<Longrightarrow> parses_back v"
proof (induction v rule: wf_json.induct)
  case (3 l)
  then obtain i where l: "l = strconv_FormatInt i" using is_int_literal_D by auto
  obtain c r where c: "strconv_FormatInt i = c # r" "is_digit c \<or> c = CHR ''-''"
    using FormatInt_start by blast
  have neq: "\<not> is_json_space c \<and> c \<noteq> CHR 0x22 \<and> c \<noteq> CHR ''['' \<and> c \<noteq> CHR ''{'' \<and> c \<noteq> CHR ''t'' \<and>
      c \<noteq> CHR ''f'' \<and> c \<noteq> CHR ''n''"
    using c(2) by (auto simp: is_json_space_def is_digit_def)
  have "parse_value n (l @ rest) = Some (JNum l, rest)" if "n \<ge> 1" "num_follow rest" for n rest
  proof -
    obtain m where "n = Suc m" using \<open>n \<ge> 1\<close> by (cases n) auto
    moreover have "scan_num (c # r @ rest) = Some (c # r, rest)"
      using scan_num_FormatInt [OF that(2), of i] c(1) by simp
    ultimately show ?thesis using neq l c(1) by (simp add: skip_ws_def)
  qed
  then show ?case unfolding parses_back_def by auto
next
  case (4 s)
  have "parse_value n (print_string s @ rest) = Some (JStr s, rest)" if "n \<ge> 1" for n rest
    using that unquote_quote [of s rest]
    by (cases n) (auto simp: skip_ws_def is_json_space_def print_string_def)
  then show ?case unfolding parses_back_def by auto
next
  case (5 xs)
  show ?case
  proof (cases "xs = []")
    case True
    have "parse_value n (CHR ''['' # CHR '']'' # rest) = Some (JArr [], rest)" if "n \<ge> 1" for n rest
      using that by (cases n) (auto simp: skip_ws_def is_json_space_def)
    with True show ?thesis unfolding parses_back_def by auto
  next
    case False
    moreover have "\<forall>x \<in> set xs. parses_back x" using 5 by (auto simp: list_all_iff)
    ultimately obtain N where
      N: "\<forall>n \<ge> N. \<forall>rest. parse_elems n (strings_Join (map print_json xs) '','' @ CHR '']'' # rest)
            = Some (xs, rest)"
      using parse_elems_back by blast
    let ?body = "strings_Join (map print_json xs) '',''"
    have start: "value_start ?body"
      using False "5.prems" print_json_start
      by (cases xs rule: list.exhaust; cases "tl xs") (auto simp: value_start_def)
    have "parse_value n (CHR ''['' # ?body @ CHR '']'' # rest) = Some (JArr xs, rest)"
      if "n \<ge> Suc N" for n rest
      using that N [rule_format, of "n - 1" rest] print_json_skip [OF start, of "CHR '']'' # rest"] start
      by (cases n; cases "?body") (auto simp: skip_ws_def is_json_space_def value_start_def)
    then show ?thesis unfolding parses_back_def by auto
  qed
next
  case (6 ms)
  show ?case
  proof (cases "ms = []")
    case True
    have "parse_value n (CHR ''{'' # CHR ''}'' # rest) = Some (JObj [], rest)" if "n \<ge> 1" for n rest
      using that by (cases n) (auto simp: skip_ws_def is_json_space_def)
    with True show ?thesis unfolding parses_back_def by auto
  next
    case False
    have "\<forall>(k, v) \<in> set ms. parses_back v" using 6 by (auto simp: list_all_iff)
    with False obtain N where
      N: "\<forall>n \<ge> N. \<forall>rest. parse_members n (strings_Join (map print_member ms) '','' @ CHR ''}'' # rest)
            = Some (ms, rest)"
      using parse_members_back by blast
    let ?body = "strings_Join (map print_member ms) '',''"
    have start: "value_start ?body"
      using False
      by (cases ms rule: list.exhaust; cases "tl ms")
        (auto simp: value_start_def print_string_def is_json_space_def split: prod.splits)
    have "parse_value n (CHR ''{'' # ?body @ CHR ''}'' # rest) = Some (JObj ms, rest)"
      if "n \<ge> Suc N" for n rest
      using that N [rule_format, of "n - 1" rest] print_json_skip [OF start, of "CHR ''}'' # rest"] start
      by (cases n; cases "?body") (auto simp: skip_ws_def is_json_space_def value_start_def)
    then show ?thesis unfolding parses_back_def by auto
  qed
next
  case 1
  have "parse_value n (''null'' @ rest) = Some (JNull, rest)" if "n \<ge> 1" for n rest
    using that by (cases n) (auto simp: scan_word_def skip_ws_def is_json_space_def)
  then show ?case unfolding parses_back_def by auto
next
  case (2 b)
  have "parse_value n ((if b then ''true'' else ''false'') @ rest) = Some (JBool b, rest)"
    if "n \<ge> 1" for n rest
    using that by (cases n) (auto simp: scan_word_def skip_ws_def is_json_space_def)
  then show ?case unfolding parses_back_def by (intro exI [of _ 1]) simp
qed

text \<open>Parsing is the inverse of printing.\<close>

lemma parse_json_follow:
  assumes "wf_json v" and "num_follow r" and "skip_ws r = []"
  shows "parse_json (print_json v @ r) = Some v"
proof -
  obtain N where
    N: "\<forall>n \<ge> N. \<forall>rest. num_follow rest \<longrightarrow> parse_value n (print_json v @ rest) = Some (v, rest)"
    using parses_back_wf [OF assms(1)] unfolding parses_back_def by auto
  let ?n = "max N (parse_fuel (print_json v @ r))"
  have "parse_value ?n (print_json v @ r) = Some (v, r)"
    using N [rule_format, of ?n r] assms(2) by simp
  then have "parse_value (parse_fuel (print_json v @ r)) (print_json v @ r) = Some (v, r)"
    using parse_fuel_irrelevant [of "print_json v @ r" ?n] by simp
  then show ?thesis using assms(3) by (simp add: parse_json_def)
qed

theorem parse_print: "wf_json v \<Longrightarrow> parse_json (print_json v) = Some v"
  using parse_json_follow [of v "[]"] by (simp add: num_follow_def skip_ws_def)

subsection \<open>Typed codecs\<close>

text \<open>
  The contract of a Go type's JSON codec: what the encoder writes decodes to the value. The round
  trip through the text follows once, here, for every type that meets the contract.
\<close>

definition Marshal :: "('a \<Rightarrow> json) \<Rightarrow> 'a \<Rightarrow> string" where
  "Marshal enc x = print_json (enc x)"

text \<open>\<open>json.NewEncoder(w).Encode\<close> ends the value with a newline.\<close>

definition Encode :: "('a \<Rightarrow> json) \<Rightarrow> 'a \<Rightarrow> string" where
  "Encode enc x = Marshal enc x @ [CHR 0x0A]"

definition Unmarshal :: "(json \<Rightarrow> 'a option) \<Rightarrow> string \<Rightarrow> 'a option" where
  "Unmarshal dec s = (case parse_json s of None \<Rightarrow> None | Some v \<Rightarrow> dec v)"

locale json_codec =
  fixes enc :: "'a \<Rightarrow> json"
    and dec :: "json \<Rightarrow> 'a option"
    and wf :: "'a \<Rightarrow> bool"
  assumes enc_wf: "wf x \<Longrightarrow> wf_json (enc x)"
    and dec_enc: "wf x \<Longrightarrow> dec (enc x) = Some x"
begin

lemma Unmarshal_Marshal: "wf x \<Longrightarrow> Unmarshal dec (Marshal enc x) = Some x"
  by (simp add: Unmarshal_def Marshal_def parse_print enc_wf dec_enc)

lemma Unmarshal_Encode: "wf x \<Longrightarrow> Unmarshal dec (Encode enc x) = Some x"
  using parse_json_follow [of "enc x" "[CHR 0x0A]"]
  by (simp add: Unmarshal_def Encode_def Marshal_def enc_wf dec_enc num_follow_def skip_ws_def is_json_space_def)

lemma Marshal_inj: "wf x \<Longrightarrow> wf y \<Longrightarrow> Marshal enc x = Marshal enc y \<Longrightarrow> x = y"
  using Unmarshal_Marshal by (metis option.inject)

end

text \<open>Slices: a nil slice is \<open>null\<close>, an empty one \<open>[]\<close>, and both come back as they were.\<close>

definition enc_slice :: "('a \<Rightarrow> json) \<Rightarrow> 'a slice \<Rightarrow> json" where
  "enc_slice enc s = (case s of None \<Rightarrow> JNull | Some xs \<Rightarrow> JArr (map enc xs))"

definition dec_slice :: "(json \<Rightarrow> 'a option) \<Rightarrow> json \<Rightarrow> 'a slice option" where
  "dec_slice dec v =
     (case v of
        JNull \<Rightarrow> Some None
      | JArr xs \<Rightarrow> map_option Some (those (map dec xs))
      | _ \<Rightarrow> None)"

definition wf_slice :: "('a \<Rightarrow> bool) \<Rightarrow> 'a slice \<Rightarrow> bool" where
  "wf_slice ok s \<longleftrightarrow> list_all ok (elems s)"

lemma those_map_Some: "\<forall>x \<in> set xs. f x = Some (g x) \<Longrightarrow> those (map f xs) = Some (map g xs)"
  by (induction xs) auto

locale slice_codec = elem: json_codec enc dec wf
  for enc :: "'a \<Rightarrow> json" and dec :: "json \<Rightarrow> 'a option" and wf :: "'a \<Rightarrow> bool"

sublocale slice_codec \<subseteq> json_codec "enc_slice enc" "dec_slice dec" "wf_slice wf"
proof unfold_locales
  fix s :: "'a slice"
  assume wf: "wf_slice wf s"
  show "wf_json (enc_slice enc s)"
    using wf by (auto simp: enc_slice_def wf_slice_def list_all_iff elem.enc_wf split: option.splits)
  have "those (map (\<lambda>x. dec (enc x)) xs) = Some xs" if "list_all wf xs" for xs
    using that those_map_Some [of xs "\<lambda>x. dec (enc x)" "\<lambda>x. x"]
    by (auto simp: list_all_iff elem.dec_enc)
  then show "dec_slice dec (enc_slice enc s) = Some s"
    using wf by (auto simp: enc_slice_def dec_slice_def wf_slice_def comp_def split: option.splits)
qed

text \<open>
  Decoding a struct: the members in order, each set by its field (names match without regard to
  case), unknown members skipped. A type error anywhere makes the decoding fail.
\<close>

definition lower :: "char \<Rightarrow> char" where
  "lower c = (if 65 \<le> (of_char c :: nat) \<and> (of_char c :: nat) \<le> 90
              then char_of ((of_char c :: nat) + 32) else c)"

definition key_is :: "string \<Rightarrow> string \<Rightarrow> bool" where
  "key_is k name \<longleftrightarrow> map lower k = map lower name"

fun decode_fields :: "(string \<Rightarrow> json \<Rightarrow> 'a \<Rightarrow> 'a option) \<Rightarrow> (string \<times> json) list \<Rightarrow> 'a \<Rightarrow> 'a option" where
  "decode_fields set_field [] x = Some x"
| "decode_fields set_field ((k, v) # ms) x =
     (case set_field k v x of None \<Rightarrow> None | Some y \<Rightarrow> decode_fields set_field ms y)"

definition decode_struct :: "(string \<Rightarrow> json \<Rightarrow> 'a \<Rightarrow> 'a option) \<Rightarrow> 'a \<Rightarrow> json \<Rightarrow> 'a option" where
  "decode_struct set_field zero v =
     (case v of JObj ms \<Rightarrow> decode_fields set_field ms zero | JNull \<Rightarrow> Some zero | _ \<Rightarrow> None)"

text \<open>The scalar targets: \<open>null\<close> leaves the field alone.\<close>

definition set_string :: "json \<Rightarrow> (string \<Rightarrow> 'a) \<Rightarrow> 'a \<Rightarrow> 'a option" where
  "set_string v upd x = (case v of JStr s \<Rightarrow> Some (upd s) | JNull \<Rightarrow> Some x | _ \<Rightarrow> None)"

definition set_bool :: "json \<Rightarrow> (bool \<Rightarrow> 'a) \<Rightarrow> 'a \<Rightarrow> 'a option" where
  "set_bool v upd x = (case v of JBool b \<Rightarrow> Some (upd b) | JNull \<Rightarrow> Some x | _ \<Rightarrow> None)"

definition set_int64 :: "json \<Rightarrow> (int64 \<Rightarrow> 'a) \<Rightarrow> 'a \<Rightarrow> 'a option" where
  "set_int64 v upd x =
     (case v of
        JNum l \<Rightarrow> (case strconv_ParseInt l 64 of (i, None) \<Rightarrow> Some (upd (word_of_int i)) | _ \<Rightarrow> None)
      | JNull \<Rightarrow> Some x
      | _ \<Rightarrow> None)"

text \<open>A \<open>*string\<close> target is set to nil by \<open>null\<close>.\<close>

definition set_string_ptr :: "json \<Rightarrow> (string option \<Rightarrow> 'a) \<Rightarrow> 'a option" where
  "set_string_ptr v upd = (case v of JStr s \<Rightarrow> Some (upd (Some s)) | JNull \<Rightarrow> Some (upd None) | _ \<Rightarrow> None)"

end
