(* ===== verification/ApiJson.thy ===== *)
theory ApiJson
  imports Api GoJson
begin

text \<open>
  The JSON forms of the types that cross a process boundary: routes (webhook to worker), gateways
  (operator to manager daemon), and the messages of \<open>pkg/comms\<close> (operator, worker and daemon). The
  field names are the struct tags. Each codec is an interpretation of the codec contract.
\<close>

subsection \<open>Routes\<close>

definition route_enc :: "Route \<Rightarrow> json" where
  "route_enc r = JObj
     [(''dest'', JStr (rt_Destination r)),
      (''via'', case rt_Via r of None \<Rightarrow> JNull | Some v \<Rightarrow> JStr v),
      (''src'', JStr (rt_Source r)),
      (''scopeLink'', JBool (rt_ScopeLink r))]"

definition zero_route :: Route where
  "zero_route = \<lparr> rt_Destination = [], rt_Via = None, rt_Source = [], rt_ScopeLink = False \<rparr>"

definition route_field :: "string \<Rightarrow> json \<Rightarrow> Route \<Rightarrow> Route option" where
  "route_field k v r =
     (if key_is k ''dest'' then set_string v (\<lambda>s. r\<lparr>rt_Destination := s\<rparr>) r
      else if key_is k ''via'' then set_string_ptr v (\<lambda>s. r\<lparr>rt_Via := s\<rparr>)
      else if key_is k ''src'' then set_string v (\<lambda>s. r\<lparr>rt_Source := s\<rparr>) r
      else if key_is k ''scopeLink'' then set_bool v (\<lambda>b. r\<lparr>rt_ScopeLink := b\<rparr>) r
      else Some r)"

definition route_dec :: "json \<Rightarrow> Route option" where
  "route_dec = decode_struct route_field zero_route"

definition ascii_route :: "Route \<Rightarrow> bool" where
  "ascii_route r \<longleftrightarrow> ascii (rt_Destination r) \<and>
     (case rt_Via r of None \<Rightarrow> True | Some v \<Rightarrow> ascii v) \<and> ascii (rt_Source r)"

lemma ascii_literal [simp]: "ascii []" "ascii (c # s) \<longleftrightarrow> (of_char c :: nat) < 128 \<and> ascii s"
  by (simp_all add: ascii_def)

lemmas decode_simps = decode_struct_def set_string_def set_string_ptr_def set_bool_def set_int64_def
  key_is_def lower_def

interpretation route_codec: slice_codec route_enc route_dec ascii_route
proof unfold_locales
  fix r
  assume "ascii_route r"
  then show "wf_json (route_enc r)"
    by (auto simp: ascii_route_def route_enc_def split: option.splits)
  show "route_dec (route_enc r) = Some r"
    by (cases "rt_Via r")
      (simp_all add: route_dec_def route_enc_def route_field_def zero_route_def decode_simps)
qed

subsection \<open>Gateways\<close>

definition gateway_enc :: "Gateway \<Rightarrow> json" where
  "gateway_enc g = JObj
     [(''address'', JStr (gw_Address g)), (''routes'', enc_slice route_enc (gw_Routes g))]"

definition zero_gateway :: Gateway where
  "zero_gateway = \<lparr> gw_Address = [], gw_Routes = None \<rparr>"

definition gateway_field :: "string \<Rightarrow> json \<Rightarrow> Gateway \<Rightarrow> Gateway option" where
  "gateway_field k v g =
     (if key_is k ''address'' then set_string v (\<lambda>s. g\<lparr>gw_Address := s\<rparr>) g
      else if key_is k ''routes'' then
        map_option (\<lambda>rs. g\<lparr>gw_Routes := rs\<rparr>) (dec_slice route_dec v)
      else Some g)"

definition gateway_dec :: "json \<Rightarrow> Gateway option" where
  "gateway_dec = decode_struct gateway_field zero_gateway"

definition ascii_gateway :: "Gateway \<Rightarrow> bool" where
  "ascii_gateway g \<longleftrightarrow> ascii (gw_Address g) \<and> wf_slice ascii_route (gw_Routes g)"

interpretation gateway_codec: slice_codec gateway_enc gateway_dec ascii_gateway
proof unfold_locales
  fix g
  assume g: "ascii_gateway g"
  then show "wf_json (gateway_enc g)"
    by (simp add: ascii_gateway_def gateway_enc_def route_codec.enc_wf)
  show "gateway_dec (gateway_enc g) = Some g"
    using g route_codec.dec_enc [of "gw_Routes g"]
    by (simp add: gateway_dec_def gateway_enc_def gateway_field_def zero_gateway_def decode_simps
        ascii_gateway_def)
qed

text \<open>The codec of the slices that the environment variables hold.\<close>

definition marshal_routes :: "Route slice \<Rightarrow> string" where
  "marshal_routes = Marshal (enc_slice route_enc)"

definition unmarshal_routes :: "string \<Rightarrow> Route slice option" where
  "unmarshal_routes = Unmarshal (dec_slice route_dec)"

definition marshal_gateways :: "Gateway slice \<Rightarrow> string" where
  "marshal_gateways = Marshal (enc_slice gateway_enc)"

definition unmarshal_gateways :: "string \<Rightarrow> Gateway slice option" where
  "unmarshal_gateways = Unmarshal (dec_slice gateway_dec)"

lemma unmarshal_marshal_routes:
  "wf_slice ascii_route rs \<Longrightarrow> unmarshal_routes (marshal_routes rs) = Some rs"
  unfolding unmarshal_routes_def marshal_routes_def by (rule route_codec.Unmarshal_Marshal)

lemma unmarshal_marshal_gateways:
  "wf_slice ascii_gateway gs \<Longrightarrow> unmarshal_gateways (marshal_gateways gs) = Some gs"
  unfolding unmarshal_gateways_def marshal_gateways_def by (rule gateway_codec.Unmarshal_Marshal)

subsection \<open>Messages of pkg/comms\<close>

record PIDResponse =
  pid_PID :: int64

record MacvlanRequest =
  mreq_NsID :: int64

record MacvlanResponse =
  mresp_Id :: int64

definition pid_enc :: "PIDResponse \<Rightarrow> json" where
  "pid_enc p = JObj [(''pid'', JNum (strconv_FormatInt (sint (pid_PID p))))]"

definition pid_dec :: "json \<Rightarrow> PIDResponse option" where
  "pid_dec = decode_struct
     (\<lambda>k v p. if key_is k ''pid'' then set_int64 v (\<lambda>i. p\<lparr>pid_PID := i\<rparr>) p else Some p)
     \<lparr> pid_PID = 0 \<rparr>"

definition mreq_enc :: "MacvlanRequest \<Rightarrow> json" where
  "mreq_enc p = JObj [(''ns_id'', JNum (strconv_FormatInt (sint (mreq_NsID p))))]"

definition mreq_dec :: "json \<Rightarrow> MacvlanRequest option" where
  "mreq_dec = decode_struct
     (\<lambda>k v p. if key_is k ''ns_id'' then set_int64 v (\<lambda>i. p\<lparr>mreq_NsID := i\<rparr>) p else Some p)
     \<lparr> mreq_NsID = 0 \<rparr>"

definition mresp_enc :: "MacvlanResponse \<Rightarrow> json" where
  "mresp_enc p = JObj [(''vlan_id'', JNum (strconv_FormatInt (sint (mresp_Id p))))]"

definition mresp_dec :: "json \<Rightarrow> MacvlanResponse option" where
  "mresp_dec = decode_struct
     (\<lambda>k v p. if key_is k ''vlan_id'' then set_int64 v (\<lambda>i. p\<lparr>mresp_Id := i\<rparr>) p else Some p)
     \<lparr> mresp_Id = 0 \<rparr>"

interpretation pid_codec: json_codec pid_enc pid_dec "\<lambda>_. True"
  by unfold_locales
    (simp_all add: pid_enc_def pid_dec_def decode_simps is_int_literal_FormatInt ParseInt_FormatInt_word)

interpretation mreq_codec: json_codec mreq_enc mreq_dec "\<lambda>_. True"
  by unfold_locales
    (simp_all add: mreq_enc_def mreq_dec_def decode_simps is_int_literal_FormatInt ParseInt_FormatInt_word)

interpretation mresp_codec: json_codec mresp_enc mresp_dec "\<lambda>_. True"
  by unfold_locales
    (simp_all add: mresp_enc_def mresp_dec_def decode_simps is_int_literal_FormatInt ParseInt_FormatInt_word)

end
