(* ===== verification/Outcome.thy ===== *)
theory Outcome
  imports Errors
begin

text \<open>
  How a call of a Go function ends: with a value, with an error, with a run-time panic, or never
  (\<open>Hangs\<close>, the value of a loop with no bound that has used up its fuel).
\<close>

datatype 'a outcome = Ok 'a | Err go_error | Panics string | Hangs

definition returns_error :: "'a outcome \<Rightarrow> bool" where
  "returns_error r \<longleftrightarrow> (case r of Err _ \<Rightarrow> True | _ \<Rightarrow> False)"

definition index_panic :: string where
  "index_panic = ''index out of range''"

definition nil_panic :: string where
  "nil_panic = ''invalid memory address or nil pointer dereference''"

lemma returns_error_simps [simp]:
  "\<not> returns_error (Ok x)" "returns_error (Err e)" "\<not> returns_error (Panics p)" "\<not> returns_error Hangs"
  by (simp_all add: returns_error_def)

text \<open>\<open>err.Error()\<close> of an error without nil parts; the caller information is left empty.\<close>

definition error_text :: "go_error \<Rightarrow> string" where
  "error_text e = (case Error [] e of None \<Rightarrow> [] | Some m \<Rightarrow> m)"

end
