(* ===== verification/ManagerSets.thy ===== *)
theory ManagerSets
  imports ApiJson GoSlices Outcome
begin

text \<open>
  \<open>internal/controller/manager.go\<close>: the set of manager pods of a network, its daemon set and
  service, and the way back from a daemon set found in the cluster; with the environment of the
  operator (\<open>Envs\<close> of \<open>vlanman_controller.go\<close>).
\<close>

subsection \<open>Data\<close>

record Envs =
  env_NamespaceName :: string
  env_VlanManagerImage :: string
  env_VlanManagerPullPolicy :: string
  env_IsTest :: bool
  env_WaitForPodTimeoutSeconds :: int
  env_IsManagerIPMonitoringEnabled :: bool
  env_IsMonitoringEnabled :: bool
  env_MonitoringScrapeInterval :: string
  env_MonitoringReleaseName :: string
  env_TTL :: "int option"
  env_InterfacePodImage :: string
  env_InterfacePodPullPolicy :: string
  env_WorkerInitImage :: string
  env_WorkerInitPullPolicy :: string
  env_ServiceAccountName :: string

record ManagerSet =
  ms_OwnerNetworkName :: string
  ms_VlanID :: int64
  ms_Gateways :: "Gateway slice"
  ms_ManagerAffinity :: "Affinity option"
  ms_Mappings :: "IPMapping slice"

definition managerCmp :: "ManagerSet \<Rightarrow> ManagerSet \<Rightarrow> int" where
  "managerCmp a b = strings_Compare (ms_OwnerNetworkName a) (ms_OwnerNetworkName b)"

interpretation mgr: keyed_cmp managerCmp ms_OwnerNetworkName
  by unfold_locales (auto simp: managerCmp_def strings_Compare_less strings_Compare_eq)

subsection \<open>Operations\<close>

definition getPullPolicy :: "string \<Rightarrow> string" where
  "getPullPolicy pp =
     (if pp = ''Always'' then ''Always''
      else if pp = ''Never'' then ''Never''
      else if pp = ''IfNotPresent'' then ''IfNotPresent''
      else ''IfNotPresent'')"

text \<open>The environment that the manager container is started with.\<close>

definition manager_env :: "ManagerSet \<Rightarrow> Envs \<Rightarrow> EnvVar list" where
  "manager_env mgr e =
     [\<lparr> ev_Name = ''VLAN_ID'', ev_Value = strconv_FormatInt (sint (ms_VlanID mgr)) \<rparr>,
      \<lparr> ev_Name = ''NAMESPACE'', ev_Value = env_NamespaceName e \<rparr>,
      \<lparr> ev_Name = ''LOCK_NAME'', ev_Value = LeaderElectionLeaseName @ ''-'' @ ms_OwnerNetworkName mgr \<rparr>,
      \<lparr> ev_Name = ''OWNER_NETWORK'', ev_Value = ms_OwnerNetworkName mgr \<rparr>,
      \<lparr> ev_Name = ''POOLS'', ev_Value = marshal_gateways (ms_Gateways mgr) \<rparr>,
      \<lparr> ev_Name = ''GATEWAYS'', ev_Value = marshal_gateways (ms_Gateways mgr) \<rparr>]"

definition manager_container :: "ManagerSet \<Rightarrow> Envs \<Rightarrow> Container" where
  "manager_container mgr e =
     \<lparr> ct_Name = ManagerContainerName, ct_Image = env_VlanManagerImage e,
       ct_ImagePullPolicy = getPullPolicy (env_VlanManagerPullPolicy e), ct_Command = [],
       ct_Env = manager_env mgr e,
       ct_Ports = [\<lparr> cp_Name = ManagerPodAPIPortName, cp_Protocol = ''TCP'',
                     cp_ContainerPort = ManagerPodAPIPort \<rparr>],
       ct_Capabilities = [''NET_ADMIN'', ''NET_RAW''] \<rparr>"

definition ip_monitor_container :: Container where
  "ip_monitor_container =
     \<lparr> ct_Name = ManagerIPMonitorContainerName, ct_Image = ''alpine:latest'',
       ct_ImagePullPolicy = ''IfNotPresent'',
       ct_Command = [''sh'', ''-c'', ''apk add --no-cache iproute2 && /sbin/ip monitor all''],
       ct_Env = [], ct_Ports = [], ct_Capabilities = [''NET_ADMIN'', ''NET_RAW''] \<rparr>"

text \<open>
  \<open>json.Marshal\<close> cannot fail on gateways (strings, booleans and pointers to strings), so the two
  error returns of the code are never taken; the result keeps the code's error type.
\<close>

definition daemonSetFromManager :: "ManagerSet \<Rightarrow> Envs \<Rightarrow> go_error + DaemonSet" where
  "daemonSetFromManager mgr e =
     (let labels = [(ManagerSetLabelKey, ms_OwnerNetworkName mgr)];
          containers = [manager_container mgr e] @
            (if env_IsManagerIPMonitoringEnabled e then [ip_monitor_container] else []);
          podspec = zero_podspec\<lparr>ps_ServiceAccountName := env_ServiceAccountName e,
            ps_HostPID := True, ps_Containers := containers,
            ps_Affinity := ms_ManagerAffinity mgr\<rparr>
      in Inr \<lparr> ds_Meta = zero_meta\<lparr>meta_Name := strings_Join [ManagerSetNamePrefix, ms_OwnerNetworkName mgr] ''-'',
                 meta_Namespace := env_NamespaceName e, meta_Labels := labels\<rparr>,
               ds_Selector = labels, ds_UpdateStrategy = ''OnDelete'', ds_TemplateLabels = labels,
               ds_PodSpec = podspec, ds_Status = zero_daemonset_status \<rparr>)"

definition serviceForManagerSet :: "ManagerSet \<Rightarrow> string \<Rightarrow> Service" where
  "serviceForManagerSet d namespace =
     \<lparr> svc_Meta = zero_meta\<lparr>meta_Name := strings_Join [ms_OwnerNetworkName d, ServiceNameSuffix] ''-'',
         meta_Namespace := namespace\<rparr>,
       svc_Selector = [(ManagerSetLabelKey, ms_OwnerNetworkName d)],
       svc_InternalTrafficPolicy = Some ''Local'',
       svc_Ports = [\<lparr> svp_Name = ''manager'', svp_Protocol = ''TCP'', svp_Port = 61410,
                      svp_TargetPort = 61410 \<rparr>] \<rparr>"

text \<open>The loop over the environment of the first container; a failed \<open>ParseInt\<close> still assigns.\<close>

fun manager_env_loop :: "EnvVar list \<Rightarrow> int64 \<Rightarrow> Gateway slice \<Rightarrow> go_error + int64 \<times> Gateway slice" where
  "manager_env_loop [] vlanID gateways = Inr (vlanID, gateways)"
| "manager_env_loop (e # es) vlanID gateways =
     (if ev_Name e = ''VLAN_ID'' then
        manager_env_loop es (word_of_int (fst (strconv_ParseInt (ev_Value e) 64))) gateways
      else if ev_Name e = ''GATEWAYS'' then
        (case unmarshal_gateways (ev_Value e) of
           None \<Rightarrow> Inl (Foreign ''json: cannot unmarshal'')
         | Some gws \<Rightarrow> manager_env_loop es vlanID gws)
      else manager_env_loop es vlanID gateways)"

definition label_value :: "string gomap \<Rightarrow> string \<Rightarrow> string" where
  "label_value m k = (case map_lookup m k of None \<Rightarrow> [] | Some v \<Rightarrow> v)"

definition managerFromSet :: "DaemonSet \<Rightarrow> ManagerSet outcome" where
  "managerFromSet d =
     (case ps_Containers (ds_PodSpec d) of
        [] \<Rightarrow> Panics index_panic
      | c # cs \<Rightarrow>
          (case manager_env_loop (ct_Env c) (-1) (Some []) of
             Inl err \<Rightarrow> Err err
           | Inr (vlanID, gateways) \<Rightarrow>
               Ok \<lparr> ms_OwnerNetworkName = label_value (meta_Labels (ds_Meta d)) ManagerSetLabelKey,
                    ms_VlanID = vlanID, ms_Gateways = gateways,
                    ms_ManagerAffinity = ps_Affinity (ds_PodSpec d),
                    ms_Mappings = Some [] \<rparr>))"

definition createDesiredManagerSet :: "VlanNetwork \<Rightarrow> ManagerSet" where
  "createDesiredManagerSet network =
     \<lparr> ms_OwnerNetworkName = net_Name network,
       ms_VlanID = sp_VlanID (net_Spec network),
       ms_Gateways = sp_Gateways (net_Spec network),
       ms_ManagerAffinity = sp_ManagerAffinity (net_Spec network),
       ms_Mappings = sp_Mappings (net_Spec network) \<rparr>"

subsection \<open>Properties\<close>

lemma manager_env_loop_manager_env:
  assumes "wf_slice ascii_gateway (ms_Gateways m)"
  shows "manager_env_loop (manager_env m e) v g = Inr (ms_VlanID m, ms_Gateways m)"
  using assms by (simp add: manager_env_def ParseInt_FormatInt_word unmarshal_marshal_gateways)

lemma managerFromSet_daemonSet:
  assumes "wf_slice ascii_gateway (ms_Gateways m)" and "daemonSetFromManager m e = Inr d"
  shows "managerFromSet d = Ok (m\<lparr>ms_Mappings := Some []\<rparr>)"
  using manager_env_loop_manager_env [OF assms(1)] assms(2)
  by (auto simp: daemonSetFromManager_def managerFromSet_def Let_def manager_container_def
      label_value_def map_lookup_Cons)

text \<open>
  C40: reading a manager set back from the daemon set that was made from it gives the same
  network name, VLAN id, gateways (nil and empty told apart) and affinity, for every VLAN id, every
  environment and all gateways with ASCII text; only the interface mappings are not carried by a
  daemon set and come back as the empty list.
\<close>

theorem manager_set_roundtrip:
  assumes "wf_slice ascii_gateway (ms_Gateways m)"
  shows "\<exists>d. daemonSetFromManager m e = Inr d \<and> managerFromSet d = Ok (m\<lparr>ms_Mappings := Some []\<rparr>)"
  using managerFromSet_daemonSet [OF assms] by (auto simp: daemonSetFromManager_def Let_def)

definition sample_route :: Route where
  "sample_route = \<lparr> rt_Destination = ''10.10.10.10/24'', rt_Via = Some ''10.0.1.1'',
     rt_Source = ''none'', rt_ScopeLink = False \<rparr>"

definition sample_manager :: ManagerSet where
  "sample_manager = \<lparr> ms_OwnerNetworkName = ''net1'', ms_VlanID = 110,
     ms_Gateways = Some [\<lparr> gw_Address = ''10.0.1.1/24'', gw_Routes = Some [sample_route] \<rparr>],
     ms_ManagerAffinity = None, ms_Mappings = None \<rparr>"

definition sample_envs :: Envs where
  "sample_envs = \<lparr> env_NamespaceName = ''vlanman-system'', env_VlanManagerImage = ''vlan-manager:0.1.8'',
     env_VlanManagerPullPolicy = ''IfNotPresent'', env_IsTest = False,
     env_WaitForPodTimeoutSeconds = 60, env_IsManagerIPMonitoringEnabled = True,
     env_IsMonitoringEnabled = False, env_MonitoringScrapeInterval = ''5s'',
     env_MonitoringReleaseName = ''kube-prometheus-stack'', env_TTL = Some 300,
     env_InterfacePodImage = ''vlan-interface:0.1.8'', env_InterfacePodPullPolicy = ''IfNotPresent'',
     env_WorkerInitImage = ''vlan-worker:0.1.8'', env_WorkerInitPullPolicy = ''IfNotPresent'',
     env_ServiceAccountName = ''vlanman-service-account'' \<rparr>"

lemma sample_gateways_ascii: "wf_slice ascii_gateway (ms_Gateways sample_manager)"
  by (simp add: wf_slice_def ascii_gateway_def ascii_route_def sample_manager_def sample_route_def)

theorem manager_set_roundtrip_witness:
  "\<exists>d. daemonSetFromManager sample_manager sample_envs = Inr d \<and>
       managerFromSet d = Ok (sample_manager\<lparr>ms_Mappings := Some []\<rparr>)"
  by (rule manager_set_roundtrip [OF sample_gateways_ascii])

end
