(* ===== verification/InterfaceJobs.thy ===== *)
theory InterfaceJobs
  imports ManagerSets
begin

text \<open>
  \<open>internal/controller/interface.go\<close>: the job that creates the VLAN interface on the node of a
  manager pod.
\<close>

text \<open>The first mapping for the node decides the parent interface; none means an empty name.\<close>

fun mapped_interface :: "IPMapping list \<Rightarrow> string \<Rightarrow> string" where
  "mapped_interface [] node = []"
| "mapped_interface (m # ms) node =
     (if im_NodeName m = node then im_Interface m else mapped_interface ms node)"

definition job_name :: "string \<Rightarrow> string \<Rightarrow> bool \<Rightarrow> string" where
  "job_name networkName node fixup =
     strings_Join ([JobNamePrefix, networkName, node] @ (if fixup then [''fixup''] else [])) ''-''"

definition interfaceFromDaemon ::
    "Pod \<Rightarrow> int64 \<Rightarrow> int64 \<Rightarrow> int option \<Rightarrow> string \<Rightarrow> string \<Rightarrow> string \<Rightarrow> IPMapping slice \<Rightarrow> bool \<Rightarrow> Job" where
  "interfaceFromDaemon p pid vid ttl img networkName pullPolicy mappings fixup =
     (let node = ps_NodeName (pod_Spec p);
          intrface = mapped_interface (elems mappings) node;
          container = \<lparr> ct_Name = ''create-vlan'', ct_Image = img, ct_ImagePullPolicy = pullPolicy,
            ct_Command = [],
            ct_Env = [\<lparr> ev_Name = ''PID'', ev_Value = strconv_FormatInt (sint pid) \<rparr>,
                      \<lparr> ev_Name = ''ID'', ev_Value = strconv_FormatInt (sint vid) \<rparr>,
                      \<lparr> ev_Name = ''INTERFACE'', ev_Value = intrface \<rparr>],
            ct_Ports = [], ct_Capabilities = [''NET_ADMIN'', ''NET_RAW''] \<rparr>
      in \<lparr> job_Meta = zero_meta\<lparr>meta_Name := job_name networkName node fixup,
             meta_Namespace := pod_Namespace p\<rparr>,
           job_TTLSecondsAfterFinished = ttl,
           job_PodSpec = zero_podspec\<lparr>ps_TerminationGracePeriodSeconds := Some 1,
             ps_HostNetwork := True, ps_HostPID := True,
             ps_NodeSelector := [(''kubernetes.io/hostname'', node)],
             ps_Containers := [container], ps_RestartPolicy := ''Never''\<rparr>,
           job_Active = 0 \<rparr>)"

lemma mapped_interface_spec:
  "mapped_interface ms node =
     (case find (\<lambda>m. im_NodeName m = node) ms of None \<Rightarrow> [] | Some m \<Rightarrow> im_Interface m)"
  by (induction ms) auto

text \<open>The value of an environment variable of a container, as the started process sees it.\<close>

definition container_env :: "Container \<Rightarrow> string \<Rightarrow> string" where
  "container_env c k = (case find (\<lambda>e. ev_Name e = k) (ct_Env c) of None \<Rightarrow> [] | Some e \<Rightarrow> ev_Value e)"

text \<open>
  The job for a manager pod runs one container, pinned to the pod's node and in the host's
  network and process namespaces; the process in it reads back exactly the pid and the VLAN id (both
  parse to the given 64-bit values), and as parent interface the one of the first mapping for that
  node, or the empty string, which makes it look for the default route.
\<close>

theorem interface_job_faithful:
  "\<exists>c. ps_Containers (job_PodSpec (interfaceFromDaemon p pid vid ttl img net pp mappings fixup)) = [c] \<and>
     ps_NodeSelector (job_PodSpec (interfaceFromDaemon p pid vid ttl img net pp mappings fixup))
       = [(''kubernetes.io/hostname'', ps_NodeName (pod_Spec p))] \<and>
     ps_HostNetwork (job_PodSpec (interfaceFromDaemon p pid vid ttl img net pp mappings fixup)) \<and>
     ps_HostPID (job_PodSpec (interfaceFromDaemon p pid vid ttl img net pp mappings fixup)) \<and>
     strconv_ParseInt (container_env c ''PID'') 64 = (sint pid, None) \<and>
     strconv_ParseInt (container_env c ''ID'') 64 = (sint vid, None) \<and>
     container_env c ''INTERFACE'' =
       (case find (\<lambda>m. im_NodeName m = ps_NodeName (pod_Spec p)) (elems mappings) of
          None \<Rightarrow> [] | Some m \<Rightarrow> im_Interface m)"
  by (simp add: interfaceFromDaemon_def Let_def container_env_def ParseInt_FormatInt_word
      mapped_interface_spec)

text \<open>A repair job never has the name of the first job for the same node.\<close>

lemma job_name_fixup_neq: "job_name net node True \<noteq> job_name net node False"
  by (simp add: job_name_def)

end
