(* ===== verification/GoTime.thy ===== *)
theory GoTime
  imports GoStrings
begin

text \<open>
  Go's package \<open>time\<close> as far as the program uses it: instants and durations in nanoseconds, and
  \<open>Format\<close> and \<open>Parse\<close> with \<open>time.Layout\<close>, which is how a pending address is time-stamped in a
  status and read back. The layout has no fraction of a second and a two-digit year, so the round
  trip cuts to the second and holds from 1969 to 2068.
\<close>

definition Second :: int where
  "Second = 1000000000"

definition Layout :: string where
  "Layout = ''01/02 03:04:05PM '' @ [CHR 0x27] @ ''06 -0700''"

text \<open>An instant, in nanoseconds since 1970 UTC, and the offset of its zone in seconds east.\<close>

record time =
  t_nanos :: int
  t_offset :: int

definition time_After :: "int \<Rightarrow> int \<Rightarrow> bool" where
  "time_After t u \<longleftrightarrow> u < t"

subsection \<open>Dates\<close>

definition is_leap :: "int \<Rightarrow> bool" where
  "is_leap y \<longleftrightarrow> y mod 4 = 0 \<and> (y mod 100 \<noteq> 0 \<or> y mod 400 = 0)"

definition month_lengths :: "int \<Rightarrow> int list" where
  "month_lengths y = [31, if is_leap y then 29 else 28, 31, 30, 31, 30, 31, 31, 30, 31, 30, 31]"

text \<open>Days from the first of January of year 1 to that of year \<open>y\<close>; the epoch is day 719162.\<close>

definition days_before_year :: "int \<Rightarrow> int" where
  "days_before_year y = 365 * (y - 1) + (y - 1) div 4 - (y - 1) div 100 + (y - 1) div 400"

definition epoch_day :: int where
  "epoch_day = 719162"

text \<open>The year and the day of the year of a day, by cycles of 400, 100, 4 and 1 years.\<close>

definition split_year :: "int \<Rightarrow> int \<times> int" where
  "split_year d =
     (let n = d div 146097; d1 = d mod 146097;
          c = d1 div 36524 - d1 div 36524 div 4; d2 = d1 - 36524 * c;
          q = d2 div 1461; d3 = d2 - 1461 * q;
          y = d3 div 365 - d3 div 365 div 4; d4 = d3 - 365 * y
      in (400 * n + 100 * c + 4 * q + y + 1, d4))"

fun split_month :: "int list \<Rightarrow> nat \<Rightarrow> int \<Rightarrow> nat \<times> int" where
  "split_month [] m d = (m, d)"
| "split_month (l # ls) m d = (if d < l then (m, d) else split_month ls (m + 1) (d - l))"

definition civil_of_day :: "int \<Rightarrow> int \<times> int \<times> int" where
  "civil_of_day d =
     (let (y, yd) = split_year d; (m, md) = split_month (month_lengths y) 0 yd
      in (y, int m + 1, md + 1))"

definition day_of_civil :: "int \<Rightarrow> int \<Rightarrow> int \<Rightarrow> int" where
  "day_of_civil y m d =
     days_before_year y + sum_list (take (nat (m - 1)) (month_lengths y)) + (d - 1)"

definition daysIn :: "int \<Rightarrow> int \<Rightarrow> int" where
  "daysIn m y = month_lengths y ! nat (m - 1)"

subsection \<open>Format\<close>

definition pad2 :: "int \<Rightarrow> string" where
  "pad2 n = [digit_char (nat n div 10), digit_char (nat n mod 10)]"

definition zone_text :: "int \<Rightarrow> string" where
  "zone_text off =
     (let z = \<bar>off\<bar> div 60
      in (if off \<le> - 60 then CHR ''-'' else CHR ''+'') # pad2 (z div 60) @ pad2 (z mod 60))"

definition time_Format :: "time \<Rightarrow> string" where
  "time_Format t =
     (let secs = t_nanos t div Second + t_offset t;
          sod = secs mod 86400;
          (y, m, d) = civil_of_day (secs div 86400 + epoch_day);
          h = sod div 3600;
          h12 = (if h mod 12 = 0 then 12 else h mod 12)
      in pad2 m @ ''/'' @ pad2 d @ '' '' @ pad2 h12 @ '':'' @ pad2 (sod div 60 mod 60) @ '':'' @
         pad2 (sod mod 60) @ (if 12 \<le> h then ''PM'' else ''AM'') @ '' '' @ [CHR 0x27] @
         pad2 (if y < 0 then 0 else y mod 100) @ '' '' @ zone_text (t_offset t))"

subsection \<open>Parse\<close>

text \<open>A step of the parser: a value and the rest of the text, or an error.\<close>

type_synonym 'a step = "string \<Rightarrow> ('a \<times> string) option"

definition get2 :: "int step" where
  "get2 s =
     (case s of
        a # b # r \<Rightarrow> if is_digit a \<and> is_digit b
                     then Some (int (digit_val a * 10 + digit_val b), r) else None
      | _ \<Rightarrow> None)"

definition get2_range :: "int \<Rightarrow> int \<Rightarrow> int step" where
  "get2_range lo hi s =
     (case get2 s of None \<Rightarrow> None
      | Some (n, r) \<Rightarrow> if lo \<le> n \<and> n \<le> hi then Some (n, r) else None)"

text \<open>\<open>skip\<close>: a space of the layout matches any number of spaces.\<close>

definition skip_char :: "char \<Rightarrow> unit step" where
  "skip_char c s =
     (case s of
        x # r \<Rightarrow> if x = c then Some ((), r) else None
      | [] \<Rightarrow> None)"

definition skip_space :: "unit step" where
  "skip_space s =
     (if s \<noteq> [] \<and> hd s \<noteq> CHR '' '' then None else Some ((), dropWhile (\<lambda>c. c = CHR '' '') s))"

text \<open>A fraction of a second is taken although the layout has none.\<close>

definition get_fraction :: "int step" where
  "get_fraction s =
     (case s of
        c # d # r \<Rightarrow>
          if (c = CHR ''.'' \<or> c = CHR '','') \<and> is_digit d then
            (let ds = take 9 (takeWhile is_digit (d # r))
             in Some (int (dec_value 0 ds) * 10 ^ (9 - length ds), dropWhile is_digit (d # r)))
          else Some (0, s)
      | _ \<Rightarrow> Some (0, s))"

definition get_pm :: "bool step" where
  "get_pm s =
     (if take 2 s = ''PM'' then Some (True, drop 2 s)
      else if take 2 s = ''AM'' then Some (False, drop 2 s) else None)"

text \<open>The year is read by \<open>atoi\<close>, which takes a sign.\<close>

definition get_year :: "int step" where
  "get_year s =
     (case s of
        a # b # r \<Rightarrow>
          if is_digit a \<and> is_digit b then
            (let y = int (digit_val a * 10 + digit_val b)
             in Some (if 69 \<le> y then y + 1900 else y + 2000, r))
          else if (a = CHR ''-'' \<or> a = CHR ''+'') \<and> is_digit b then
            Some ((if a = CHR ''-'' then - int (digit_val b) else int (digit_val b)) + 2000, r)
          else None
      | _ \<Rightarrow> None)"

definition get_zone :: "int step" where
  "get_zone s =
     (case s of
        [] \<Rightarrow> None
      | sign # r \<Rightarrow>
          (case get2_range 0 24 r of None \<Rightarrow> None
           | Some (hr, r1) \<Rightarrow>
               (case get2_range 0 60 r1 of None \<Rightarrow> None
                | Some (mm, r2) \<Rightarrow>
                    if sign = CHR ''+'' then Some ((hr * 60 + mm) * 60, r2)
                    else if sign = CHR ''-'' then Some (- ((hr * 60 + mm) * 60), r2)
                    else None)))"

text \<open>The end of \<open>Parse\<close>: the hour on the 24-hour clock, the day checked against its month.\<close>

definition make_time :: "int \<Rightarrow> int \<Rightarrow> int \<Rightarrow> int \<Rightarrow> int \<Rightarrow> int \<Rightarrow> int \<Rightarrow> bool \<Rightarrow> int \<Rightarrow> time option" where
  "make_time y m d h12 mi s ns pm off =
     (let h = (if pm \<and> h12 < 12 then h12 + 12 else if \<not> pm \<and> h12 = 12 then 0 else h12)
      in if d < 1 \<or> daysIn m y < d then None
         else Some \<lparr> t_nanos = ((day_of_civil y m d - epoch_day) * 86400 + h * 3600 + mi * 60 + s - off) * Second + ns,
                     t_offset = off \<rparr>)"

definition time_Parse :: "string \<Rightarrow> time option" where
  "time_Parse v0 = do {
     (m, v1) \<leftarrow> get2_range 1 12 v0;
     (_, v2) \<leftarrow> skip_char (CHR ''/'') v1;
     (d, v3) \<leftarrow> get2 v2;
     (_, v4) \<leftarrow> skip_space v3;
     (h, v5) \<leftarrow> get2_range 0 12 v4;
     (_, v6) \<leftarrow> skip_char (CHR '':'') v5;
     (mi, v7) \<leftarrow> get2_range 0 59 v6;
     (_, v8) \<leftarrow> skip_char (CHR '':'') v7;
     (s, v9) \<leftarrow> get2_range 0 59 v8;
     (ns, v10) \<leftarrow> get_fraction v9;
     (pm, v11) \<leftarrow> get_pm v10;
     (_, v12) \<leftarrow> skip_space v11;
     (_, v13) \<leftarrow> skip_char (CHR 0x27) v12;
     (y, v14) \<leftarrow> get_year v13;
     (_, v15) \<leftarrow> skip_space v14;
     (off, v16) \<leftarrow> get_zone v15;
     (if v16 = [] then make_time y m d h mi s ns pm off else None)
   }"

subsection \<open>Dates back and forth\<close>

lemma clamp4:
  fixes x m :: int
  assumes "0 < m" and "0 \<le> x" and "x \<le> 4 * m"
  defines "k \<equiv> x div m - x div m div 4"
  shows "0 \<le> k" and "k \<le> 3" and "0 \<le> x - m * k" and "x - m * k \<le> m"
    and "x - m * k = m \<Longrightarrow> k = 3"
proof -
  consider "x = 4 * m" | "x < 4 * m" using assms(3) by linarith
  then have "0 \<le> k \<and> k \<le> 3 \<and> 0 \<le> x - m * k \<and> x - m * k \<le> m \<and> (x - m * k = m \<longrightarrow> k = 3)"
  proof cases
    case 1
    then show ?thesis using assms(1) by (simp add: k_def)
  next
    case 2
    have "x div m < 4"
    proof (rule ccontr)
      assume "\<not> x div m < 4"
      then have "m * 4 \<le> m * (x div m)" using assms(1) by (intro mult_left_mono) auto
      also have "\<dots> \<le> x" using assms(1) by (metis add_increasing2 mult_div_mod_eq order_refl pos_mod_sign)
      finally show False using 2 by simp
    qed
    moreover have "0 \<le> x div m" using assms(1,2) by (simp add: pos_imp_zdiv_nonneg_iff)
    ultimately have k: "k = x div m" "0 \<le> k" "k \<le> 3" by (simp_all add: k_def)
    have "x - m * k = x mod m" by (simp add: k(1) minus_mult_div_eq_mod)
    moreover have "0 \<le> x mod m" "x mod m < m" using assms(1) by simp_all
    ultimately show ?thesis using k by simp
  qed
  then show "0 \<le> k" "k \<le> 3" "0 \<le> x - m * k" "x - m * k \<le> m" "x - m * k = m \<Longrightarrow> k = 3"
    by blast+
qed

lemma split_year_parts:
  assumes "split_year d = (y, yd)"
  shows "days_before_year y + yd = d" and "0 \<le> yd" and "yd < 365 + (if is_leap y then 1 else 0)"
proof -
  define n where "n = d div 146097"
  define d1 where "d1 = d mod 146097"
  define c where "c = d1 div 36524 - d1 div 36524 div 4"
  define d2 where "d2 = d1 - 36524 * c"
  define q where "q = d2 div 1461"
  define d3 where "d3 = d2 - 1461 * q"
  define z where "z = d3 div 365 - d3 div 365 div 4"
  have d: "d = 146097 * n + d1" "0 \<le> d1" "d1 \<le> 4 * 36524"
    by (simp_all add: n_def d1_def)
  have c': "0 \<le> c" "c \<le> 3" "0 \<le> d2" "d2 \<le> 36524" "d2 = 36524 \<longrightarrow> c = 3"
    using clamp4 [where m = 36524 and x = d1, folded c_def, folded d2_def, OF _ d(2,3)] by auto
  have q: "0 \<le> q" "q \<le> 24" "0 \<le> d3" "d3 \<le> 1460"
    using c'(3,4) by (simp_all add: q_def d3_def)
  have q24: "q = 24 \<and> d3 = 1460 \<longrightarrow> d2 = 36524" by (simp add: d3_def)
  have z: "0 \<le> z" "z \<le> 3" "0 \<le> d3 - 365 * z" "d3 - 365 * z \<le> 365" "d3 - 365 * z = 365 \<longrightarrow> z = 3"
    using clamp4 [where m = 365 and x = d3, folded z_def, OF _ q(3)] q(4) by auto
  have y: "y = 400 * n + 100 * c + 4 * q + z + 1" "yd = d3 - 365 * z"
  proof -
    have "split_year d = (400 * n + 100 * c + 4 * q + z + 1, d3 - 365 * z)"
      unfolding split_year_def Let_def n_def d1_def c_def d2_def q_def d3_def z_def by (rule refl)
    with assms show "y = 400 * n + 100 * c + 4 * q + z + 1" "yd = d3 - 365 * z" by (simp_all only: prod.inject)
  qed
  have m4: "(y - 1) div 4 = 100 * n + 25 * c + q"
    by (rule int_div_pos_eq [of _ _ _ z]) (use y(1) z(1,2) in auto)
  have m100: "(y - 1) div 100 = 4 * n + c"
    by (rule int_div_pos_eq [of _ _ _ "4 * q + z"]) (use y(1) z(1,2) q(1,2) in auto)
  have m400: "(y - 1) div 400 = n"
    by (rule int_div_pos_eq [of _ _ _ "100 * c + 4 * q + z"]) (use y(1) z(1,2) q(1,2) c'(1,2) in auto)
  show "days_before_year y + yd = d"
    unfolding days_before_year_def m4 m100 m400 using y d(1) by (simp add: d3_def d2_def)
  show "0 \<le> yd" using y(2) z(3) by simp
  show "yd < 365 + (if is_leap y then 1 else 0)"
  proof (cases "yd = 365")
    case True
    then have z3: "z = 3" "d3 = 1460" using y(2) z(5) by auto
    have "is_leap y"
    proof (cases "q = 24")
      case True
      then have "c = 3" using q24 z3 c'(5) by blast
      then have "y = 400 * (n + 1)" using y(1) z3 True by simp
      then show ?thesis by (simp add: is_leap_def)
    next
      case False
      then have q23: "q \<le> 23" using q(2) by linarith
      have "y = 4 * (100 * n + 25 * c + q + 1)" using y(1) z3 by simp
      then have "y mod 4 = 0" by simp
      moreover have "y mod 100 = 4 * q + 4"
        by (rule int_mod_pos_eq [of _ _ "4 * n + c"]) (use y(1) z3(1) q(1) q23 in simp_all)
      ultimately show ?thesis using q(1) by (simp add: is_leap_def)
    qed
    with True show ?thesis by simp
  next
    case False
    then show ?thesis using y(2) z(4) by simp
  qed
qed

lemma div_pred:
  fixes m y :: int
  assumes "0 < m"
  shows "y div m = (y - 1) div m + (if y mod m = 0 then 1 else 0)"
proof (cases "y mod m = 0")
  case True
  then have "y - 1 = m * (y div m - 1) + (m - 1)"
    using mult_div_mod_eq [of m y] by (simp add: algebra_simps)
  then have "(y - 1) div m = y div m - 1" by (rule int_div_pos_eq) (use assms in linarith)+
  with True show ?thesis by simp
next
  case False
  have "y - 1 = m * (y div m) + (y mod m - 1)" by simp
  moreover have "0 \<le> y mod m - 1" "y mod m - 1 < m"
    using False assms pos_mod_sign [of m y] pos_mod_bound [of m y] by linarith+
  ultimately have "(y - 1) div m = y div m" by (intro int_div_pos_eq)
  with False show ?thesis by simp
qed

lemma days_before_year_step:
  "days_before_year (y + 1) = days_before_year y + 365 + (if is_leap y then 1 else 0)"
proof -
  define A B C where abc: "A \<longleftrightarrow> y mod 4 = 0" "B \<longleftrightarrow> y mod 100 = 0" "C \<longleftrightarrow> y mod 400 = 0"
  have "B \<Longrightarrow> A" unfolding abc by presburger
  moreover have "C \<Longrightarrow> B" unfolding abc by presburger
  moreover have "is_leap y \<longleftrightarrow> A \<and> (\<not> B \<or> C)" by (simp only: is_leap_def abc)
  ultimately have leap: "(if is_leap y then 1 else 0 :: int) = (if A then 1 else 0) - (if B then 1 else 0) +
      (if C then 1 else 0)"
    by (cases A; cases B; cases C) simp_all
  have a: "days_before_year (y + 1) = 365 * y + y div 4 - y div 100 + y div 400"
    by (simp add: days_before_year_def)
  have b: "days_before_year y = 365 * (y - 1) + (y - 1) div 4 - (y - 1) div 100 + (y - 1) div 400"
    by (simp only: days_before_year_def)
  have "y div 4 = (y - 1) div 4 + (if A then 1 else 0)"
    "y div 100 = (y - 1) div 100 + (if B then 1 else 0)"
    "y div 400 = (y - 1) div 400 + (if C then 1 else 0)"
    unfolding abc by (rule div_pred, simp)+
  moreover have "365 * v + a' - b' + c' = 365 * (v - 1) + a0 - b0 + c0 + 365 + (i - j + k)"
    if "a' = a0 + i" "b' = b0 + j" "c' = c0 + k" for v a' b' c' a0 b0 c0 i j k :: int
    using that by simp
  ultimately show ?thesis unfolding a b leap by blast
qed

lemma days_before_year_mono: "a \<le> b \<Longrightarrow> days_before_year a \<le> days_before_year b"
proof (induction b rule: int_ge_induct)
  case (step b)
  then show ?case using days_before_year_step [of b] by auto
qed simp

lemma split_month_parts:
  assumes "split_month ls k d = (m, r)" and "0 \<le> d" and "d < sum_list ls" and "\<forall>l \<in> set ls. 0 < l"
  shows "k \<le> m" and "m < k + length ls" and "sum_list (take (m - k) ls) + r = d"
    and "0 \<le> r" and "r < ls ! (m - k)"
proof -
  have "k \<le> m \<and> m < k + length ls \<and> sum_list (take (m - k) ls) + r = d \<and> 0 \<le> r \<and> r < ls ! (m - k)"
    using assms
  proof (induction ls k d rule: split_month.induct)
    case (1 k d)
    then show ?case by simp
  next
    case (2 l ls k d)
    show ?case
    proof (cases "d < l")
      case True
      with 2 show ?thesis by simp
    next
      case False
      with 2 have "k + 1 \<le> m \<and> m < k + 1 + length ls \<and> sum_list (take (m - (k + 1)) ls) + r = d - l \<and>
          0 \<le> r \<and> r < ls ! (m - (k + 1))" by simp
      moreover from this have "m - k = Suc (m - (k + 1))" by linarith
      ultimately show ?thesis by simp
    qed
  qed
  then show "k \<le> m" "m < k + length ls" "sum_list (take (m - k) ls) + r = d" "0 \<le> r" "r < ls ! (m - k)"
    by blast+
qed

lemma month_lengths_pos: "\<forall>l \<in> set (month_lengths y). 28 \<le> l \<and> l \<le> 31"
  by (simp add: month_lengths_def)

lemma month_lengths_sum: "sum_list (month_lengths y) = 365 + (if is_leap y then 1 else 0)"
  by (simp add: month_lengths_def)

lemma month_lengths_length: "length (month_lengths y) = 12"
  by (simp add: month_lengths_def)

text \<open>The date of a day, and the way back.\<close>

lemma civil_of_day_props:
  assumes "civil_of_day n = (y, m, d)"
  shows "day_of_civil y m d = n" and "1 \<le> m" and "m \<le> 12" and "1 \<le> d" and "d \<le> daysIn m y" and "d \<le> 31"
    and "days_before_year y \<le> n" and "n < days_before_year (y + 1)"
proof -
  obtain yd where sy: "split_year n = (y, yd)"
    using assms by (cases "split_year n") (auto simp: civil_of_day_def Let_def split: prod.splits)
  obtain k r where sm: "split_month (month_lengths y) 0 yd = (k, r)" by (metis prod.collapse)
  have md: "m = int k + 1" "d = r + 1" using assms sy sm by (auto simp: civil_of_day_def)
  note Y = split_year_parts [OF sy]
  have "yd < sum_list (month_lengths y)" using Y(3) by (simp add: month_lengths_sum)
  moreover have "\<forall>l \<in> set (month_lengths y). 0 < l" using month_lengths_pos by fastforce
  ultimately have M: "k < 12" "sum_list (take k (month_lengths y)) + r = yd" "0 \<le> r" "r < month_lengths y ! k"
    using split_month_parts [OF sm Y(2)] by (auto simp: month_lengths_length)
  have k: "nat (m - 1) = k" using md(1) by simp
  show "day_of_civil y m d = n" using Y(1) M(2) md(2) by (simp add: day_of_civil_def k)
  show "1 \<le> m" "m \<le> 12" "1 \<le> d" using md M by simp_all
  show "d \<le> daysIn m y" using md(2) M(4) by (simp add: daysIn_def k)
  have "month_lengths y ! k \<in> set (month_lengths y)" using M(1) by (simp add: month_lengths_length)
  then have "month_lengths y ! k \<le> 31" using month_lengths_pos by blast
  then show "d \<le> 31" using md(2) M(4) by simp
  show "days_before_year y \<le> n" using Y(1,2) by simp
  have "days_before_year (y + 1) = days_before_year y + 365 + (if is_leap y then 1 else 0)"
    by (simp add: days_before_year_step)
  then show "n < days_before_year (y + 1)" using Y(1,3) by simp
qed

subsection \<open>Parsing what was printed\<close>

lemma get2_pad2:
  assumes "0 \<le> n" and "n < 100"
  shows "get2 (pad2 n @ r) = Some (n, r)"
proof -
  have "nat n div 10 < 10" "nat n mod 10 < 10" using assms by simp_all
  moreover have "nat n div 10 * 10 + nat n mod 10 = nat n" by simp
  ultimately show ?thesis using assms by (simp add: get2_def pad2_def digit_char_props)
qed

lemma get2_range_pad2:
  assumes "0 \<le> n" and "n < 100" and "lo \<le> n" and "n \<le> hi"
  shows "get2_range lo hi (pad2 n @ r) = Some (n, r)"
  using assms by (simp add: get2_range_def get2_pad2)

lemma digit_char_not_space: "d < 10 \<Longrightarrow> digit_char d \<noteq> CHR '' ''"
  using digit_char_props(1) [of d] by (auto simp: is_digit_def)

lemma pad2_digit: "nat n div 10 < 10 \<Longrightarrow> hd (pad2 n) \<noteq> CHR '' ''"
  by (simp add: pad2_def digit_char_not_space)

lemma skip_space_pad2:
  assumes "0 \<le> n" and "n < 100"
  shows "skip_space (CHR '' '' # pad2 n @ r) = Some ((), pad2 n @ r)"
proof -
  have "nat n div 10 < 10" using assms by simp
  then show ?thesis by (simp add: skip_space_def pad2_def digit_char_not_space)
qed

lemma get_fraction_pm: "get_fraction ((if b then ''PM'' else ''AM'') @ r) = Some (0, (if b then ''PM'' else ''AM'') @ r)"
  by (simp add: get_fraction_def)

lemma get_pm_text: "get_pm ((if b then ''PM'' else ''AM'') @ r) = Some (b, r)"
  by (simp add: get_pm_def)

lemma get_year_pad2:
  assumes "1969 \<le> y" and "y \<le> 2068"
  shows "get_year (pad2 (y mod 100) @ r) = Some (y, r)"
proof -
  have "0 \<le> y mod 100" "y mod 100 < 100" by simp_all
  then have g: "get2 (pad2 (y mod 100) @ r) = Some (y mod 100, r)" by (rule get2_pad2)
  have "nat (y mod 100) div 10 < 10" "nat (y mod 100) mod 10 < 10" by (simp_all add: nat_less_iff div_less_iff_less_mult)
  with g have "get_year (pad2 (y mod 100) @ r) =
      Some (if 69 \<le> y mod 100 then y mod 100 + 1900 else y mod 100 + 2000, r)"
    by (simp add: get_year_def get2_def pad2_def digit_char_props Let_def)
  moreover have "(if 69 \<le> y mod 100 then y mod 100 + 1900 else y mod 100 + 2000) = y"
  proof (cases "y < 2000")
    case True
    have "y mod 100 = y - 1900"
      by (rule int_mod_pos_eq [of _ _ 19]) (use assms True in auto)
    with assms True show ?thesis by simp
  next
    case False
    have "y mod 100 = y - 2000"
      by (rule int_mod_pos_eq [of _ _ 20]) (use assms False in auto)
    with assms False show ?thesis by simp
  qed
  ultimately show ?thesis by simp
qed

lemma get_zone_text:
  assumes "off mod 60 = 0" and "\<bar>off\<bar> < 90000"
  shows "get_zone (zone_text off) = Some (off, [])"
proof -
  let ?z = "\<bar>off\<bar> div 60"
  have z: "0 \<le> ?z" "?z < 1500" using assms(2) by auto
  have h: "0 \<le> ?z div 60" "?z div 60 \<le> 24" "0 \<le> ?z mod 60" "?z mod 60 \<le> 60" using z by auto
  have "60 * ?z = \<bar>off\<bar>" using assms(1) by (metis abs_dvd_iff dvd_eq_mod_eq_0 dvd_mult_div_cancel dvd_abs_iff)
  then have e: "(?z div 60 * 60 + ?z mod 60) * 60 = \<bar>off\<bar>" by simp
  have r1: "get2_range 0 24 (pad2 (?z div 60) @ pad2 (?z mod 60)) = Some (?z div 60, pad2 (?z mod 60))"
    using h by (intro get2_range_pad2) auto
  have r2: "get2_range 0 60 (pad2 (?z mod 60) @ []) = Some (?z mod 60, [])"
    using h by (intro get2_range_pad2) auto
  have neg: "off \<le> - 60 \<longleftrightarrow> off < 0" using assms(1) by presburger
  have g: "get_zone (sg # pad2 (?z div 60) @ pad2 (?z mod 60)) =
      (if sg = CHR ''+'' then Some ((?z div 60 * 60 + ?z mod 60) * 60, [])
       else if sg = CHR ''-'' then Some (- ((?z div 60 * 60 + ?z mod 60) * 60), []) else None)" for sg
    using r2 by (simp only: get_zone_def list.case r1 option.case prod.case append_Nil2)
  show ?thesis
    unfolding zone_text_def Let_def g e neg by (cases "off < 0") simp_all
qed

lemma skip_space_zone: "skip_space (CHR '' '' # zone_text off) = Some ((), zone_text off)"
  by (simp add: skip_space_def zone_text_def Let_def)

lemma skip_space_quote: "skip_space (CHR '' '' # CHR 0x27 # r) = Some ((), CHR 0x27 # r)"
  by (simp add: skip_space_def)

lemma skip_char_same: "skip_char c (c # r) = Some ((), r)"
  by (simp add: skip_char_def)

lemma parse_rendered:
  assumes "1 \<le> m" "m \<le> 12" "1 \<le> d" "d \<le> 31" "1 \<le> h" "h \<le> 12" "0 \<le> mi" "mi \<le> 59"
    "0 \<le> sec" "sec \<le> 59" "1969 \<le> y" "y \<le> 2068" "off mod 60 = 0" "\<bar>off\<bar> < 90000"
  shows "time_Parse (pad2 m @ CHR ''/'' # pad2 d @ CHR '' '' # pad2 h @ CHR '':'' # pad2 mi @ CHR '':'' #
      pad2 sec @ (if pm then ''PM'' else ''AM'') @ CHR '' '' # CHR 0x27 # pad2 (y mod 100) @ CHR '' '' #
      zone_text off) = make_time y m d h mi sec 0 pm off"
proof -
  have "get2_range 1 12 (pad2 m @ r) = Some (m, r)" "get2 (pad2 d @ r) = Some (d, r)"
    "get2_range 0 12 (pad2 h @ r) = Some (h, r)" "get2_range 0 59 (pad2 mi @ r) = Some (mi, r)"
    "get2_range 0 59 (pad2 sec @ r) = Some (sec, r)" for r
    using assms by (simp_all add: get2_range_pad2 get2_pad2)
  moreover have "skip_space (CHR '' '' # pad2 h @ r) = Some ((), pad2 h @ r)" for r
    using assms by (intro skip_space_pad2) simp_all
  moreover have "get_year (pad2 (y mod 100) @ r) = Some (y, r)" for r
    using assms by (intro get_year_pad2)
  moreover have "get_zone (zone_text off) = Some (off, [])"
    using assms by (intro get_zone_text)
  ultimately show ?thesis
    by (simp only: time_Parse_def skip_char_same skip_space_quote skip_space_zone get_fraction_pm get_pm_text
        Option.bind.simps prod.case simp_thms if_True)
qed

lemma clock_12_24:
  assumes "0 \<le> h" and "h < (24 :: int)"
  defines "g \<equiv> if h mod 12 = 0 then 12 else h mod 12"
  shows "1 \<le> g" "g \<le> 12"
    and "(if 12 \<le> h \<and> g < 12 then g + 12 else if \<not> 12 \<le> h \<and> g = 12 then 0 else g) = h"
proof -
  have "h mod 12 = (if h < 12 then h else h - 12)"
    using assms(1,2) by (auto intro: int_mod_pos_eq [of _ _ 1])
  then show "1 \<le> g" "g \<le> 12"
    "(if 12 \<le> h \<and> g < 12 then g + 12 else if \<not> 12 \<le> h \<and> g = 12 then 0 else g) = h"
    using assms(1,2) by (auto simp: g_def)
qed

lemma make_time_24:
  assumes "day_of_civil y m d = n" and "1 \<le> d" and "d \<le> daysIn m y" and "0 \<le> h" and "h < 24"
  shows "make_time y m d (if h mod 12 = 0 then 12 else h mod 12) mi sec 0 (12 \<le> h) off =
     Some \<lparr> t_nanos = ((n - epoch_day) * 86400 + h * 3600 + mi * 60 + sec - off) * Second, t_offset = off \<rparr>"
  unfolding make_time_def clock_12_24(3) [OF assms(4,5)] using assms by simp

text \<open>The times whose year on the local clock is written and read back unambiguously.\<close>

definition stampable :: "time \<Rightarrow> bool" where
  "stampable t \<longleftrightarrow> t_offset t mod 60 = 0 \<and> \<bar>t_offset t\<bar> < 90000 \<and>
     - 365 \<le> (t_nanos t div Second + t_offset t) div 86400 \<and>
     (t_nanos t div Second + t_offset t) div 86400 < 36160"

lemma time_Parse_Format:
  assumes "stampable t"
  shows "time_Parse (time_Format t) = Some \<lparr> t_nanos = t_nanos t div Second * Second, t_offset = t_offset t \<rparr>"
proof -
  let ?off = "t_offset t"
  define secs where "secs = t_nanos t div Second + ?off"
  define sod where "sod = secs mod 86400"
  define h where "h = sod div 3600"
  define mi where "mi = sod div 60 mod 60"
  define sec where "sec = sod mod 60"
  define n where "n = secs div 86400 + epoch_day"
  obtain y m d where civ: "civil_of_day n = (y, m, d)" by (metis prod_cases3)
  note C = civil_of_day_props [OF civ]
  have sod: "0 \<le> sod" "sod < 86400" by (simp_all add: sod_def)
  have h: "0 \<le> h" "h < 24" using sod unfolding h_def by linarith+
  have mi: "0 \<le> mi" "mi \<le> 59" and sec: "0 \<le> sec" "sec \<le> 59" by (simp_all add: mi_def sec_def)
  have sum: "h * 3600 + mi * 60 + sec = sod"
  proof -
    have "sod = 60 * (sod div 60) + sec" by (simp add: sec_def)
    moreover have "sod div 60 = 60 * (sod div 60 div 60) + mi" by (simp add: mi_def)
    moreover have "sod div 60 div 60 = h" by (simp add: h_def zdiv_zmult2_eq [symmetric])
    ultimately show ?thesis by simp
  qed
  have range: "- 365 \<le> secs div 86400" "secs div 86400 < 36160"
    using assms by (simp_all add: stampable_def secs_def)
  have y: "1969 \<le> y" "y \<le> 2068"
  proof -
    have "days_before_year 1969 = 718797" "days_before_year 2069 = 755322" by (simp_all add: days_before_year_def)
    then have lo: "days_before_year 1969 \<le> n" and hi: "n < days_before_year 2069"
      using range by (simp_all add: n_def epoch_day_def)
    show "1969 \<le> y"
      using C(8) lo days_before_year_mono [of "y + 1" 1969] by linarith
    show "y \<le> 2068"
      using C(7) hi days_before_year_mono [of 2069 y] by linarith
  qed
  have off: "?off mod 60 = 0" "\<bar>?off\<bar> < 90000" using assms by (simp_all add: stampable_def)
  have fmt: "time_Format t = pad2 m @ CHR ''/'' # pad2 d @ CHR '' '' #
      pad2 (if h mod 12 = 0 then 12 else h mod 12) @ CHR '':'' # pad2 mi @ CHR '':'' #
      pad2 sec @ (if 12 \<le> h then ''PM'' else ''AM'') @ CHR '' '' # CHR 0x27 # pad2 (y mod 100) @ CHR '' '' #
      zone_text ?off"
    using y(1) by (simp add: time_Format_def Let_def secs_def [symmetric] sod_def [symmetric] n_def [symmetric]
        civ h_def [symmetric] mi_def [symmetric] sec_def [symmetric])
  have "time_Parse (time_Format t) =
      make_time y m d (if h mod 12 = 0 then 12 else h mod 12) mi sec 0 (12 \<le> h) ?off"
    unfolding fmt by (rule parse_rendered [OF C(2,3,4,6) clock_12_24(1,2) [OF h] mi sec y off])
  also have "\<dots> = Some \<lparr> t_nanos = ((n - epoch_day) * 86400 + h * 3600 + mi * 60 + sec - ?off) * Second,
      t_offset = ?off \<rparr>"
    by (rule make_time_24 [OF C(1,4,5) h])
  also have "(n - epoch_day) * 86400 + h * 3600 + mi * 60 + sec - ?off = t_nanos t div Second"
  proof -
    have "(n - epoch_day) * 86400 + sod = secs"
      using mult_div_mod_eq [of 86400 secs] by (simp add: n_def sod_def mult.commute)
    with sum show ?thesis by (simp add: secs_def)
  qed
  finally show ?thesis .
qed

end
