(* ===== verification/Kube.thy ===== *)
theory Kube
  imports Api Outcome
begin

text \<open>
  The world outside the program as a parameter: a record of operations on a state \<open>'w\<close> of any
  type, with the Kubernetes API client, HTTP, the clock, sleeping and the lease lock. Nothing is
  assumed about what they return. \<open>traced\<close> wraps such a record so that every call is logged, in
  order, which lets a theorem about a handler say what it asked for, whatever it was answered.
\<close>

subsection \<open>Requests and results\<close>

record Requirement =
  req_Key :: string
  req_Operator :: string
  req_Values :: "string list"

text \<open>A \<open>nil\<close> response or a \<open>nil\<close> body is \<^verbatim>\<open>None\<close>; reading the body may fail.\<close>

record HttpResponse =
  hr_StatusCode :: int
  hr_Body :: "(go_error + string) option"

text \<open>
  \<open>k_Clock\<close> gives the readings of the clock while a loop runs over the entries of the pending
  maps: one for each pool and address, in nanoseconds since 1970.
\<close>

record 'w kube =
  k_ListNetworks :: "('w, go_error + VlanNetwork list) state"
  k_ListDaemonSets :: "Requirement list \<Rightarrow> ('w, go_error + DaemonSet list) state"
  k_ListPods :: "string \<Rightarrow> Requirement list \<Rightarrow> ('w, go_error + Pod list) state"
  k_ListNodes :: "('w, go_error + Node list) state"
  k_GetPod :: "string \<Rightarrow> string \<Rightarrow> ('w, go_error + Pod) state"
  k_GetNetwork :: "string \<Rightarrow> ('w, go_error + VlanNetwork) state"
  k_GetDaemonSet :: "string \<Rightarrow> string \<Rightarrow> ('w, go_error + DaemonSet) state"
  k_GetJob :: "string \<Rightarrow> string \<Rightarrow> ('w, go_error + Job) state"
  k_CreateDaemonSet :: "DaemonSet \<Rightarrow> ('w, go_error + DaemonSet) state"
  k_CreateService :: "Service \<Rightarrow> ('w, go_error + Service) state"
  k_CreateJob :: "Job \<Rightarrow> ('w, go_error + Job) state"
  k_CreatePodMonitor :: "PodMonitor \<Rightarrow> ('w, go_error + PodMonitor) state"
  k_UpdateDaemonSet :: "DaemonSet \<Rightarrow> ('w, go_error + DaemonSet) state"
  k_UpdateStatus :: "VlanNetwork \<Rightarrow> ('w, go_error + VlanNetwork) state"
  k_DeleteDaemonSet :: "DaemonSet \<Rightarrow> ('w, go_error + unit) state"
  k_DeleteService :: "Service \<Rightarrow> ('w, go_error + unit) state"
  k_DeleteJob :: "Job \<Rightarrow> ('w, go_error + unit) state"
  k_HttpGet :: "string \<Rightarrow> ('w, go_error + HttpResponse option) state"
  k_Sleep :: "int \<Rightarrow> ('w, unit) state"
  k_Now :: "('w, int \<times> int) state"
  k_Clock :: "('w, string \<Rightarrow> string \<Rightarrow> int) state"
  k_Rand :: "('w, nat) state"
  k_NewRequirement :: "Requirement \<Rightarrow> go_error option"
  k_NewForConfig :: "('w, go_error + bool) state"
  k_NewLocker :: "string \<Rightarrow> string \<Rightarrow> ('w, go_error + unit) state"
  k_Lock :: "('w, unit outcome) state"
  k_Unlock :: "('w, unit outcome) state"

subsection \<open>Sequencing\<close>

text \<open>\<open>x, err := m; if err != nil { return wrap(err) }\<close>, and the plain call of a function.\<close>

abbreviation ret :: "'a \<Rightarrow> ('w, 'a) state" where
  "ret \<equiv> State_Monad.return"

definition or_err ::
    "('w, go_error + 'a) state \<Rightarrow> (go_error \<Rightarrow> go_error) \<Rightarrow> ('a \<Rightarrow> ('w, 'b outcome) state) \<Rightarrow>
     ('w, 'b outcome) state" where
  "or_err m wrap k = do {
     r \<leftarrow> m;
     (case r of Inl e \<Rightarrow> ret (Err (wrap e)) | Inr x \<Rightarrow> k x)
   }"

definition and_then ::
    "('w, 'a outcome) state \<Rightarrow> ('a \<Rightarrow> ('w, 'b outcome) state) \<Rightarrow> ('w, 'b outcome) state" where
  "and_then m k = do {
     r \<leftarrow> m;
     (case r of Ok x \<Rightarrow> k x | Err e \<Rightarrow> ret (Err e) | Panics p \<Rightarrow> ret (Panics p) | Hangs \<Rightarrow> ret Hangs)
   }"

text \<open>The error half of a pair \<open>(value, err)\<close>, nil for success.\<close>

definition err_of :: "go_error + 'a \<Rightarrow> go_error option" where
  "err_of r = (case r of Inl e \<Rightarrow> Some e | Inr _ \<Rightarrow> None)"

lemma err_of_simps [simp]: "err_of (Inl e) = Some e" "err_of (Inr x) = None"
  by (simp_all add: err_of_def)

named_theorems run_simps \<open>running a handler\<close>

lemma run_or_err [run_simps]:
  "run_state (or_err m wrap k) s =
     (case run_state m s of
        (Inl e, s') \<Rightarrow> (Err (wrap e), s')
      | (Inr x, s') \<Rightarrow> run_state (k x) s')"
  by (simp add: or_err_def split: prod.split sum.split)

lemma run_and_then [run_simps]:
  "run_state (and_then m k) s =
     (case run_state m s of
        (Ok x, s') \<Rightarrow> run_state (k x) s'
      | (Err e, s') \<Rightarrow> (Err e, s')
      | (Panics p, s') \<Rightarrow> (Panics p, s')
      | (Hangs, s') \<Rightarrow> (Hangs, s'))"
  by (simp add: and_then_def split: prod.split outcome.split)

subsection \<open>The log of calls\<close>

datatype call =
    ListedNetworks | ListedDaemonSets "Requirement list" | ListedPods string "Requirement list"
  | ListedNodes
  | GotPod string string | GotNetwork string | GotDaemonSet string string | GotJob string string
  | CreatedDaemonSet DaemonSet bool | CreatedService Service bool | CreatedJob Job bool
  | CreatedPodMonitor PodMonitor bool
  | UpdatedDaemonSet DaemonSet bool | UpdatedStatus VlanNetwork bool
  | DeletedDaemonSet DaemonSet bool | DeletedService Service bool | DeletedJob Job bool
  | HttpGot string | Slept int
  | MadeLocker bool | Locked bool | Unlocked bool

type_synonym 'w log = "'w \<times> call list"

definition ok_result :: "go_error + 'a \<Rightarrow> bool" where
  "ok_result r \<longleftrightarrow> (case r of Inl _ \<Rightarrow> False | Inr _ \<Rightarrow> True)"

definition ok_outcome :: "'a outcome \<Rightarrow> bool" where
  "ok_outcome r \<longleftrightarrow> (case r of Ok _ \<Rightarrow> True | _ \<Rightarrow> False)"

lemma ok_result_simps [simp]: "\<not> ok_result (Inl e)" "ok_result (Inr x)"
  by (simp_all add: ok_result_def)

lemma ok_outcome_simps [simp]:
  "ok_outcome (Ok x)" "\<not> ok_outcome (Err e)" "\<not> ok_outcome (Panics p)" "\<not> ok_outcome Hangs"
  by (simp_all add: ok_outcome_def)

definition log_call :: "('w, 'a) state \<Rightarrow> ('a \<Rightarrow> 'c list) \<Rightarrow> ('w \<times> 'c list, 'a) state" where
  "log_call m c = State (\<lambda>(w, tr). case run_state m w of (a, w') \<Rightarrow> (a, (w', tr @ c a)))"

lemma run_log_call [run_simps]:
  "run_state (log_call m c) (w, tr) =
     (fst (run_state m w), (snd (run_state m w), tr @ c (fst (run_state m w))))"
  by (simp add: log_call_def case_prod_beta)

definition traced :: "'w kube \<Rightarrow> 'w log kube" where
  "traced K =
     \<lparr> k_ListNetworks = log_call (k_ListNetworks K) (\<lambda>_. [ListedNetworks]),
       k_ListDaemonSets = (\<lambda>rs. log_call (k_ListDaemonSets K rs) (\<lambda>_. [ListedDaemonSets rs])),
       k_ListPods = (\<lambda>n rs. log_call (k_ListPods K n rs) (\<lambda>_. [ListedPods n rs])),
       k_ListNodes = log_call (k_ListNodes K) (\<lambda>_. [ListedNodes]),
       k_GetPod = (\<lambda>n ns. log_call (k_GetPod K n ns) (\<lambda>_. [GotPod n ns])),
       k_GetNetwork = (\<lambda>n. log_call (k_GetNetwork K n) (\<lambda>_. [GotNetwork n])),
       k_GetDaemonSet = (\<lambda>n ns. log_call (k_GetDaemonSet K n ns) (\<lambda>_. [GotDaemonSet n ns])),
       k_GetJob = (\<lambda>n ns. log_call (k_GetJob K n ns) (\<lambda>_. [GotJob n ns])),
       k_CreateDaemonSet = (\<lambda>d. log_call (k_CreateDaemonSet K d) (\<lambda>r. [CreatedDaemonSet d (ok_result r)])),
       k_CreateService = (\<lambda>d. log_call (k_CreateService K d) (\<lambda>r. [CreatedService d (ok_result r)])),
       k_CreateJob = (\<lambda>d. log_call (k_CreateJob K d) (\<lambda>r. [CreatedJob d (ok_result r)])),
       k_CreatePodMonitor = (\<lambda>d. log_call (k_CreatePodMonitor K d) (\<lambda>r. [CreatedPodMonitor d (ok_result r)])),
       k_UpdateDaemonSet = (\<lambda>d. log_call (k_UpdateDaemonSet K d) (\<lambda>r. [UpdatedDaemonSet d (ok_result r)])),
       k_UpdateStatus = (\<lambda>d. log_call (k_UpdateStatus K d) (\<lambda>r. [UpdatedStatus d (ok_result r)])),
       k_DeleteDaemonSet = (\<lambda>d. log_call (k_DeleteDaemonSet K d) (\<lambda>r. [DeletedDaemonSet d (ok_result r)])),
       k_DeleteService = (\<lambda>d. log_call (k_DeleteService K d) (\<lambda>r. [DeletedService d (ok_result r)])),
       k_DeleteJob = (\<lambda>d. log_call (k_DeleteJob K d) (\<lambda>r. [DeletedJob d (ok_result r)])),
       k_HttpGet = (\<lambda>u. log_call (k_HttpGet K u) (\<lambda>_. [HttpGot u])),
       k_Sleep = (\<lambda>d. log_call (k_Sleep K d) (\<lambda>_. [Slept d])),
       k_Now = log_call (k_Now K) (\<lambda>_. []),
       k_Clock = log_call (k_Clock K) (\<lambda>_. []),
       k_Rand = log_call (k_Rand K) (\<lambda>_. []),
       k_NewRequirement = k_NewRequirement K,
       k_NewForConfig = log_call (k_NewForConfig K) (\<lambda>_. []),
       k_NewLocker = (\<lambda>n ns. log_call (k_NewLocker K n ns) (\<lambda>r. [MadeLocker (ok_result r)])),
       k_Lock = log_call (k_Lock K) (\<lambda>r. [Locked (ok_outcome r)]),
       k_Unlock = log_call (k_Unlock K) (\<lambda>r. [Unlocked (ok_outcome r)]) \<rparr>"

lemma traced_simps [run_simps]:
  "k_ListNetworks (traced K) = log_call (k_ListNetworks K) (\<lambda>_. [ListedNetworks])"
  "k_ListDaemonSets (traced K) rs = log_call (k_ListDaemonSets K rs) (\<lambda>_. [ListedDaemonSets rs])"
  "k_ListPods (traced K) n rs = log_call (k_ListPods K n rs) (\<lambda>_. [ListedPods n rs])"
  "k_ListNodes (traced K) = log_call (k_ListNodes K) (\<lambda>_. [ListedNodes])"
  "k_GetPod (traced K) n ns = log_call (k_GetPod K n ns) (\<lambda>_. [GotPod n ns])"
  "k_GetNetwork (traced K) n = log_call (k_GetNetwork K n) (\<lambda>_. [GotNetwork n])"
  "k_GetDaemonSet (traced K) n ns = log_call (k_GetDaemonSet K n ns) (\<lambda>_. [GotDaemonSet n ns])"
  "k_GetJob (traced K) n ns = log_call (k_GetJob K n ns) (\<lambda>_. [GotJob n ns])"
  "k_CreateDaemonSet (traced K) d = log_call (k_CreateDaemonSet K d) (\<lambda>r. [CreatedDaemonSet d (ok_result r)])"
  "k_CreateService (traced K) sv = log_call (k_CreateService K sv) (\<lambda>r. [CreatedService sv (ok_result r)])"
  "k_CreateJob (traced K) j = log_call (k_CreateJob K j) (\<lambda>r. [CreatedJob j (ok_result r)])"
  "k_CreatePodMonitor (traced K) pm = log_call (k_CreatePodMonitor K pm) (\<lambda>r. [CreatedPodMonitor pm (ok_result r)])"
  "k_UpdateDaemonSet (traced K) d = log_call (k_UpdateDaemonSet K d) (\<lambda>r. [UpdatedDaemonSet d (ok_result r)])"
  "k_UpdateStatus (traced K) v = log_call (k_UpdateStatus K v) (\<lambda>r. [UpdatedStatus v (ok_result r)])"
  "k_DeleteDaemonSet (traced K) d = log_call (k_DeleteDaemonSet K d) (\<lambda>r. [DeletedDaemonSet d (ok_result r)])"
  "k_DeleteService (traced K) sv = log_call (k_DeleteService K sv) (\<lambda>r. [DeletedService sv (ok_result r)])"
  "k_DeleteJob (traced K) j = log_call (k_DeleteJob K j) (\<lambda>r. [DeletedJob j (ok_result r)])"
  "k_HttpGet (traced K) u = log_call (k_HttpGet K u) (\<lambda>_. [HttpGot u])"
  "k_Sleep (traced K) dur = log_call (k_Sleep K dur) (\<lambda>_. [Slept dur])"
  "k_Now (traced K) = log_call (k_Now K) (\<lambda>_. [])"
  "k_Clock (traced K) = log_call (k_Clock K) (\<lambda>_. [])"
  "k_Rand (traced K) = log_call (k_Rand K) (\<lambda>_. [])"
  "k_NewRequirement (traced K) = k_NewRequirement K"
  "k_NewForConfig (traced K) = log_call (k_NewForConfig K) (\<lambda>_. [])"
  "k_NewLocker (traced K) n ns = log_call (k_NewLocker K n ns) (\<lambda>r. [MadeLocker (ok_result r)])"
  "k_Lock (traced K) = log_call (k_Lock K) (\<lambda>r. [Locked (ok_outcome r)])"
  "k_Unlock (traced K) = log_call (k_Unlock K) (\<lambda>r. [Unlocked (ok_outcome r)])"
  by (simp_all add: traced_def)

end
