(* ===== verification/Diff.thy ===== *)
theory Diff
  imports ManagerSets InterfaceJobs Kube
begin

text \<open>
  The comparison of wanted and existing managers in \<open>internal/controller/vlanman_controller.go\<close>:
  \<open>getCurrentState\<close>, \<open>createDesiredState\<close>, \<open>diffManagers\<close> and \<open>diffStates\<close>, with the state
  of a network of \<open>state.go\<close> and the actions the comparison asks for.
\<close>

subsection \<open>Data\<close>

record VlanNetworkState =
  ns_Status :: "ConnectionState gomap option"
  ns_Mappings :: "IPMapping slice"
  ns_VlanId :: int64
  ns_Name :: string

definition zero_network_state :: VlanNetworkState where
  "zero_network_state = \<lparr> ns_Status = None, ns_Mappings = None, ns_VlanId = 0, ns_Name = [] \<rparr>"

datatype Action =
    CreateManagerAction VlanNetworkState ManagerSet
  | DeleteManagerAction ManagerSet
  | SpawnInterfaceAction VlanNetworkState string
  | UpdateManagerAction VlanNetworkState ManagerSet

subsection \<open>The current and the desired state\<close>

definition network_state :: "VlanNetwork \<Rightarrow> VlanNetworkState" where
  "network_state conn =
     \<lparr> ns_Status = st_State (net_Status conn), ns_Mappings = sp_Mappings (net_Spec conn),
       ns_VlanId = sp_VlanID (net_Spec conn), ns_Name = net_Name conn \<rparr>"

text \<open>The slice is made with the length of the list and then appended to, so zero values come first.\<close>

definition connection_states :: "VlanNetwork list \<Rightarrow> VlanNetworkState list" where
  "connection_states items = replicate (length items) zero_network_state @ map network_state items"

fun managers_from_sets :: "DaemonSet list \<Rightarrow> ManagerSet list \<Rightarrow> ManagerSet list outcome" where
  "managers_from_sets [] mgrs = Ok mgrs"
| "managers_from_sets (m # ms) mgrs =
     (case managerFromSet m of
        Ok newMgr \<Rightarrow> managers_from_sets ms (mgrs @ [newMgr])
      | Err e \<Rightarrow> Err e
      | Panics p \<Rightarrow> Panics p
      | Hangs \<Rightarrow> Hangs)"

definition getCurrentState ::
    "'w kube \<Rightarrow> ('w, (ManagerSet list \<times> VlanNetworkState list) outcome) state" where
  "getCurrentState K =
     or_err (k_ListNetworks K) (ClientRequestError ''List vlan networks'') (\<lambda>items.
       let connStates = connection_states items;
           requirement = \<lparr> req_Key = ManagerSetLabelKey, req_Operator = ''exists'', req_Values = [] \<rparr>
       in (case k_NewRequirement K requirement of
             Some err \<Rightarrow> ret (Err (InternalError
               (''Error creating a label selector requirement in createDesiredState: '' @ error_text err)))
           | None \<Rightarrow>
               or_err (k_ListDaemonSets K [requirement])
                 (ClientRequestError ''List pods with field selector'') (\<lambda>managers.
                 and_then (ret (managers_from_sets managers [])) (\<lambda>mgrs.
                   ret (Ok (mgrs, connStates))))))"

definition createDesiredState :: "VlanNetwork list \<Rightarrow> ManagerSet list" where
  "createDesiredState networks = map createDesiredManagerSet networks"

subsection \<open>The comparison\<close>

definition diffManagers :: "ManagerSet \<Rightarrow> ManagerSet \<Rightarrow> VlanNetworkState \<Rightarrow> Action list" where
  "diffManagers desired current network =
     (if desired \<noteq> current then [UpdateManagerAction network desired] else [])"

definition spawn_actions :: "VlanNetworkState list \<Rightarrow> Action list" where
  "spawn_actions conns =
     concat (map (\<lambda>conn. map (\<lambda>(podName, podStatus). SpawnInterfaceAction conn podName)
       (filter (\<lambda>(podName, podStatus). podStatus \<noteq> StateUp) (elems (ns_Status conn)))) conns)"

text \<open>The loop that leaves in \<open>netIdx\<close> the last index with the name, or the value it had before.\<close>

fun net_index :: "VlanNetworkState list \<Rightarrow> nat \<Rightarrow> string \<Rightarrow> nat option \<Rightarrow> nat option" where
  "net_index [] i name netIdx = netIdx"
| "net_index (s # ss) i name netIdx =
     net_index ss (i + 1) name (if ns_Name s = name then Some i else netIdx)"

definition desired_action :: "ManagerSet list \<Rightarrow> VlanNetworkState list \<Rightarrow> ManagerSet \<Rightarrow> Action list" where
  "desired_action current conns desiredMgr =
     (let (idx, found) = slices_BinarySearchFunc current desiredMgr managerCmp
      in case net_index conns 0 (ms_OwnerNetworkName desiredMgr) None of
           None \<Rightarrow> []
         | Some netIdx \<Rightarrow>
             if \<not> found then [CreateManagerAction (conns ! netIdx) desiredMgr]
             else diffManagers desiredMgr (current ! idx) (conns ! netIdx))"

definition current_action :: "ManagerSet list \<Rightarrow> ManagerSet \<Rightarrow> Action list" where
  "current_action desired currentMgr =
     (let (_, found) = slices_BinarySearchFunc desired currentMgr managerCmp
      in if \<not> found then [DeleteManagerAction currentMgr] else [])"

definition stateCmp :: "VlanNetworkState \<Rightarrow> VlanNetworkState \<Rightarrow> int" where
  "stateCmp a b = strings_Compare (ns_Name a) (ns_Name b)"

definition diffStates :: "ManagerSet list \<Rightarrow> ManagerSet list \<Rightarrow> VlanNetworkState list \<Rightarrow> Action list" where
  "diffStates desired0 current0 conns0 =
     (let desired = slices_SortFunc managerCmp desired0;
          current = slices_SortFunc managerCmp current0;
          conns = slices_SortFunc stateCmp conns0
      in spawn_actions conns0 @ concat (map (desired_action current conns) desired) @
         concat (map (current_action desired) current))"

interpretation net_state: keyed_cmp stateCmp ns_Name
  by unfold_locales (auto simp: stateCmp_def strings_Compare_less strings_Compare_eq)

subsection \<open>What the comparison asks for\<close>

text \<open>The index found points to an entry with the name; none is found only if no entry has it.\<close>

lemma net_index_spec:
  "(net_index ss i name d = d \<and> (\<forall>s \<in> set ss. ns_Name s \<noteq> name)) \<or>
   (\<exists>k < length ss. net_index ss i name d = Some (i + k) \<and> ns_Name (ss ! k) = name)"
proof (induction ss arbitrary: i d)
  case Nil
  then show ?case by simp
next
  case (Cons s ss)
  let ?d = "if ns_Name s = name then Some i else d"
  from Cons.IH [of "i + 1" ?d] show ?case
  proof (elim disjE exE conjE)
    assume "net_index ss (i + 1) name ?d = ?d" "\<forall>s \<in> set ss. ns_Name s \<noteq> name"
    then show ?thesis by (cases "ns_Name s = name") auto
  next
    fix k
    assume "k < length ss" "net_index ss (i + 1) name ?d = Some (i + 1 + k)"
      "ns_Name (ss ! k) = name"
    then show ?thesis by (intro disjI2 exI [of _ "Suc k"]) simp
  qed
qed

lemma net_index_lookup:
  assumes "inj_on ns_Name (set conns)"
  shows "(case net_index conns 0 name None of None \<Rightarrow> None | Some i \<Rightarrow> Some (conns ! i)) =
     find (\<lambda>s. ns_Name s = name) conns"
  using net_index_spec [of conns 0 name None]
proof (elim disjE exE conjE)
  assume "net_index conns 0 name None = None" "\<forall>s \<in> set conns. ns_Name s \<noteq> name"
  then show ?thesis by (simp add: find_None_iff [THEN iffD2])
next
  fix k
  assume k: "k < length conns" "net_index conns 0 name None = Some (0 + k)" "ns_Name (conns ! k) = name"
  then obtain s where s: "find (\<lambda>s. ns_Name s = name) conns = Some s"
    by (cases "find (\<lambda>s. ns_Name s = name) conns") (auto simp: find_None_iff)
  then have "s \<in> set conns" "ns_Name s = name" by (auto simp: find_Some_iff)
  with k assms have "conns ! k = s" by (metis inj_onD nth_mem)
  with s k show ?thesis by simp
qed

text \<open>Looking up by a key that determines the element does not depend on the order of the list.\<close>

lemma find_key_set:
  assumes "inj_on f (set xs)" and "set ys = set xs"
  shows "find (\<lambda>x. f x = k) ys = find (\<lambda>x. f x = k) xs"
proof (cases "find (\<lambda>x. f x = k) xs")
  case None
  then have "find (\<lambda>x. f x = k) ys = None" using assms(2) by (simp add: find_None_iff)
  with None show ?thesis by simp
next
  case (Some x)
  then have x: "x \<in> set ys" "f x = k" using assms(2) by (auto simp: find_Some_iff)
  then obtain y where y: "find (\<lambda>x. f x = k) ys = Some y"
    by (cases "find (\<lambda>x. f x = k) ys") (auto simp: find_None_iff)
  then have "y \<in> set ys" "f y = k" by (auto simp: find_Some_iff)
  with x assms have "y = x" by (metis inj_onD)
  with y Some show ?thesis by simp
qed

lemma find_key_found:
  "inj_on f (set xs) \<Longrightarrow> x \<in> set xs \<Longrightarrow> f x = k \<Longrightarrow> find (\<lambda>x. f x = k) xs = Some x"
proof (induction xs)
  case (Cons y ys)
  then show ?case by (cases "y = x") (auto dest: inj_onD)
qed simp

text \<open>What is asked for one wanted manager, by lookups instead of indices and binary search.\<close>

definition desired_action_spec :: "ManagerSet list \<Rightarrow> VlanNetworkState list \<Rightarrow> ManagerSet \<Rightarrow> Action list" where
  "desired_action_spec current conns d =
     (case find (\<lambda>n. ns_Name n = ms_OwnerNetworkName d) conns of
        None \<Rightarrow> []
      | Some n \<Rightarrow>
          (case find (\<lambda>c. ms_OwnerNetworkName c = ms_OwnerNetworkName d) current of
             None \<Rightarrow> [CreateManagerAction n d]
           | Some c \<Rightarrow> if d = c then [] else [UpdateManagerAction n d]))"

lemma desired_action_eq:
  assumes "inj_on ns_Name (set conns)" and "distinct (map ms_OwnerNetworkName current)"
  shows "desired_action (slices_SortFunc managerCmp current) (slices_SortFunc stateCmp conns) d =
     desired_action_spec current conns d"
proof -
  let ?cur = "slices_SortFunc managerCmp current"
  let ?conns = "slices_SortFunc stateCmp conns"
  have conn: "(case net_index ?conns 0 (ms_OwnerNetworkName d) None of None \<Rightarrow> None
        | Some i \<Rightarrow> Some (?conns ! i)) = find (\<lambda>n. ns_Name n = ms_OwnerNetworkName d) conns"
    using assms(1) by (simp add: net_index_lookup net_state.SortFunc_set
        find_key_set [OF _ net_state.SortFunc_set])
  show ?thesis
  proof (cases "find (\<lambda>c. ms_OwnerNetworkName c = ms_OwnerNetworkName d) current")
    case None
    then have "\<not> snd (slices_BinarySearchFunc ?cur d managerCmp)"
      by (auto simp: mgr.BinarySearch_found [OF mgr.SortFunc_sorted] mgr.SortFunc_set
          find_None_iff image_iff)
    with None conn [symmetric] show ?thesis
      by (cases "net_index ?conns 0 (ms_OwnerNetworkName d) None")
        (simp_all add: desired_action_def desired_action_spec_def case_prod_beta)
  next
    case (Some c)
    then have c: "c \<in> set ?cur" "ms_OwnerNetworkName c = ms_OwnerNetworkName d"
      by (auto simp: find_Some_iff mgr.SortFunc_set)
    obtain i where "slices_BinarySearchFunc ?cur d managerCmp = (i, True)" "?cur ! i = c"
      using mgr.BinarySearch_lookup [OF mgr.SortFunc_sorted mgr.SortFunc_distinct [OF assms(2)] c]
      by blast
    with Some conn [symmetric] show ?thesis
      by (cases "net_index ?conns 0 (ms_OwnerNetworkName d) None")
        (simp_all add: desired_action_def desired_action_spec_def diffManagers_def)
  qed
qed

lemma current_action_eq:
  "current_action (slices_SortFunc managerCmp desired) c =
     (if ms_OwnerNetworkName c \<in> ms_OwnerNetworkName ` set desired then [] else [DeleteManagerAction c])"
proof -
  have "snd (slices_BinarySearchFunc (slices_SortFunc managerCmp desired) c managerCmp) \<longleftrightarrow>
      ms_OwnerNetworkName c \<in> ms_OwnerNetworkName ` set desired"
    by (simp add: mgr.BinarySearch_found [OF mgr.SortFunc_sorted] mgr.SortFunc_set)
  then show ?thesis by (simp add: current_action_def case_prod_beta)
qed

lemma concat_map_if: "concat (map (\<lambda>x. if P x then [] else [f x]) xs) = map f (filter (\<lambda>x. \<not> P x) xs)"
  by (induction xs) auto

lemma managerCmp_sort:
  assumes "distinct (map ms_OwnerNetworkName xs)"
  shows "slices_SortFunc managerCmp xs = sort_key ms_OwnerNetworkName xs"
  by (rule mgr.SortFunc_unique [symmetric]) (simp_all add: assms)

lemma diffStates_lookup:
  assumes "distinct (map ms_OwnerNetworkName desired)"
    and "distinct (map ms_OwnerNetworkName current)"
    and "inj_on ns_Name (set conns)"
  shows "diffStates desired current conns =
     spawn_actions conns @
     concat (map (desired_action_spec current conns) (sort_key ms_OwnerNetworkName desired)) @
     map DeleteManagerAction
       (filter (\<lambda>c. ms_OwnerNetworkName c \<notin> ms_OwnerNetworkName ` set desired)
         (sort_key ms_OwnerNetworkName current))"
proof -
  have d: "desired_action (slices_SortFunc managerCmp current) (slices_SortFunc stateCmp conns) =
      desired_action_spec current conns"
    using assms(2,3) by (intro ext desired_action_eq)
  have c: "current_action (slices_SortFunc managerCmp desired) = (\<lambda>c.
      if ms_OwnerNetworkName c \<in> ms_OwnerNetworkName ` set desired then [] else [DeleteManagerAction c])"
    by (intro ext current_action_eq)
  show ?thesis
    unfolding diffStates_def Let_def d c concat_map_if
    by (simp only: managerCmp_sort [OF assms(1)] managerCmp_sort [OF assms(2)])
qed

text \<open>
  C26: the comparison, which sorts both lists and searches by bisection and index, is the direct one
  by lookups: first a repair for each connection that is not up, then for each wanted manager in the
  order of the names a creation if no manager carries its name, an update if the one that does
  differs in any field, nothing if it is equal or its network is unknown, then a deletion of each
  manager whose network is gone. It needs that names determine managers and networks.
\<close>

theorem diffStates_reference:
  assumes "distinct (map ms_OwnerNetworkName desired)"
    and "distinct (map ms_OwnerNetworkName current)"
    and "inj_on ns_Name (set conns)"
  shows "diffStates desired current conns =
     spawn_actions conns @
     concat (map (desired_action_spec current conns) (sort_key ms_OwnerNetworkName desired)) @
     map DeleteManagerAction
       (filter (\<lambda>c. ms_OwnerNetworkName c \<notin> ms_OwnerNetworkName ` set desired)
         (sort_key ms_OwnerNetworkName current))"
  by (rule diffStates_lookup [OF assms])

theorem diffStates_reference_witness:
  "diffStates [sample_manager] [] [\<lparr> ns_Status = None, ns_Mappings = None, ns_VlanId = 110, ns_Name = ''net1'' \<rparr>] =
     [CreateManagerAction \<lparr> ns_Status = None, ns_Mappings = None, ns_VlanId = 110, ns_Name = ''net1'' \<rparr>
        sample_manager]"
  by (subst diffStates_reference)
    (simp_all add: spawn_actions_def desired_action_spec_def sample_manager_def)

subsection \<open>A settled cluster\<close>

lemma managers_from_sets_all:
  "\<forall>n \<in> set ns. managerFromSet (ds n) = Ok (g n) \<Longrightarrow>
   managers_from_sets (map ds ns) mgrs = Ok (mgrs @ map g ns)"
  by (induction ns arbitrary: mgrs) auto

text \<open>A network all of whose gateways have plain text and all of whose connections are up.\<close>

definition settled_network :: "VlanNetwork \<Rightarrow> bool" where
  "settled_network n \<longleftrightarrow> net_Name n \<noteq> [] \<and> wf_slice ascii_gateway (sp_Gateways (net_Spec n)) \<and>
     (\<forall>(k, v) \<in> set (elems (st_State (net_Status n))). v = StateUp)"

lemma spawn_actions_none:
  "\<forall>c \<in> set conns. \<forall>(k, v) \<in> set (elems (ns_Status c)). v = StateUp \<Longrightarrow> spawn_actions conns = []"
  by (auto simp: spawn_actions_def filter_empty_conv)

lemma connection_states_set:
  "set (connection_states nets) = (if nets = [] then {} else {zero_network_state}) \<union> network_state ` set nets"
  by (auto simp: connection_states_def)

lemma connection_states_inj:
  assumes "\<forall>n \<in> set nets. net_Name n \<noteq> []" and "distinct (map net_Name nets)"
  shows "inj_on ns_Name (set (connection_states nets))"
proof -
  have "inj_on ns_Name (network_state ` set nets)"
    using assms(2) by (auto simp: distinct_map inj_on_def network_state_def)
  moreover have "ns_Name zero_network_state \<notin> ns_Name ` network_state ` set nets"
    using assms(1) by (auto simp: zero_network_state_def network_state_def)
  ultimately show ?thesis by (auto simp: connection_states_set)
qed

text \<open>The manager set that is read back from the daemon set made for a network.\<close>

definition read_back :: "VlanNetwork \<Rightarrow> ManagerSet" where
  "read_back n = (createDesiredManagerSet n)\<lparr>ms_Mappings := Some []\<rparr>"

lemma settled_desired_action:
  assumes "\<forall>n \<in> set nets. net_Name n \<noteq> []" and "distinct (map net_Name nets)" and "n \<in> set nets"
  shows "desired_action_spec (map read_back nets) (connection_states nets) (createDesiredManagerSet n) =
     (if sp_Mappings (net_Spec n) = Some [] then []
      else [UpdateManagerAction (network_state n) (createDesiredManagerSet n)])"
proof -
  have inj: "inj_on ns_Name (set (connection_states nets))"
    using assms(1,2) by (rule connection_states_inj)
  have "network_state n \<in> set (connection_states nets)" "ns_Name (network_state n) = net_Name n"
    using assms(3) by (auto simp: connection_states_set network_state_def)
  then have f1: "find (\<lambda>s. ns_Name s = net_Name n) (connection_states nets) = Some (network_state n)"
    using inj find_key_found [of ns_Name] by blast
  have "inj_on ms_OwnerNetworkName (set (map read_back nets))"
    using assms(2) by (auto simp: distinct_map inj_on_def read_back_def createDesiredManagerSet_def)
  moreover have "read_back n \<in> set (map read_back nets)" "ms_OwnerNetworkName (read_back n) = net_Name n"
    using assms(3) by (auto simp: read_back_def createDesiredManagerSet_def)
  ultimately have f2: "find (\<lambda>c. ms_OwnerNetworkName c = net_Name n) (map read_back nets) = Some (read_back n)"
    using find_key_found [of ms_OwnerNetworkName] by blast
  show ?thesis
    by (simp add: desired_action_spec_def createDesiredManagerSet_def f1 f2)
      (simp add: read_back_def createDesiredManagerSet_def)
qed

lemma map_sort_key: "sort_key f (map g xs) = map g (sort_key (\<lambda>x. f (g x)) xs)"
proof (induction xs)
  case (Cons x xs)
  have "insort_key f (g x) (map g ys) = map g (insort_key (\<lambda>x. f (g x)) x ys)" for ys
    by (induction ys) auto
  with Cons show ?case by simp
qed simp

lemma settled_diff:
  assumes "\<forall>n \<in> set nets. settled_network n" and "distinct (map net_Name nets)"
  shows "diffStates (createDesiredState nets) (map read_back nets) (connection_states nets) =
     map (\<lambda>n. UpdateManagerAction (network_state n) (createDesiredManagerSet n))
       (filter (\<lambda>n. sp_Mappings (net_Spec n) \<noteq> Some []) (sort_key net_Name nets))"
proof -
  have names: "\<forall>n \<in> set nets. net_Name n \<noteq> []"
    using assms(1) by (simp add: settled_network_def)
  have owner: "ms_OwnerNetworkName (createDesiredManagerSet n) = net_Name n"
    "ms_OwnerNetworkName (read_back n) = net_Name n" for n
    by (simp_all add: read_back_def createDesiredManagerSet_def)
  have dist: "distinct (map ms_OwnerNetworkName (createDesiredState nets))"
    "distinct (map ms_OwnerNetworkName (map read_back nets))"
    using assms(2) by (simp_all add: createDesiredState_def comp_def owner)
  have spawn: "spawn_actions (connection_states nets) = []"
    using assms(1) by (intro spawn_actions_none)
      (auto simp: connection_states_set settled_network_def network_state_def zero_network_state_def
        split: if_splits)
  have des: "map (desired_action_spec (map read_back nets) (connection_states nets))
      (map createDesiredManagerSet (sort_key net_Name nets)) =
    map (\<lambda>n. if sp_Mappings (net_Spec n) = Some [] then []
      else [UpdateManagerAction (network_state n) (createDesiredManagerSet n)]) (sort_key net_Name nets)"
    using settled_desired_action [OF names assms(2)] by simp
  have del: "filter (\<lambda>c. ms_OwnerNetworkName c \<notin> ms_OwnerNetworkName ` set (createDesiredState nets))
      (sort_key ms_OwnerNetworkName (map read_back nets)) = []"
    by (auto simp: filter_empty_conv createDesiredState_def owner image_iff)
  have "diffStates (createDesiredState nets) (map read_back nets) (connection_states nets) =
      concat (map (desired_action_spec (map read_back nets) (connection_states nets))
        (sort_key ms_OwnerNetworkName (createDesiredState nets)))"
    unfolding diffStates_lookup [OF dist connection_states_inj [OF names assms(2)]] spawn del by simp
  also have "\<dots> = concat (map (desired_action_spec (map read_back nets) (connection_states nets))
      (map createDesiredManagerSet (sort_key net_Name nets)))"
    by (simp add: createDesiredState_def map_sort_key owner del: map_map)
  also have "\<dots> = map (\<lambda>n. UpdateManagerAction (network_state n) (createDesiredManagerSet n))
      (filter (\<lambda>n. sp_Mappings (net_Spec n) \<noteq> Some []) (sort_key net_Name nets))"
    unfolding des concat_map_if ..
  finally show ?thesis .
qed

text \<open>
  C27: when every network has its daemon set as the operator makes it and every connection is up,
  the comparison still asks for an update of the manager of each network, unless the network has an empty,
  non-nil list of mappings, in the order of the names, and for nothing else: no creation, deletion or
  repair. The managers are read back with an empty, non-nil list of mappings, from which both a list of mappings
  and a nil one (the field left out) differ, so all those networks are updated in every round.
\<close>

theorem settled_cluster_diff:
  assumes "\<forall>n \<in> set nets. settled_network n" and "distinct (map net_Name nets)"
    and "\<forall>n \<in> set nets. daemonSetFromManager (createDesiredManagerSet n) e = Inr (ds n)"
  shows "managers_from_sets (map ds nets) [] = Ok (map read_back nets) \<and>
     diffStates (createDesiredState nets) (map read_back nets) (connection_states nets) =
       map (\<lambda>n. UpdateManagerAction (network_state n) (createDesiredManagerSet n))
         (filter (\<lambda>n. sp_Mappings (net_Spec n) \<noteq> Some []) (sort_key net_Name nets))"
proof
  have "managerFromSet (ds n) = Ok (read_back n)" if "n \<in> set nets" for n
  proof -
    have "wf_slice ascii_gateway (ms_Gateways (createDesiredManagerSet n))"
      using assms(1) that by (simp add: settled_network_def createDesiredManagerSet_def)
    then show ?thesis
      using assms(3) that unfolding read_back_def by (blast intro: managerFromSet_daemonSet)
  qed
  then show "managers_from_sets (map ds nets) [] = Ok (map read_back nets)"
    using managers_from_sets_all [of nets ds read_back "[]"] by simp
qed (rule settled_diff [OF assms(1,2)])

definition sample_network :: VlanNetwork where
  "sample_network = zero_network\<lparr>net_Meta := zero_meta\<lparr>meta_Name := ''net1''\<rparr>,
     net_Spec := zero_spec\<lparr>sp_VlanID := 110, sp_Gateways := ms_Gateways sample_manager\<rparr>,
     net_Status := zero_status\<lparr>st_State := Some [(''pod1'', StateUp)]\<rparr>\<rparr>"

lemma sample_network_settled: "settled_network sample_network"
  using sample_gateways_ascii
  by (simp add: settled_network_def sample_network_def net_Name_def zero_meta_def)

theorem settled_cluster_diff_witness:
  "diffStates (createDesiredState [sample_network]) (map read_back [sample_network])
     (connection_states [sample_network]) =
   [UpdateManagerAction (network_state sample_network) (createDesiredManagerSet sample_network)]"
proof -
  let ?ds = "\<lambda>n. projr (daemonSetFromManager (createDesiredManagerSet n) sample_envs)"
  have "\<forall>n \<in> set [sample_network]. settled_network n" by (simp add: sample_network_settled)
  moreover have "distinct (map net_Name [sample_network])" by simp
  moreover have "\<forall>n \<in> set [sample_network].
      daemonSetFromManager (createDesiredManagerSet n) sample_envs = Inr (?ds n)"
    by (simp add: daemonSetFromManager_def Let_def)
  ultimately show ?thesis
    using settled_cluster_diff [of "[sample_network]" sample_envs ?ds]
    by (simp add: sample_network_def zero_network_def zero_spec_def)
qed

subsection \<open>The zero entries in front of the connection states\<close>

lemma spawn_actions_connection_states:
  "spawn_actions (connection_states nets) = spawn_actions (map network_state nets)"
  by (simp add: spawn_actions_def connection_states_def zero_network_state_def)

lemma find_replicate_other: "\<not> P x \<Longrightarrow> find P (replicate n x @ ys) = find P ys"
  by (induction n) auto

text \<open>
  The zero-valued entries that \<open>getCurrentState\<close> puts in front of the connection states (it
  makes the slice with a length and then appends) change nothing: the comparison gives the actions it
  gives without them, because no network or manager has the empty name.
\<close>

theorem zero_entries_harmless:
  assumes "distinct (map ms_OwnerNetworkName desired)" and "distinct (map ms_OwnerNetworkName current)"
    and "\<forall>d \<in> set desired. ms_OwnerNetworkName d \<noteq> []"
    and "\<forall>n \<in> set nets. net_Name n \<noteq> []" and "distinct (map net_Name nets)"
  shows "diffStates desired current (connection_states nets) =
     diffStates desired current (map network_state nets)"
proof -
  have inj: "inj_on ns_Name (set (map network_state nets))"
    using connection_states_inj [OF assms(4,5)]
    by (rule inj_on_subset) (simp add: connection_states_set)
  have "desired_action_spec current (connection_states nets) d =
      desired_action_spec current (map network_state nets) d" if "d \<in> set desired" for d
  proof -
    have "ns_Name zero_network_state \<noteq> ms_OwnerNetworkName d"
      using assms(3) that by (auto simp: zero_network_state_def)
    then show ?thesis
      by (simp add: desired_action_spec_def connection_states_def find_replicate_other)
  qed
  then have eq: "map (desired_action_spec current (connection_states nets)) (sort_key ms_OwnerNetworkName desired) =
      map (desired_action_spec current (map network_state nets)) (sort_key ms_OwnerNetworkName desired)"
    by simp
  show ?thesis
    unfolding diffStates_lookup [OF assms(1,2) connection_states_inj [OF assms(4,5)]]
      diffStates_lookup [OF assms(1,2) inj] spawn_actions_connection_states eq ..
qed

theorem zero_entries_harmless_witness:
  "diffStates [sample_manager] [] (connection_states [sample_network]) =
     diffStates [sample_manager] [] (map network_state [sample_network])"
  by (rule zero_entries_harmless)
    (simp_all add: sample_manager_def sample_network_def net_Name_def zero_meta_def)

end
