(* ===== verification/Status.thy ===== *)
theory Status
  imports Diff GoTime
begin

text \<open>
  The status of a network as the operator recomputes it
  (\<open>internal/controller/vlanman_controller.go\<close>: \<open>extractVlan\<close>, \<open>poolName\<close>,
  \<open>updateVlanNetworkStatus\<close>, \<open>UpdateAllNetworkStatus\<close>, \<open>res\<close>): which connections, pools, pending
  and free addresses remain, and when to look again.
\<close>

definition the_default :: "'a \<Rightarrow> 'a option \<Rightarrow> 'a" where
  "the_default d x = (case x of None \<Rightarrow> d | Some y \<Rightarrow> y)"

lemma the_default_simps [simp]: "the_default d None = d" "the_default d (Some x) = x"
  by (simp_all add: the_default_def)

subsection \<open>The address of a pod\<close>

definition slash :: string where
  "slash = ''/''"

text \<open>\<open>strings.Cut(s, "/")\<close>, of which the code keeps the part before the slash.\<close>

definition cut_ip :: "string \<Rightarrow> string" where
  "cut_ip s = fst (strings_Cut s slash)"

text \<open>The two nested loops over the variables of the init containers; a later value wins.\<close>

fun extract_env :: "EnvVar list \<Rightarrow> string \<times> string \<Rightarrow> string \<times> string" where
  "extract_env [] (ip, subnet) = (ip, subnet)"
| "extract_env (e # es) (ip, subnet) =
     extract_env es
       (if ev_Name e = ''MACVLAN_IP'' then ev_Value e else ip,
        if ev_Name e = ''MACVLAN_SUBNET'' then ev_Value e else subnet)"

definition extractVlan :: "Pod \<Rightarrow> string \<times> bool" where
  "extractVlan pod =
     (let (ip, subnet) = foldl (\<lambda>acc c. extract_env (ct_Env c) acc) ([], [])
            (ps_InitContainers (pod_Spec pod));
          fullIp = (if subnet \<noteq> [] then ip @ ''/'' @ subnet else ip)
      in (fullIp, ip \<noteq> []))"

definition poolName :: "string \<Rightarrow> VlanNetworkPool \<Rightarrow> bool" where
  "poolName name p \<longleftrightarrow> name = pool_Name p"

subsection \<open>The parts of the update\<close>

type_synonym free_map = "string slice gomap"
type_synonym pending_map = "string gomap option gomap"
type_synonym clock = "string \<Rightarrow> string \<Rightarrow> int"

text \<open>Nil maps of the status are replaced by empty ones.\<close>

definition make_maps :: "VlanNetworkStatus \<Rightarrow> VlanNetworkStatus" where
  "make_maps s = s\<lparr>st_FreeIPs := Some (elems (st_FreeIPs s)),
     st_PendingIPs := Some (elems (st_PendingIPs s)), st_State := Some (elems (st_State s))\<rparr>"

text \<open>The names of the listed pods, after as many empty names (the slice is made with a length).\<close>

definition daemon_names :: "Pod list \<Rightarrow> string list" where
  "daemon_names items = replicate (length items) [] @ map pod_Name items"

definition prune_state :: "string list \<Rightarrow> ConnectionState gomap \<Rightarrow> ConnectionState gomap" where
  "prune_state daemonNames m = maps_DeleteFunc (\<lambda>k v. \<not> slices_Contains daemonNames k) m"

text \<open>The loop over the pools that have free addresses; unknown ones leave both maps.\<close>

fun prune_pools :: "VlanNetworkPool list \<Rightarrow> string list \<Rightarrow> free_map \<times> pending_map \<Rightarrow> free_map \<times> pending_map" where
  "prune_pools pools [] (free, pending) = (free, pending)"
| "prune_pools pools (name # names) (free, pending) =
     prune_pools pools names
       (if \<not> slices_ContainsFunc pools (poolName name)
        then (map_delete name free, map_delete name pending) else (free, pending))"

text \<open>Each pool of the specification starts again with all its addresses free.\<close>

definition refill_pool :: "VlanNetworkPool \<Rightarrow> free_map \<times> pending_map \<Rightarrow> free_map \<times> pending_map" where
  "refill_pool pool fp =
     (let (free, pending) = fp;
          free' = map_assign (pool_Name pool) (pool_Addresses pool) free;
          pending' = (case map_lookup pending (pool_Name pool) of
                        Some (Some m) \<Rightarrow> pending
                      | _ \<Rightarrow> map_assign (pool_Name pool) (Some []) pending)
      in (free', pending'))"

definition pending_timeout :: int where
  "pending_timeout = Second * ReconcilerPendingIPsTimeoutSeconds"

definition pod_has_ip :: "Pod list \<Rightarrow> string \<Rightarrow> bool" where
  "pod_has_ip pods ip \<longleftrightarrow>
     slices_ContainsFunc pods (\<lambda>p. let (extractedIP, found) = extractVlan p
       in found \<and> cut_ip ip = cut_ip extractedIP)"

text \<open>Whether a pending address is dropped: its stamp does not parse, a pod has it, or it is old.\<close>

definition expired :: "Pod list \<Rightarrow> int \<Rightarrow> string \<Rightarrow> string \<Rightarrow> bool" where
  "expired pods now ip timestamp =
     (case time_Parse timestamp of
        None \<Rightarrow> True
      | Some ts \<Rightarrow> pod_has_ip pods ip \<or> time_After now (t_nanos ts + pending_timeout))"

definition expire_pending :: "Pod list \<Rightarrow> clock \<Rightarrow> pending_map \<Rightarrow> pending_map" where
  "expire_pending pods now m =
     map_range (\<lambda>name pend. map_option (maps_DeleteFunc (\<lambda>ip ts. expired pods (now name ip) ip ts)) pend) m"

definition pod_ips :: "Pod list \<Rightarrow> string list" where
  "pod_ips pods = map (\<lambda>p. cut_ip (fst (extractVlan p))) (filter (\<lambda>p. snd (extractVlan p)) pods)"

text \<open>The keys of the pending map, which are pool names, are what the code calls pending addresses.\<close>

definition filter_free :: "string list \<Rightarrow> pending_map \<Rightarrow> free_map \<Rightarrow> free_map" where
  "filter_free podIpList pending m =
     map_range (\<lambda>pn ips. Some (slices_DeleteFunc
       (\<lambda>ip. slices_Contains (map_keys pending) (cut_ip ip) \<or> slices_Contains podIpList (cut_ip ip))
       (elems ips))) m"

text \<open>\<open>time.Until\<close> saturates; the zero time of a failed \<open>Parse\<close> is far in the past.\<close>

definition saturate :: "int \<Rightarrow> int" where
  "saturate d = max (- (2 ^ 63)) (min (2 ^ 63 - 1) d)"

definition remaining :: "int \<Rightarrow> string \<Rightarrow> int" where
  "remaining now v =
     (case time_Parse v of
        None \<Rightarrow> - (2 ^ 63)
      | Some t \<Rightarrow> saturate (t_nanos t + pending_timeout - now))"

text \<open>The loop that assigns \<open>requeueIn\<close> anew for every pool it visits.\<close>

fun requeue_loop :: "clock \<Rightarrow> pending_map \<Rightarrow> int option \<Rightarrow> int option" where
  "requeue_loop now [] requeueIn = requeueIn"
| "requeue_loop now ((name, pending) # ps) requeueIn =
     requeue_loop now ps
       (slices_Min (map (\<lambda>(ip, v). remaining (now name ip) v) (elems pending)))"

subsection \<open>The update of one network and of all\<close>

text \<open>The update before the worker pods are listed, and after.\<close>

definition reset_status :: "VlanNetworkSpec \<Rightarrow> Pod list \<Rightarrow> VlanNetworkStatus \<Rightarrow> VlanNetworkStatus" where
  "reset_status spec daemons s0 =
     (let s = make_maps s0;
          free0 = elems (st_FreeIPs s);
          (free, pending) = fold refill_pool (elems (sp_Pools spec))
            (prune_pools (elems (sp_Pools spec)) (map_keys free0) (free0, elems (st_PendingIPs s)))
      in s\<lparr>st_State := Some (prune_state (daemon_names daemons) (elems (st_State s))),
           st_FreeIPs := Some free, st_PendingIPs := Some pending\<rparr>)"

definition settle_status :: "Pod list \<Rightarrow> clock \<Rightarrow> VlanNetworkStatus \<Rightarrow> VlanNetworkStatus" where
  "settle_status pods now s =
     (let pending = expire_pending pods now (elems (st_PendingIPs s))
      in s\<lparr>st_PendingIPs := Some pending,
           st_FreeIPs := Some (filter_free (pod_ips pods) pending (elems (st_FreeIPs s)))\<rparr>)"

definition update_status :: "VlanNetworkSpec \<Rightarrow> Pod list \<Rightarrow> Pod list \<Rightarrow> clock \<Rightarrow> VlanNetworkStatus \<Rightarrow> VlanNetworkStatus" where
  "update_status spec daemons pods now s = settle_status pods now (reset_status spec daemons s)"

text \<open>
  The error of listing the daemon pods is overwritten before it is read, so a failed call counts as
  an empty list. The result is the network as mutated, the time to look again, and the error.
\<close>

definition updateVlanNetworkStatus ::
    "'w kube \<Rightarrow> Envs \<Rightarrow> VlanNetwork \<Rightarrow> ('w, VlanNetwork \<times> int option \<times> go_error option) state" where
  "updateVlanNetworkStatus K env net = do {
     r \<leftarrow> k_ListPods K (env_NamespaceName env) [];
     let daemons = (case r of Inl _ \<Rightarrow> [] | Inr ds \<Rightarrow> ds);
     let net1 = net\<lparr>net_Status := reset_status (net_Spec net) daemons (net_Status net)\<rparr>;
     let requirement = \<lparr> req_Key = WorkerPodLabelKey, req_Operator = ''=='', req_Values = [net_Name net] \<rparr>;
     (case k_NewRequirement K requirement of
        Some err \<Rightarrow> ret (net1, None, Some (InternalError
          (''Error compiling the label selector requirement for listing worker pods while updating status: '' @
           error_text err)))
      | None \<Rightarrow> do {
          r2 \<leftarrow> k_ListPods K [] [requirement];
          (case r2 of
             Inl err \<Rightarrow> ret (net1, None, Some
               (NewClientRequestError ''Error listing pods in updateVlanNetworkStatus'' err))
           | Inr pods \<Rightarrow> do {
               now \<leftarrow> k_Clock K;
               now2 \<leftarrow> k_Clock K;
               let s = settle_status pods now (net_Status net1);
               ret (net1\<lparr>net_Status := s\<rparr>, requeue_loop now2 (elems (st_PendingIPs s)) None, None)
             })
        })
   }"

fun update_networks ::
    "'w kube \<Rightarrow> Envs \<Rightarrow> VlanNetwork list \<Rightarrow> int option \<Rightarrow> ('w, int option \<times> go_error option) state" where
  "update_networks K env [] rq = ret (rq, None)"
| "update_networks K env (net # nets) rq = do {
     (net', rq2, err) \<leftarrow> updateVlanNetworkStatus K env net;
     (case err of
        Some e \<Rightarrow> ret (rq2, Some e)
      | None \<Rightarrow> do {
          u \<leftarrow> k_UpdateStatus K net';
          (case u of
             Inl e \<Rightarrow> ret (rq2, Some (NewClientRequestError
               (''Update vlan network '' @ net_Name net @ [CHR 0x27] @ ''s status'') e))
           | Inr _ \<Rightarrow> update_networks K env nets rq2)
        })
   }"

definition UpdateAllNetworkStatus :: "'w kube \<Rightarrow> Envs \<Rightarrow> ('w, int option \<times> go_error option) state" where
  "UpdateAllNetworkStatus K env = do {
     r \<leftarrow> k_ListNetworks K;
     (case r of
        Inl err \<Rightarrow> ret (None, Some (NewClientRequestError ''List vlan networks in UpdateStatus'' err))
      | Inr items \<Rightarrow> update_networks K env items None)
   }"

text \<open>
  \<open>res\<close>: the time after which to reconcile again, the earliest of those given; zero, the value in
  an empty \<open>ctrl.Result\<close>, for none. \<open>slices.Min\<close> panics on an empty slice.
\<close>

definition min_outcome :: "int list \<Rightarrow> int outcome" where
  "min_outcome xs = (case slices_Min xs of None \<Rightarrow> Panics ''slices.Min: empty list'' | Some m \<Rightarrow> Ok m)"

definition res :: "int option \<Rightarrow> int slice \<Rightarrow> int outcome" where
  "res rq durations =
     (if rq = None \<and> durations = None then Ok 0
      else case rq of
        None \<Rightarrow> min_outcome (elems durations)
      | Some d \<Rightarrow> min_outcome (elems durations @ [d]))"

subsection \<open>Keys and well-formedness\<close>

lemma prune_pools_eq:
  "prune_pools pools names (free, pending) =
     (fold map_delete (filter (\<lambda>n. n \<notin> pool_Name ` set pools) names) free,
      fold map_delete (filter (\<lambda>n. n \<notin> pool_Name ` set pools) names) pending)"
  by (induction names arbitrary: free pending) (auto simp: poolName_def image_iff)

lemma wf_prune_pools:
  assumes "wf_map free" and "wf_map pending"
  shows "wf_map (fst (prune_pools pools names (free, pending)))"
    and "wf_map (snd (prune_pools pools names (free, pending)))"
  using assms by (simp_all add: prune_pools_eq alist.wf_fold_remove)

lemma refill_free: "fst (refill_pool p fp) = map_assign (pool_Name p) (pool_Addresses p) (fst fp)"
  by (simp add: refill_pool_def Let_def case_prod_beta)

lemma refill_pending_lookup:
  "map_lookup (snd (refill_pool p fp)) k =
     (if k = pool_Name p then Some (Some (elems (the_default None (map_lookup (snd fp) k))))
      else map_lookup (snd fp) k)"
  by (auto simp: refill_pool_def Let_def case_prod_beta gomap_simps the_default_def
      split: option.splits)

lemma fold_refill_free:
  "fst (fold refill_pool ps fp) = fold (\<lambda>p. map_assign (pool_Name p) (pool_Addresses p)) ps (fst fp)"
  by (induction ps arbitrary: fp) (simp_all add: refill_free)

lemma fold_refill_pending_lookup:
  "map_lookup (snd (fold refill_pool ps fp)) k =
     (if k \<in> pool_Name ` set ps then Some (Some (elems (the_default None (map_lookup (snd fp) k))))
      else map_lookup (snd fp) k)"
  by (induction ps arbitrary: fp) (auto simp: refill_pending_lookup the_default_def)

lemma wf_fold_refill:
  "wf_map (fst fp) \<Longrightarrow> wf_map (snd fp) \<Longrightarrow>
   wf_map (fst (fold refill_pool ps fp)) \<and> wf_map (snd (fold refill_pool ps fp))"
  by (induction ps arbitrary: fp)
    (auto simp: refill_pool_def Let_def case_prod_beta wf_map_assign split: option.splits)

lemma map_lookup_fold_delete:
  "map_lookup (fold map_delete ks m) k = (if k \<in> set ks then None else map_lookup m k)"
  by (rule alist.lookup_fold_remove)

lemma fold_assign_lookup:
  assumes "distinct (map f ps)"
  shows "map_lookup (fold (\<lambda>p. map_assign (f p) (g p)) ps m) k =
     (case find (\<lambda>p. f p = k) ps of Some p \<Rightarrow> Some (g p) | None \<Rightarrow> map_lookup m k)"
  using assms
proof (induction ps arbitrary: m)
  case (Cons p ps)
  then have IH: "map_lookup (fold (\<lambda>p. map_assign (f p) (g p)) ps (map_assign (f p) (g p) m)) k =
      (case find (\<lambda>p. f p = k) ps of Some p \<Rightarrow> Some (g p)
       | None \<Rightarrow> map_lookup (map_assign (f p) (g p) m) k)"
    by simp
  show ?case
  proof (cases "f p = k")
    case True
    then have "find (\<lambda>p. f p = k) ps = None"
      using Cons.prems by (auto simp: find_None_iff image_iff)
    with True IH show ?thesis by (simp add: gomap_simps)
  next
    case False
    with IH show ?thesis by (cases "find (\<lambda>p. f p = k) ps") (simp_all add: gomap_simps)
  qed
qed simp

text \<open>The names of the pools of a specification, and the reset maps read by key.\<close>

definition pool_names :: "VlanNetworkSpec \<Rightarrow> string set" where
  "pool_names spec = pool_Name ` set (elems (sp_Pools spec))"

definition find_pool :: "VlanNetworkSpec \<Rightarrow> string \<Rightarrow> VlanNetworkPool option" where
  "find_pool spec k = find (\<lambda>p. pool_Name p = k) (elems (sp_Pools spec))"

definition distinct_pools :: "VlanNetworkSpec \<Rightarrow> bool" where
  "distinct_pools spec \<longleftrightarrow> distinct (map pool_Name (elems (sp_Pools spec)))"

lemma find_pool_None: "find_pool spec k = None \<longleftrightarrow> k \<notin> pool_names spec"
  by (auto simp: find_pool_def pool_names_def find_None_iff)

definition dropped_pool :: "VlanNetworkSpec \<Rightarrow> VlanNetworkStatus \<Rightarrow> string \<Rightarrow> bool" where
  "dropped_pool spec s k \<longleftrightarrow> k \<notin> pool_names spec \<and> map_lookup (elems (st_FreeIPs s)) k \<noteq> None"

lemma reset_free_lookup:
  assumes "distinct_pools spec"
  shows "map_lookup (elems (st_FreeIPs (reset_status spec daemons s))) k =
     map_option pool_Addresses (find_pool spec k)"
proof -
  let ?free = "elems (st_FreeIPs s)"
  have "map_lookup (fst (prune_pools (elems (sp_Pools spec)) (map_keys ?free)
      (?free, elems (st_PendingIPs s)))) k = None" if "find_pool spec k = None"
    using that map_keys_iff [of k ?free]
    by (simp add: prune_pools_eq map_lookup_fold_delete find_pool_None pool_names_def)
  then show ?thesis
    using assms
    by (auto simp: reset_status_def Let_def case_prod_beta make_maps_def fold_refill_free
        fold_assign_lookup distinct_pools_def find_pool_def split: option.splits)
qed

lemma reset_pending_lookup:
  "map_lookup (elems (st_PendingIPs (reset_status spec daemons s))) k =
     (if k \<in> pool_names spec then
        Some (Some (elems (the_default None (map_lookup (elems (st_PendingIPs s)) k))))
      else if dropped_pool spec s k then None
      else map_lookup (elems (st_PendingIPs s)) k)"
proof -
  let ?free = "elems (st_FreeIPs s)"
  have "map_lookup (snd (prune_pools (elems (sp_Pools spec)) (map_keys ?free)
      (?free, elems (st_PendingIPs s)))) k =
      (if dropped_pool spec s k then None else map_lookup (elems (st_PendingIPs s)) k)"
    using map_keys_iff [of k ?free]
    by (auto simp: prune_pools_eq map_lookup_fold_delete dropped_pool_def pool_names_def)
  then show ?thesis
    by (auto simp: reset_status_def Let_def case_prod_beta make_maps_def
        fold_refill_pending_lookup pool_names_def dropped_pool_def)
qed

lemma reset_state:
  "st_State (reset_status spec daemons s) = Some (prune_state (daemon_names daemons) (elems (st_State s)))"
  by (simp add: reset_status_def Let_def case_prod_beta make_maps_def)

lemma wf_reset:
  assumes "wf_status s"
  shows "wf_map (elems (st_FreeIPs (reset_status spec daemons s)))"
    and "wf_map (elems (st_PendingIPs (reset_status spec daemons s)))"
    and "wf_map (elems (st_State (reset_status spec daemons s)))"
proof -
  let ?fp = "prune_pools (elems (sp_Pools spec)) (map_keys (elems (st_FreeIPs s)))
    (elems (st_FreeIPs s), elems (st_PendingIPs s))"
  have "wf_map (fst ?fp)" "wf_map (snd ?fp)"
    using assms by (auto intro!: wf_prune_pools simp: wf_status_def)
  then have "wf_map (fst (fold refill_pool (elems (sp_Pools spec)) ?fp)) \<and>
      wf_map (snd (fold refill_pool (elems (sp_Pools spec)) ?fp))"
    by (rule wf_fold_refill)
  then show "wf_map (elems (st_FreeIPs (reset_status spec daemons s)))"
    "wf_map (elems (st_PendingIPs (reset_status spec daemons s)))"
    by (simp_all add: reset_status_def Let_def case_prod_beta make_maps_def)
  show "wf_map (elems (st_State (reset_status spec daemons s)))"
    using assms by (simp add: reset_state prune_state_def wf_map_DeleteFunc wf_status_def)
qed

text \<open>The time stamp of an address that is pending in a pool.\<close>

definition pending_of :: "VlanNetworkStatus \<Rightarrow> string \<Rightarrow> string \<Rightarrow> string option" where
  "pending_of s pool ip =
     (case map_lookup (elems (st_PendingIPs s)) pool of
        Some pend \<Rightarrow> map_lookup (elems pend) ip
      | None \<Rightarrow> None)"

definition free_of :: "VlanNetworkStatus \<Rightarrow> string \<Rightarrow> string list" where
  "free_of s pool = elems (the_default None (map_lookup (elems (st_FreeIPs s)) pool))"

lemma wf_status_pending:
  "wf_status s \<Longrightarrow> map_lookup (elems (st_PendingIPs s)) k = Some pend \<Longrightarrow> wf_map (elems pend)"
  by (auto simp: wf_status_def map_lookup_Some_iff)

lemma reset_pending_of:
  "pending_of (reset_status spec daemons s) k ip =
     (if dropped_pool spec s k then None else pending_of s k ip)"
  by (auto simp: pending_of_def reset_pending_lookup dropped_pool_def the_default_def
      split: option.splits)

lemma reset_wf:
  assumes "wf_status s"
  shows "wf_status (reset_status spec daemons s)"
proof -
  have "wf_map (elems m)" if "(k, m) \<in> set (elems (st_PendingIPs (reset_status spec daemons s)))" for k m
  proof -
    have "map_lookup (elems (st_PendingIPs (reset_status spec daemons s))) k = Some m"
      using that wf_reset(2) [OF assms] by (simp add: map_lookup_Some_iff)
    then show ?thesis
      using wf_status_pending [OF assms, of k]
      by (auto simp: reset_pending_lookup the_default_def split: if_splits option.splits)
  qed
  then show ?thesis using wf_reset [OF assms] by (auto simp: wf_status_def)
qed

lemma settle_pending_of:
  assumes "wf_status s"
  shows "pending_of (settle_status pods now s) k ip =
     (case pending_of s k ip of None \<Rightarrow> None
      | Some ts \<Rightarrow> if expired pods (now k ip) ip ts then None else Some ts)"
proof -
  have "map_lookup (maps_DeleteFunc (\<lambda>ip ts. expired pods (now k ip) ip ts) m) ip =
      (case map_lookup m ip of None \<Rightarrow> None
       | Some ts \<Rightarrow> if expired pods (now k ip) ip ts then None else Some ts)"
    if "map_lookup (elems (st_PendingIPs s)) k = Some (Some m)" for m
    using wf_status_pending [OF assms that] by (simp add: map_lookup_DeleteFunc)
  then show ?thesis
    by (auto simp: pending_of_def settle_status_def Let_def expire_pending_def map_lookup_range
        elems_def split: option.splits)
qed

lemma settle_wf:
  assumes "wf_status s"
  shows "wf_status (settle_status pods now s)"
  using assms
  by (auto simp: wf_status_def settle_status_def Let_def expire_pending_def filter_free_def
      map_range_def case_prod_beta wf_map_def comp_def elems_def maps_DeleteFunc_def
      intro: distinct_map_filter split: option.splits)

lemma expire_lookup_None:
  "map_lookup (expire_pending pods now m) k = None \<longleftrightarrow> map_lookup m k = None"
  by (simp add: expire_pending_def map_lookup_range)

lemma settle_free_lookup:
  "map_lookup (elems (st_FreeIPs (settle_status pods now s))) k =
     map_option (\<lambda>ips. Some (filter (\<lambda>a. cut_ip a \<notin> set (pod_ips pods) \<and>
        map_lookup (elems (st_PendingIPs s)) (cut_ip a) = None) (elems ips)))
      (map_lookup (elems (st_FreeIPs s)) k)"
  by (simp add: settle_status_def Let_def filter_free_def map_lookup_range expire_lookup_None map_keys_iff
      slices_DeleteFunc_def conj_commute cong: map_option_cong)

subsection \<open>Properties\<close>

text \<open>The pools that the pending map knows after the reset.\<close>

definition pending_pool :: "VlanNetworkSpec \<Rightarrow> VlanNetworkStatus \<Rightarrow> string \<Rightarrow> bool" where
  "pending_pool spec s k \<longleftrightarrow>
     k \<in> pool_names spec \<or>
     (map_lookup (elems (st_PendingIPs s)) k \<noteq> None \<and> map_lookup (elems (st_FreeIPs s)) k = None)"

lemma reset_pending_pool:
  "map_lookup (elems (st_PendingIPs (reset_status spec daemons s))) k = None \<longleftrightarrow> \<not> pending_pool spec s k"
  by (auto simp: reset_pending_lookup pending_pool_def dropped_pool_def)

text \<open>
  C21: after an update the free addresses of a pool of the specification are exactly the addresses
  the specification lists for it, in that order, less those that, without their prefix length, are
  the address of a listed worker pod, or equal the name of a pool of the pending map; every other pool
  is gone. It holds whatever the status was before, so the free list of a pool never depends on its
  earlier content, and an address that is pending in a pool still counts as free.
\<close>

theorem update_status_free:
  assumes "distinct_pools spec"
  shows "map_lookup (elems (st_FreeIPs (update_status spec daemons pods now s))) k =
     map_option (\<lambda>p. Some (filter (\<lambda>a. cut_ip a \<notin> set (pod_ips pods) \<and> \<not> pending_pool spec s (cut_ip a))
       (elems (pool_Addresses p)))) (find_pool spec k)"
  by (simp add: update_status_def settle_free_lookup reset_free_lookup [OF assms]
      reset_pending_pool option.map_comp comp_def)

text \<open>
  C22: an update keeps the time stamp of a pending address if its pool was not dropped from the
  specification, the stamp parses, no listed worker pod has the address and no more than 35 seconds
  have passed since it; in every other case the address is no longer pending. No address becomes
  pending by an update.
\<close>

theorem update_status_pending:
  assumes "wf_status s"
  shows "pending_of (update_status spec daemons pods now s) k ip =
     (case pending_of s k ip of
        None \<Rightarrow> None
      | Some ts \<Rightarrow>
          if \<not> dropped_pool spec s k \<and>
             (\<exists>t. time_Parse ts = Some t \<and> now k ip \<le> t_nanos t + 35 * Second) \<and>
             \<not> (\<exists>p \<in> set pods. snd (extractVlan p) \<and> cut_ip (fst (extractVlan p)) = cut_ip ip)
          then Some ts else None)"
  by (auto simp: update_status_def settle_pending_of [OF reset_wf [OF assms]] reset_pending_of
      expired_def pod_has_ip_def time_After_def pending_timeout_def
      ReconcilerPendingIPsTimeoutSeconds_def case_prod_beta split: option.splits)

lemma maps_DeleteFunc_none: "maps_DeleteFunc (\<lambda>k v. True) m = []"
  by (simp add: maps_DeleteFunc_def case_prod_beta)

text \<open>
  An update removes the state of every connection whose pod is not among the listed pods and
  keeps the others unchanged; a list of no pods, which is also what a failed list call leaves, removes
  the state of every connection.
\<close>

theorem update_status_state:
  assumes "wf_status s"
  shows "map_lookup (elems (st_State (update_status spec daemons pods now s))) k =
       (if k \<in> pod_Name ` set daemons \<or> (k = [] \<and> daemons \<noteq> [])
        then map_lookup (elems (st_State s)) k else None) \<and>
     elems (st_State (update_status spec [] pods now s)) = []"
proof -
  have "wf_map (elems (st_State s))" using assms by (simp add: wf_status_def)
  then show ?thesis
    by (auto simp: update_status_def settle_status_def Let_def reset_state prune_state_def
        map_lookup_DeleteFunc daemon_names_def maps_DeleteFunc_none split: option.splits)
qed

lemma update_status_wf [status_ops]: "wf_status s \<Longrightarrow> wf_status (update_status spec daemons pods now s)"
  by (simp add: update_status_def settle_wf reset_wf)

interpretation update_op: status_op "update_status spec daemons pods now" for spec daemons pods now
  by unfold_locales (rule update_status_wf)

subsection \<open>When to look again\<close>

lemma slices_Min_eq: "slices_Min xs = (if xs = [] then None else Some (Min (set xs)))"
proof (cases "slices_Min xs")
  case None
  then show ?thesis by (simp add: slices_Min_None)
next
  case (Some m)
  then have "m \<in> set xs" "\<forall>y \<in> set xs. m \<le> y" using slices_Min_Some by blast+
  then have "Min (set xs) = m" by (intro Min_eqI) auto
  with Some show ?thesis by (cases xs) auto
qed

text \<open>
  The time after which the operator looks again is decided by the pool it happens to visit
  last: the least remaining time of the addresses pending in that pool, and none if nothing is
  pending there, whatever is pending in the other pools.
\<close>

theorem requeue_last_pool:
  "requeue_loop now (ps @ [(name, pend)]) rq =
     (if elems pend = [] then None
      else Some (Min ((\<lambda>(ip, v). remaining (now name ip) v) ` set (elems pend))))"
proof -
  have "requeue_loop now (ps @ [(name, pend)]) rq =
      slices_Min (map (\<lambda>(ip, v). remaining (now name ip) v) (elems pend))"
    by (induction ps arbitrary: rq) auto
  then show ?thesis by (simp add: slices_Min_eq)
qed

text \<open>
  \<open>res\<close> never panics on the arguments the reconciler gives it (no durations or one), and
  asks to reconcile after the lesser of the two given times, after the only one, or, when there is
  none, gives the empty result.
\<close>

theorem res_earliest:
  "res rq None = Ok (case rq of None \<Rightarrow> 0 | Some d \<Rightarrow> d) \<and>
   res rq (Some [t]) = Ok (case rq of None \<Rightarrow> t | Some d \<Rightarrow> min t d)"
  by (cases rq) (simp_all add: res_def min_outcome_def)

subsection \<open>Writing the statuses\<close>

fun status_writes :: "call list \<Rightarrow> (VlanNetwork \<times> bool) list" where
  "status_writes [] = []"
| "status_writes (UpdatedStatus n ok # cs) = (n, ok) # status_writes cs"
| "status_writes (c # cs) = status_writes cs"

lemma status_writes_append [simp]: "status_writes (a @ b) = status_writes a @ status_writes b"
  by (induction a rule: status_writes.induct) auto

lemma updateVlanNetworkStatus_run:
  assumes "run_state (updateVlanNetworkStatus (traced K) env net) (w, tr) = ((net', rq, err), (w', tr'))"
  shows "net_Meta net' = net_Meta net \<and> net_Spec net' = net_Spec net \<and>
     status_writes tr' = status_writes tr"
  using assms
  by (auto simp: updateVlanNetworkStatus_def run_simps Let_def case_prod_beta
      split: option.splits sum.splits)

definition net_key :: "VlanNetwork \<Rightarrow> ObjectMeta \<times> VlanNetworkSpec" where
  "net_key n = (net_Meta n, net_Spec n)"

lemma update_networks_run:
  assumes "run_state (update_networks (traced K) env nets rq) (w, tr) = ((rq', err), (w', tr'))"
  shows "\<exists>new. status_writes tr' = status_writes tr @ new \<and>
     (\<exists>k \<le> length nets. map (\<lambda>r. net_key (fst r)) new = map net_key (take k nets) \<and>
        list_all snd (butlast new) \<and> (err = None \<longleftrightarrow> k = length nets \<and> list_all snd new))"
  using assms
proof (induction nets arbitrary: rq w tr)
  case Nil
  then show ?case by auto
next
  case (Cons net nets)
  obtain net1 rq1 err1 w1 tr1 where one:
    "run_state (updateVlanNetworkStatus (traced K) env net) (w, tr) = ((net1, rq1, err1), (w1, tr1))"
    by (metis prod.collapse)
  note key = updateVlanNetworkStatus_run [OF one]
  have key': "net_key net1 = net_key net" using key by (simp add: net_key_def)
  show ?case
  proof (cases err1)
    case (Some e)
    with Cons.prems one key show ?thesis
      by (intro exI [of _ "[]"]) (auto intro: exI [of _ 0])
  next
    case None
    obtain u w2 where u: "run_state (k_UpdateStatus K net1) w1 = (u, w2)" by (metis prod.collapse)
    show ?thesis
    proof (cases u)
      case (Inl e)
      with Cons.prems one key None u show ?thesis
        by (intro exI [of _ "[(net1, False)]"])
          (auto simp: run_simps net_key_def intro!: exI [of _ 1])
    next
      case (Inr x)
      with Cons.prems one None u
      have "run_state (update_networks (traced K) env nets rq1) (w2, tr1 @ [UpdatedStatus net1 True]) =
          ((rq', err), (w', tr'))"
        by (simp add: run_simps)
      from Cons.IH [OF this] obtain new k
        where "status_writes tr' = status_writes (tr1 @ [UpdatedStatus net1 True]) @ new"
        "k \<le> length nets" "map (\<lambda>r. net_key (fst r)) new = map net_key (take k nets)"
        "list_all snd (butlast new)"
        "err = None \<longleftrightarrow> k = length nets \<and> list_all snd new"
        by blast
      with key(1) key' show ?thesis
        by (intro exI [of _ "(net1, True) # new"]) (auto intro!: exI [of _ "Suc k"])
    qed
  qed
qed

text \<open>
  C32: one round of status updates writes the networks in the order the API listed them, each at
  most once and with its metadata and specification as listed; a write that fails is the last one, and
  it returns no error exactly when every listed network was written and every write succeeded.
\<close>

theorem UpdateAllNetworkStatus_writes:
  "case run_state (UpdateAllNetworkStatus (traced K) env) (w, []) of ((rq, err), (w', tr)) \<Rightarrow>
     (case run_state (k_ListNetworks K) w of
        (Inl e, _) \<Rightarrow> status_writes tr = [] \<and> err \<noteq> None
      | (Inr nets, _) \<Rightarrow>
          \<exists>k \<le> length nets.
            map (\<lambda>r. net_key (fst r)) (status_writes tr) = map net_key (take k nets) \<and>
            list_all snd (butlast (status_writes tr)) \<and>
            (err = None \<longleftrightarrow> k = length nets \<and> list_all snd (status_writes tr)))"
proof (cases "run_state (k_ListNetworks K) w")
  case (Pair r w1)
  show ?thesis
  proof (cases r)
    case (Inl e)
    with Pair show ?thesis by (simp add: UpdateAllNetworkStatus_def run_simps)
  next
    case (Inr nets)
    obtain rq err w' tr where run:
      "run_state (update_networks (traced K) env nets None) (w1, [ListedNetworks]) = ((rq, err), (w', tr))"
      by (metis prod.collapse)
    show ?thesis
      using update_networks_run [OF run] Pair Inr run
      by (auto simp: UpdateAllNetworkStatus_def run_simps)
  qed
qed

subsection \<open>A sample\<close>

definition sample_pool_spec :: VlanNetworkSpec where
  "sample_pool_spec = zero_spec\<lparr>sp_Pools := Some [\<lparr> pool_Description = [], pool_Routes = None,
     pool_Addresses = Some [''10.0.0.1/24'', ''10.0.0.2/24''], pool_Name = ''primary'' \<rparr>]\<rparr>"

definition sample_worker :: Pod where
  "sample_worker = zero_pod\<lparr>pod_Spec := zero_podspec\<lparr>ps_InitContainers := [
     \<lparr> ct_Name = ''init-vlan'', ct_Image = [], ct_ImagePullPolicy = [], ct_Command = [],
       ct_Env = [\<lparr> ev_Name = ''MACVLAN_IP'', ev_Value = ''10.0.0.1'' \<rparr>,
                 \<lparr> ev_Name = ''MACVLAN_SUBNET'', ev_Value = ''24'' \<rparr>],
       ct_Ports = [], ct_Capabilities = [] \<rparr>]\<rparr>\<rparr>"

definition sample_stamp_text :: string where
  "sample_stamp_text = ''06/15 12:00:00PM '' @ [CHR 0x27] @ ''25 +0000''"

definition sample_status :: VlanNetworkStatus where
  "sample_status = zero_status\<lparr>st_PendingIPs := Some [(''primary'',
       Some [(''10.0.0.2/24'', sample_stamp_text)])],
     st_State := Some [(''pod1'', StateUp)]\<rparr>"

lemma sample_worker_ip: "extractVlan sample_worker = (''10.0.0.1/24'', True)"
  by (simp add: extractVlan_def sample_worker_def zero_pod_def zero_podspec_def)

lemma sample_pod_ips: "pod_ips [sample_worker] = [''10.0.0.1'']"
  by (simp add: pod_ips_def sample_worker_ip cut_ip_def slash_def)

lemma sample_status_wf: "wf_status sample_status"
  by (simp add: wf_status_def sample_status_def zero_status_def wf_map_def)

theorem update_status_free_witness:
  "map_lookup (elems (st_FreeIPs (update_status sample_pool_spec [] [sample_worker] (\<lambda>_ _. 0) sample_status)))
     ''primary'' = Some (Some [''10.0.0.2/24''])"
  by (subst update_status_free)
    (simp_all add: distinct_pools_def find_pool_def sample_pool_spec_def sample_pod_ips
      cut_ip_def slash_def pending_pool_def pool_names_def sample_status_def zero_status_def map_lookup_def)

lemma sample_stamp:
  "time_Parse sample_stamp_text =
     Some \<lparr> t_nanos = 1749988800 * Second, t_offset = 0 \<rparr>"
  by code_simp

lemma sample_pending: "pending_of sample_status ''primary'' ''10.0.0.2/24'' =
    Some sample_stamp_text"
  by (simp add: pending_of_def sample_status_def zero_status_def map_lookup_def)

theorem update_status_pending_witness:
  "pending_of (update_status sample_pool_spec [] [sample_worker] (\<lambda>_ _. 1749988835 * Second) sample_status)
     ''primary'' ''10.0.0.2/24'' \<noteq> None \<and>
   pending_of (update_status sample_pool_spec [] [sample_worker] (\<lambda>_ _. 1749988836 * Second) sample_status)
     ''primary'' ''10.0.0.2/24'' = None"
proof -
  have "\<not> dropped_pool sample_pool_spec sample_status ''primary''"
    by (simp add: dropped_pool_def sample_pool_spec_def pool_names_def)
  then show ?thesis
    unfolding update_status_pending [OF sample_status_wf] sample_pending
    by (simp add: sample_stamp sample_worker_ip cut_ip_def slash_def Second_def)
qed

theorem update_status_state_witness:
  "map_lookup (elems (st_State (update_status sample_pool_spec [zero_pod\<lparr>pod_Meta := zero_meta\<lparr>meta_Name := ''pod1''\<rparr>\<rparr>]
     [] (\<lambda>_ _. 0) sample_status))) ''pod1'' = Some StateUp"
  using update_status_state [OF sample_status_wf, of sample_pool_spec
      "[zero_pod\<lparr>pod_Meta := zero_meta\<lparr>meta_Name := ''pod1''\<rparr>\<rparr>]" "[]" "\<lambda>_ _. 0" "''pod1''"]
  by (simp add: pod_Name_def sample_status_def map_lookup_def)

end
