(* ===== verification/Traces.thy ===== *)
theory Traces
  imports Kube
begin

text \<open>
  Reasoning about the calls of a handler. \<open>emits m R\<close> says that a traced handler only appends to
  the log and that its result and what it appended are related by \<open>R\<close>; there is a rule for each
  construct a handler is built from.
\<close>

definition emits :: "('w \<times> 'c list, 'a) state \<Rightarrow> ('a \<Rightarrow> 'c list \<Rightarrow> bool) \<Rightarrow> bool" where
  "emits m R \<longleftrightarrow> (\<forall>w tr. \<exists>a w' new. run_state m (w, tr) = (a, (w', tr @ new)) \<and> R a new)"

lemma emitsD:
  assumes "emits m R" and "run_state m (w, tr) = (a, (w', tr'))"
  obtains new where "tr' = tr @ new" and "R a new"
  using assms unfolding emits_def by (metis prod.inject)

lemma emits_run:
  assumes "emits m R"
  shows "case run_state m (w, []) of (a, (w', tr)) \<Rightarrow> R a tr"
proof -
  obtain a w' tr where run: "run_state m (w, []) = (a, (w', tr))" by (metis prod.collapse)
  with assms show ?thesis by (auto elim: emitsD)
qed

named_theorems emits_intro \<open>rules for what a handler appends to the log\<close>

lemma emits_weaken: "emits m R \<Longrightarrow> (\<And>a new. R a new \<Longrightarrow> S a new) \<Longrightarrow> emits m S"
  unfolding emits_def by blast

lemma emits_ret: "R x [] \<Longrightarrow> emits (ret x) R"
  unfolding emits_def by auto

lemma emits_log_call: "(\<And>a. R a (c a)) \<Longrightarrow> emits (log_call m c) R"
  unfolding emits_def by (auto simp: run_log_call)

lemma emits_bind:
  assumes "emits m R" and "\<And>a new. R a new \<Longrightarrow> emits (f a) (\<lambda>b new'. S b (new @ new'))"
  shows "emits (State_Monad.bind m f) S"
  unfolding emits_def
proof (intro allI)
  fix w tr
  obtain a w' new where 1: "run_state m (w, tr) = (a, (w', tr @ new))" "R a new"
    using assms(1) unfolding emits_def by metis
  obtain b w'' new' where "run_state (f a) (w', tr @ new) = (b, (w'', (tr @ new) @ new'))" "S b (new @ new')"
    using assms(2) [OF 1(2)] unfolding emits_def by metis
  with 1 show "\<exists>b w' new. run_state (State_Monad.bind m f) (w, tr) = (b, (w', tr @ new)) \<and> S b new"
    by (intro exI [of _ b] exI [of _ w''] exI [of _ "new @ new'"]) simp
qed

lemma emits_or_err:
  assumes "emits m R"
    and "\<And>e new. R (Inl e) new \<Longrightarrow> S (Err (wrap e)) new"
    and "\<And>x new. R (Inr x) new \<Longrightarrow> emits (k x) (\<lambda>b new'. S b (new @ new'))"
  shows "emits (or_err m wrap k) S"
  unfolding or_err_def
  using assms by (intro emits_bind [OF assms(1)]) (auto intro: emits_ret split: sum.split)

lemma emits_and_then:
  assumes "emits m R"
    and "\<And>e new. R (Err e) new \<Longrightarrow> S (Err e) new"
    and "\<And>p new. R (Panics p) new \<Longrightarrow> S (Panics p) new"
    and "\<And>new. R Hangs new \<Longrightarrow> S Hangs new"
    and "\<And>x new. R (Ok x) new \<Longrightarrow> emits (k x) (\<lambda>b new'. S b (new @ new'))"
  shows "emits (and_then m k) S"
  unfolding and_then_def
  using assms(2-) by (intro emits_bind [OF assms(1)]) (auto intro: emits_ret split: outcome.split)

lemma emits_log_bind:
  "(\<And>a. emits (f a) (\<lambda>b new. S b (c a @ new))) \<Longrightarrow> emits (State_Monad.bind (log_call m c) f) S"
  by (rule emits_bind [OF emits_log_call [where R = "\<lambda>a new. new = c a"]]) auto

lemma emits_log_or_err:
  "(\<And>e. S (Err (wrap e)) (c (Inl e))) \<Longrightarrow> (\<And>x. emits (k x) (\<lambda>b new. S b (c (Inr x) @ new))) \<Longrightarrow>
   emits (or_err (log_call m c) wrap k) S"
  by (rule emits_or_err [OF emits_log_call [where R = "\<lambda>a new. new = c a"]]) auto

lemma emits_if:
  "(b \<Longrightarrow> emits f S) \<Longrightarrow> (\<not> b \<Longrightarrow> emits g S) \<Longrightarrow> emits (if b then f else g) S"
  by simp

lemma emits_sum:
  "(\<And>e. r = Inl e \<Longrightarrow> emits (f e) S) \<Longrightarrow> (\<And>x. r = Inr x \<Longrightarrow> emits (g x) S) \<Longrightarrow>
   emits (case r of Inl e \<Rightarrow> f e | Inr x \<Rightarrow> g x) S"
  by (cases r) auto

lemma emits_option:
  "(r = None \<Longrightarrow> emits f S) \<Longrightarrow> (\<And>x. r = Some x \<Longrightarrow> emits (g x) S) \<Longrightarrow>
   emits (case r of None \<Rightarrow> f | Some x \<Rightarrow> g x) S"
  by (cases r) auto

lemma emits_prod:
  "(\<And>x y. r = (x, y) \<Longrightarrow> emits (f x y) S) \<Longrightarrow> emits (case r of (x, y) \<Rightarrow> f x y) S"
  by (cases r) auto

lemmas emits_rules = emits_log_bind emits_log_or_err emits_if emits_sum emits_option emits_prod emits_ret

text \<open>
  The common case: every call a handler makes, whatever it is answered, has a property. The
  interface of such a property is a class of calls closed under nothing but concatenation.
\<close>

definition only :: "('c \<Rightarrow> bool) \<Rightarrow> ('w \<times> 'c list, 'a) state \<Rightarrow> bool" where
  "only P m \<longleftrightarrow> emits m (\<lambda>_ new. list_all P new)"

lemma only_ret [emits_intro]: "only P (ret x)"
  by (simp add: only_def emits_ret)

lemma only_log_call [emits_intro]: "(\<And>a. list_all P (c a)) \<Longrightarrow> only P (log_call m c)"
  by (simp add: only_def emits_log_call)

lemma only_bind [emits_intro]: "only P m \<Longrightarrow> (\<And>a. only P (f a)) \<Longrightarrow> only P (State_Monad.bind m f)"
  unfolding only_def by (erule emits_bind) (auto elim: emits_weaken)

lemma only_or_err [emits_intro]: "only P m \<Longrightarrow> (\<And>x. only P (k x)) \<Longrightarrow> only P (or_err m wrap k)"
  unfolding only_def by (erule emits_or_err) (auto elim: emits_weaken)

lemma only_and_then [emits_intro]: "only P m \<Longrightarrow> (\<And>x. only P (k x)) \<Longrightarrow> only P (and_then m k)"
  unfolding only_def by (erule emits_and_then) (auto elim: emits_weaken)

lemma only_sum [emits_intro]:
  "(\<And>e. r = Inl e \<Longrightarrow> only P (f e)) \<Longrightarrow> (\<And>x. r = Inr x \<Longrightarrow> only P (g x)) \<Longrightarrow>
   only P (case r of Inl e \<Rightarrow> f e | Inr x \<Rightarrow> g x)"
  by (cases r) auto

lemma only_option [emits_intro]:
  "(r = None \<Longrightarrow> only P f) \<Longrightarrow> (\<And>x. r = Some x \<Longrightarrow> only P (g x)) \<Longrightarrow>
   only P (case r of None \<Rightarrow> f | Some x \<Rightarrow> g x)"
  by (cases r) auto

lemma only_outcome [emits_intro]:
  "(\<And>x. only P (f x)) \<Longrightarrow> (\<And>x. only P (g x)) \<Longrightarrow> (\<And>x. only P (h x)) \<Longrightarrow> only P i \<Longrightarrow>
   only P (case r of Ok x \<Rightarrow> f x | Err x \<Rightarrow> g x | Panics x \<Rightarrow> h x | Hangs \<Rightarrow> i)"
  by (cases r) auto

lemma only_if [emits_intro]:
  "(b \<Longrightarrow> only P f) \<Longrightarrow> (\<not> b \<Longrightarrow> only P g) \<Longrightarrow> only P (if b then f else g)"
  by simp

lemma only_prod [emits_intro]: "(\<And>x y. only P (f x y)) \<Longrightarrow> only P (case r of (x, y) \<Rightarrow> f x y)"
  by (cases r) auto

lemma only_run: "only P m \<Longrightarrow> case run_state m (w, []) of (a, (w', tr)) \<Rightarrow> list_all P tr"
  unfolding only_def by (rule emits_run)

subsection \<open>The call before success\<close>

text \<open>A handler can only succeed right after the call \<open>c\<close>.\<close>

definition ends_ok :: "'c \<Rightarrow> ('w \<times> 'c list, 'a outcome) state \<Rightarrow> bool" where
  "ends_ok c m \<longleftrightarrow> emits m (\<lambda>r new. ok_outcome r \<longrightarrow> (\<exists>a. new = a @ [c]))"

named_theorems ends_intro \<open>rules for the call before success\<close>

definition appends :: "('w \<times> 'c list, 'a) state \<Rightarrow> bool" where
  "appends m \<longleftrightarrow> emits m (\<lambda>r new. True)"

lemma only_appends: "only P m \<Longrightarrow> appends m"
  unfolding only_def appends_def by (erule emits_weaken) simp

lemma log_call_appends [ends_intro]: "appends (log_call m c)"
  by (simp add: appends_def emits_log_call)

lemma ends_ok_fail [ends_intro]:
  "ends_ok c (ret (Err e))" "ends_ok c (ret (Panics p))" "ends_ok c (ret Hangs)"
  by (simp_all add: ends_ok_def emits_ret)

lemma ends_ok_bind [ends_intro]:
  "appends m \<Longrightarrow> (\<And>a. ends_ok c (f a)) \<Longrightarrow> ends_ok c (State_Monad.bind m f)"
  unfolding ends_ok_def appends_def
  by (erule emits_bind) (rule emits_weaken, assumption, metis append.assoc)

lemma ends_ok_or_err [ends_intro]:
  "appends m \<Longrightarrow> (\<And>x. ends_ok c (k x)) \<Longrightarrow> ends_ok c (or_err m wrap k)"
  unfolding or_err_def by (rule ends_ok_bind) (auto split: sum.split simp: ends_ok_fail)

lemma ends_ok_and_then [ends_intro]:
  "appends m \<Longrightarrow> (\<And>x. ends_ok c (k x)) \<Longrightarrow> ends_ok c (and_then m k)"
  unfolding and_then_def by (rule ends_ok_bind) (auto split: outcome.split simp: ends_ok_fail)

lemma ends_ok_last [ends_intro]:
  "(\<And>x. g (Inr x) = [c]) \<Longrightarrow> ends_ok c (or_err (log_call m g) wrap (\<lambda>x. ret (Ok (h x))))"
  unfolding ends_ok_def by (rule emits_log_or_err) (auto intro: emits_ret)

lemma ends_ok_if [ends_intro]: "ends_ok c f \<Longrightarrow> ends_ok c g \<Longrightarrow> ends_ok c (if b then f else g)"
  by simp

lemma ends_ok_prod [ends_intro]: "(\<And>x y. ends_ok c (f x y)) \<Longrightarrow> ends_ok c (case r of (x, y) \<Rightarrow> f x y)"
  by (cases r) auto

lemma ends_ok_option [ends_intro]:
  "ends_ok c f \<Longrightarrow> (\<And>x. ends_ok c (g x)) \<Longrightarrow> ends_ok c (case r of None \<Rightarrow> f | Some x \<Rightarrow> g x)"
  by (cases r) auto

lemma emits_conj: "emits m R \<Longrightarrow> emits m S \<Longrightarrow> emits m (\<lambda>r new. R r new \<and> S r new)"
  unfolding emits_def by (metis append_same_eq prod.inject same_append_eq)

end
