(* ===== verification/Actions.thy ===== *)
theory Actions
  imports Status Traces
begin

text \<open>
  \<open>internal/controller/actions.go\<close>: what the operator does for each action of the comparison. Every
  wait loop with a counter is a recursion on that counter; the two loops without one (waiting for
  all pods of a daemon set, waiting for a pod's address) take fuel and end with \<open>Hangs\<close>.
\<close>

definition half_second :: int where
  "half_second = Second div 2"

definition nil_response :: go_error where
  "nil_response = Errorf ''response or response body is nil''"

subsection \<open>requestManagerPID\<close>

definition pid_url :: "string \<Rightarrow> string" where
  "pid_url ip = ''http://'' @ ip @ '':61410/pid''"

definition requestManagerPID :: "'w kube \<Rightarrow> string \<Rightarrow> ('w, int64 outcome) state" where
  "requestManagerPID K ip =
     or_err (k_HttpGet K (pid_url ip)) (RequestError ''Get PID'') (\<lambda>resp.
       case resp of
         None \<Rightarrow> ret (Err (RequestError ''Get PID'' nil_response))
       | Some hr \<Rightarrow>
           (case hr_Body hr of
              None \<Rightarrow> ret (Err (RequestError ''Get PID'' nil_response))
            | Some (Inl err) \<Rightarrow> ret (Err (ParsingError
                ''CreatemanagerAction/CreateJob/ReadBodyPIDResponse'' (Some err)))
            | Some (Inr body) \<Rightarrow>
                (case Unmarshal pid_dec body of
                   None \<Rightarrow> ret (Err (ParsingError
                     ''CreatemanagerAction/CreateJob/UnmarshalBodyPIDResponse''
                     (Some (Foreign ''json: cannot unmarshal''))))
                 | Some p \<Rightarrow> ret (Ok (pid_PID p)))))"

subsection \<open>Creating a job in place of an older one\<close>

definition job_Name :: "Job \<Rightarrow> string" where
  "job_Name j = meta_Name (job_Meta j)"

definition job_Namespace :: "Job \<Rightarrow> string" where
  "job_Namespace j = meta_Namespace (job_Meta j)"

text \<open>The loop until the older job has finished; it goes on after 30 tries even if it has not.\<close>

function wait_job_finish :: "'w kube \<Rightarrow> Job \<Rightarrow> nat \<Rightarrow> Job \<Rightarrow> ('w, Job outcome) state" where
  "wait_job_finish K job tries existing =
     (if job_Active existing \<noteq> 0 \<and> tries \<le> 30 then do {
        k_Sleep K Second;
        or_err (k_GetJob K (job_Name job) (job_Namespace job)) (NewClientRequestError ''Get conflicting job'')
          (\<lambda>e. wait_job_finish K job (tries + 1) e)
      } else ret (Ok existing))"
  by pat_completeness auto
termination by (relation "measure (\<lambda>(K, job, tries, e). 31 - tries)") auto

text \<open>The loop until the older job is gone; it also gives up waiting after its tries.\<close>

function wait_job_deleted :: "'w kube \<Rightarrow> Job \<Rightarrow> nat \<Rightarrow> bool \<Rightarrow> ('w, unit outcome) state" where
  "wait_job_deleted K job tries jobDeleted =
     (if \<not> jobDeleted \<and> tries \<le> 30 then do {
        k_Sleep K Second;
        r \<leftarrow> k_GetJob K (job_Name job) (job_Namespace job);
        (case r of
           Inl e \<Rightarrow>
             if \<not> IsNotFound (Some e)
             then ret (Err (NewClientRequestError ''Get conflicting job while waiting for delete'' e))
             else wait_job_deleted K job (tries + 1) True
         | Inr _ \<Rightarrow> wait_job_deleted K job (tries + 1) jobDeleted)
      } else ret (Ok ()))"
  by pat_completeness auto
termination by (relation "measure (\<lambda>(K, job, tries, d). 31 - tries)") auto

declare wait_job_finish.simps [simp del] wait_job_deleted.simps [simp del]

definition replace_job :: "'w kube \<Rightarrow> Job \<Rightarrow> ('w, Job outcome) state" where
  "replace_job K job =
     or_err (k_GetJob K (job_Name job) (job_Namespace job)) (NewClientRequestError ''Get conflicting job'') (\<lambda>existing0.
     and_then (wait_job_finish K job 1 existing0) (\<lambda>existing.
     or_err (k_DeleteJob K existing) (NewClientRequestError ''Delete conflicting job after it finished'') (\<lambda>_. do {
       r \<leftarrow> k_GetJob K (job_Name job) (job_Namespace job);
       (if err_of r \<noteq> None \<and> \<not> IsNotFound (err_of r)
        then ret (Err (NewClientRequestError ''Get conflicting job'' (the (err_of r))))
        else and_then (wait_job_deleted K job 0 (IsNotFound (err_of r))) (\<lambda>_.
          or_err (k_CreateJob K job) (NewClientRequestError ''Create job after deleting conflicting one'') (\<lambda>j.
            ret (Ok j))))
     })))"

text \<open>The job as the server returned it, or as it was made when the first creation is refused.\<close>

definition create_job :: "'w kube \<Rightarrow> Job \<Rightarrow> ('w, Job outcome) state" where
  "create_job K job = do {
     r \<leftarrow> k_CreateJob K job;
     (case r of
        Inr j \<Rightarrow> ret (Ok j)
      | Inl err \<Rightarrow>
          if IsAlreadyExists (Some err) then replace_job K job
          else ret (Err (ClientRequestError ''Create job'' err)))
   }"

subsection \<open>CreateManagerAction\<close>

definition ds_Name :: "DaemonSet \<Rightarrow> string" where
  "ds_Name d = meta_Name (ds_Meta d)"

definition ds_Namespace :: "DaemonSet \<Rightarrow> string" where
  "ds_Namespace d = meta_Namespace (ds_Meta d)"

text \<open>\<open>Get(ctx, key, &daemonSet)\<close>: the object keeps its value when the call fails.\<close>

definition get_into :: "'a \<Rightarrow> go_error + 'a \<Rightarrow> 'a \<times> go_error option" where
  "get_into old r = (case r of Inl e \<Rightarrow> (old, Some e) | Inr x \<Rightarrow> (x, None))"

function wait_daemonset ::
    "'w kube \<Rightarrow> nat \<Rightarrow> DaemonSet \<times> go_error option \<Rightarrow> ('w, nat \<times> DaemonSet \<times> go_error option) state" where
  "wait_daemonset K timeout de =
     (if (IsNotFound (snd de) \<or> ds_Status (fst de) = zero_daemonset_status) \<and>
         timeout \<le> WaitForDaemonTimeout then do {
        k_Sleep K half_second;
        r \<leftarrow> k_GetDaemonSet K (ds_Name (fst de)) (ds_Namespace (fst de));
        wait_daemonset K (timeout + 1) (get_into (fst de) r)
      } else ret (timeout, de))"
  by pat_completeness auto
termination
  by (relation "measure (\<lambda>(K, timeout, de). Suc WaitForDaemonTimeout - timeout)") auto

text \<open>The wait until no daemon is unavailable, with the counter of the first wait.\<close>

function wait_available :: "'w kube \<Rightarrow> string \<Rightarrow> nat \<Rightarrow> DaemonSet \<Rightarrow> ('w, (nat \<times> DaemonSet) outcome) state" where
  "wait_available K namespace timeout d =
     (if timeout \<le> WaitForDaemonTimeout \<and> dss_NumberUnavailable (ds_Status d) \<noteq> 0 then do {
        r \<leftarrow> k_GetDaemonSet K (ds_Name d) namespace;
        (case r of
           Inl e \<Rightarrow>
             if \<not> IsNotFound (Some e) then ret (Err (ClientRequestError ''Get Daemonset'' e))
             else do { k_Sleep K half_second; wait_available K namespace (timeout + 1) d }
         | Inr d' \<Rightarrow> do { k_Sleep K half_second; wait_available K namespace (timeout + 1) d' })
      } else ret (Ok (timeout, d)))"
  by pat_completeness auto
termination
  by (relation "measure (\<lambda>(K, namespace, timeout, d). Suc WaitForDaemonTimeout - timeout)") auto

text \<open>The wait for all pods of the daemon set has no bound.\<close>

fun wait_pods :: "nat \<Rightarrow> 'w kube \<Rightarrow> Requirement list \<Rightarrow> int \<Rightarrow> Pod list \<Rightarrow> ('w, Pod list outcome) state" where
  "wait_pods fuel K opts desired pods =
     (if int (length pods) \<noteq> desired then
        (case fuel of
           0 \<Rightarrow> ret Hangs
         | Suc fuel' \<Rightarrow>
             or_err (k_ListPods K [] opts) (NewClientRequestError ''ListPods'') (\<lambda>items.
               wait_pods fuel' K opts desired items))
      else ret (Ok pods))"

function wait_pod_ip :: "'w kube \<Rightarrow> nat \<Rightarrow> Pod \<Rightarrow> ('w, (nat \<times> Pod) outcome) state" where
  "wait_pod_ip K tries pod =
     (if pod_PodIP pod = [] \<and> tries \<le> WaitForDaemonTimeout then
        or_err (k_GetPod K (pod_Name pod) (pod_Namespace pod)) (ClientRequestError ''Wait for pod'') (\<lambda>p.
          wait_pod_ip K (tries + 1) p)
      else ret (Ok (tries, pod)))"
  by pat_completeness auto
termination
  by (relation "measure (\<lambda>(K, tries, pod). Suc WaitForDaemonTimeout - tries)") auto

declare wait_daemonset.simps [simp del] wait_available.simps [simp del] wait_pods.simps [simp del]
  wait_pod_ip.simps [simp del]

text \<open>
  The readiness probe. The first request goes to the root, the later ones to \<open>/ready\<close>; reading the
  status code of a nil response panics.
\<close>

definition probe_url :: "string \<Rightarrow> string" where
  "probe_url ip = ''http://'' @ ip @ '':61410''"

definition ready_url :: "string \<Rightarrow> string" where
  "ready_url ip = ''http://'' @ ip @ '':61410/ready''"

function wait_ready :: "'w kube \<Rightarrow> string \<Rightarrow> nat \<Rightarrow> HttpResponse option \<Rightarrow> ('w, unit outcome) state" where
  "wait_ready K ip tries resp =
     (case resp of
        None \<Rightarrow> ret (Panics nil_panic)
      | Some hr \<Rightarrow>
          if hr_StatusCode hr \<noteq> 200 \<and> tries \<le> WaitForDaemonTimeout then
            or_err (k_HttpGet K (ready_url ip)) (RequestError ''CheckDaemonReady'') (\<lambda>resp'. do {
              k_Sleep K half_second;
              wait_ready K ip (tries + 1) resp'
            })
          else ret (Ok ()))"
  by pat_completeness auto
termination
  by (relation "measure (\<lambda>(K, ip, tries, resp). Suc WaitForDaemonTimeout - tries)") auto

declare wait_ready.simps [simp del]

definition check_ready :: "'w kube \<Rightarrow> string \<Rightarrow> ('w, unit outcome) state" where
  "check_ready K ip =
     or_err (k_HttpGet K (probe_url ip)) (RequestError ''CheckDaemonReady'') (\<lambda>resp.
       case resp of
         None \<Rightarrow> ret (Err (RequestError ''CheckDaemonReady'' (Errorf ''Response is nil'')))
       | Some hr \<Rightarrow> wait_ready K ip 0 (Some hr))"

text \<open>The connection is recorded as up; the errors of both calls are ignored.\<close>

definition mark_up :: "string \<Rightarrow> VlanNetwork \<Rightarrow> VlanNetwork" where
  "mark_up podName vlan = vlan\<lparr>net_Status := set_connection_state podName StateUp (net_Status vlan)\<rparr>"

definition record_up :: "'w kube \<Rightarrow> string \<Rightarrow> string \<Rightarrow> ('w, unit) state" where
  "record_up K networkName podName = do {
     r \<leftarrow> k_GetNetwork K networkName;
     let vlan = fst (get_into zero_network r);
     _ \<leftarrow> k_UpdateStatus K (mark_up podName vlan);
     ret ()
   }"

text \<open>The body of the loop over the pods of the daemon set.\<close>

definition connect_pod :: "'w kube \<Rightarrow> Envs \<Rightarrow> ManagerSet \<Rightarrow> Pod \<Rightarrow> ('w, unit outcome) state" where
  "connect_pod K env mgr pod0 =
     and_then (wait_pod_ip K 1 pod0) (\<lambda>(tries, pod).
       if WaitForDaemonTimeout < tries then
         ret (Err (DaemonPodTimeoutError (pod_Name pod) False
           (Some (UnimplementedError ''Cleanup unimplemented''))))
       else
         and_then (requestManagerPID K (pod_PodIP pod)) (\<lambda>pid.
         and_then (create_job K (interfaceFromDaemon pod pid (ms_VlanID mgr) (env_TTL env)
             (env_InterfacePodImage env) (ms_OwnerNetworkName mgr) (env_InterfacePodPullPolicy env)
             (ms_Mappings mgr) False)) (\<lambda>_.
         and_then (check_ready K (pod_PodIP pod)) (\<lambda>_. do {
           record_up K (ms_OwnerNetworkName mgr) (pod_Name pod);
           ret (Ok ())
         }))))"

fun connect_pods :: "'w kube \<Rightarrow> Envs \<Rightarrow> ManagerSet \<Rightarrow> Pod list \<Rightarrow> ('w, unit outcome) state" where
  "connect_pods K env mgr [] = ret (Ok ())"
| "connect_pods K env mgr (p # ps) =
     and_then (connect_pod K env mgr p) (\<lambda>_. connect_pods K env mgr ps)"

text \<open>The last part: the pods are listed and connected, then the service is created.\<close>

definition finish_create ::
    "nat \<Rightarrow> 'w kube \<Rightarrow> Envs \<Rightarrow> ManagerSet \<Rightarrow> DaemonSet \<Rightarrow> Service \<Rightarrow> ('w, unit outcome) state" where
  "finish_create fuel K env mgr d svc =
     (let requirement = \<lparr> req_Key = ManagerSetLabelKey, req_Operator = ''=='',
                          req_Values = [ms_OwnerNetworkName mgr] \<rparr>
      in case k_NewRequirement K requirement of
           Some err \<Rightarrow> ret (Err (InternalError
             (''Error creating a label selector requirement in createDesiredState: '' @ error_text err)))
         | None \<Rightarrow>
             and_then (wait_pods fuel K [requirement] (dss_DesiredNumberScheduled (ds_Status d)) []) (\<lambda>pods.
             and_then (connect_pods K env mgr pods) (\<lambda>_.
               or_err (k_CreateService K svc) (ClientRequestError ''CreateService'') (\<lambda>_. ret (Ok ())))))"

definition CreateManagerAction_execute ::
    "nat \<Rightarrow> 'w kube \<Rightarrow> Envs \<Rightarrow> ManagerSet \<Rightarrow> DaemonSet \<Rightarrow> Service \<Rightarrow> ('w, unit outcome) state" where
  "CreateManagerAction_execute fuel K env mgr daemonSet svc =
     or_err (k_CreateDaemonSet K daemonSet) (ClientRequestError ''Create daemonset'') (\<lambda>d0. do {
       r \<leftarrow> k_GetDaemonSet K (ds_Name d0) (ds_Namespace d0);
       (timeout, d1, err) \<leftarrow> wait_daemonset K 1 (get_into d0 r);
       (case err of
          Some e \<Rightarrow> ret (Err (NewClientRequestError ''GetDaemonset'' e))
        | None \<Rightarrow>
            if WaitForDaemonTimeout < timeout then
              ret (Err (DaemonSetTimeoutError (ms_OwnerNetworkName mgr) 0 0 True None))
            else
              and_then (wait_available K (env_NamespaceName env) timeout d1) (\<lambda>(timeout2, d2).
                if WaitForDaemonTimeout < timeout2 then do {
                  del \<leftarrow> k_DeleteDaemonSet K d2;
                  ret (Err (DaemonSetTimeoutError (ms_OwnerNetworkName mgr)
                    (dss_CurrentNumberScheduled (ds_Status d2)) (dss_DesiredNumberScheduled (ds_Status d2))
                    (err_of del = None) (err_of del)))
                } else finish_create fuel K env mgr d2 svc))
     })"

definition fatal_daemonset :: "go_error \<Rightarrow> go_error" where
  "fatal_daemonset err =
     UnrecoverableError ''Error creating a daemonset from manager specification'' (Some err)"

definition CreateManagerAction_Do :: "nat \<Rightarrow> 'w kube \<Rightarrow> Envs \<Rightarrow> ManagerSet \<Rightarrow> ('w, unit outcome) state" where
  "CreateManagerAction_Do fuel K env mgr =
     or_err (ret (daemonSetFromManager mgr env)) fatal_daemonset (\<lambda>daemonSet.
       CreateManagerAction_execute fuel K env mgr daemonSet
         (serviceForManagerSet mgr (env_NamespaceName env)))"

subsection \<open>DeleteManagerAction\<close>

definition DeleteManagerAction_execute :: "'w kube \<Rightarrow> DaemonSet \<Rightarrow> Service \<Rightarrow> ('w, unit outcome) state" where
  "DeleteManagerAction_execute K daemonSet svc =
     or_err (k_DeleteDaemonSet K daemonSet) (ClientRequestError ''Delete daemonset'') (\<lambda>_. do {
       r \<leftarrow> k_DeleteService K svc;
       (case err_of r of
          Some err \<Rightarrow> if \<not> IsNotFound (Some err) then ret (Err (ClientRequestError ''Delete service'' err))
                      else ret (Ok ())
        | None \<Rightarrow> ret (Ok ()))
     })"

definition DeleteManagerAction_Do :: "'w kube \<Rightarrow> Envs \<Rightarrow> ManagerSet \<Rightarrow> ('w, unit outcome) state" where
  "DeleteManagerAction_Do K env mgr =
     or_err (ret (daemonSetFromManager mgr env)) fatal_daemonset (\<lambda>daemonSet.
       DeleteManagerAction_execute K daemonSet (serviceForManagerSet mgr (env_NamespaceName env)))"

subsection \<open>SpawnInterfaceAction\<close>

fun wait_address :: "nat \<Rightarrow> 'w kube \<Rightarrow> string \<Rightarrow> string \<Rightarrow> Pod \<Rightarrow> ('w, Pod outcome) state" where
  "wait_address fuel K name namespace pod =
     (if pod_PodIP pod = [] then
        (case fuel of
           0 \<Rightarrow> ret Hangs
         | Suc fuel' \<Rightarrow> do {
             k_Sleep K Second;
             or_err (k_GetPod K name namespace) (NewClientRequestError ''Get pod in spawn interface action'')
               (\<lambda>p. wait_address fuel' K name namespace p)
           })
      else ret (Ok pod))"

declare wait_address.simps [simp del]

function wait_job_inactive :: "'w kube \<Rightarrow> nat \<Rightarrow> Job \<Rightarrow> ('w, (nat \<times> Job) outcome) state" where
  "wait_job_inactive K tries job =
     (if job_Active job \<noteq> 0 \<and> tries \<le> 30 then do {
        k_Sleep K Second;
        or_err (k_GetJob K (job_Name job) (job_Namespace job)) (NewClientRequestError ''Get running job'')
          (\<lambda>j. wait_job_inactive K (tries + 1) j)
      } else ret (Ok (tries, job)))"
  by pat_completeness auto
termination by (relation "measure (\<lambda>(K, tries, job). 31 - tries)") auto

declare wait_job_inactive.simps [simp del]

definition SpawnInterfaceAction_execute ::
    "'w kube \<Rightarrow> VlanNetworkState \<Rightarrow> string \<Rightarrow> Job \<Rightarrow> ('w, unit outcome) state" where
  "SpawnInterfaceAction_execute K owner podName job =
     and_then (create_job K job) (\<lambda>job1.
     and_then (wait_job_inactive K 0 job1) (\<lambda>(tries, job2).
       if tries = 31 then
         ret (Err (InternalError
           (''Error waiting for vlan interface creation job to complete: '' @ job_Name job2)))
       else
         or_err (k_GetNetwork K (ns_Name owner))
           (NewClientRequestError (''Get vlan network '' @ ns_Name owner)) (\<lambda>vlan.
         or_err (k_UpdateStatus K (mark_up podName vlan))
           (NewClientRequestError (''Update status of vlan network '' @ ns_Name owner)) (\<lambda>_.
           ret (Ok ())))))"

definition SpawnInterfaceAction_Do ::
    "nat \<Rightarrow> 'w kube \<Rightarrow> Envs \<Rightarrow> VlanNetworkState \<Rightarrow> string \<Rightarrow> ('w, unit outcome) state" where
  "SpawnInterfaceAction_Do fuel K env owner podName =
     or_err (k_GetPod K podName (env_NamespaceName env))
       (NewClientRequestError (''Get pod '' @ podName @ ''@'' @ env_NamespaceName env)) (\<lambda>pod0.
     and_then (wait_address fuel K podName (env_NamespaceName env) pod0) (\<lambda>pod.
     and_then (requestManagerPID K (pod_PodIP pod)) (\<lambda>pid.
       SpawnInterfaceAction_execute K owner podName
         (interfaceFromDaemon pod pid (ns_VlanId owner) (env_TTL env) (env_InterfacePodImage env)
           (ns_Name owner) (env_InterfacePodPullPolicy env) (ns_Mappings owner) True))))"

subsection \<open>UpdateManagerAction\<close>

definition zero_daemonset :: DaemonSet where
  "zero_daemonset = \<lparr> ds_Meta = zero_meta, ds_Selector = [], ds_UpdateStrategy = [],
     ds_TemplateLabels = [], ds_PodSpec = zero_podspec, ds_Status = zero_daemonset_status \<rparr>"

text \<open>The error of making the daemon set is overwritten.\<close>

definition UpdateManagerAction_Do :: "'w kube \<Rightarrow> Envs \<Rightarrow> ManagerSet \<Rightarrow> ('w, unit outcome) state" where
  "UpdateManagerAction_Do K env mgr =
     (let desiredDs = (case daemonSetFromManager mgr env of Inl _ \<Rightarrow> zero_daemonset | Inr d \<Rightarrow> d)
      in or_err (k_UpdateDaemonSet K desiredDs) (NewClientRequestError ''Update daemonset'') (\<lambda>_. ret (Ok ())))"

subsection \<open>Dispatch\<close>

fun Action_Do :: "nat \<Rightarrow> 'w kube \<Rightarrow> Envs \<Rightarrow> Action \<Rightarrow> ('w, unit outcome) state" where
  "Action_Do fuel K env (CreateManagerAction owner mgr) = CreateManagerAction_Do fuel K env mgr"
| "Action_Do fuel K env (DeleteManagerAction mgr) = DeleteManagerAction_Do K env mgr"
| "Action_Do fuel K env (SpawnInterfaceAction owner podName) =
     SpawnInterfaceAction_Do fuel K env owner podName"
| "Action_Do fuel K env (UpdateManagerAction owner mgr) = UpdateManagerAction_Do K env mgr"

end
