(* ===== verification/ActionFacts.thy ===== *)
theory ActionFacts
  imports Actions
begin

text \<open>
  What the actions ask of the cluster, for every client: which calls they make, in which order, how
  often, and what a result of an action says about the calls made.
\<close>

subsection \<open>Classes of calls\<close>

fun is_service_creation :: "call \<Rightarrow> bool" where
  "is_service_creation (CreatedService s ok) = True"
| "is_service_creation _ = False"

fun is_status_write :: "call \<Rightarrow> bool" where
  "is_status_write (UpdatedStatus n ok) = True"
| "is_status_write _ = False"

fun is_daemonset_get :: "call \<Rightarrow> bool" where
  "is_daemonset_get (GotDaemonSet n ns) = True"
| "is_daemonset_get _ = False"

fun is_daemonset_delete :: "call \<Rightarrow> bool" where
  "is_daemonset_delete (DeletedDaemonSet d ok) = True"
| "is_daemonset_delete _ = False"

text \<open>The calls of the parts that deal with one pod: jobs, requests to the pod, its network's status.\<close>

fun pod_call :: "call \<Rightarrow> bool" where
  "pod_call (GotPod n ns) = True"
| "pod_call (GotJob n ns) = True"
| "pod_call (GotNetwork n) = True"
| "pod_call (CreatedJob j ok) = True"
| "pod_call (DeletedJob j ok) = True"
| "pod_call (UpdatedStatus n ok) = True"
| "pod_call (HttpGot u) = True"
| "pod_call (Slept d) = True"
| "pod_call _ = False"

fun job_call :: "call \<Rightarrow> bool" where
  "job_call (GotJob n ns) = True"
| "job_call (CreatedJob j ok) = True"
| "job_call (DeletedJob j ok) = True"
| "job_call (Slept d) = True"
| "job_call _ = False"

lemma job_call_pod_call: "job_call c \<Longrightarrow> pod_call c"
  by (cases c) auto

lemma only_mono: "only P m \<Longrightarrow> (\<And>c. P c \<Longrightarrow> Q c) \<Longrightarrow> only Q m"
  unfolding only_def by (erule emits_weaken) (auto elim: list.pred_mono_strong)

subsection \<open>The parts\<close>

lemma only_requestManagerPID [emits_intro]: "only pod_call (requestManagerPID (traced K) ip)"
  unfolding requestManagerPID_def traced_simps
  by (intro emits_intro) (auto intro!: emits_intro split: option.split sum.split)

text \<open>A loop with a counter: it suffices to show a round, given the rounds with a larger counter.\<close>

lemma counter_induct:
  assumes "\<And>n x. (\<And>m y. n < m \<Longrightarrow> n \<le> k \<Longrightarrow> P m y) \<Longrightarrow> P n x"
  shows "P (n :: nat) x"
proof (induction "Suc k - n" arbitrary: n x rule: less_induct)
  case less
  show ?case by (rule assms) (rule less, simp)
qed

lemma only_wait_job_finish [emits_intro]: "only job_call (wait_job_finish (traced K) job tries e)"
  by (induction tries e rule: counter_induct [where k = 30])
    (subst wait_job_finish.simps, unfold traced_simps, (rule emits_intro | simp)+)

lemma only_wait_job_deleted [emits_intro]: "only job_call (wait_job_deleted (traced K) job tries d)"
  by (induction tries d rule: counter_induct [where k = 30])
    (subst wait_job_deleted.simps, unfold traced_simps, (rule emits_intro | simp)+)

lemma only_create_job [emits_intro]: "only job_call (create_job (traced K) job)"
  unfolding create_job_def replace_job_def traced_simps Let_def by (rule emits_intro | simp)+

lemma only_wait_ready [emits_intro]: "only pod_call (wait_ready (traced K) ip tries resp)"
  by (induction tries resp rule: counter_induct [where k = WaitForDaemonTimeout])
    (subst wait_ready.simps, unfold traced_simps, (rule emits_intro | simp)+)

lemma only_check_ready [emits_intro]: "only pod_call (check_ready (traced K) ip)"
  unfolding check_ready_def traced_simps by (rule emits_intro | simp)+

lemma only_wait_pod_ip [emits_intro]: "only pod_call (wait_pod_ip (traced K) tries pod)"
  by (induction tries pod rule: counter_induct [where k = WaitForDaemonTimeout])
    (subst wait_pod_ip.simps, unfold traced_simps, (rule emits_intro | simp)+)

lemma only_record_up [emits_intro]: "only pod_call (record_up (traced K) n p)"
  unfolding record_up_def traced_simps Let_def by (rule emits_intro | simp)+

lemma only_connect_pod [emits_intro]: "only pod_call (connect_pod (traced K) env m p)"
  unfolding connect_pod_def
  by (rule emits_intro | simp | rule only_mono [OF only_create_job job_call_pod_call])+

lemma only_connect_pods [emits_intro]: "only pod_call (connect_pods (traced K) env m ps)"
  by (induction ps) (simp_all, (rule emits_intro | simp)+)

subsection \<open>The waits for the daemon set\<close>

fun wait_call :: "call \<Rightarrow> bool" where
  "wait_call (GotDaemonSet n ns) = True"
| "wait_call (Slept d) = True"
| "wait_call _ = False"

definition gets :: "call list \<Rightarrow> nat" where
  "gets tr = length (filter is_daemonset_get tr)"

lemma gets_simps [simp]: "gets [] = 0" "gets (a @ b) = gets a + gets b"
  "gets (c # tr) = (if is_daemonset_get c then Suc (gets tr) else gets tr)"
  by (simp_all add: gets_def)

lemma gets_none: "list_all P tr \<Longrightarrow> (\<And>c. P c \<Longrightarrow> \<not> is_daemonset_get c) \<Longrightarrow> gets tr = 0"
  by (induction tr) auto

lemma emits_wait_daemonset:
  assumes "timeout \<le> 31"
  shows "emits (wait_daemonset (traced K) timeout de) (\<lambda>r new.
     timeout + gets new = fst r \<and> fst r \<le> 31 \<and> list_all wait_call new)"
  using assms
proof (induction timeout de rule: counter_induct [where k = 30])
  case (1 n x)
  have IH: "emits (wait_daemonset (traced K) (Suc n) y) (\<lambda>r new.
      Suc n + gets new = fst r \<and> fst r \<le> 31 \<and> list_all wait_call new)" if "n \<le> 30" for y
    using that by (intro 1) simp_all
  show ?case
    by (subst wait_daemonset.simps, unfold traced_simps, intro emits_rules)
      (use 1(2) in \<open>auto simp: WaitForDaemonTimeout_def intro!: emits_weaken [OF IH]\<close>)
qed

lemma emits_wait_available:
  assumes "timeout \<le> 31"
  shows "emits (wait_available (traced K) namespace timeout d) (\<lambda>r new.
     timeout + gets new \<le> 31 \<and> list_all wait_call new)"
  using assms
proof (induction timeout d rule: counter_induct [where k = 30])
  case (1 n x)
  have IH: "emits (wait_available (traced K) namespace (Suc n) y) (\<lambda>r new.
      Suc n + gets new \<le> 31 \<and> list_all wait_call new)" if "n \<le> 30" for y
    using that by (intro 1) simp_all
  show ?case
    by (subst wait_available.simps, unfold traced_simps, intro emits_rules)
      (use 1(2) in \<open>auto simp: WaitForDaemonTimeout_def intro!: emits_weaken [OF IH]\<close>)
qed

subsection \<open>Creating a job\<close>

lemma ends_replace_job: "ends_ok (CreatedJob job True) (replace_job (traced K) job)"
  unfolding replace_job_def traced_simps
  by (intro ends_intro only_appends [OF only_wait_job_finish] only_appends [OF only_wait_job_deleted]) simp

text \<open>A job counts as created only if its own creation was the last call and succeeded.\<close>

lemma emits_create_job:
  "emits (create_job (traced K) job) (\<lambda>r new. list_all job_call new \<and>
     (ok_outcome r \<longrightarrow> (\<exists>a. new = a @ [CreatedJob job True])))"
proof (rule emits_conj [OF only_create_job [unfolded only_def]])
  show "emits (create_job (traced K) job) (\<lambda>r new. ok_outcome r \<longrightarrow> (\<exists>a. new = a @ [CreatedJob job True]))"
    unfolding create_job_def traced_simps
  proof (intro emits_rules)
    fix a err
    show "emits (replace_job (traced K) job) (\<lambda>r new. ok_outcome r \<longrightarrow>
        (\<exists>b. [CreatedJob job (ok_result a)] @ new = b @ [CreatedJob job True]))"
      using ends_replace_job [unfolded ends_ok_def] by (rule emits_weaken) (metis append.assoc)
  qed simp_all
qed

subsection \<open>Deletion\<close>

lemma daemonSetFromManager_total: "\<exists>d. daemonSetFromManager mgr env = Inr d"
  by (simp add: daemonSetFromManager_def Let_def)

text \<open>
  Deleting a manager first asks to delete the daemon set of its network and, only if that
  succeeded, to delete its service; it succeeds exactly when the daemon set was deleted and the
  service was deleted or did not exist. Nothing else is asked of the cluster.
\<close>

theorem delete_manager_calls:
  "case run_state (DeleteManagerAction_Do (traced K) env mgr) (w, []) of (r, (w', tr)) \<Rightarrow>
     \<exists>d. daemonSetFromManager mgr env = Inr d \<and>
       (case run_state (k_DeleteDaemonSet K d) w of
          (Inl e, w1) \<Rightarrow> tr = [DeletedDaemonSet d False] \<and> w' = w1 \<and>
            r = Err (ClientRequestError ''Delete daemonset'' e)
        | (Inr u, w1) \<Rightarrow>
            (case run_state (k_DeleteService K (serviceForManagerSet mgr (env_NamespaceName env))) w1 of
               (sr, w2) \<Rightarrow> w' = w2 \<and>
                 tr = [DeletedDaemonSet d True,
                       DeletedService (serviceForManagerSet mgr (env_NamespaceName env)) (ok_result sr)] \<and>
                 (r = Ok ()) = (ok_result sr \<or> IsNotFound (err_of sr))))"
proof -
  obtain d where d: "daemonSetFromManager mgr env = Inr d" using daemonSetFromManager_total by blast
  let ?svc = "serviceForManagerSet mgr (env_NamespaceName env)"
  obtain dr w1 where dr: "run_state (k_DeleteDaemonSet K d) w = (dr, w1)" by (metis prod.collapse)
  obtain sr w2 where sr: "run_state (k_DeleteService K ?svc) w1 = (sr, w2)" by (metis prod.collapse)
  show ?thesis
    using d dr sr
    by (cases dr; cases sr)
      (simp_all add: DeleteManagerAction_Do_def DeleteManagerAction_execute_def run_simps)
qed

subsection \<open>Repairing a connection\<close>

definition no_status :: "call list \<Rightarrow> bool" where
  "no_status = list_all (\<lambda>c. \<not> is_status_write c)"

lemma no_status_simps [simp]:
  "no_status []" "no_status (c # tr) \<longleftrightarrow> \<not> is_status_write c \<and> no_status tr"
  "no_status (a @ b) \<longleftrightarrow> no_status a \<and> no_status b"
  by (simp_all add: no_status_def)

lemma job_calls_no_status: "list_all job_call tr \<Longrightarrow> no_status tr"
  unfolding no_status_def by (erule list.pred_mono_strong) (auto elim: job_call.elims)

lemma emits_wait_inactive:
  "emits (wait_job_inactive (traced K) tries job) (\<lambda>r new. list_all job_call new)"
  by (induction tries job rule: counter_induct [where k = 30])
    (subst wait_job_inactive.simps, unfold traced_simps, intro emits_rules, auto elim: emits_weaken)

lemma emits_wait_address:
  "emits (wait_address fuel (traced K) n ns pod) (\<lambda>r new. no_status new)"
proof (induction fuel arbitrary: pod)
  case 0
  show ?case by (subst wait_address.simps) (simp add: emits_ret)
next
  case (Suc fuel)
  then show ?case
    by (subst wait_address.simps, unfold traced_simps, simp only: nat.case)
      (intro emits_rules, auto elim: emits_weaken)
qed

lemma emits_requestManagerPID:
  "emits (requestManagerPID (traced K) ip) (\<lambda>r new. new = [HttpGot (pid_url ip)])"
  unfolding requestManagerPID_def traced_simps by (intro emits_rules) simp_all

text \<open>How a repair ends: with one write of the status after the job was created, or without any.\<close>

definition repaired :: "string \<Rightarrow> Job \<Rightarrow> unit outcome \<Rightarrow> call list \<Rightarrow> bool" where
  "repaired podName job r tr \<longleftrightarrow>
     (\<exists>a b vlan ok. tr = a @ [CreatedJob job True] @ b @ [UpdatedStatus (mark_up podName vlan) ok] \<and>
        no_status a \<and> no_status b \<and> (r = Ok ()) = ok) \<or>
     (no_status tr \<and> r \<noteq> Ok ())"

lemma repaired_prefix:
  assumes "no_status p" and "repaired podName job r tr"
  shows "repaired podName job r (p @ tr)"
  using assms(2) unfolding repaired_def
proof (elim disjE exE conjE)
  fix a b vlan ok
  assume "tr = a @ [CreatedJob job True] @ b @ [UpdatedStatus (mark_up podName vlan) ok]"
    "no_status a" "no_status b" "(r = Ok ()) = ok"
  with assms(1) show "(\<exists>a b vlan ok. p @ tr = a @ [CreatedJob job True] @ b @
        [UpdatedStatus (mark_up podName vlan) ok] \<and> no_status a \<and> no_status b \<and> (r = Ok ()) = ok) \<or>
      no_status (p @ tr) \<and> r \<noteq> Ok ()"
    by (intro disjI1 exI [of _ "p @ a"] exI [of _ b] exI [of _ vlan] exI [of _ ok]) simp
qed (use assms(1) in simp)

lemma repaired_none: "no_status tr \<Longrightarrow> r \<noteq> Ok () \<Longrightarrow> repaired podName job r tr"
  by (simp add: repaired_def)

lemma repaired_last:
  assumes "no_status a" and "no_status b" and "(r = Ok ()) = ok"
  shows "repaired podName job r (a @ [CreatedJob job True] @ b @ [UpdatedStatus (mark_up podName vlan) ok])"
  using assms unfolding repaired_def by blast

lemma emits_spawn_execute:
  "emits (SpawnInterfaceAction_execute (traced K) owner podName job) (repaired podName job)"
  unfolding SpawnInterfaceAction_execute_def
proof (rule emits_and_then [OF emits_create_job])
  fix job1 :: Job and new
  assume "list_all job_call new \<and> (ok_outcome (Ok job1) \<longrightarrow> (\<exists>a. new = a @ [CreatedJob job True]))"
  then obtain a where a: "new = a @ [CreatedJob job True]" "no_status a"
    by (auto dest: job_calls_no_status)
  have tail: "repaired podName job r (a @ [CreatedJob job True] @ b @ [UpdatedStatus (mark_up podName vlan) ok])"
    if "no_status b" "(r = Ok ()) = ok" for r b vlan ok
    using a(2) that by (rule repaired_last)
  show "emits (and_then (wait_job_inactive (traced K) 0 job1) (\<lambda>(tries, job2).
      if tries = 31 then ret (Err (InternalError
        (''Error waiting for vlan interface creation job to complete: '' @ job_Name job2)))
      else or_err (k_GetNetwork (traced K) (ns_Name owner))
        (NewClientRequestError (''Get vlan network '' @ ns_Name owner)) (\<lambda>vlan.
        or_err (k_UpdateStatus (traced K) (mark_up podName vlan))
          (NewClientRequestError (''Update status of vlan network '' @ ns_Name owner)) (\<lambda>_. ret (Ok ())))))
     (\<lambda>r new'. repaired podName job r (new @ new'))"
    unfolding traced_simps a(1)
    by (intro emits_rules emits_and_then [OF emits_wait_inactive])
      (use a(2) tail [of "b @ [GotNetwork n]" for b n] in
        \<open>auto simp: job_calls_no_status intro!: repaired_none\<close>)
qed (auto dest: job_calls_no_status intro: repaired_none)

text \<open>
  C29: repairing a connection writes a network status at most once, as its last call, and only
  after a job that creates the interface for that pod, with the repair's name, was created by this very
  repair; the write marks the connection of that pod as up, and the repair succeeds exactly when the
  write does. In every other case no status is written and the repair fails.
\<close>

theorem spawn_interface_calls:
  "case run_state (SpawnInterfaceAction_Do fuel (traced K) env owner podName) (w, []) of (r, (w', tr)) \<Rightarrow>
     \<exists>pod pid. repaired podName
       (interfaceFromDaemon pod pid (ns_VlanId owner) (env_TTL env) (env_InterfacePodImage env)
         (ns_Name owner) (env_InterfacePodPullPolicy env) (ns_Mappings owner) True) r tr"
  (is "case ?run of (r, (w', tr)) \<Rightarrow> \<exists>pod pid. repaired podName (?job pod pid) r tr")
proof -
  have none: "\<exists>pod pid. repaired podName (?job pod pid) r tr" if "no_status tr" "r \<noteq> Ok ()" for r tr
    using repaired_none [OF that] by blast
  have prefix: "\<exists>pod pid. repaired podName (?job pod pid) r (p @ tr)"
    if "repaired podName (?job pod pid) r tr" "no_status p" for p r tr pod pid
    using repaired_prefix [OF that(2,1)] by blast
  have "emits (SpawnInterfaceAction_Do fuel (traced K) env owner podName)
      (\<lambda>r new. \<exists>pod pid. repaired podName (?job pod pid) r new)"
    unfolding SpawnInterfaceAction_Do_def traced_simps
    by (intro emits_rules emits_and_then [OF emits_wait_address] emits_and_then [OF emits_requestManagerPID]
        emits_weaken [OF emits_spawn_execute]; (simp only: append_assoc [symmetric])?;
        ((erule prefix, simp) | (rule none, simp_all)))
  then show ?thesis by (rule emits_run)
qed

subsection \<open>Creation\<close>

fun finish_call :: "call \<Rightarrow> bool" where
  "finish_call (ListedPods ns rs) = True"
| "finish_call c = pod_call c"

lemma pod_call_finish_call: "pod_call c \<Longrightarrow> finish_call c"
  by (cases c) auto

lemma finish_call_other: "finish_call c \<Longrightarrow> \<not> is_service_creation c \<and> \<not> is_daemonset_get c"
  by (cases c) auto

lemma wait_call_other: "wait_call c \<Longrightarrow> \<not> is_service_creation c"
  by (cases c) auto

lemma only_wait_pods: "only finish_call (wait_pods fuel (traced K) opts n pods)"
proof (induction fuel arbitrary: pods)
  case 0
  show ?case by (subst wait_pods.simps) (simp add: only_ret)
next
  case (Suc fuel)
  then show ?case
    by (subst wait_pods.simps, unfold traced_simps, simp only: nat.case) (rule emits_intro | simp)+
qed

text \<open>How a creation ends: with the creation of the service as the last call, or without any.\<close>

definition no_service :: "call list \<Rightarrow> bool" where
  "no_service = list_all (\<lambda>c. \<not> is_service_creation c)"

lemma no_service_simps [simp]:
  "no_service []" "no_service (c # tr) \<longleftrightarrow> \<not> is_service_creation c \<and> no_service tr"
  "no_service (a @ b) \<longleftrightarrow> no_service a \<and> no_service b"
  by (simp_all add: no_service_def)

definition served :: "Service \<Rightarrow> unit outcome \<Rightarrow> call list \<Rightarrow> bool" where
  "served svc r tr \<longleftrightarrow>
     (\<exists>a ok. tr = a @ [CreatedService svc ok] \<and> no_service a \<and> (r = Ok ()) = ok) \<or>
     (no_service tr \<and> r \<noteq> Ok ())"

lemma served_prefix: "no_service p \<Longrightarrow> served svc r tr \<Longrightarrow> served svc r (p @ tr)"
  unfolding served_def by (metis append.assoc no_service_simps(3))

lemma served_step: "\<not> is_service_creation c \<Longrightarrow> served svc r tr \<Longrightarrow> served svc r (c # tr)"
  using served_prefix [of "[c]"] by simp

lemma served_fail:
  "no_service tr \<Longrightarrow> served svc (Err e) tr" "no_service tr \<Longrightarrow> served svc (Panics p) tr"
  "no_service tr \<Longrightarrow> served svc Hangs tr"
  by (simp_all add: served_def)

lemma finish_calls_no_service: "list_all finish_call tr \<Longrightarrow> no_service tr"
  unfolding no_service_def by (erule list.pred_mono_strong) (simp add: finish_call_other)

lemma wait_calls_no_service: "list_all wait_call tr \<Longrightarrow> no_service tr"
  unfolding no_service_def by (erule list.pred_mono_strong) (simp add: wait_call_other)

lemma finish_calls_no_get: "list_all finish_call tr \<Longrightarrow> gets tr = 0"
  by (erule gets_none) (simp add: finish_call_other)

lemma served_last:
  assumes "no_service a" and "no_service b" and "(r = Ok ()) = ok"
  shows "served svc r (a @ b @ [CreatedService svc ok])"
  using assms unfolding served_def by (intro disjI1 exI [of _ "a @ b"] exI [of _ ok]) simp

lemma emits_connect_pods:
  "emits (connect_pods (traced K) env mgr ps) (\<lambda>r new. list_all finish_call new)"
  using only_mono [OF only_connect_pods pod_call_finish_call] by (simp add: only_def)

lemma emits_finish_create:
  "emits (finish_create fuel (traced K) env mgr d svc) (\<lambda>r new. served svc r new \<and> gets new = 0)"
proof (rule emits_conj)
  show "emits (finish_create fuel (traced K) env mgr d svc) (served svc)"
    unfolding finish_create_def traced_simps Let_def
    by (intro emits_rules emits_and_then [OF only_wait_pods [unfolded only_def]]
        emits_and_then [OF emits_connect_pods])
      ((simp only: append_Nil2)?, ((rule served_last; simp add: finish_calls_no_service) |
       (rule served_fail; simp add: finish_calls_no_service)))+
  show "emits (finish_create fuel (traced K) env mgr d svc) (\<lambda>r new. gets new = 0)"
    unfolding finish_create_def traced_simps Let_def
    by (intro emits_rules emits_and_then [OF only_wait_pods [unfolded only_def]]
        emits_and_then [OF emits_connect_pods])
      (auto simp: finish_calls_no_get)
qed

lemma create_execute_served:
  "emits (CreateManagerAction_execute fuel (traced K) env mgr d svc) (served svc)"
proof -
  have wd: "emits (wait_daemonset (traced K) 1 de) (\<lambda>r new. no_service new)" for de
    using emits_wait_daemonset [of 1 K de] by (auto elim!: emits_weaken intro: wait_calls_no_service)
  have wa: "emits (wait_available (traced K) ns n d) (\<lambda>r new. no_service new)" if "n \<le> 31" for ns n d
    using emits_wait_available [OF that, of K ns d]
    by (auto elim!: emits_weaken intro: wait_calls_no_service)
  have fc: "emits (finish_create fuel (traced K) env mgr d svc) (served svc)" for d
    using emits_finish_create by (rule emits_weaken) simp
  show ?thesis
    unfolding CreateManagerAction_execute_def traced_simps
    by (intro emits_rules emits_bind [OF wd] emits_and_then [OF wa] emits_weaken [OF fc])
      (auto intro!: served_fail served_step served_prefix simp: WaitForDaemonTimeout_def)
qed

lemma create_execute_gets:
  "emits (CreateManagerAction_execute fuel (traced K) env mgr d svc) (\<lambda>r new. gets new \<le> 31)"
proof -
  have wd: "emits (wait_daemonset (traced K) 1 de) (\<lambda>r new. 1 + gets new = fst r \<and> fst r \<le> 31)" for de
    using emits_wait_daemonset [of 1 K de] by (auto elim!: emits_weaken)
  have wa: "emits (wait_available (traced K) ns n d) (\<lambda>r new. n + gets new \<le> 31)" if "n \<le> 31" for ns n d
    using emits_wait_available [OF that, of K ns d] by (auto elim!: emits_weaken)
  have fc: "emits (finish_create fuel (traced K) env mgr d svc) (\<lambda>r new. gets new = 0)" for d
    using emits_finish_create by (rule emits_weaken) simp
  show ?thesis
    unfolding CreateManagerAction_execute_def traced_simps
    by (intro emits_rules emits_bind [OF wd] emits_and_then [OF wa] emits_weaken [OF fc])
      (auto simp: WaitForDaemonTimeout_def)
qed

text \<open>
  C28: creating a manager creates its service at most once, as the very last call, and succeeds
  exactly when that call succeeds: after any failure before, in the waits or while a pod is connected,
  no service is created. However the API answers, the daemon set is polled at most 31 times.
\<close>

theorem create_manager_calls:
  "case run_state (CreateManagerAction_Do fuel (traced K) env mgr) (w, []) of (r, (w', tr)) \<Rightarrow>
     ((\<exists>a ok. tr = a @ [CreatedService (serviceForManagerSet mgr (env_NamespaceName env)) ok] \<and>
         no_service a \<and> (r = Ok ()) = ok) \<or>
      (no_service tr \<and> r \<noteq> Ok ())) \<and>
     length (filter is_daemonset_get tr) \<le> 31"
proof -
  obtain d where d: "daemonSetFromManager mgr env = Inr d" using daemonSetFromManager_total by blast
  let ?svc = "serviceForManagerSet mgr (env_NamespaceName env)"
  have "CreateManagerAction_Do fuel (traced K) env mgr =
      CreateManagerAction_execute fuel (traced K) env mgr d ?svc"
    by (simp add: CreateManagerAction_Do_def or_err_def d)
  moreover have "case run_state (CreateManagerAction_execute fuel (traced K) env mgr d ?svc) (w, []) of
      (r, (w', tr)) \<Rightarrow> served ?svc r tr \<and> gets tr \<le> 31"
    by (rule emits_run [OF emits_conj [OF create_execute_served create_execute_gets]])
  ultimately show ?thesis by (simp only: served_def gets_def)
qed

end
