(* ===== verification/Clients.thy ===== *)
theory Clients
  imports ActionFacts
begin

text \<open>
  Concrete clients to run the handlers on: one that refuses everything, one whose daemon set becomes
  visible after a number of polls, one that answers the request for a process id.
\<close>

definition refused :: "go_error + 'a" where
  "refused = Inl (Foreign ''connection refused'')"

definition refusing_kube :: "nat kube" where
  "refusing_kube =
     \<lparr> k_ListNetworks = ret refused, k_ListDaemonSets = (\<lambda>_. ret refused),
       k_ListPods = (\<lambda>_ _. ret refused), k_ListNodes = ret refused,
       k_GetPod = (\<lambda>_ _. ret refused), k_GetNetwork = (\<lambda>_. ret refused),
       k_GetDaemonSet = (\<lambda>_ _. ret refused), k_GetJob = (\<lambda>_ _. ret refused),
       k_CreateDaemonSet = (\<lambda>_. ret refused), k_CreateService = (\<lambda>_. ret refused),
       k_CreateJob = (\<lambda>_. ret refused), k_CreatePodMonitor = (\<lambda>_. ret refused),
       k_UpdateDaemonSet = (\<lambda>_. ret refused), k_UpdateStatus = (\<lambda>_. ret refused),
       k_DeleteDaemonSet = (\<lambda>_. ret refused), k_DeleteService = (\<lambda>_. ret refused),
       k_DeleteJob = (\<lambda>_. ret refused), k_HttpGet = (\<lambda>_. ret refused),
       k_Sleep = (\<lambda>_. ret ()), k_Now = ret (0, 0), k_Clock = ret (\<lambda>_ _. 0), k_Rand = ret 0,
       k_NewRequirement = (\<lambda>_. None), k_NewForConfig = ret refused,
       k_NewLocker = (\<lambda>_ _. ret refused), k_Lock = ret (Ok ()), k_Unlock = ret (Ok ()) \<rparr>"

subsection \<open>A daemon set that becomes visible\<close>

text \<open>The state counts the polls; the status is empty in the first \<open>n\<close> answers.\<close>

definition nth_answer :: "DaemonSet \<Rightarrow> nat \<Rightarrow> nat \<Rightarrow> DaemonSet" where
  "nth_answer d n j = (if j < n then d\<lparr>ds_Status := zero_daemonset_status\<rparr> else d)"

definition polled_kube :: "DaemonSet \<Rightarrow> nat \<Rightarrow> nat kube" where
  "polled_kube d n = refusing_kube\<lparr>
     k_CreateDaemonSet := (\<lambda>x. ret (Inr x)),
     k_GetDaemonSet := (\<lambda>_ _. State (\<lambda>j. (Inr (nth_answer d n j), Suc j)))\<rparr>"

lemma polled_simps [run_simps]:
  "run_state (k_CreateDaemonSet (polled_kube d n) x) j = (Inr x, j)"
  "run_state (k_GetDaemonSet (polled_kube d n) a b) j = (Inr (nth_answer d n j), Suc j)"
  "run_state (k_Sleep (polled_kube d n) t) j = ((), j)"
  "run_state (k_DeleteDaemonSet (polled_kube d n) x) j = (refused, j)"
  "run_state (k_ListPods (polled_kube d n) ns rs) j = (refused, j)"
  "run_state (k_CreateService (polled_kube d n) s) j = (refused, j)"
  "k_NewRequirement (polled_kube d n) r = None"
  by (simp_all add: polled_kube_def refusing_kube_def)

lemma wait_daemonset_polled:
  assumes "ds_Status d \<noteq> zero_daemonset_status" and "t \<le> 31"
  shows "run_state (wait_daemonset (polled_kube d n) t (nth_answer d n j, None)) (Suc j) =
     ((t + min (n - j) (31 - t), nth_answer d n (j + min (n - j) (31 - t)), None),
      Suc (j + min (n - j) (31 - t)))"
  using assms(2)
proof (induction t j rule: counter_induct [where k = 30])
  case (1 t j)
  show ?case
  proof (cases "t \<le> 30 \<and> j < n")
    case True
    then have "run_state (wait_daemonset (polled_kube d n) t (nth_answer d n j, None)) (Suc j) =
        run_state (wait_daemonset (polled_kube d n) (Suc t) (nth_answer d n (Suc j), None)) (Suc (Suc j))"
      by (subst wait_daemonset.simps)
        (simp add: run_simps WaitForDaemonTimeout_def nth_answer_def get_into_def)
    also have "\<dots> = ((Suc t + min (n - Suc j) (31 - Suc t),
        nth_answer d n (Suc j + min (n - Suc j) (31 - Suc t)), None),
        Suc (Suc j + min (n - Suc j) (31 - Suc t)))"
      using True by (intro 1) simp_all
    also have "Suc t + min (n - Suc j) (31 - Suc t) = t + min (n - j) (31 - t)" using True by auto
    also have "Suc j + min (n - Suc j) (31 - Suc t) = j + min (n - j) (31 - t)" using True by auto
    finally show ?thesis .
  next
    case False
    then have "min (n - j) (31 - t) = 0" using 1(2) by auto
    moreover have "\<not> (ds_Status (nth_answer d n j) = zero_daemonset_status \<and> t \<le> WaitForDaemonTimeout)"
      using False assms(1) by (auto simp: nth_answer_def WaitForDaemonTimeout_def)
    ultimately show ?thesis
      by (subst wait_daemonset.simps) (auto simp: IsNotFound_def)
  qed
qed

lemma finish_create_refused:
  "\<exists>e j'. run_state (finish_create fuel (polled_kube d n) env mgr d' svc) j =
     (if fuel = 0 \<and> dss_DesiredNumberScheduled (ds_Status d') \<noteq> 0 then Hangs else Err e, j') \<and>
     (\<forall>a b c ok ce. e \<noteq> DaemonSetTimeoutError a b c ok ce)"
  by (cases fuel)
    (auto simp: finish_create_def Let_def run_simps wait_pods.simps refused_def NewClientRequestError_def)

lemma wait_available_polled:
  "\<exists>t' d' j'. run_state (wait_available (polled_kube d n) ns t x) j = (Ok (t', d'), j')"
proof (induction t "(x, j)" arbitrary: x j rule: counter_induct [where k = 30])
  case (1 t)
  show ?case
  proof (cases "t \<le> WaitForDaemonTimeout \<and> dss_NumberUnavailable (ds_Status x) \<noteq> 0")
    case True
    have "\<exists>t' d' j'. run_state (wait_available (polled_kube d n) ns (Suc t) (nth_answer d n j)) (Suc j) =
        (Ok (t', d'), j')"
      using True by (intro 1(1)) (simp_all add: WaitForDaemonTimeout_def)
    with True show ?thesis by (subst wait_available.simps) (simp add: run_simps)
  next
    case False
    then show ?thesis by (subst wait_available.simps) auto
  qed
qed

text \<open>
  C30: when the status of a new daemon set is still empty in the first \<open>n\<close> polls and there from
  then on, the creation gives up with the message of a daemon set that was never created, and claims
  a successful clean-up, exactly if \<open>n\<close> is at least 30, although up to 31 polls are made: a daemon set
  that shows up in the last of them counts as missing. Nothing is deleted in that case.
\<close>

theorem create_manager_polls:
  assumes "ds_Status d \<noteq> zero_daemonset_status"
  shows "fst (run_state (CreateManagerAction_execute fuel (polled_kube d n) env mgr d0 svc) 0) =
       Err (DaemonSetTimeoutError (ms_OwnerNetworkName mgr) 0 0 True None) \<longleftrightarrow> 30 \<le> n"
proof -
  have ans: "get_into d0 (Inr (nth_answer d n 0)) = (nth_answer d n 0, None)"
    by (simp add: get_into_def)
  let ?m = "min n 30"
  have phase1: "run_state (wait_daemonset (polled_kube d n) 1 (nth_answer d n 0, None)) (Suc 0) =
      ((1 + ?m, nth_answer d n ?m, None), Suc ?m)"
    using wait_daemonset_polled [OF assms, of 1 n 0] by simp
  show ?thesis
  proof (cases "30 \<le> n")
    case True
    then show ?thesis
      by (simp add: CreateManagerAction_execute_def run_simps ans phase1 [simplified]
          WaitForDaemonTimeout_def min_absorb2)
  next
    case False
    then have m: "?m = n" by simp
    obtain t' d' j' where a: "run_state (wait_available (polled_kube d n) (env_NamespaceName env)
        (1 + n) (nth_answer d n n)) (Suc n) = (Ok (t', d'), j')"
      using wait_available_polled by blast
    obtain e j2 where f: "run_state (finish_create fuel (polled_kube d n) env mgr d' svc) j' =
        (if fuel = 0 \<and> dss_DesiredNumberScheduled (ds_Status d') \<noteq> 0 then Hangs else Err e, j2)"
      "\<forall>a b c ok ce. e \<noteq> DaemonSetTimeoutError a b c ok ce"
      using finish_create_refused [of fuel d n env mgr d' svc j'] by blast
    show ?thesis
      using False a f phase1 [unfolded m]
      by (simp add: CreateManagerAction_execute_def run_simps ans WaitForDaemonTimeout_def refused_def)
  qed
qed

definition ready_daemonset :: DaemonSet where
  "ready_daemonset = zero_daemonset\<lparr>ds_Status := zero_daemonset_status\<lparr>dss_DesiredNumberScheduled := 1\<rparr>\<rparr>"

theorem create_manager_polls_witness:
  "fst (run_state (CreateManagerAction_execute 1 (polled_kube ready_daemonset 30) sample_envs
      sample_manager ready_daemonset (serviceForManagerSet sample_manager [])) 0) =
     Err (DaemonSetTimeoutError ''net1'' 0 0 True None)"
  using create_manager_polls [of ready_daemonset 1 30 sample_envs sample_manager]
  by (simp add: ready_daemonset_def zero_daemonset_def zero_daemonset_status_def sample_manager_def)

subsection \<open>The process id of a manager\<close>

text \<open>A client whose HTTP requests are answered with a given body.\<close>

definition answering_kube :: "string \<Rightarrow> nat kube" where
  "answering_kube body = refusing_kube\<lparr>k_HttpGet := (\<lambda>_. ret (Inr (Some
     \<lparr> hr_StatusCode = 200, hr_Body = Some (Inr body) \<rparr>)))\<rparr>"

text \<open>
  The process id that a manager daemon answers with reaches the operator unchanged, for every
  64-bit value: decoding the body of the response gives back the id that was encoded.
\<close>

theorem manager_pid_roundtrip:
  "run_state (requestManagerPID (answering_kube (Marshal pid_enc \<lparr> pid_PID = p \<rparr>)) ip) w = (Ok p, w)"
  using pid_codec.Unmarshal_Marshal [of "\<lparr> pid_PID = p \<rparr>"]
  by (simp add: requestManagerPID_def answering_kube_def run_simps)

end
