(* ===== verification/Reconcile.thy ===== *)
theory Reconcile
  imports Clients
begin

text \<open>
  The reconciler of \<open>internal/controller/vlanman_controller.go\<close>: \<open>ensurePodMonitor\<close>,
  \<open>reconcileNetwork\<close>, \<open>Reconcile\<close> with its bounded retry of the status update, and the event
  predicates of \<open>SetupWithManager\<close>.
\<close>

subsection \<open>Operations\<close>

text \<open>\<open>reflect.TypeOf(action)\<close> as it is printed.\<close>

fun action_type :: "Action \<Rightarrow> string" where
  "action_type (CreateManagerAction n m) = ''*controller.CreateManagerAction''"
| "action_type (DeleteManagerAction m) = ''*controller.DeleteManagerAction''"
| "action_type (SpawnInterfaceAction n p) = ''*controller.SpawnInterfaceAction''"
| "action_type (UpdateManagerAction n m) = ''*controller.UpdateManagerAction''"

fun do_actions :: "nat \<Rightarrow> 'w kube \<Rightarrow> Envs \<Rightarrow> Action list \<Rightarrow> go_error list \<Rightarrow> ('w, go_error list outcome) state" where
  "do_actions fuel K env [] errList = ret (Ok errList)"
| "do_actions fuel K env (a # acts) errList = do {
     r \<leftarrow> Action_Do fuel K env a;
     (case r of
        Ok _ \<Rightarrow> do_actions fuel K env acts errList
      | Err e \<Rightarrow> do_actions fuel K env acts (errList @ [ReconcileError (action_type a) e])
      | Panics p \<Rightarrow> ret (Panics p)
      | Hangs \<Rightarrow> ret Hangs)
   }"

definition reconcileNetwork :: "nat \<Rightarrow> 'w kube \<Rightarrow> Envs \<Rightarrow> ('w, int option outcome) state" where
  "reconcileNetwork fuel K env =
     or_err (k_ListNetworks K) (ClientRequestError ''List VlanNetworks'') (\<lambda>items.
       let desired = createDesiredState items
       in and_then (getCurrentState K) (\<lambda>(currentMgrs, currentConns).
            and_then (do_actions fuel K env (diffStates desired currentMgrs currentConns) []) (\<lambda>errList.
              if errList \<noteq> [] then ret (Err (ReconcileErrorList errList)) else ret (Ok None))))"

definition pod_monitor :: "Envs \<Rightarrow> PodMonitor" where
  "pod_monitor env =
     \<lparr> pm_Meta = zero_meta\<lparr>meta_Name := PodMonitorName, meta_Namespace := env_NamespaceName env,
         meta_Labels := [(''release'', env_MonitoringReleaseName env)]\<rparr>,
       pm_SelectorKey = ManagerSetLabelKey, pm_SelectorOperator = ''Exists'',
       pm_Port = ManagerPodAPIPortName, pm_Path = ''/metrics'',
       pm_Interval = env_MonitoringScrapeInterval env \<rparr>"

definition ensurePodMonitor :: "'w kube \<Rightarrow> Envs \<Rightarrow> ('w, unit outcome) state" where
  "ensurePodMonitor K env = do {
     r \<leftarrow> k_CreatePodMonitor K (pod_monitor env);
     (case r of
        Inl err \<Rightarrow> if \<not> IsAlreadyExists (Some err)
                   then ret (Err (NewClientRequestError ''CreatePodMonitor'' err)) else ret (Ok ())
      | Inr _ \<Rightarrow> ret (Ok ()))
   }"

text \<open>The retry loop: \<open>ctr\<close> counts from 1, and a conflict is tried again while it is at most 5.\<close>

function retry_update ::
    "'w kube \<Rightarrow> Envs \<Rightarrow> nat \<Rightarrow> int option \<times> go_error option \<Rightarrow> ('w, nat \<times> int option \<times> go_error option) state" where
  "retry_update K env ctr re =
     (if IsConflict (snd re) \<and> ctr \<le> UpdateStatusMaxRetries then do {
        re' \<leftarrow> UpdateAllNetworkStatus K env;
        retry_update K env (ctr + 1) re'
      } else ret (ctr, re))"
  by pat_completeness auto
termination
  by (relation "measure (\<lambda>(K, env, ctr, re). Suc UpdateStatusMaxRetries - ctr)") auto

declare retry_update.simps [simp del]

definition update_tries_text :: string where
  "update_tries_text = ''Error updating status after 5 tries''"

text \<open>What follows once the pod of the request, if there is one, has an address.\<close>

definition reconcile_all :: "nat \<Rightarrow> 'w kube \<Rightarrow> Envs \<Rightarrow> string \<Rightarrow> ('w, int outcome) state" where
  "reconcile_all fuel K env namespace = do {
     re \<leftarrow> UpdateAllNetworkStatus K env;
     (ctr, rq, err) \<leftarrow> retry_update K env 1 re;
     (if err \<noteq> None \<and> ctr = UpdateStatusMaxRetries + 1
      then ret (Err (Wrapf update_tries_text (the err)))
      else if namespace = [] then
        and_then (reconcileNetwork fuel K env) (\<lambda>rqNet.
          ret (case rqNet of Some d \<Rightarrow> res rq (Some [d]) | None \<Rightarrow> res rq None))
      else ret (res rq None))
   }"

definition Reconcile :: "nat \<Rightarrow> 'w kube \<Rightarrow> Envs \<Rightarrow> string \<Rightarrow> string \<Rightarrow> ('w, int outcome) state" where
  "Reconcile fuel K env name namespace = do {
     _ \<leftarrow> (if env_IsMonitoringEnabled env then ensurePodMonitor K env else ret (Ok ()));
     r \<leftarrow> k_GetPod K name namespace;
     (case r of
        Inl err \<Rightarrow> if \<not> IsNotFound (Some err) then ret (Err err)
                   else reconcile_all fuel K env namespace
      | Inr pod \<Rightarrow> if pod_PodIP pod = [] then ret (Ok Second)
                   else reconcile_all fuel K env namespace)
   }"

definition hasVlanmanAnnotation :: "ObjectMeta \<Rightarrow> bool" where
  "hasVlanmanAnnotation obj =
     (case map_lookup (meta_Annotations obj) PodVlanmanNetworkAnnotation of
        None \<Rightarrow> False
      | Some val \<Rightarrow> val \<noteq> [])"

definition notJob :: "ObjectMeta \<Rightarrow> bool" where
  "notJob obj \<longleftrightarrow> map_lookup (meta_Labels obj) ''job-name'' = None"

datatype event = CreateEvent ObjectMeta | UpdateEvent ObjectMeta ObjectMeta | DeleteEvent ObjectMeta
  | GenericEvent ObjectMeta

fun annotationPredicate :: "event \<Rightarrow> bool" where
  "annotationPredicate (CreateEvent obj) = (hasVlanmanAnnotation obj \<and> notJob obj)"
| "annotationPredicate (UpdateEvent old obj) = False"
| "annotationPredicate (DeleteEvent obj) = (hasVlanmanAnnotation obj \<and> notJob obj)"
| "annotationPredicate (GenericEvent obj) = (hasVlanmanAnnotation obj \<and> notJob obj)"

subsection \<open>Which calls an event leads to\<close>

fun status_call :: "call \<Rightarrow> bool" where
  "status_call ListedNetworks = True"
| "status_call (ListedPods ns rs) = True"
| "status_call (UpdatedStatus n ok) = True"
| "status_call (GotPod n ns) = True"
| "status_call _ = False"

lemma only_updateVlanNetworkStatus: "only status_call (updateVlanNetworkStatus (traced K) env net)"
  unfolding updateVlanNetworkStatus_def traced_simps Let_def by (rule emits_intro | simp)+

lemma only_update_networks: "only status_call (update_networks (traced K) env nets rq)"
  by (induction nets arbitrary: rq)
    (simp_all only: update_networks.simps traced_simps,
      (rule emits_intro | rule only_updateVlanNetworkStatus | simp)+)

lemma only_UpdateAll [emits_intro]: "only status_call (UpdateAllNetworkStatus (traced K) env)"
  unfolding UpdateAllNetworkStatus_def traced_simps
  by (rule emits_intro | rule only_update_networks | simp)+

lemma only_retry [emits_intro]: "only status_call (retry_update (traced K) env ctr re)"
  by (induction ctr re rule: counter_induct [where k = UpdateStatusMaxRetries])
    (subst retry_update.simps, (rule emits_intro | simp)+)

text \<open>The request for the pod monitor, which is made first of all if monitoring is on.\<close>

definition monitor_calls :: "Envs \<Rightarrow> call list \<Rightarrow> bool" where
  "monitor_calls env tr \<longleftrightarrow>
     (if env_IsMonitoringEnabled env then \<exists>ok. tr = [CreatedPodMonitor (pod_monitor env) ok] else tr = [])"

lemma emits_monitor:
  "emits (if env_IsMonitoringEnabled env then ensurePodMonitor (traced K) env else ret (Ok ()))
     (\<lambda>r tr. monitor_calls env tr)"
  unfolding ensurePodMonitor_def traced_simps
  by (intro emits_if emits_rules) (auto simp: monitor_calls_def)

text \<open>
  C31: a reconciliation for a pod (a request with a namespace) first asks for the operator's pod
  monitor, if monitoring is on, and from then on only reads pods and networks and writes network
  statuses: it never creates, updates or deletes a daemon set, a job or a service, whatever the cluster
  looks like. Only a request without a namespace, that is for a network, changes managers.
\<close>

theorem pod_event_only_statuses:
  "case run_state (Reconcile fuel (traced K) env name (c # cs)) (w, []) of (r, (w', tr)) \<Rightarrow>
     \<exists>mon rest. tr = mon @ rest \<and> list_all status_call rest \<and>
       (if env_IsMonitoringEnabled env then \<exists>ok. mon = [CreatedPodMonitor (pod_monitor env) ok] else mon = [])"
proof (rule emits_run)
  let ?rest = "do {
     r \<leftarrow> k_GetPod (traced K) name (c # cs);
     (case r of
        Inl err \<Rightarrow> if \<not> IsNotFound (Some err) then ret (Err err)
                   else reconcile_all fuel (traced K) env (c # cs)
      | Inr pod \<Rightarrow> if pod_PodIP pod = [] then ret (Ok Second)
                   else reconcile_all fuel (traced K) env (c # cs))
   }"
  have "only status_call ?rest"
    unfolding reconcile_all_def traced_simps by (rule emits_intro | simp)+
  then have rest: "emits ?rest (\<lambda>r tr. list_all status_call tr)" by (simp add: only_def)
  have "emits (Reconcile fuel (traced K) env name (c # cs)) (\<lambda>r tr. \<exists>mon rest. tr = mon @ rest \<and>
      list_all status_call rest \<and> monitor_calls env mon)"
    unfolding Reconcile_def
    by (rule emits_bind [OF emits_monitor], rule emits_weaken [OF rest]) blast
  then show "emits (Reconcile fuel (traced K) env name (c # cs)) (\<lambda>r tr. \<exists>mon rest. tr = mon @ rest \<and>
      list_all status_call rest \<and>
      (if env_IsMonitoringEnabled env then \<exists>ok. mon = [CreatedPodMonitor (pod_monitor env) ok] else mon = []))"
    unfolding monitor_calls_def .
qed

subsection \<open>The retry of the status update\<close>

definition rounds :: "call list \<Rightarrow> nat" where
  "rounds tr = length (filter (\<lambda>c. c = ListedNetworks) tr)"

lemma rounds_simps [simp]: "rounds [] = 0" "rounds (a @ b) = rounds a + rounds b"
  "rounds (c # tr) = (if c = ListedNetworks then Suc (rounds tr) else rounds tr)"
  by (simp_all add: rounds_def)

fun write_call :: "call \<Rightarrow> bool" where
  "write_call (ListedPods ns rs) = True"
| "write_call (UpdatedStatus n ok) = True"
| "write_call _ = False"

lemma write_calls_rounds: "list_all write_call tr \<Longrightarrow> rounds tr = 0"
  by (induction tr) auto

lemma only_write_update_networks: "only write_call (update_networks (traced K) env nets rq)"
proof -
  have "only write_call (updateVlanNetworkStatus (traced K) env net)" for net
    unfolding updateVlanNetworkStatus_def traced_simps Let_def by (rule emits_intro | simp)+
  then show ?thesis
    by (induction nets arbitrary: rq)
      (simp_all only: update_networks.simps traced_simps, (rule emits_intro | assumption | simp)+)
qed

lemma emits_UpdateAll: "emits (UpdateAllNetworkStatus (traced K) env) (\<lambda>r new. rounds new = 1)"
  unfolding UpdateAllNetworkStatus_def traced_simps
  by (intro emits_rules emits_weaken [OF only_write_update_networks [unfolded only_def]])
    (simp_all add: write_calls_rounds)

lemma emits_retry:
  assumes "ctr \<le> 6"
  shows "emits (retry_update (traced K) env ctr re) (\<lambda>(ctr', rq, err) new.
     ctr' = ctr + rounds new \<and> ctr' \<le> 6 \<and> ctr' = (if IsConflict err then 6 else ctr'))"
  using assms
proof (induction ctr re rule: counter_induct [where k = 5])
  case (1 n x)
  have IH: "emits (retry_update (traced K) env (Suc n) y) (\<lambda>(ctr', rq, err) new.
      ctr' = Suc n + rounds new \<and> ctr' \<le> 6 \<and> ctr' = (if IsConflict err then 6 else ctr'))" if "n \<le> 5" for y
    using that by (intro 1) simp_all
  show ?case
    by (subst retry_update.simps, intro emits_if emits_bind [OF emits_UpdateAll] emits_ret)
      (use 1(2) in \<open>auto simp: UpdateStatusMaxRetries_def intro!: emits_weaken [OF IH]\<close>)
qed

text \<open>
  C33: for a pod the reconciler makes at most six rounds of status updates, and it returns an error
  only after the sixth; that error wraps the one of the last round.
\<close>

theorem status_update_retries:
  "case run_state (reconcile_all fuel (traced K) env (c # cs)) (w, []) of (r, (w', tr)) \<Rightarrow>
     rounds tr \<le> 6 \<and> ((\<exists>d. r = Ok d) \<or> (\<exists>e. r = Err (Wrapf update_tries_text e) \<and> rounds tr = 6))"
proof (rule emits_run)
  have r: "emits (retry_update (traced K) env 1 re) (\<lambda>(ctr', rq, err) new. ctr' = 1 + rounds new \<and> ctr' \<le> 6)" for re
    using emits_retry [of 1 K env re] by (rule emits_weaken) auto
  have ok: "\<exists>d. res rq None = Ok d" for rq
    using res_earliest by blast
  show "emits (reconcile_all fuel (traced K) env (c # cs)) (\<lambda>r new.
      rounds new \<le> 6 \<and> ((\<exists>d. r = Ok d) \<or> (\<exists>e. r = Err (Wrapf update_tries_text e) \<and> rounds new = 6)))"
    unfolding reconcile_all_def
    by (intro emits_bind [OF emits_UpdateAll] emits_bind [OF r] emits_prod emits_if emits_ret)
      (auto simp: UpdateStatusMaxRetries_def ok)
qed

lemma retry_no_conflict: "\<not> IsConflict err \<Longrightarrow> retry_update K env ctr (rq, err) = ret (ctr, rq, err)"
  by (subst retry_update.simps) simp

text \<open>The result of the round number \<open>n\<close> of status updates, counted from 0, and the state after it.\<close>

fun nth_round :: "nat \<Rightarrow> 'w kube \<Rightarrow> Envs \<Rightarrow> 'w \<Rightarrow> (int option \<times> go_error option) \<times> 'w" where
  "nth_round 0 K env w = run_state (UpdateAllNetworkStatus K env) w"
| "nth_round (Suc n) K env w = nth_round n K env (snd (run_state (UpdateAllNetworkStatus K env) w))"

lemma retry_run:
  assumes "run_state (UpdateAllNetworkStatus K env) w = (re, w1)"
    and "\<forall>i < n. IsConflict (snd (fst (nth_round i K env w)))" and "nth_round n K env w = (re', w')"
    and "\<not> IsConflict (snd re')" and "ctr + n \<le> 6"
  shows "run_state (retry_update K env ctr re) w1 = ((ctr + n, re'), w')"
  using assms
proof (induction n arbitrary: ctr re w w1)
  case 0
  then show ?case by (cases re') (simp add: retry_no_conflict)
next
  case (Suc n)
  obtain re1 w2 where next_round: "run_state (UpdateAllNetworkStatus K env) w1 = (re1, w2)" by (metis prod.collapse)
  have "IsConflict (snd re)" using Suc.prems(1,2) by force
  moreover have "IsConflict (snd (fst (nth_round i K env w1)))" if "i < n" for i
    using Suc.prems(1,2) that by force
  then have "run_state (retry_update K env (Suc ctr) re1) w2 = ((Suc ctr + n, re'), w')"
    using Suc.prems by (intro Suc.IH [OF next_round]) simp_all
  ultimately show ?case
    using Suc.prems(5) next_round by (subst retry_update.simps) (simp add: UpdateStatusMaxRetries_def)
qed

text \<open>
  C34: an error of the status update that is not a conflict is dropped if it comes in one of the first
  five rounds: after any number of conflicts below five it is not retried, and the reconciliation for a pod
  ends as if the update had succeeded. Only in the sixth round, after five conflicts, the same error is
  returned.
\<close>

theorem status_error_dropped:
  assumes "\<forall>i < n. ReasonForError (snd (fst (nth_round i K env w))) = Some Conflict" and "n \<le> 5"
    and "nth_round n K env w = ((rq, Some e), w')" and "ReasonForError (Some e) \<noteq> Some Conflict"
  shows "run_state (reconcile_all fuel K env (c # cs)) w =
    (if n < 5 then Ok (case rq of None \<Rightarrow> 0 | Some d \<Rightarrow> d) else Err (Wrapf update_tries_text e), w')"
proof -
  obtain re w1 where first: "run_state (UpdateAllNetworkStatus K env) w = (re, w1)" by (metis prod.collapse)
  have "run_state (retry_update K env 1 re) w1 = ((1 + n, (rq, Some e)), w')"
    by (rule retry_run [OF first _ assms(3)]) (use assms in \<open>simp_all add: IsConflict_def\<close>)
  then show ?thesis
    using first assms(2) res_earliest [of rq] by (simp add: reconcile_all_def UpdateStatusMaxRetries_def)
qed

theorem status_error_dropped_witness:
  "run_state (reconcile_all 0 refusing_kube sample_envs ''default'') 0 = (Ok 0, 0)"
proof -
  let ?e = "NewClientRequestError ''List vlan networks in UpdateStatus'' (Foreign ''connection refused'')"
  have "nth_round 0 refusing_kube sample_envs 0 = ((None, Some ?e), 0)"
    by (simp add: UpdateAllNetworkStatus_def refusing_kube_def refused_def)
  moreover have "ReasonForError (Some ?e) \<noteq> Some Conflict"
    by (simp add: new_client_wrap.reason_wrap)
  ultimately show ?thesis
    using status_error_dropped [of 0 refusing_kube sample_envs 0 None ?e 0 0 "CHR ''d''" "''efault''"]
    by simp
qed

text \<open>
  A conflict is recognised through the wrapping that the update puts around it: if every round
  ends with a conflict from the API server, the reconciliation for a pod makes all six rounds and
  returns the error of the last one.
\<close>

theorem status_conflict_reported:
  assumes "\<forall>w. \<exists>w'. run_state (UpdateAllNetworkStatus K env) w =
     ((rq, Some (NewClientRequestError act (ApiStatus Conflict m))), w')"
  shows "fst (run_state (reconcile_all fuel K env (c # cs)) w) =
     Err (Wrapf update_tries_text (NewClientRequestError act (ApiStatus Conflict m)))"
proof -
  let ?re = "(rq, Some (NewClientRequestError act (ApiStatus Conflict m)))"
  have c: "IsConflict (snd ?re)"
    by (simp add: new_client_wrap.IsConflict_wrap) (simp add: IsConflict_def)
  have "\<exists>w'. run_state (retry_update K env ctr ?re) w = ((6, ?re), w')" if "ctr \<le> 6" for ctr w
    using that
  proof (induction ctr w rule: counter_induct [where k = 5])
    case (1 n w)
    obtain w1 where w1: "run_state (UpdateAllNetworkStatus K env) w = (?re, w1)" using assms by blast
    show ?case
    proof (cases "n \<le> 5")
      case True
      then have "\<exists>w'. run_state (retry_update K env (Suc n) ?re) w1 = ((6, ?re), w')"
        by (intro 1) simp_all
      with True c w1 show ?thesis
        by (subst retry_update.simps) (simp add: UpdateStatusMaxRetries_def)
    next
      case False
      with 1(2) show ?thesis by (subst retry_update.simps) (simp add: UpdateStatusMaxRetries_def)
    qed
  qed
  from this [of 1] obtain w1 w2 where "run_state (UpdateAllNetworkStatus K env) w = (?re, w1)"
    "run_state (retry_update K env 1 ?re) w1 = ((6, ?re), w2)"
    using assms by (metis one_le_numeral)
  then show ?thesis by (simp add: reconcile_all_def UpdateStatusMaxRetries_def)
qed

text \<open>A client whose status writes always conflict.\<close>

definition conflicting_kube :: "nat kube" where
  "conflicting_kube = refusing_kube\<lparr>
     k_ListNetworks := ret (Inr [sample_network]), k_ListPods := (\<lambda>_ _. ret (Inr [])),
     k_UpdateStatus := (\<lambda>_. State (\<lambda>j. (Inl (ApiStatus Conflict ''the object has been modified''), Suc j)))\<rparr>"

theorem status_conflict_reported_witness:
  "\<exists>act. fst (run_state (reconcile_all 0 conflicting_kube sample_envs ''default'') 0) =
     Err (Wrapf update_tries_text (NewClientRequestError act
       (ApiStatus Conflict ''the object has been modified'')))"
proof -
  let ?act = "''Update vlan network '' @ net_Name sample_network @ [CHR 0x27] @ ''s status''"
  obtain rq where "\<forall>w. \<exists>w'. run_state (UpdateAllNetworkStatus conflicting_kube sample_envs) w =
      ((rq, Some (NewClientRequestError ?act (ApiStatus Conflict ''the object has been modified''))), w')"
    by (simp add: UpdateAllNetworkStatus_def conflicting_kube_def refusing_kube_def
        updateVlanNetworkStatus_def Let_def)
  from status_conflict_reported [OF this, of 0 "CHR ''d''" "''efault''" 0] show ?thesis by blast
qed

subsection \<open>Every action is attempted\<close>

text \<open>The reference: all actions one after the other, whatever becomes of each.\<close>

fun attempt_all :: "nat \<Rightarrow> 'w kube \<Rightarrow> Envs \<Rightarrow> Action list \<Rightarrow> ('w, unit outcome list) state" where
  "attempt_all fuel K env [] = ret []"
| "attempt_all fuel K env (a # acts) = do {
     r \<leftarrow> Action_Do fuel K env a;
     rs \<leftarrow> attempt_all fuel K env acts;
     ret (r # rs)
   }"

fun failures :: "Action list \<Rightarrow> unit outcome list \<Rightarrow> go_error list" where
  "failures (a # acts) (Err e # rs) = ReconcileError (action_type a) e # failures acts rs"
| "failures (a # acts) (r # rs) = failures acts rs"
| "failures acts rs = []"

fun settled :: "'a outcome \<Rightarrow> bool" where
  "settled (Ok x) = True"
| "settled (Err e) = True"
| "settled r = False"

lemma do_actions_attempts:
  "run_state (attempt_all fuel K env acts) w = (rs, w') \<Longrightarrow> list_all settled rs \<Longrightarrow>
   run_state (do_actions fuel K env acts errList) w = (Ok (errList @ failures acts rs), w')"
proof (induction acts arbitrary: errList w rs)
  case (Cons a acts)
  obtain r w1 where r: "run_state (Action_Do fuel K env a) w = (r, w1)" by (metis prod.collapse)
  obtain rs1 w2 where rs1: "run_state (attempt_all fuel K env acts) w1 = (rs1, w2)" by (metis prod.collapse)
  from Cons.prems r rs1 have "rs = r # rs1" "w2 = w'" by simp_all
  with Cons r rs1 show ?case by (cases r) auto
qed simp

text \<open>
  The failure of an action does not keep the later ones from being tried: unless an action
  panics or waits forever, all of them are done one after the other on the same cluster, and the
  collected errors are those of the failed actions, in order, each with the type of its action.
\<close>

theorem all_actions_attempted:
  assumes "run_state (attempt_all fuel K env acts) w = (rs, w')" and "list_all settled rs"
  shows "run_state (do_actions fuel K env acts []) w = (Ok (failures acts rs), w')"
  using do_actions_attempts [OF assms, of "[]"] by simp

theorem all_actions_attempted_witness:
  "fst (run_state (do_actions 0 refusing_kube sample_envs
      [UpdateManagerAction zero_network_state sample_manager, DeleteManagerAction sample_manager] []) 0) =
   Ok [ReconcileError ''*controller.UpdateManagerAction''
         (NewClientRequestError ''Update daemonset'' (Foreign ''connection refused'')),
       ReconcileError ''*controller.DeleteManagerAction''
         (ClientRequestError ''Delete daemonset'' (Foreign ''connection refused''))]"
proof -
  obtain d where d: "daemonSetFromManager sample_manager sample_envs = Inr d"
    using daemonSetFromManager_total by blast
  have "run_state (attempt_all 0 refusing_kube sample_envs
      [UpdateManagerAction zero_network_state sample_manager, DeleteManagerAction sample_manager]) 0 =
    ([Err (NewClientRequestError ''Update daemonset'' (Foreign ''connection refused'')),
      Err (ClientRequestError ''Delete daemonset'' (Foreign ''connection refused''))], 0)"
    by (simp add: UpdateManagerAction_Do_def DeleteManagerAction_Do_def DeleteManagerAction_execute_def
        run_simps refusing_kube_def refused_def d)
  from all_actions_attempted [OF this] show ?thesis by simp
qed

end
