(* ===== verification/Validators.thy ===== *)
theory Validators
  imports Clients
begin

text \<open>
  The validating webhook for networks (\<open>internal/webhook/v1\<close>): the validators for creation, update
  and deletion, and the three handlers.
\<close>

subsection \<open>Data\<close>

record Validator =
  v_Nodes :: "Node list"
  v_Pods :: "Pod list"
  v_Networks :: "VlanNetwork list"

text \<open>The object of an admission request: a network, a pod, or something of another type.\<close>

datatype runtime_object = NetworkObject VlanNetwork | PodObject Pod | OtherObject string

fun object_type :: "runtime_object \<Rightarrow> string" where
  "object_type (NetworkObject n) = ''*v1.VlanNetwork''"
| "object_type (PodObject p) = ''*v1.Pod''"
| "object_type (OtherObject t) = t"

subsection \<open>The checks\<close>

definition no_nodes_text :: string where
  "no_nodes_text = ''There are no available nodes (make sure you don'' @ [CHR 0x27] @ ''t exclude all nodes)''"

definition expr_excludes :: "Node \<Rightarrow> NodeSelectorRequirement \<Rightarrow> bool" where
  "expr_excludes node expr \<longleftrightarrow> nsr_Key expr = ''kubernetes.io/hostname'' \<and>
     nsr_Operator expr = NodeSelectorOpNotIn \<and>
     list_ex (\<lambda>excludedNode. node_Name node = excludedNode) (elems (nsr_Values expr))"

text \<open>The three nested loops, each left as soon as the node was found to be excluded.\<close>

definition node_matches :: "NodeSelector \<Rightarrow> Node \<Rightarrow> bool" where
  "node_matches sel node \<longleftrightarrow>
     list_ex (\<lambda>term. list_ex (expr_excludes node) (elems (nst_MatchExpressions term)))
       (elems (NodeSelectorTerms sel))"

definition required_selector :: "VlanNetwork \<Rightarrow> NodeSelector option" where
  "required_selector net =
     (case sp_ManagerAffinity (net_Spec net) of
        None \<Rightarrow> None
      | Some aff \<Rightarrow> (case aff_NodeAffinity aff of None \<Rightarrow> None | Some na \<Rightarrow> na_Required na))"

definition validateMinimumNodes :: "Validator \<Rightarrow> VlanNetwork \<Rightarrow> go_error option" where
  "validateMinimumNodes v net =
     (if v_Nodes v = [] then Some (Errorf no_nodes_text)
      else case required_selector net of
        None \<Rightarrow> None
      | Some sel \<Rightarrow>
          let availableNodes = length (filter (\<lambda>node. \<not> node_matches sel node) (v_Nodes v))
          in if availableNodes = 0 then Some (Errorf no_nodes_text) else None)"

definition duplicate_text :: "string \<Rightarrow> string" where
  "duplicate_text name = ''There exists a network with that VLAN ID: '' @ name"

fun unique_loop :: "VlanNetwork list \<Rightarrow> VlanNetwork \<Rightarrow> go_error option" where
  "unique_loop [] net = None"
| "unique_loop (nw # nws) net =
     (if sp_VlanID (net_Spec nw) = sp_VlanID (net_Spec net)
      then Some (Errorf (duplicate_text (net_Name nw))) else unique_loop nws net)"

definition validateUnique :: "Validator \<Rightarrow> VlanNetwork \<Rightarrow> go_error option" where
  "validateUnique v net = unique_loop (v_Networks v) net"

subsection \<open>Validators\<close>

text \<open>The three lists that the creation and the update validator start from.\<close>

definition list_all_objects :: "'w kube \<Rightarrow> ('w, Validator outcome) state" where
  "list_all_objects K =
     or_err (k_ListPods K [] []) (Wrapf ''Error listing pods'') (\<lambda>allPods.
     or_err (k_ListNodes K) (Wrapf ''Error listing nodes'') (\<lambda>allNodes.
     or_err (k_ListNetworks K) (Wrapf ''Error listing VlanNetworks'') (\<lambda>vlanNetworks.
       ret (Ok \<lparr> v_Nodes = allNodes, v_Pods = allPods, v_Networks = vlanNetworks \<rparr>))))"

record CreationValidator =
  cv_Validator :: Validator
  cv_NewNetwork :: VlanNetwork

definition NewCreationValidator :: "'w kube \<Rightarrow> VlanNetwork \<Rightarrow> ('w, CreationValidator outcome) state" where
  "NewCreationValidator K network =
     and_then (list_all_objects K) (\<lambda>v. ret (Ok \<lparr> cv_Validator = v, cv_NewNetwork = network \<rparr>))"

definition min_nodes_prefix :: string where
  "min_nodes_prefix = ''Couldn'' @ [CHR 0x27] @ ''t validate minimum node requirement''"

definition CreationValidator_Validate :: "CreationValidator \<Rightarrow> go_error option" where
  "CreationValidator_Validate cv =
     (case validateMinimumNodes (cv_Validator cv) (cv_NewNetwork cv) of
        Some err \<Rightarrow> Some (Wrapf min_nodes_prefix err)
      | None \<Rightarrow> validateUnique (cv_Validator cv) (cv_NewNetwork cv))"

record UpdateValidator =
  uv_Validator :: Validator
  uv_OldNetwork :: VlanNetwork
  uv_NewNetwork :: VlanNetwork

definition NewUpdateValidator ::
    "'w kube \<Rightarrow> VlanNetwork \<Rightarrow> VlanNetwork \<Rightarrow> ('w, UpdateValidator outcome) state" where
  "NewUpdateValidator K newNetwork oldNetwork =
     and_then (list_all_objects K) (\<lambda>v.
       ret (Ok \<lparr> uv_Validator = v, uv_OldNetwork = oldNetwork, uv_NewNetwork = newNetwork \<rparr>))"

text \<open>The fields of the specification that are reset in both networks before they are compared.\<close>

definition blank_spec :: "VlanNetworkSpec \<Rightarrow> VlanNetworkSpec" where
  "blank_spec s = s\<lparr>sp_Pools := None, sp_ManagerAffinity := None, sp_Mappings := None,
     sp_Gateways := None, sp_VlanID := 0\<rparr>"

definition blank_network :: "VlanNetwork \<Rightarrow> VlanNetwork" where
  "blank_network n = n\<lparr>net_Spec := blank_spec (net_Spec n)\<rparr>"

definition only_pools_text :: string where
  "only_pools_text = ''The only field in spec that supports update is '' @ [CHR 0x27] @ ''pools'' @
     [CHR 0x27] @ ''.''"

text \<open>The error, and the two networks as the call leaves them behind its pointers.\<close>

definition UpdateValidator_Validate :: "UpdateValidator \<Rightarrow> go_error option \<times> VlanNetwork \<times> VlanNetwork" where
  "UpdateValidator_Validate uv =
     (case validateMinimumNodes (uv_Validator uv) (uv_NewNetwork uv) of
        Some err \<Rightarrow> (Some (Wrapf min_nodes_prefix err), uv_NewNetwork uv, uv_OldNetwork uv)
      | None \<Rightarrow>
          let new = blank_network (uv_NewNetwork uv); old = blank_network (uv_OldNetwork uv)
          in (if net_Spec new \<noteq> net_Spec old then Some (Errorf only_pools_text) else None, new, old))"

record DeletionValidator =
  dv_Validator :: Validator
  dv_DeletedNetwork :: VlanNetwork

definition worker_requirement :: "VlanNetwork \<Rightarrow> Requirement" where
  "worker_requirement network =
     \<lparr> req_Key = WorkerPodLabelKey, req_Operator = ''=='', req_Values = [net_Name network] \<rparr>"

definition NewDeletionValidator :: "'w kube \<Rightarrow> VlanNetwork \<Rightarrow> ('w, DeletionValidator outcome) state" where
  "NewDeletionValidator K network =
     (case k_NewRequirement K (worker_requirement network) of
        Some err \<Rightarrow> ret (Err (InternalError
          (''Couldn'' @ [CHR 0x27] @ ''t create a label requirement to list pods in  NewDeletionValidator'')))
      | None \<Rightarrow>
          or_err (k_ListPods K [] [worker_requirement network]) (Wrapf ''Error listing pods'') (\<lambda>pods.
            ret (Ok \<lparr> dv_Validator = \<lparr> v_Nodes = [], v_Pods = pods, v_Networks = [] \<rparr>,
                      dv_DeletedNetwork = network \<rparr>)))"

definition pod_in_use :: "Pod \<Rightarrow> bool" where
  "pod_in_use p \<longleftrightarrow> pod_Phase p = PodPending \<or> pod_Phase p = PodRunning"

definition pod_label :: "Pod \<Rightarrow> string" where
  "pod_label p = strings_Join [pod_Name p, pod_Namespace p] ''@''"

definition validateNotInUse :: "DeletionValidator \<Rightarrow> go_error option" where
  "validateNotInUse cv =
     (if v_Pods (dv_Validator cv) = [] then None
      else let names = map pod_label (filter pod_in_use (v_Pods (dv_Validator cv)))
           in if length names \<noteq> 0 then Some (NetInUseError names (net_Name (dv_DeletedNetwork cv)))
              else None)"

definition DeletionValidator_Validate :: "DeletionValidator \<Rightarrow> go_error option" where
  "DeletionValidator_Validate cv = validateNotInUse cv"

subsection \<open>Handlers\<close>

text \<open>The handlers return no warnings; the answer is an error or nil.\<close>

definition of_err :: "go_error option \<Rightarrow> unit outcome" where
  "of_err err = (case err of None \<Rightarrow> Ok () | Some e \<Rightarrow> Err e)"

fun ValidateCreate :: "'w kube \<Rightarrow> runtime_object \<Rightarrow> ('w, unit outcome) state" where
  "ValidateCreate K (NetworkObject network) =
     and_then (NewDeletionValidator K network) (\<lambda>validator. ret (of_err (DeletionValidator_Validate validator)))"
| "ValidateCreate K obj = ret (Err (NewTypeMismatchError ''Validating creation'' (object_type obj)))"

fun ValidateDelete :: "'w kube \<Rightarrow> runtime_object \<Rightarrow> ('w, unit outcome) state" where
  "ValidateDelete K (NetworkObject network) =
     and_then (NewDeletionValidator K network) (\<lambda>validator. ret (of_err (DeletionValidator_Validate validator)))"
| "ValidateDelete K obj = ret (Err (NewTypeMismatchError ''Validating deletion'' (object_type obj)))"

fun ValidateUpdate :: "'w kube \<Rightarrow> runtime_object \<Rightarrow> runtime_object \<Rightarrow> ('w, unit outcome) state" where
  "ValidateUpdate K (NetworkObject networkOld) (NetworkObject networkNew) =
     and_then (NewUpdateValidator K networkNew networkOld) (\<lambda>validator.
       ret (of_err (fst (UpdateValidator_Validate validator))))"
| "ValidateUpdate K (NetworkObject networkOld) objNew =
     ret (Err (NewTypeMismatchError ''Validating update'' (object_type objNew)))"
| "ValidateUpdate K objOld objNew =
     ret (Err (NewTypeMismatchError ''Validating update'' (object_type objOld)))"

subsection \<open>Properties\<close>

text \<open>A node that the network's required affinity does not exclude in any term.\<close>

definition eligible :: "VlanNetwork \<Rightarrow> Node \<Rightarrow> bool" where
  "eligible net node \<longleftrightarrow>
     (case required_selector net of None \<Rightarrow> True | Some sel \<Rightarrow> \<not> node_matches sel node)"

lemma validateMinimumNodes_eq:
  "validateMinimumNodes v net =
     (if list_ex (eligible net) (v_Nodes v) then None else Some (Errorf no_nodes_text))"
proof (cases "required_selector net")
  case None
  then show ?thesis
    by (cases "v_Nodes v") (simp_all add: validateMinimumNodes_def eligible_def)
next
  case (Some sel)
  then show ?thesis
    by (auto simp: validateMinimumNodes_def eligible_def Let_def list_ex_iff filter_empty_conv)
qed

lemma unique_loop_eq:
  "unique_loop nws net =
     map_option (\<lambda>nw. Errorf (duplicate_text (net_Name nw)))
       (find (\<lambda>nw. sp_VlanID (net_Spec nw) = sp_VlanID (net_Spec net)) nws)"
  by (induction nws) auto

text \<open>
  C35: the creation validator accepts a network exactly when some node is not excluded by any term
  of the network's required node affinity and no listed network has its VLAN id; it complains about the
  nodes first, and about a duplicate id with the name of the first network that has it.
\<close>

theorem creation_validator_verdict:
  "CreationValidator_Validate cv =
     (if list_ex (eligible (cv_NewNetwork cv)) (v_Nodes (cv_Validator cv)) then
        (case find (\<lambda>nw. sp_VlanID (net_Spec nw) = sp_VlanID (net_Spec (cv_NewNetwork cv)))
                (v_Networks (cv_Validator cv)) of
           None \<Rightarrow> None
         | Some nw \<Rightarrow> Some (Errorf (duplicate_text (net_Name nw))))
      else Some (Wrapf min_nodes_prefix (Errorf no_nodes_text)))"
  by (auto simp: CreationValidator_Validate_def validateMinimumNodes_eq validateUnique_def
      unique_loop_eq split: option.split)

text \<open>
  C37: the update validator only checks the nodes: whatever the two networks are, its verdict is the
  one on the node requirement of the new network. Its complaint that only pools may be updated is never
  made, because every field of both specifications is reset before the comparison.
\<close>

theorem update_validator_verdict:
  "fst (UpdateValidator_Validate uv) =
     (if list_ex (eligible (uv_NewNetwork uv)) (v_Nodes (uv_Validator uv)) then None
      else Some (Wrapf min_nodes_prefix (Errorf no_nodes_text)))"
proof -
  have "blank_spec s = blank_spec t" for s t :: VlanNetworkSpec
    by (simp add: blank_spec_def)
  then show ?thesis
    by (simp add: UpdateValidator_Validate_def validateMinimumNodes_eq Let_def blank_network_def)
qed

text \<open>
  C38: the webhook admits a deletion exactly when the pods with the worker label of the network could be
  listed and none of them is in phase Pending or Running; otherwise the error names those that are, in
  the order of the list and with their namespaces. The one list request is all it asks of the cluster.
\<close>

theorem validate_delete_verdict:
  assumes "k_NewRequirement K (worker_requirement network) = None"
  shows "run_state (ValidateDelete (traced K) (NetworkObject network)) (w, []) =
     (let req = \<lparr> req_Key = WorkerPodLabelKey, req_Operator = ''=='', req_Values = [net_Name network] \<rparr>;
          in_use = (\<lambda>p. pod_Phase p = ''Pending'' \<or> pod_Phase p = ''Running'')
      in case run_state (k_ListPods K [] [req]) w of
        (Inl e, w') \<Rightarrow> (Err (Wrapf ''Error listing pods'' e), (w', [ListedPods [] [req]]))
      | (Inr pods, w') \<Rightarrow>
          (if filter in_use pods = [] then Ok ()
           else Err (NetInUseError (map (\<lambda>p. pod_Name p @ ''@'' @ pod_Namespace p) (filter in_use pods))
             (net_Name network)), (w', [ListedPods [] [req]])))"
proof -
  have use: "pod_in_use = (\<lambda>p. pod_Phase p = ''Pending'' \<or> pod_Phase p = ''Running'')"
    by (simp add: fun_eq_iff pod_in_use_def PodPending_def PodRunning_def)
  have label: "pod_label = (\<lambda>p. pod_Name p @ ''@'' @ pod_Namespace p)"
    by (simp add: fun_eq_iff pod_label_def)
  show ?thesis
    using assms
    by (auto simp: NewDeletionValidator_def run_simps DeletionValidator_Validate_def validateNotInUse_def
        of_err_def worker_requirement_def [symmetric] use label Let_def split: prod.split sum.split)
qed

definition running_pod :: Pod where
  "running_pod = zero_pod\<lparr>pod_Meta := zero_meta\<lparr>meta_Name := ''web'', meta_Namespace := ''default''\<rparr>,
     pod_Phase := PodRunning\<rparr>"

text \<open>One pod is running, one is finished, one is pending.\<close>

theorem validate_delete_verdict_witness:
  "fst (run_state (ValidateDelete (traced (refusing_kube\<lparr>k_ListPods := (\<lambda>_ _. ret (Inr
        [running_pod, running_pod\<lparr>pod_Phase := ''Succeeded''\<rparr>,
         running_pod\<lparr>pod_Meta := zero_meta\<lparr>meta_Name := ''db'', meta_Namespace := ''shop''\<rparr>, pod_Phase := ''Pending''\<rparr>]))\<rparr>))
      (NetworkObject sample_network)) (0, [])) = Err (NetInUseError [''web@default'', ''db@shop''] ''net1'')"
  by (subst validate_delete_verdict)
    (simp_all add: refusing_kube_def running_pod_def PodRunning_def zero_pod_def zero_meta_def Let_def
      pod_Name_def pod_Namespace_def sample_network_def net_Name_def)

text \<open>
  C36: the webhook's verdict on a new network does not depend on the nodes or on the networks of the
  cluster: whatever the client would answer to listing either of them, the verdict, the calls made and
  the state of the cluster stay the same. It is the deletion validator that is asked, so a second
  network with the VLAN id of an existing one, which the creation validator refuses, is admitted.
\<close>

theorem create_ignores_nodes_and_networks:
  "run_state (ValidateCreate (traced (K\<lparr>k_ListNodes := nodes, k_ListNetworks := nets\<rparr>)) obj) (w, tr) =
     run_state (ValidateCreate (traced K) obj) (w, tr) \<and>
   run_state (ValidateCreate K (NetworkObject network)) w = run_state (ValidateDelete K (NetworkObject network)) w"
  by (cases obj) (simp_all add: NewDeletionValidator_def traced_simps split: option.split)

text \<open>A term of an affinity that excludes one node.\<close>

definition exclude_term :: "string \<Rightarrow> NodeSelectorTerm" where
  "exclude_term node =
     \<lparr> nst_MatchExpressions = Some [\<lparr> nsr_Key = ''kubernetes.io/hostname'',
         nsr_Operator = NodeSelectorOpNotIn, nsr_Values = Some [node] \<rparr>], nst_MatchFields = None \<rparr>"

lemma expr_excludes_term:
  "list_ex (expr_excludes node) (elems (nst_MatchExpressions (exclude_term m))) \<longleftrightarrow> node_Name node = m"
  by (simp add: exclude_term_def expr_excludes_def)

text \<open>
  The terms of a required node affinity are alternatives, but the check treats them as if all
  had to hold: if each node of the cluster is excluded by a term of its own, a network is refused for lack of
  nodes, although with two or more such terms every node satisfies one that excludes another.
\<close>

lemma minimum_nodes_conjoins_terms:
  assumes "required_selector net = Some (NodeSelector (Some (map exclude_term names)))"
    and "distinct names" and "2 \<le> length names" and "\<forall>node \<in> set (v_Nodes v). node_Name node \<in> set names"
  shows "validateMinimumNodes v net = Some (Errorf no_nodes_text) \<and>
    (\<forall>node \<in> set (v_Nodes v). \<exists>term \<in> set (map exclude_term names).
       \<not> list_ex (expr_excludes node) (elems (nst_MatchExpressions term)))"
proof
  have "\<not> eligible net node" if "node \<in> set (v_Nodes v)" for node
    using assms(1,4) that by (auto simp: eligible_def node_matches_def list_ex_iff [of _ "map exclude_term names"]
        expr_excludes_term)
  then show "validateMinimumNodes v net = Some (Errorf no_nodes_text)"
    by (auto simp: validateMinimumNodes_eq list_ex_iff)
  obtain m n rest where names: "names = m # n # rest"
    using assms(3) by (cases names; cases "tl names") auto
  show "\<forall>node \<in> set (v_Nodes v). \<exists>term \<in> set (map exclude_term names).
       \<not> list_ex (expr_excludes node) (elems (nst_MatchExpressions term))"
  proof
    fix node :: Node
    have "node_Name node \<noteq> m \<or> node_Name node \<noteq> n" using assms(2) names by auto
    then show "\<exists>term \<in> set (map exclude_term names). \<not> list_ex (expr_excludes node) (elems (nst_MatchExpressions term))"
      by (auto simp: names expr_excludes_term)
  qed
qed

end
