(* ===== verification/Locker.thy ===== *)
theory Locker
  imports Traces Status
begin

text \<open>
  \<open>pkg/locker\<close>: the lease lock that serialises the allocation of addresses, and the helpers of
  \<open>pkg/utils\<close> that the webhook and the daemons use.
\<close>

subsection \<open>The lease lock\<close>

record leaseLocker =
  ll_dryRun :: bool

definition Millisecond :: int where
  "Millisecond = 1000000"

text \<open>At most three attempts to make the lock, with a random pause after each failure.\<close>

function locker_loop :: "'w kube \<Rightarrow> string \<Rightarrow> string \<Rightarrow> nat \<Rightarrow> go_error option \<Rightarrow> ('w, go_error option) state" where
  "locker_loop K leaseName namespace tries err =
     (if tries < 3 then do {
        r \<leftarrow> k_NewLocker K leaseName namespace;
        (case r of
           Inr _ \<Rightarrow> ret None
         | Inl e \<Rightarrow> do {
             n \<leftarrow> k_Rand K;
             k_Sleep K (int ((n mod 10 + 1) * 100) * Millisecond);
             locker_loop K leaseName namespace (tries + 1) (Some e)
           })
      } else ret err)"
  by pat_completeness auto
termination by (relation "measure (\<lambda>(K, n, ns, tries, err). 3 - tries)") auto

declare locker_loop.simps [simp del]

definition NewLeaseLocker :: "'w kube \<Rightarrow> bool \<Rightarrow> string \<Rightarrow> string \<Rightarrow> ('w, leaseLocker outcome) state" where
  "NewLeaseLocker K dryRun leaseName namespace = do {
     err \<leftarrow> locker_loop K leaseName namespace 0 None;
     (case err of
        Some e \<Rightarrow> ret (Err (NewClientRequestError ''creating a lease locker'' e))
      | None \<Rightarrow> ret (Ok \<lparr> ll_dryRun = dryRun \<rparr>))
   }"

text \<open>The methods on the pointer; on a nil one the read of \<open>dryRun\<close> panics.\<close>

definition Lock :: "'w kube \<Rightarrow> leaseLocker option \<Rightarrow> ('w, unit outcome) state" where
  "Lock K ll =
     (case ll of
        None \<Rightarrow> ret (Panics nil_panic)
      | Some l \<Rightarrow> if \<not> ll_dryRun l then k_Lock K else ret (Ok ()))"

definition Unlock :: "'w kube \<Rightarrow> leaseLocker option \<Rightarrow> ('w, unit outcome) state" where
  "Unlock K ll =
     (case ll of
        None \<Rightarrow> ret (Panics nil_panic)
      | Some l \<Rightarrow> if \<not> ll_dryRun l then k_Unlock K else ret (Ok ()))"

fun is_made :: "call \<Rightarrow> bool" where
  "is_made (MadeLocker ok) = True"
| "is_made _ = False"

definition attempts :: "call list \<Rightarrow> nat" where
  "attempts tr = length (filter is_made tr)"

lemma attempts_simps [simp]: "attempts [] = 0" "attempts (a @ b) = attempts a + attempts b"
  "attempts (c # tr) = (if is_made c then Suc (attempts tr) else attempts tr)"
  by (simp_all add: attempts_def)

fun lock_step :: "call \<Rightarrow> bool" where
  "lock_step (MadeLocker ok) = True"
| "lock_step (Slept d) = (100 * Millisecond \<le> d \<and> d \<le> 1000 * Millisecond)"
| "lock_step _ = False"

lemma emits_locker_loop:
  assumes "tries \<le> 3"
  shows "emits (locker_loop (traced K) leaseName namespace tries err) (\<lambda>r new.
     list_all lock_step new \<and> tries + attempts new \<le> 3 \<and>
     (if r = None then tries < 3 \<and> (\<exists>a. new = a @ [MadeLocker True]) \<or> err = None \<and> tries = 3
      else tries + attempts new = 3))"
  using assms
proof (induction "3 - tries" arbitrary: tries err rule: less_induct)
  case less
  have pause: "lock_step (Slept (int ((n mod 10 + 1) * 100) * Millisecond))" for n
  proof -
    have "n mod 10 < 10" by simp
    then have "1 \<le> n mod 10 + 1" "n mod 10 + 1 \<le> 10" by linarith+
    then show ?thesis by (simp add: Millisecond_def)
  qed
  have IH: "emits (locker_loop (traced K) leaseName namespace (Suc tries) (Some e)) (\<lambda>r new.
     list_all lock_step new \<and> Suc tries + attempts new \<le> 3 \<and>
     (if r = None then Suc tries < 3 \<and> (\<exists>a. new = a @ [MadeLocker True]) \<or> Some e = None \<and> Suc tries = 3
      else Suc tries + attempts new = 3))" if "tries < 3" for e
    using that by (intro less) auto
  show ?case
    by (subst locker_loop.simps, unfold traced_simps, intro emits_rules)
      (use less(2) pause in \<open>auto intro!: emits_weaken [OF IH] split: if_splits\<close>)
qed

text \<open>
  Making the lock tries at most three times, pauses between 100 milliseconds and one second
  after each failed try, succeeds exactly when its last try does, and otherwise has made all three.
\<close>

theorem lease_locker_attempts:
  "case run_state (NewLeaseLocker (traced K) dry leaseName namespace) (w, []) of (r, (w', tr)) \<Rightarrow>
     list_all lock_step tr \<and> length (filter is_made tr) \<le> 3 \<and>
     (if ok_outcome r then \<exists>a. tr = a @ [MadeLocker True] else length (filter is_made tr) = 3)"
proof (rule emits_run)
  show "emits (NewLeaseLocker (traced K) dry leaseName namespace) (\<lambda>r tr.
      list_all lock_step tr \<and> length (filter is_made tr) \<le> 3 \<and>
      (if ok_outcome r then \<exists>a. tr = a @ [MadeLocker True] else length (filter is_made tr) = 3))"
    unfolding NewLeaseLocker_def
    by (intro emits_bind [OF emits_locker_loop [of 0]] emits_option emits_ret)
      (auto simp: attempts_def split: if_splits)
qed

text \<open>
  Whether the lock is held after a log of calls: a lock that succeeded takes it, and an unlock releases it only if
  it succeeded, too.
\<close>

fun held :: "call list \<Rightarrow> bool \<Rightarrow> bool" where
  "held [] h = h"
| "held (Locked ok # tr) h = held tr (h \<or> ok)"
| "held (Unlocked ok # tr) h = held tr (h \<and> \<not> ok)"
| "held (c # tr) h = held tr h"

lemma held_append: "held (a @ b) h = held b (held a h)"
  by (induction a h rule: held.induct) auto

lemma held_lock_steps: "list_all lock_step tr \<Longrightarrow> held tr h = h"
  by (induction tr h rule: held.induct) auto

subsection \<open>pkg/utils\<close>

fun populate_free :: "string list \<Rightarrow> string slice gomap \<Rightarrow> string slice gomap" where
  "populate_free [] m = m"
| "populate_free (p # ps) m =
     populate_free ps (if map_lookup m p = None then map_assign p (Some []) m else m)"

definition PopulateStatus :: "VlanNetworkStatus \<Rightarrow> string list \<Rightarrow> VlanNetworkStatus" where
  "PopulateStatus status poolNames =
     status\<lparr>st_PendingIPs := Some (elems (st_PendingIPs status)),
            st_FreeIPs := Some (populate_free poolNames (elems (st_FreeIPs status)))\<rparr>"

lemma populate_free_lookup:
  "map_lookup (populate_free ps m) k =
     (if map_lookup m k = None \<and> k \<in> set ps then Some (Some []) else map_lookup m k)"
  by (induction ps m rule: populate_free.induct) (auto simp: gomap_simps)

lemma populate_free_wf: "wf_map m \<Longrightarrow> wf_map (populate_free ps m)"
  by (induction ps m rule: populate_free.induct) (auto simp: wf_map_assign)

lemma PopulateStatus_wf [status_ops]: "wf_status s \<Longrightarrow> wf_status (PopulateStatus s ps)"
  by (simp add: wf_status_def PopulateStatus_def populate_free_wf)

interpretation populate_op: status_op "\<lambda>s. PopulateStatus s ps" for ps
  by unfold_locales (rule PopulateStatus_wf)

lemma PopulateStatus_pending: "pending_of (PopulateStatus s ps) k ip = pending_of s k ip"
  by (simp add: pending_of_def PopulateStatus_def)

lemma PopulateStatus_free: "free_of (PopulateStatus s ps) k = free_of s k"
  by (auto simp: free_of_def PopulateStatus_def populate_free_lookup)

end
