(* ===== verification/Defaulter.thy ===== *)
theory Defaulter
  imports Locker Validators
begin

text \<open>
  The mutating webhook for pods (\<open>internal/webhook/corev1/webhook.go\<close>): it allocates an address of
  the pod's pool under the lease lock, records it as pending in the network's status, and adds the
  init container that attaches the pod to the network.
\<close>

subsection \<open>Affinity\<close>

text \<open>The three blocks that choose between a part of the base and of the override.\<close>

definition merge_part :: "'a option \<Rightarrow> 'a option \<Rightarrow> 'a option" where
  "merge_part base over =
     (if base = None then over else if over = None then base else over)"

definition mergeAffinity :: "Affinity option \<Rightarrow> Affinity option \<Rightarrow> Affinity option" where
  "mergeAffinity base over =
     (case base of
        None \<Rightarrow> over
      | Some b \<Rightarrow>
          (case over of
             None \<Rightarrow> base
           | Some ov \<Rightarrow>
               Some \<lparr> aff_NodeAffinity = merge_part (aff_NodeAffinity b) (aff_NodeAffinity ov),
                      aff_PodAffinity = merge_part (aff_PodAffinity b) (aff_PodAffinity ov),
                      aff_PodAntiAffinity = merge_part (aff_PodAntiAffinity b) (aff_PodAntiAffinity ov) \<rparr>))"

subsection \<open>Patching the pod\<close>

definition env_var :: "string \<Rightarrow> string \<Rightarrow> EnvVar" where
  "env_var k v = \<lparr> ev_Name = k, ev_Value = v \<rparr>"

definition managers_text :: "string gomap \<Rightarrow> string" where
  "managers_text endpoints = strings_Join (map (\<lambda>(k, v). k @ ''='' @ v) endpoints) '',''"

definition init_container :: "string \<Rightarrow> string \<Rightarrow> string \<Rightarrow> string \<Rightarrow> string \<Rightarrow> string gomap \<Rightarrow> string \<Rightarrow> Container" where
  "init_container networkName img pullPolicy address subnet endpoints routes =
     \<lparr> ct_Name = WorkerInitContainerName, ct_Image = img, ct_ImagePullPolicy = pullPolicy,
       ct_Command = [],
       ct_Env = [env_var ''VLAN_NETWORK'' networkName, env_var ''MACVLAN_IP'' address,
                 env_var ''MACVLAN_SUBNET'' subnet, env_var ''ROUTES'' routes,
                 env_var ''MANAGERS'' (managers_text endpoints)],
       ct_Ports = [], ct_Capabilities = [''NET_ADMIN''] \<rparr>"

definition add_vlan_env :: "string \<Rightarrow> string \<Rightarrow> Container \<Rightarrow> Container" where
  "add_vlan_env address subnet c =
     c\<lparr>ct_Env := ct_Env c @ [env_var ''VLAN_IP'' address, env_var ''VLAN_SUBNET'' subnet]\<rparr>"

text \<open>The address before the slash, and the prefix length after it, which is 32 without a slash.\<close>

definition split_ip :: "string \<Rightarrow> string \<times> string" where
  "split_ip ip = (let (address, subnet, found) = strings_Cut ip slash
                  in (address, if \<not> found then ''32'' else subnet))"

definition applyPatch ::
    "Pod \<Rightarrow> VlanNetwork \<Rightarrow> string \<Rightarrow> string \<Rightarrow> string \<Rightarrow> string gomap \<Rightarrow> string \<Rightarrow> Pod" where
  "applyPatch pod network img pullPolicy ip endpoints routes =
     (let (address, subnet) = split_ip ip;
          m = pod_Meta pod; spec = pod_Spec pod;
          labels = (if length (meta_Labels m) \<noteq> 0
                    then map_assign WorkerPodLabelKey (net_Name network) (meta_Labels m)
                    else [(WorkerPodLabelKey, net_Name network)]);
          initContainer = init_container (net_Name network) img pullPolicy address subnet endpoints routes;
          spec' = spec\<lparr>ps_InitContainers := [initContainer] @ ps_InitContainers spec,
                       ps_Containers := map (add_vlan_env address subnet) (ps_Containers spec)\<rparr>;
          spec'' = (if sp_ManagerAffinity (net_Spec network) \<noteq> None
                    then spec'\<lparr>ps_Affinity := mergeAffinity (ps_Affinity spec')
                           (sp_ManagerAffinity (net_Spec network))\<rparr>
                    else spec')
      in pod\<lparr>pod_Meta := m\<lparr>meta_Labels := labels\<rparr>, pod_Spec := spec''\<rparr>)"

subsection \<open>Allocation\<close>

text \<open>The loop over the pool: the first address that is not a key of the pending map.\<close>

fun first_free :: "string list \<Rightarrow> string gomap \<Rightarrow> string option" where
  "first_free [] pendingMap = None"
| "first_free (ip # ips) pendingMap =
     (if slices_Contains (map_keys pendingMap) ip then first_free ips pendingMap else Some ip)"

text \<open>The status with an address of the pool marked as pending at the given time, if there is one.\<close>

definition allocate :: "string \<Rightarrow> string \<Rightarrow> VlanNetworkStatus \<Rightarrow> (string \<times> VlanNetworkStatus) option" where
  "allocate pool stamp status0 =
     (let status = PopulateStatus status0 [pool];
          pendingMap = elems (the_default None (map_lookup (elems (st_PendingIPs status)) pool))
      in case first_free (free_of status pool) pendingMap of
           None \<Rightarrow> None
         | Some ip \<Rightarrow> Some (ip, status\<lparr>st_PendingIPs := Some (map_assign pool
             (Some (map_assign ip stamp pendingMap)) (elems (st_PendingIPs status)))\<rparr>))"

definition resource_name :: "Pod \<Rightarrow> string" where
  "resource_name p = pod_Name p @ ''@'' @ pod_Namespace p"

text \<open>The loop over the manager pods; a pod without address ends it.\<close>

fun collect_endpoints :: "string \<Rightarrow> Pod list \<Rightarrow> string gomap \<Rightarrow> go_error + string gomap" where
  "collect_endpoints resource [] endpoints = Inr endpoints"
| "collect_endpoints resource (man # mans) endpoints =
     (if pod_PodIP man = [] then Inl (ManagerNotReadyError resource (resource_name man))
      else collect_endpoints resource mans
             (map_assign (ps_NodeName (pod_Spec man)) (pod_PodIP man) endpoints))"

definition pool_routes :: "VlanNetworkPool list \<Rightarrow> string \<Rightarrow> Route slice" where
  "pool_routes pools name =
     (case find (\<lambda>p. pool_Name p = name) pools of None \<Rightarrow> Some [] | Some p \<Rightarrow> pool_Routes p)"

text \<open>After the status was written and the lock released.\<close>

definition attach_pod :: "'w kube \<Rightarrow> Envs \<Rightarrow> Pod \<Rightarrow> VlanNetwork \<Rightarrow> string \<Rightarrow> string \<Rightarrow> ('w, Pod outcome) state" where
  "attach_pod K env pod network pool assignedIP =
     (let requirement = \<lparr> req_Key = ManagerSetLabelKey, req_Operator = ''=='', req_Values = [net_Name network] \<rparr>
      in case k_NewRequirement K requirement of
           Some err \<Rightarrow> ret (Err (InternalError
             (''mutating webhook list manager pods requirement fails to compile: '' @ error_text err)))
         | None \<Rightarrow>
             or_err (k_ListPods K [] [requirement])
               (NewClientRequestError ''Listing manager pods in mutating webhook'') (\<lambda>managers.
               if managers = [] then
                 ret (Err (NoManagerPodsError (resource_name pod) (net_Name network)))
               else case collect_endpoints (resource_name pod) managers [] of
                      Inl err \<Rightarrow> ret (Err err)
                    | Inr endpoints \<Rightarrow>
                        ret (Ok (applyPatch pod network (env_WorkerInitImage env)
                          (env_WorkerInitPullPolicy env) assignedIP endpoints
                          (marshal_routes (pool_routes (elems (sp_Pools (net_Spec network))) pool))))))"

text \<open>Between taking the lock and releasing it: the network is read and its status written.\<close>

definition allocate_locked ::
    "'w kube \<Rightarrow> leaseLocker option \<Rightarrow> Pod \<Rightarrow> string \<Rightarrow> string \<Rightarrow> ('w, (VlanNetwork \<times> string) outcome) state" where
  "allocate_locked K lock pod networkName pool = do {
     r \<leftarrow> k_GetNetwork K networkName;
     (case r of
        Inl err \<Rightarrow> and_then (Unlock K lock) (\<lambda>_. ret (Err (ClientRequestError ''Get VlanNetwork'' err)))
      | Inr network \<Rightarrow> do {
          (nanos, zone) \<leftarrow> k_Now K;
          (case allocate pool (time_Format \<lparr> t_nanos = nanos, t_offset = zone \<rparr>) (net_Status network) of
             None \<Rightarrow> and_then (Unlock K lock) (\<lambda>_. ret (Err (NoIPInPoolError (resource_name pod) [])))
           | Some (ip, status) \<Rightarrow>
               or_err (k_UpdateStatus K (network\<lparr>net_Status := status\<rparr>))
                 (NewClientRequestError ''Update status in mutating webhook'') (\<lambda>network'.
                 and_then (Unlock K lock) (\<lambda>_. ret (Ok (network', ip)))))
        })
   }"

definition clientset_text :: string where
  "clientset_text = ''Couldn'' @ [CHR 0x27] @ ''t create a clientset from webhook.config in mutating webhook''"

definition default_pod :: "'w kube \<Rightarrow> Envs \<Rightarrow> Pod \<Rightarrow> string \<Rightarrow> string \<Rightarrow> ('w, Pod outcome) state" where
  "default_pod K env pod networkName pool = do {
     r \<leftarrow> k_NewForConfig K;
     (case r of
        Inl err \<Rightarrow> ret (Err (UnrecoverableError clientset_text (Some err)))
      | Inr False \<Rightarrow> ret (Err (UnrecoverableError clientset_text None))
      | Inr True \<Rightarrow> do {
          l \<leftarrow> NewLeaseLocker K False LeaseName (env_NamespaceName env);
          let lock = (case l of Ok ll \<Rightarrow> Some ll | _ \<Rightarrow> None);
          and_then (Lock K lock) (\<lambda>_.
          and_then (allocate_locked K lock pod networkName pool) (\<lambda>(network, assignedIP).
            attach_pod K env pod network pool assignedIP))
        })
   }"

text \<open>\<open>Default\<close>: the object as the handler leaves it, and nil or the error.\<close>

definition finish_default :: "Pod \<Rightarrow> Pod outcome \<Rightarrow> runtime_object \<times> unit outcome" where
  "finish_default pod r =
     (case r of
        Ok pod' \<Rightarrow> (PodObject pod', Ok ())
      | Err e \<Rightarrow> (PodObject pod, Err e)
      | Panics p \<Rightarrow> (PodObject pod, Panics p)
      | Hangs \<Rightarrow> (PodObject pod, Hangs))"

fun Default :: "'w kube \<Rightarrow> Envs \<Rightarrow> runtime_object \<Rightarrow> ('w, runtime_object \<times> unit outcome) state" where
  "Default K env (PodObject pod) =
     (let network = map_lookup (meta_Annotations (pod_Meta pod)) PodVlanmanNetworkAnnotation;
          pool = map_lookup (meta_Annotations (pod_Meta pod)) PodVlanmanIPPoolAnnotation
      in case (network, pool) of
           (None, None) \<Rightarrow> ret (PodObject pod, Ok ())
         | (Some networkName, Some pn) \<Rightarrow> do {
             r \<leftarrow> default_pod K env pod networkName pn;
             ret (finish_default pod r)
           }
         | _ \<Rightarrow> ret (PodObject pod, Err (MissingAnnotationError (resource_name pod))))"
| "Default K env obj = ret (obj, Err (NewTypeMismatchError ''Mutating webhook'' (object_type obj)))"

subsection \<open>Allocation: properties\<close>

lemma first_free_eq:
  "first_free ips m = find (\<lambda>ip. map_lookup m ip = None) ips"
  by (induction ips) (auto simp: map_keys_iff)

lemma pending_of_lookup:
  "map_lookup (elems (the_default None (map_lookup (elems (st_PendingIPs s)) k))) ip = pending_of s k ip"
  by (auto simp: pending_of_def the_default_def split: option.split)

lemma find_filter: "find P xs = Some x \<Longrightarrow> \<exists>rest. filter P xs = x # rest"
  by (induction xs) (auto split: if_splits)

lemma allocate_eq:
  "allocate pool stamp s =
     map_option (\<lambda>ip. (ip, (PopulateStatus s [pool])\<lparr>st_PendingIPs := Some (map_assign pool
         (Some (map_assign ip stamp (elems (the_default None (map_lookup (elems (st_PendingIPs s)) pool)))))
         (elems (st_PendingIPs s)))\<rparr>))
       (find (\<lambda>ip. pending_of s pool ip = None) (free_of s pool))"
proof -
  have p: "elems (st_PendingIPs (PopulateStatus s [pool])) = elems (st_PendingIPs s)"
    by (simp add: PopulateStatus_def)
  show ?thesis
    by (simp add: allocate_def Let_def first_free_eq p pending_of_lookup PopulateStatus_free
        PopulateStatus_pending split: option.split)
qed

lemma allocate_pending:
  assumes "allocate pool stamp s = Some (ip, s')"
  shows "pending_of s' k i = (if k = pool \<and> i = ip then Some stamp else pending_of s k i)"
proof -
  have e: "elems (st_PendingIPs s') = map_assign pool (Some (map_assign ip stamp
      (elems (the_default None (map_lookup (elems (st_PendingIPs s)) pool))))) (elems (st_PendingIPs s))"
    using assms by (auto simp: allocate_eq)
  show ?thesis
    by (cases "k = pool") (simp_all add: pending_of_def [of s'] e map_lookup_assign pending_of_lookup,
        simp add: pending_of_def)
qed

lemma allocate_frame:
  assumes "allocate pool stamp s = Some (ip, s')"
  shows "free_of s' k = free_of s k" and "st_State s' = st_State s" and "st_ShortState s' = st_ShortState s"
  using assms PopulateStatus_free [of s "[pool]" k]
  by (auto simp: allocate_eq free_of_def PopulateStatus_def)

lemma allocate_wf:
  assumes "wf_status s" and "allocate pool stamp s = Some (ip, s')"
  shows "wf_status s'"
proof -
  let ?m = "elems (the_default None (map_lookup (elems (st_PendingIPs s)) pool))"
  have m: "wf_map ?m"
    using wf_status_pending [OF assms(1), of pool]
    by (cases "map_lookup (elems (st_PendingIPs s)) pool") auto
  have "wf_map (elems pend)"
    if "(k, pend) \<in> set (map_assign pool (Some (map_assign ip stamp ?m)) (elems (st_PendingIPs s)))" for k pend
  proof -
    have "wf_map (map_assign pool (Some (map_assign ip stamp ?m)) (elems (st_PendingIPs s)))"
      using assms(1) by (simp add: wf_map_assign wf_status_def)
    with that have "map_lookup (map_assign pool (Some (map_assign ip stamp ?m)) (elems (st_PendingIPs s))) k = Some pend"
      by (simp add: map_lookup_Some_iff)
    then show ?thesis
      using m wf_status_pending [OF assms(1), of k] by (auto simp: gomap_simps wf_map_assign split: if_splits)
  qed
  then show ?thesis
    using assms PopulateStatus_wf [OF assms(1), of "[pool]"]
    by (auto simp: allocate_eq wf_status_def wf_map_assign)
qed

text \<open>
  C20: an allocation from a pool takes the first of its free addresses that is not pending, and
  fails only if every free address is; it marks that address as pending in that pool at the given time
  and changes nothing else: all other pending addresses keep their stamps and no free list changes.
\<close>

theorem allocation:
  "case allocate pool stamp s of
     None \<Rightarrow> filter (\<lambda>ip. pending_of s pool ip = None) (free_of s pool) = []
   | Some (ip, s') \<Rightarrow>
       (\<exists>rest. filter (\<lambda>ip. pending_of s pool ip = None) (free_of s pool) = ip # rest) \<and>
       (\<forall>k i. pending_of s' k i = (if k = pool \<and> i = ip then Some stamp else pending_of s k i)) \<and>
       (\<forall>k. free_of s' k = free_of s k) \<and> st_State s' = st_State s"
proof (cases "allocate pool stamp s")
  case None
  then have "find (\<lambda>ip. pending_of s pool ip = None) (free_of s pool) = None"
    by (simp add: allocate_eq)
  with None show ?thesis by (simp add: filter_empty_conv find_None_iff)
next
  case (Some r)
  obtain ip s' where r: "allocate pool stamp s = Some (ip, s')" using Some by (cases r) auto
  then have "find (\<lambda>ip. pending_of s pool ip = None) (free_of s pool) = Some ip"
    by (auto simp: allocate_eq)
  then have "\<exists>rest. filter (\<lambda>ip. pending_of s pool ip = None) (free_of s pool) = ip # rest"
    by (rule find_filter)
  with r show ?thesis by (simp add: allocate_pending allocate_frame)
qed

subsection \<open>The lock\<close>

fun failed_write :: "call \<Rightarrow> bool" where
  "failed_write (UpdatedStatus n ok) = (\<not> ok)"
| "failed_write _ = False"

text \<open>The last call is an unlock that failed.\<close>

definition failed_unlock :: "call list \<Rightarrow> bool" where
  "failed_unlock tr \<longleftrightarrow> tr \<noteq> [] \<and> last tr = Unlocked False"

definition released :: "call list \<Rightarrow> bool" where
  "released tr \<longleftrightarrow> held tr False = (list_ex failed_write tr \<or> failed_unlock tr)"

fun no_lock_call :: "call \<Rightarrow> bool" where
  "no_lock_call (Locked ok) = False"
| "no_lock_call (Unlocked ok) = False"
| "no_lock_call (UpdatedStatus n ok) = False"
| "no_lock_call _ = True"

lemma held_no_lock: "list_all no_lock_call tr \<Longrightarrow> held tr h = h"
  by (induction tr h rule: held.induct) auto

lemma no_failed_write: "list_all no_lock_call tr \<Longrightarrow> \<not> list_ex failed_write tr"
  by (induction tr) (auto elim: no_lock_call.elims)

lemma no_failed_unlock: "list_all no_lock_call tr \<Longrightarrow> \<not> failed_unlock tr"
  by (induction tr) (auto simp: failed_unlock_def)

lemma failed_unlock_Locked: "failed_unlock (Locked b # tr) = failed_unlock tr" "\<not> failed_unlock []"
  by (simp_all add: failed_unlock_def)

lemma failed_unlock_append:
  "failed_unlock (p @ tr) = (if tr = [] then failed_unlock p else failed_unlock tr)"
  by (simp add: failed_unlock_def)

lemma lock_step_no_lock: "lock_step c \<Longrightarrow> no_lock_call c"
  by (cases c) auto

lemma only_NewLeaseLocker: "only no_lock_call (NewLeaseLocker (traced K) dry n ns)"
  unfolding NewLeaseLocker_def only_def
  by (intro emits_bind [OF emits_locker_loop [of 0]] emits_option emits_ret)
    (auto elim!: list.pred_mono_strong intro: lock_step_no_lock)

lemma only_attach_pod: "only no_lock_call (attach_pod (traced K) env pod network pool ip)"
  unfolding attach_pod_def Let_def traced_simps by (rule emits_intro | simp)+

lemma emits_Lock:
  "emits (Lock (traced K) (Some \<lparr> ll_dryRun = False \<rparr>)) (\<lambda>r new. new = [Locked (ok_outcome r)])"
  unfolding Lock_def traced_simps by (auto intro!: emits_log_call)

lemma emits_Unlock:
  "emits (Unlock (traced K) (Some \<lparr> ll_dryRun = False \<rparr>)) (\<lambda>r new. new = [Unlocked (ok_outcome r)])"
  unfolding Unlock_def traced_simps by (auto intro!: emits_log_call)

lemma emits_allocate_locked:
  "emits (allocate_locked (traced K) (Some \<lparr> ll_dryRun = False \<rparr>) pod n pool) (\<lambda>r new.
     held new True = (list_ex failed_write new \<or> failed_unlock new) \<and> new \<noteq> [] \<and>
     (if ok_outcome r then \<not> held new True else True))"
  unfolding allocate_locked_def traced_simps
  by (intro emits_rules emits_and_then [OF emits_Unlock]) (simp_all add: failed_unlock_def)

lemma NewLeaseLocker_result:
  "run_state (NewLeaseLocker K dry n ns) w = (Ok ll, w') \<Longrightarrow> ll = \<lparr> ll_dryRun = dry \<rparr>"
  by (auto simp: NewLeaseLocker_def split: prod.splits option.splits)

lemma released_prefix: "list_all no_lock_call p \<Longrightarrow> released tr \<Longrightarrow> released (p @ tr)"
  using no_failed_unlock [of p] by (auto simp: released_def held_append held_no_lock no_failed_write failed_unlock_append)

lemma released_none: "list_all no_lock_call tr \<Longrightarrow> released tr"
  using released_prefix [of tr "[]"] by (simp add: released_def failed_unlock_def)

lemma emits_made:
  "emits (NewLeaseLocker (traced K) False a b) (\<lambda>r new. list_all no_lock_call new \<and>
     (r = Ok \<lparr> ll_dryRun = False \<rparr> \<or> \<not> ok_outcome r))"
proof (rule emits_conj [OF only_NewLeaseLocker [unfolded only_def]])
  have "r = Ok \<lparr> ll_dryRun = False \<rparr> \<or> \<not> ok_outcome r"
    if "run_state (NewLeaseLocker (traced K) False a b) (w, tr) = (r, x)" for w tr r x
    using that NewLeaseLocker_result by (cases r) auto
  then show "emits (NewLeaseLocker (traced K) False a b) (\<lambda>r new. r = Ok \<lparr> ll_dryRun = False \<rparr> \<or> \<not> ok_outcome r)"
    using only_NewLeaseLocker [of K False a b] unfolding only_def emits_def by metis
qed

text \<open>The part under the lock, and what it suffices to show of it.\<close>

definition locked_part :: "'w kube \<Rightarrow> Envs \<Rightarrow> Pod \<Rightarrow> string \<Rightarrow> string \<Rightarrow> ('w, Pod outcome) state" where
  "locked_part K env pod n pool =
     and_then (Lock K (Some \<lparr> ll_dryRun = False \<rparr>)) (\<lambda>_.
     and_then (allocate_locked K (Some \<lparr> ll_dryRun = False \<rparr>) pod n pool) (\<lambda>(network, ip).
       attach_pod K env pod network pool ip))"

lemma emits_default_pod:
  assumes locked: "\<And>p. list_all no_lock_call p \<Longrightarrow>
      emits (locked_part (traced K) env pod n pool) (\<lambda>r q. R r (p @ q))"
    and fails: "\<And>e p. list_all no_lock_call p \<Longrightarrow> R (Err e) p"
    and panics: "\<And>e p. list_all no_lock_call p \<Longrightarrow> R (Panics e) p"
  shows "emits (default_pod (traced K) env pod n pool) R"
proof -
  have nil: "emits (and_then (Lock (traced K) None) (\<lambda>_.
      and_then (allocate_locked (traced K) None pod n pool) (\<lambda>(network, ip).
        attach_pod (traced K) env pod network pool ip))) (\<lambda>r q. R r (p @ q))"
    if "list_all no_lock_call p" for p
    using that by (simp add: Lock_def and_then_def emits_ret panics)
  show ?thesis
    unfolding default_pod_def traced_simps Let_def
    by (intro emits_rules emits_bind [OF emits_made])
      (auto simp: fails split: bool.split outcome.split
        intro!: emits_ret emits_bind [OF emits_made] locked [unfolded locked_part_def] nil)
qed

lemma released_default_pod: "emits (default_pod (traced K) env pod n pool) (\<lambda>r new. released new)"
proof (rule emits_default_pod)
  fix p assume "list_all no_lock_call p"
  then show "emits (locked_part (traced K) env pod n pool) (\<lambda>r q. released (p @ q))"
    unfolding locked_part_def
    by (intro emits_and_then [OF emits_Lock] emits_and_then [OF emits_allocate_locked] emits_prod
        emits_weaken [OF only_attach_pod [unfolded only_def]])
      (auto simp: released_def held_append held_no_lock no_failed_write failed_unlock_append no_failed_unlock
        failed_unlock_Locked)
qed (simp_all add: released_none)

text \<open>
  C24: however the cluster answers, a request that took the lock leaves with the lock released, on
  success, on every error and if a later step panics, with two exceptions: it is still held exactly when
  the write of the network's status failed, where the handler returns without releasing it, or when the
  release itself failed, which is then the last thing the request does.
\<close>

theorem lock_released_unless_write_fails:
  "case run_state (Default (traced K) env obj) (w, []) of (r, (w', tr)) \<Rightarrow>
     held tr False = (list_ex failed_write tr \<or> (tr \<noteq> [] \<and> last tr = Unlocked False))"
proof (rule emits_run)
  have pod: "emits (do { r \<leftarrow> default_pod (traced K) env pod n pool; ret (finish_default pod r) })
      (\<lambda>r new. released new)" for pod n pool
    by (rule emits_bind [OF released_default_pod]) (simp add: emits_ret)
  have "emits (Default (traced K) env obj) (\<lambda>r new. released new)"
    by (cases obj) (auto simp: Let_def released_none pod intro!: emits_ret split: option.split)
  then show "emits (Default (traced K) env obj) (\<lambda>r tr. held tr False =
      (list_ex failed_write tr \<or> (tr \<noteq> [] \<and> last tr = Unlocked False)))"
    by (simp add: released_def failed_unlock_def)
qed

text \<open>
  If the lock cannot be made, a request for a pod with both annotations does not end with an
  error: the error is ignored and the call of the method on the nil lock panics.
\<close>

theorem lock_failure_panics:
  assumes "run_state (k_NewForConfig K) w = (Inr True, w1)"
    and "run_state (NewLeaseLocker K False LeaseName (env_NamespaceName env)) w1 = (Err e, w2)"
  shows "run_state (default_pod K env pod n pool) w = (Panics nil_panic, w2)"
  using assms by (simp add: default_pod_def Lock_def run_simps)

theorem lock_failure_panics_witness:
  "run_state (default_pod (refusing_kube\<lparr>k_NewForConfig := ret (Inr True)\<rparr>) sample_envs zero_pod ''net1'' ''primary'') 0
     = (Panics nil_panic, 0)"
proof -
  let ?K = "refusing_kube\<lparr>k_NewForConfig := ret (Inr True)\<rparr>"
  have "run_state (NewLeaseLocker ?K False LeaseName (env_NamespaceName sample_envs)) 0 =
      (Err (NewClientRequestError ''creating a lease locker'' (Foreign ''connection refused'')), 0)"
    by (simp add: NewLeaseLocker_def locker_loop.simps refusing_kube_def refused_def)
  moreover have "run_state (k_NewForConfig ?K) 0 = (Inr True, 0)" by (simp add: refusing_kube_def)
  ultimately show ?thesis by (rule lock_failure_panics [rotated])
qed

subsection \<open>The patched pod\<close>

text \<open>A container that does not itself set the variables the operator reads the address from.\<close>

definition no_vlan_env :: "Container \<Rightarrow> bool" where
  "no_vlan_env c \<longleftrightarrow>
     list_all (\<lambda>e. ev_Name e \<noteq> ''MACVLAN_IP'' \<and> ev_Name e \<noteq> ''MACVLAN_SUBNET'') (ct_Env c)"

lemma extract_env_none:
  "list_all (\<lambda>e. ev_Name e \<noteq> ''MACVLAN_IP'' \<and> ev_Name e \<noteq> ''MACVLAN_SUBNET'') es \<Longrightarrow>
   extract_env es acc = acc"
  by (induction es acc rule: extract_env.induct) auto

lemma foldl_extract_none:
  "list_all no_vlan_env cs \<Longrightarrow> foldl (\<lambda>acc c. extract_env (ct_Env c) acc) acc cs = acc"
  by (induction cs) (auto simp: no_vlan_env_def extract_env_none)

lemma extract_init_container:
  "extract_env (ct_Env (init_container n img pp address subnet eps routes)) ([], []) = (address, subnet)"
  by (simp add: init_container_def env_var_def)

lemma init_containers_patch:
  "ps_InitContainers (pod_Spec (applyPatch pod network img pp ip eps routes)) =
     init_container (net_Name network) img pp (fst (split_ip ip)) (snd (split_ip ip)) eps routes #
     ps_InitContainers (pod_Spec pod)"
  by (simp add: applyPatch_def Let_def case_prod_beta)

lemma extractVlan_patch:
  assumes "list_all no_vlan_env (ps_InitContainers (pod_Spec pod))"
  shows "extractVlan (applyPatch pod network img pp ip eps routes) =
     (if snd (split_ip ip) \<noteq> [] then fst (split_ip ip) @ ''/'' @ snd (split_ip ip) else fst (split_ip ip),
      fst (split_ip ip) \<noteq> [])"
  by (simp add: extractVlan_def init_containers_patch extract_init_container
      foldl_extract_none [OF assms] case_prod_beta)

lemma split_ip_address: "fst (split_ip ip) = cut_ip ip"
  by (simp add: split_ip_def cut_ip_def Let_def case_prod_beta)

lemma cut_ip_no_slash: "CHR ''/'' \<notin> set (cut_ip ip)"
  by (auto simp: cut_ip_def slash_def strings_Cut_char dest: set_takeWhileD)

lemma cut_ip_cut: "cut_ip (cut_ip ip) = cut_ip ip" "cut_ip (cut_ip ip @ CHR ''/'' # s) = cut_ip ip"
  using strings_Cut_char_none [OF cut_ip_no_slash [of ip]]
    strings_Cut_char_append [OF cut_ip_no_slash [of ip], of s]
  by (simp_all only: cut_ip_def [of "cut_ip ip"] cut_ip_def [of "cut_ip ip @ CHR ''/'' # s"] slash_def fst_conv)

lemma patch_label:
  "map_lookup (meta_Labels (pod_Meta (applyPatch pod network img pp ip eps routes))) WorkerPodLabelKey =
     Some (net_Name network)"
  by (simp add: applyPatch_def Let_def case_prod_beta gomap_simps)

lemma patched_address:
  assumes "list_all no_vlan_env (ps_InitContainers (pod_Spec pod))"
  shows "cut_ip (fst (extractVlan (applyPatch pod network img pp ip eps routes))) = cut_ip ip \<and>
     snd (extractVlan (applyPatch pod network img pp ip eps routes)) = (cut_ip ip \<noteq> [])"
  by (simp add: extractVlan_patch [OF assms] split_ip_address cut_ip_cut)

text \<open>
  C25: the operator reads back from a patched pod the address the webhook gave it: for a pod whose
  own init containers do not set the two variables, the address extracted from the patched pod is, up
  to the prefix length, the allocated one, and with a prefix length that is not empty it is the same
  text; the pod carries the label of its network, by which the operator finds it.
\<close>

theorem patch_extract_roundtrip:
  assumes "list_all no_vlan_env (ps_InitContainers (pod_Spec pod))"
    and "ip = address @ ''/'' @ subnet" and "CHR ''/'' \<notin> set address" and "subnet \<noteq> []" and "address \<noteq> []"
  shows "extractVlan (applyPatch pod network img pp ip eps routes) = (ip, True) \<and>
     map_lookup (meta_Labels (pod_Meta (applyPatch pod network img pp ip eps routes))) WorkerPodLabelKey =
       Some (net_Name network)"
proof -
  have "split_ip ip = (address, subnet)"
    using strings_Cut_char_append [OF assms(3), of subnet] by (simp add: split_ip_def slash_def assms(2))
  with assms show ?thesis
    by (simp add: extractVlan_patch patch_label)
qed

theorem patch_extract_roundtrip_witness:
  "extractVlan (applyPatch running_pod sample_network [] [] ''10.0.0.2/24'' [(''node1'', ''10.1.0.5'')] ''[]'') =
     (''10.0.0.2/24'', True)"
  using patch_extract_roundtrip [of running_pod "''10.0.0.2/24''" "''10.0.0.2''" "''24''"]
  by (simp add: running_pod_def zero_pod_def zero_podspec_def)

text \<open>That a status with the address pending was written, for a free address of the pool.\<close>

definition recorded :: "string \<Rightarrow> string \<Rightarrow> call list \<Rightarrow> bool" where
  "recorded pool ip tr \<longleftrightarrow>
     (\<exists>n stamp. UpdatedStatus n True \<in> set tr \<and> pending_of (net_Status n) pool ip = Some stamp \<and>
        ip \<in> set (free_of (net_Status n) pool))"

lemma recorded_more: "recorded pool ip tr \<Longrightarrow> recorded pool ip (p @ tr @ q)"
  unfolding recorded_def by auto

lemma allocate_recorded:
  assumes "allocate pool stamp s = Some (ip, s')"
  shows "pending_of s' pool ip = Some stamp \<and> ip \<in> set (free_of s' pool)"
proof -
  have "find (\<lambda>ip. pending_of s pool ip = None) (free_of s pool) = Some ip"
    using assms by (auto simp: allocate_eq)
  then have "ip \<in> set (free_of s pool)" by (auto simp: find_Some_iff)
  then show ?thesis by (simp add: allocate_pending [OF assms] allocate_frame [OF assms])
qed

definition allocated :: "string \<Rightarrow> (VlanNetwork \<times> string) outcome \<Rightarrow> call list \<Rightarrow> bool" where
  "allocated pool r tr \<longleftrightarrow> (case r of Ok (n, ip) \<Rightarrow> recorded pool ip tr | _ \<Rightarrow> True)"

lemma emits_allocate_recorded:
  "emits (allocate_locked (traced K) (Some \<lparr> ll_dryRun = False \<rparr>) pod n pool) (allocated pool)"
proof -
  have rec: "recorded pool ip (a # UpdatedStatus (net\<lparr>net_Status := s'\<rparr>) True # b)"
    if "allocate pool stamp (net_Status net) = Some (ip, s')" for a b ip s' stamp net
    using allocate_recorded [OF that] unfolding recorded_def by (auto intro!: exI [of _ "net\<lparr>net_Status := s'\<rparr>"])
  show ?thesis
    unfolding allocate_locked_def traced_simps
    by (intro emits_rules emits_and_then [OF emits_Unlock])
      (auto simp: allocated_def intro: rec)
qed

text \<open>How a handled pod looks: patched with an address that was recorded.\<close>

definition attached :: "Envs \<Rightarrow> Pod \<Rightarrow> string \<Rightarrow> Pod outcome \<Rightarrow> call list \<Rightarrow> bool" where
  "attached env pod pool r tr \<longleftrightarrow>
     (case r of
        Ok pod' \<Rightarrow> \<exists>network ip endpoints routes. recorded pool ip tr \<and>
          pod' = applyPatch pod network (env_WorkerInitImage env) (env_WorkerInitPullPolicy env) ip endpoints routes
      | _ \<Rightarrow> True)"

lemma attached_simps [simp]:
  "attached env pod pool (Err e) tr" "attached env pod pool (Panics p) tr" "attached env pod pool Hangs tr"
  by (simp_all add: attached_def)

lemma emits_attach_pod:
  assumes "recorded pool ip p"
  shows "emits (attach_pod (traced K) env pod network pool ip) (\<lambda>r new. attached env pod pool r (p @ new))"
proof -
  have "recorded pool ip (p @ q)" for q using recorded_more [OF assms, of "[]"] by simp
  then show ?thesis
    unfolding attach_pod_def Let_def traced_simps
    by (intro emits_rules) (auto simp: attached_def)
qed

lemma attached_prefix: "attached env pod pool r tr \<Longrightarrow> attached env pod pool r (p @ tr)"
  using recorded_more [of pool _ tr p "[]"] by (auto simp: attached_def split: outcome.splits)

lemma attached_default_pod: "emits (default_pod (traced K) env pod n pool) (attached env pod pool)"
proof (rule emits_default_pod)
  fix p assume "list_all no_lock_call p"
  show "emits (locked_part (traced K) env pod n pool) (\<lambda>r q. attached env pod pool r (p @ q))"
    unfolding locked_part_def
  proof (intro emits_and_then [OF emits_Lock] emits_and_then [OF emits_allocate_recorded] emits_prod)
    fix x :: unit and new r new' and network ip
    assume "allocated pool (Ok r) new'" and "r = (network, ip)"
    then have "recorded pool ip new'" by (simp add: allocated_def)
    then have "emits (attach_pod (traced K) env pod network pool ip) (\<lambda>r q. attached env pod pool r (new' @ q))"
      by (rule emits_attach_pod)
    then show "emits (attach_pod (traced K) env pod network pool ip)
        (\<lambda>b q. attached env pod pool b (p @ new @ new' @ q))"
      by (rule emits_weaken) (drule attached_prefix [where p = "p @ new"], simp)
  qed simp_all
qed simp_all

text \<open>
  C23: when the webhook admits a pod with the two annotations, the pod it returns is the patched
  pod with an address for which, before, a status was successfully written in which that address is free
  in the pool of the annotation and marked as pending there: no pod gets an address that was not
  recorded.
\<close>

theorem admitted_pod_address_recorded:
  "case run_state (default_pod (traced K) env pod n pool) (w, []) of (r, (w', tr)) \<Rightarrow>
     (case r of
        Ok pod' \<Rightarrow> \<exists>network ip endpoints routes. recorded pool ip tr \<and>
          pod' = applyPatch pod network (env_WorkerInitImage env) (env_WorkerInitPullPolicy env) ip endpoints routes
      | _ \<Rightarrow> True)"
  using emits_run [OF attached_default_pod] unfolding attached_def .

text \<open>
  The webhook leaves the object as it was unless it succeeds; a pod without either annotation
  is admitted unchanged with no call to the cluster, one with a single annotation is refused with no
  call.
\<close>

theorem default_unchanged_on_error:
  "case run_state (Default (traced K) env obj) (w, []) of ((obj', r), (w', tr)) \<Rightarrow>
     obj' = (if r = Ok () then obj' else obj) \<and>
     (case obj of
        PodObject pod \<Rightarrow>
          (case (map_lookup (meta_Annotations (pod_Meta pod)) PodVlanmanNetworkAnnotation,
                 map_lookup (meta_Annotations (pod_Meta pod)) PodVlanmanIPPoolAnnotation) of
             (None, None) \<Rightarrow> obj' = obj \<and> r = Ok () \<and> tr = []
           | (Some n, Some p) \<Rightarrow> True
           | _ \<Rightarrow> r = Err (MissingAnnotationError (resource_name pod)) \<and> tr = [])
      | _ \<Rightarrow> r = Err (NewTypeMismatchError ''Mutating webhook'' (object_type obj)) \<and> tr = [])"
  by (cases obj)
    (auto simp: Let_def finish_default_def split: option.split prod.split outcome.split)

text \<open>
  In a merged affinity each of the three parts is the network's if the network sets it and the
  pod's otherwise; parts are replaced as a whole and never combined.
\<close>

theorem merge_affinity_parts:
  "mergeAffinity base over =
     (case (base, over) of
        (Some b, Some ov) \<Rightarrow>
          Some \<lparr> aff_NodeAffinity = (case aff_NodeAffinity ov of None \<Rightarrow> aff_NodeAffinity b | Some x \<Rightarrow> Some x),
                 aff_PodAffinity = (case aff_PodAffinity ov of None \<Rightarrow> aff_PodAffinity b | Some x \<Rightarrow> Some x),
                 aff_PodAntiAffinity = (case aff_PodAntiAffinity ov of None \<Rightarrow> aff_PodAntiAffinity b | Some x \<Rightarrow> Some x) \<rparr>
      | (None, _) \<Rightarrow> over
      | (_, None) \<Rightarrow> base)"
  by (auto simp: mergeAffinity_def merge_part_def split: option.split)

end
