(* ===== verification/Ipam.thy ===== *)
theory Ipam
  imports Defaulter "HOL-Library.Multiset"
begin

text \<open>
  The address management as a whole: the mutating webhook and the status update of the operator run
  concurrently on the status of one network, while pods come and go and time passes. A step is one
  of their atomic actions.

  The webhook's read, allocation and write are one step: a write whose version is no longer the
  current one is refused by the API server (optimistic concurrency), so a successful one has seen
  the current status. A request is in flight from that write until its pod is created or the request
  fails. The operator's round is three steps: it reads the status, it lists the pods, and it writes the
  new status, having read the clock for each pending entry at some time after the listing
  (\<open>updateVlanNetworkStatus\<close> in \<open>internal/controller/vlanman_controller.go\<close>). It lists the pods that
  its cache holds: a pod may appear in the cache after it was created and disappear from it after it
  was deleted.

  The clock runs freely. What the code relies on are three bounds, the parameters of the steps: how long
  after its time stamp a request can still create its pod, how far the cache is behind, and how much
  time a round takes from the listing to its last look at the clock. Safety needs that their sum,
  with one second for the precision of the time stamps, does not exceed the time-out of 35 seconds, and
  a run shows that a sum above the time-out makes the address of a running pod available.
\<close>

subsection \<open>States and steps\<close>

text \<open>The bounds on the environment, in nanoseconds.\<close>

record timing =
  tm_Latency :: nat
  tm_Lag :: nat
  tm_Gap :: nat

text \<open>An address given out whose pod is not yet created.\<close>

record flight =
  fl_Pool :: string
  fl_Address :: string
  fl_Stamp :: "time"

text \<open>A pod of the network with the time of its creation.\<close>

record live_pod =
  lv_Created :: int
  lv_Pod :: Pod

text \<open>
  How far the operator is: the version and the status it read, then also the daemon pods and the pods
  it listed and the time of that listing.
\<close>

datatype phase =
    Idle
  | HasRead nat VlanNetworkStatus
  | HasListed nat VlanNetworkStatus "Pod list" "live_pod list" int

text \<open>The pods that exist and those in the operator's cache are two lists.\<close>

record ipam =
  ia_Status :: VlanNetworkStatus
  ia_Version :: nat
  ia_Flights :: "flight list"
  ia_Pods :: "live_pod list"
  ia_Seen :: "live_pod list"
  ia_Now :: int
  ia_Phase :: phase

text \<open>The time from which on a time stamp, which has whole seconds only, counts as expired.\<close>

definition deadline :: "time \<Rightarrow> int" where
  "deadline t = t_nanos t div Second * Second + pending_timeout"

text \<open>The last moment at which a request can create its pod.\<close>

definition last_moment :: "timing \<Rightarrow> flight \<Rightarrow> int" where
  "last_moment T f = t_nanos (fl_Stamp f) + int (tm_Latency T)"

text \<open>The cache holds every pod that is old enough.\<close>

definition cache_current :: "timing \<Rightarrow> ipam \<Rightarrow> bool" where
  "cache_current T s \<longleftrightarrow>
     list_all (\<lambda>e. lv_Created e + int (tm_Lag T) < ia_Now s \<longrightarrow> e \<in> set (ia_Seen s)) (ia_Pods s)"

definition write_status :: "VlanNetworkStatus \<Rightarrow> ipam \<Rightarrow> ipam" where
  "write_status st s = s\<lparr>ia_Status := st, ia_Version := ia_Version s + 1\<rparr>"

inductive ipam_step :: "timing \<Rightarrow> VlanNetworkSpec \<Rightarrow> ipam \<Rightarrow> ipam \<Rightarrow> bool" for T spec where
  admit: "ipam_step T spec s (write_status st s\<lparr>ia_Flights := f # ia_Flights s\<rparr>)"
    if "allocate (fl_Pool f) (time_Format (fl_Stamp f)) (ia_Status s) = Some (fl_Address f, st)"
    and "stampable (fl_Stamp f)" and "t_nanos (fl_Stamp f) \<le> ia_Now s"
| create: "ipam_step T spec s (s\<lparr>ia_Flights := fs @ gs, ia_Pods := \<lparr> lv_Created = ia_Now s,
      lv_Pod = applyPatch pod network img pp (fl_Address f) endpoints routes \<rparr> # ia_Pods s\<rparr>)"
    if "ia_Flights s = fs @ f # gs" and "ia_Now s \<le> last_moment T f"
    and "list_all no_vlan_env (ps_InitContainers (pod_Spec pod))"
| abort: "ipam_step T spec s (s\<lparr>ia_Flights := fs @ gs\<rparr>)" if "ia_Flights s = fs @ f # gs"
| delete: "ipam_step T spec s (s\<lparr>ia_Pods := ps @ qs\<rparr>)" if "ia_Pods s = ps @ p # qs"
| appear: "ipam_step T spec s (s\<lparr>ia_Seen := e # ia_Seen s\<rparr>)" if "e \<in> set (ia_Pods s)"
| vanish: "ipam_step T spec s (s\<lparr>ia_Seen := ps @ qs\<rparr>)"
    if "ia_Seen s = ps @ e # qs" and "e \<notin> set (ia_Pods s)"
| mark: "ipam_step T spec s (write_status (set_connection_state name v (ia_Status s)) s)"
| tick: "ipam_step T spec s (s\<lparr>ia_Now := now\<rparr>)" if "ia_Now s \<le> now"
| read: "ipam_step T spec s (s\<lparr>ia_Phase := HasRead (ia_Version s) (ia_Status s)\<rparr>)"
| list: "ipam_step T spec s (s\<lparr>ia_Phase := HasListed v st daemons pods (ia_Now s)\<rparr>)"
    if "ia_Phase s = HasRead v st" and "set pods = set (ia_Seen s)" and "cache_current T s"
| save: "ipam_step T spec s
      (write_status (update_status spec daemons (map lv_Pod pods) clock st) s\<lparr>ia_Phase := Idle\<rparr>)"
    if "ia_Phase s = HasListed v st daemons pods listed" and "v = ia_Version s"
    and "\<And>k ip. listed \<le> clock k ip" and "\<And>k ip. clock k ip \<le> ia_Now s"
    and "\<And>k ip. clock k ip \<le> listed + int (tm_Gap T)"
| give_up: "ipam_step T spec s (s\<lparr>ia_Phase := Idle\<rparr>)"

text \<open>A new network has an empty status and no pods.\<close>

definition ipam_init :: "int \<Rightarrow> ipam" where
  "ipam_init now = \<lparr> ia_Status = zero_status, ia_Version = 0, ia_Flights = [], ia_Pods = [], ia_Seen = [],
                    ia_Now = now, ia_Phase = Idle \<rparr>"

inductive ipam_steps :: "timing \<Rightarrow> VlanNetworkSpec \<Rightarrow> ipam \<Rightarrow> ipam \<Rightarrow> bool" for T spec where
  refl: "ipam_steps T spec s s"
| step: "ipam_steps T spec s s' \<Longrightarrow> ipam_step T spec s' s'' \<Longrightarrow> ipam_steps T spec s s''"

definition ipam_reachable :: "timing \<Rightarrow> VlanNetworkSpec \<Rightarrow> ipam \<Rightarrow> bool" where
  "ipam_reachable T spec s \<longleftrightarrow> (\<exists>now. ipam_steps T spec (ipam_init now) s)"


lemma ipam_steps_trans: "ipam_steps T spec s' s'' \<Longrightarrow> ipam_steps T spec s s' \<Longrightarrow> ipam_steps T spec s s''"
  by (induction rule: ipam_steps.induct) (auto intro: ipam_steps.step)


subsection \<open>What a specification must provide\<close>

definition spec_addresses :: "VlanNetworkSpec \<Rightarrow> string \<Rightarrow> string list" where
  "spec_addresses spec k = (case find_pool spec k of None \<Rightarrow> [] | Some p \<Rightarrow> elems (pool_Addresses p))"

text \<open>Pools have different names, and no address, up to its prefix length, is empty or occurs twice.\<close>

definition good_spec :: "VlanNetworkSpec \<Rightarrow> bool" where
  "good_spec spec \<longleftrightarrow> distinct_pools spec \<and>
     distinct (map cut_ip (concat (map (\<lambda>p. elems (pool_Addresses p)) (elems (sp_Pools spec))))) \<and>
     [] \<notin> cut_ip ` set (concat (map (\<lambda>p. elems (pool_Addresses p)) (elems (sp_Pools spec))))"





lemma spec_address_name: "a \<in> set (spec_addresses spec k) \<Longrightarrow> k \<in> pool_names spec"
  using find_pool_None [of spec k] by (auto simp: spec_addresses_def split: option.splits)

subsection \<open>The status update by key\<close>

lemma pod_has_ip_iff: "pod_has_ip pods ip \<longleftrightarrow> cut_ip ip \<in> set (pod_ips pods)"
  by (auto simp: pod_has_ip_def pod_ips_def case_prod_beta)

lemma expired_stamp:
  assumes "stampable t"
  shows "expired pods now ip (time_Format t) \<longleftrightarrow> cut_ip ip \<in> set (pod_ips pods) \<or> deadline t < now"
  by (simp add: expired_def time_Parse_Format [OF assms] pod_has_ip_iff time_After_def deadline_def)

lemma update_pending_of:
  assumes "wf_status s"
  shows "pending_of (update_status spec daemons pods now s) k ip =
     (if dropped_pool spec s k then None
      else case pending_of s k ip of None \<Rightarrow> None
        | Some ts \<Rightarrow> if expired pods (now k ip) ip ts then None else Some ts)"
  by (simp add: update_status_def settle_pending_of [OF reset_wf [OF assms]] reset_pending_of)

lemma update_pending_keys:
  "map_lookup (elems (st_PendingIPs (update_status spec daemons pods now s))) k = None \<longleftrightarrow> \<not> pending_pool spec s k"
  by (simp add: update_status_def settle_status_def Let_def expire_lookup_None reset_pending_pool)

lemma update_free_of:
  assumes "distinct_pools spec"
  shows "free_of (update_status spec daemons pods now s) k =
     filter (\<lambda>a. cut_ip a \<notin> set (pod_ips pods) \<and> \<not> pending_pool spec s (cut_ip a)) (spec_addresses spec k)"
  by (simp add: free_of_def update_status_def settle_free_lookup reset_free_lookup [OF assms]
      reset_pending_pool spec_addresses_def option.map_comp comp_def split: option.split)

lemma mark_frame:
  "free_of (set_connection_state name v s) k = free_of s k"
  "pending_of (set_connection_state name v s) k ip = pending_of s k ip"
  "st_PendingIPs (set_connection_state name v s) = st_PendingIPs s"
  by (simp_all add: free_of_def pending_of_def set_connection_state_def UpdateShortState_frame)

subsection \<open>The status and what the operator has read of it\<close>

definition available :: "VlanNetworkStatus \<Rightarrow> string \<Rightarrow> string list" where
  "available st k = filter (\<lambda>ip. pending_of st k ip = None) (free_of st k)"

definition status_ok :: "VlanNetworkSpec \<Rightarrow> VlanNetworkStatus \<Rightarrow> bool" where
  "status_ok spec st \<longleftrightarrow>
     wf_status st \<and> (\<forall>k. set (free_of st k) \<subseteq> set (spec_addresses spec k)) \<and>
     (\<forall>k. map_lookup (elems (st_PendingIPs st)) k \<noteq> None \<longrightarrow> k \<in> pool_names spec)"

text \<open>What the operator has read is the status of that version.\<close>

definition phase_ok :: "ipam \<Rightarrow> bool" where
  "phase_ok s \<longleftrightarrow>
     (case ia_Phase s of
        Idle \<Rightarrow> True
      | HasRead v st \<Rightarrow> v < ia_Version s \<or> v = ia_Version s \<and> st = ia_Status s
      | HasListed v st daemons pods listed \<Rightarrow>
          listed \<le> ia_Now s \<and> (v < ia_Version s \<or> v = ia_Version s \<and> st = ia_Status s))"

lemma status_okD:
  assumes "status_ok spec st"
  shows "wf_status st" and "ip \<in> set (free_of st k) \<Longrightarrow> ip \<in> set (spec_addresses spec k)"
    and "map_lookup (elems (st_PendingIPs st)) k \<noteq> None \<Longrightarrow> k \<in> pool_names spec"
  using assms unfolding status_ok_def by blast+

lemma phase_ok_bump:
  "phase_ok s \<Longrightarrow> ia_Phase s' = ia_Phase s \<Longrightarrow> ia_Version s < ia_Version s' \<Longrightarrow> ia_Now s \<le> ia_Now s' \<Longrightarrow> phase_ok s'"
  by (auto simp: phase_ok_def split: phase.splits)

lemma allocate_available:
  assumes "allocate pool stamp s = Some (ip, st)"
  shows "ip \<in> set (available s pool)"
  using assms by (auto simp: allocate_eq available_def find_Some_iff)

lemma allocate_keys:
  assumes "allocate pool stamp s = Some (ip, st)" and "map_lookup (elems (st_PendingIPs st)) k \<noteq> None"
  shows "k = pool \<or> map_lookup (elems (st_PendingIPs s)) k \<noteq> None"
  using assms by (auto simp: allocate_eq gomap_simps split: if_splits)

lemma allocate_ok:
  assumes "status_ok spec s" and "allocate pool stamp s = Some (ip, st)"
  shows "status_ok spec st" and "ip \<in> set (spec_addresses spec pool)"
proof -
  show ip: "ip \<in> set (spec_addresses spec pool)"
    using allocate_available [OF assms(2)] status_okD(2) [OF assms(1)] by (simp add: available_def)
  have "k \<in> pool_names spec" if "map_lookup (elems (st_PendingIPs st)) k \<noteq> None" for k
    using allocate_keys [OF assms(2) that] status_okD(3) [OF assms(1)] spec_address_name [OF ip] by auto
  then show "status_ok spec st"
    using status_okD(2) [OF assms(1)] allocate_wf [OF status_okD(1) [OF assms(1)] assms(2)]
    by (auto simp: status_ok_def allocate_frame [OF assms(2)])
qed

lemma mark_ok: "status_ok spec st \<Longrightarrow> status_ok spec (set_connection_state name v st)"
  by (simp add: status_ok_def mark_frame set_connection_state_wf)

lemma update_ok:
  assumes "good_spec spec" and "status_ok spec st"
  shows "status_ok spec (update_status spec daemons pods clock st)"
proof -
  have "distinct_pools spec" using assms(1) by (simp add: good_spec_def)
  then show ?thesis
    using assms(2) update_status_wf [OF status_okD(1) [OF assms(2)]]
    by (auto simp: status_ok_def update_free_of update_pending_keys pending_pool_def)
qed

lemma step_status_ok:
  assumes "ipam_step T spec s s'" and "good_spec spec" and "status_ok spec (ia_Status s)" and "phase_ok s"
  shows "status_ok spec (ia_Status s') \<and> phase_ok s'"
  using assms(1)
proof cases
  case (admit f st)
  then show ?thesis
    using allocate_ok(1) [OF assms(3)] phase_ok_bump [OF assms(4)] by (simp add: write_status_def)
next
  case (mark name v)
  then show ?thesis
    using mark_ok [OF assms(3)] phase_ok_bump [OF assms(4)] by (simp add: write_status_def)
next
  case (save v st daemons pods listed clock)
  then show ?thesis
    using update_ok [OF assms(2,3)] assms(4) by (auto simp: write_status_def phase_ok_def)
qed (use assms(3,4) in \<open>auto simp: phase_ok_def split: phase.splits\<close>)

lemma init_status_ok: "status_ok spec (ia_Status (ipam_init now))" "phase_ok (ipam_init now)"
  by (simp_all add: status_ok_def phase_ok_def ipam_init_def wf_status_def zero_status_def free_of_def)

lemma reachable_status_ok:
  assumes "ipam_reachable T spec s" and "good_spec spec"
  shows "status_ok spec (ia_Status s) \<and> phase_ok s"
proof -
  obtain now where "ipam_steps T spec (ipam_init now) s" using assms(1) by (auto simp: ipam_reachable_def)
  then show ?thesis
    by (induction "ipam_init now" s) (use init_status_ok step_status_ok assms(2) in blast)+
qed

subsection \<open>The invariant of the addresses\<close>


















subsection \<open>Every step keeps the invariant\<close>

















lemma pod_ips_patch:
  assumes "list_all no_vlan_env (ps_InitContainers (pod_Spec pod))" and "cut_ip ip \<noteq> []"
  shows "cut_ip (fst (extractVlan (applyPatch pod network img pp ip endpoints routes))) = cut_ip ip \<and>
    snd (extractVlan (applyPatch pod network img pp ip endpoints routes))"
  using patched_address [OF assms(1), of network img pp ip endpoints routes] assms(2) by simp







subsection \<open>Properties\<close>


text \<open>
  C8: the recorded status of a network stays well formed whatever the webhook, the operator and the
  daemons interleave, and however late: no name occurs twice as a key, a pool's free addresses are addresses
  of that pool in the specification, and only pools of the specification have pending addresses.
\<close>

theorem ipam_status_wf:
  assumes "good_spec spec" and "ipam_reachable T spec s"
  shows "wf_status (ia_Status s) \<and>
     (\<forall>k. set (free_of (ia_Status s) k) \<subseteq> set (spec_addresses spec k)) \<and>
     (\<forall>k. map_lookup (elems (st_PendingIPs (ia_Status s))) k \<noteq> None \<longrightarrow> k \<in> pool_names spec)"
  using reachable_status_ok [OF assms(2,1)] unfolding status_ok_def by blast





lemma expires:
  "\<exists>now. expired pods now ip ts"
proof (cases "time_Parse ts")
  case (Some t)
  then have "expired pods (t_nanos t + pending_timeout + 1) ip ts"
    by (simp add: expired_def time_After_def)
  then show ?thesis ..
qed (simp add: expired_def)

lemma expired_mono: "expired pods now ip ts \<Longrightarrow> now \<le> now' \<Longrightarrow> expired pods now' ip ts"
  by (auto simp: expired_def time_After_def split: option.splits)

text \<open>The cache can catch up with the pods.\<close>

lemma cache_appear:
  "set es \<subseteq> set (ia_Pods s) \<Longrightarrow> ipam_steps T spec s (s\<lparr>ia_Seen := es @ ia_Seen s\<rparr>)"
proof (induction es)
  case (Cons e es)
  then have "ipam_step T spec (s\<lparr>ia_Seen := es @ ia_Seen s\<rparr>) (s\<lparr>ia_Seen := es @ ia_Seen s\<rparr>
      \<lparr>ia_Seen := e # ia_Seen (s\<lparr>ia_Seen := es @ ia_Seen s\<rparr>)\<rparr>)"
    by (intro ipam_step.appear) simp
  with Cons show ?case by (auto intro: ipam_steps.step)
qed (simp add: ipam_steps.refl)

lemma cache_vanish:
  "ia_Seen s = pre @ suf \<Longrightarrow>
   ipam_steps T spec s (s\<lparr>ia_Seen := pre @ filter (\<lambda>e. e \<in> set (ia_Pods s)) suf\<rparr>)"
proof (induction suf arbitrary: s pre)
  case (Cons e suf)
  show ?case
  proof (cases "e \<in> set (ia_Pods s)")
    case True
    then show ?thesis using Cons.IH [of s "pre @ [e]"] Cons.prems by simp
  next
    case False
    have "ipam_step T spec s (s\<lparr>ia_Seen := pre @ suf\<rparr>)"
      using Cons.prems False by (rule ipam_step.vanish)
    then show ?thesis
      using ipam_steps_trans [OF Cons.IH [of "s\<lparr>ia_Seen := pre @ suf\<rparr>" pre] ipam_steps.step [OF ipam_steps.refl]]
        False by simp
  qed
next
  case Nil
  then have "s\<lparr>ia_Seen := pre\<rparr> = s" by simp
  then show ?case by (simp add: ipam_steps.refl)
qed

lemma cache_catches_up:
  "\<exists>es. ipam_steps T spec s (s\<lparr>ia_Seen := es\<rparr>) \<and> set es = set (ia_Pods s)"
proof -
  let ?s = "s\<lparr>ia_Seen := ia_Pods s @ ia_Seen s\<rparr>"
  have "ipam_steps T spec s ?s" by (rule cache_appear) simp
  then show ?thesis
    using ipam_steps_trans [OF cache_vanish [of ?s "[]" "ia_Pods s @ ia_Seen s"]]
    by (intro exI [of _ "filter (\<lambda>e. e \<in> set (ia_Pods s)) (ia_Pods s @ ia_Seen s)"]) auto
qed

text \<open>A round of the operator on a cache that is up to date, at a given time.\<close>

lemma round_steps:
  assumes "ia_Now s \<le> now"
  shows "\<exists>s'. ipam_steps T spec s s' \<and> ia_Pods s' = ia_Pods s \<and>
     ia_Status s' = update_status spec [] (map lv_Pod (ia_Pods s)) (\<lambda>_ _. now) (ia_Status s)"
proof -
  obtain es where es: "ipam_steps T spec s (s\<lparr>ia_Seen := es\<rparr>)" "set es = set (ia_Pods s)"
    using cache_catches_up by blast
  let ?s0 = "s\<lparr>ia_Seen := es\<rparr>"
  let ?s1 = "?s0\<lparr>ia_Now := now\<rparr>"
  let ?s2 = "?s1\<lparr>ia_Phase := HasRead (ia_Version s) (ia_Status s)\<rparr>"
  let ?s3 = "?s2\<lparr>ia_Phase := HasListed (ia_Version s) (ia_Status s) [] (ia_Pods s) now\<rparr>"
  let ?st = "update_status spec [] (map lv_Pod (ia_Pods s)) (\<lambda>_ _. now) (ia_Status s)"
  let ?s4 = "write_status ?st ?s3\<lparr>ia_Phase := Idle\<rparr>"
  have "ipam_step T spec ?s0 ?s1" by (rule ipam_step.tick) (simp add: assms)
  moreover have "ipam_step T spec ?s1 ?s2" using ipam_step.read [of T spec ?s1] by simp
  moreover have "ipam_step T spec ?s2 ?s3"
    using ipam_step.list [of ?s2 _ _ "ia_Pods s" T spec "[]"] es(2)
    by (simp add: cache_current_def list_all_iff)
  moreover have "ipam_step T spec ?s3 ?s4"
    using ipam_step.save [of ?s3 "ia_Version s" "ia_Status s" "[]" "ia_Pods s" now "\<lambda>_ _. now" T spec] by simp
  ultimately have "ipam_steps T spec s ?s4"
    using es(1) by (meson ipam_steps.step)
  then show ?thesis by (intro exI [of _ ?s4]) (simp add: write_status_def)
qed

text \<open>
  C3: no address is lost. From every reachable state an address of the specification that no pod has,
  whatever became of the requests for it, can be given out again after one round of the operator
  that starts late enough, without any pod being deleted. It needs that the address is not the name of a
  pool (the operator removes such addresses from the free list).
\<close>

theorem address_recovered:
  assumes "good_spec spec" and "ipam_reachable T spec s"
    and "ip \<in> set (spec_addresses spec k)" and "cut_ip ip \<notin> set (pod_ips (map lv_Pod (ia_Pods s)))"
    and "cut_ip ip \<notin> pool_names spec"
  shows "\<exists>s'. ipam_steps T spec s s' \<and> ia_Pods s' = ia_Pods s \<and> ip \<in> set (available (ia_Status s') k)"
proof -
  let ?pods = "map lv_Pod (ia_Pods s)"
  have ok: "status_ok spec (ia_Status s)" using reachable_status_ok [OF assms(2,1)] by blast
  have "\<exists>now. \<forall>ts. pending_of (ia_Status s) k ip = Some ts \<longrightarrow> expired ?pods now ip ts"
    using expires by (cases "pending_of (ia_Status s) k ip") auto
  then obtain now0 where now0: "\<And>ts. pending_of (ia_Status s) k ip = Some ts \<Longrightarrow> expired ?pods now0 ip ts"
    by blast
  define now where "now = max now0 (ia_Now s)"
  obtain s' where s': "ipam_steps T spec s s'" "ia_Pods s' = ia_Pods s"
      "ia_Status s' = update_status spec [] ?pods (\<lambda>_ _. now) (ia_Status s)"
    using round_steps [of s now T spec] by (auto simp: now_def)
  have "\<not> pending_pool spec (ia_Status s) (cut_ip ip)"
    using assms(5) status_okD(3) [OF ok] by (auto simp: pending_pool_def)
  moreover have "distinct_pools spec" using assms(1) by (simp add: good_spec_def)
  ultimately have "ip \<in> set (free_of (ia_Status s') k)"
    using assms(3,4) by (simp add: s'(3) update_free_of)
  moreover have "pending_of (ia_Status s') k ip = None"
    using expired_mono [OF now0, where now' = now]
    by (auto simp: s'(3) update_pending_of [OF status_okD(1) [OF ok]] now_def split: option.split)
  ultimately show ?thesis using s'(1,2) by (auto simp: available_def)
qed

subsection \<open>A run\<close>

definition run_start :: int where
  "run_start = 1749988800 * Second"

definition run_stamp :: "time" where
  "run_stamp = \<lparr> t_nanos = run_start, t_offset = 0 \<rparr>"

text \<open>Requests within ten seconds, a cache at most ten seconds old and rounds of at most ten seconds.\<close>

definition sample_timing :: timing where
  "sample_timing = \<lparr> tm_Latency = 10000000000, tm_Lag = 10000000000, tm_Gap = 10000000000 \<rparr>"

text \<open>The operator has filled the pool, then the first address is given out.\<close>

definition run_filled :: ipam where
  "run_filled = write_status (update_status sample_pool_spec [] [] (\<lambda>_ _. run_start) zero_status) (ipam_init run_start)"

definition run_flight :: flight where
  "run_flight = \<lparr> fl_Pool = ''primary'', fl_Address = ''10.0.0.1/24'', fl_Stamp = run_stamp \<rparr>"

definition run_admitted :: ipam where
  "run_admitted = (case allocate ''primary'' (time_Format run_stamp) (ia_Status run_filled) of
     Some (ip, st) \<Rightarrow> write_status st run_filled\<lparr>ia_Flights := [run_flight]\<rparr>
   | None \<Rightarrow> run_filled)"

lemma sample_find_pool:
  "find_pool sample_pool_spec k =
     (if k = ''primary'' then Some \<lparr> pool_Description = [], pool_Routes = None,
        pool_Addresses = Some [''10.0.0.1/24'', ''10.0.0.2/24''], pool_Name = ''primary'' \<rparr> else None)"
  by (simp add: find_pool_def sample_pool_spec_def)

lemma sample_names:
  "spec_addresses sample_pool_spec ''primary'' = [''10.0.0.1/24'', ''10.0.0.2/24'']"
  "pool_names sample_pool_spec = {''primary''}"
  by (simp_all add: spec_addresses_def sample_find_pool pool_names_def) (simp add: sample_pool_spec_def)

lemma empty_pending: "pending_of zero_status k ip = None"
  by (simp add: pending_of_def zero_status_def)

lemma sample_good_spec: "good_spec sample_pool_spec"
  by (simp add: good_spec_def distinct_pools_def sample_pool_spec_def cut_ip_def slash_def)


lemma run_stampable: "stampable run_stamp" "deadline run_stamp = run_start + pending_timeout"
  by (simp_all add: stampable_def run_stamp_def run_start_def deadline_def Second_def)

lemma run_filled_parts [simp]:
  "ia_Flights run_filled = []" "ia_Pods run_filled = []" "ia_Seen run_filled = []"
  "ia_Now run_filled = run_start" "ia_Version run_filled = 1"
  by (simp_all add: run_filled_def write_status_def ipam_init_def)

lemma run_filled_reachable: "ipam_steps T sample_pool_spec (ipam_init run_start) run_filled"
proof -
  let ?s = "ipam_init run_start"
  let ?s1 = "?s\<lparr>ia_Phase := HasRead 0 zero_status\<rparr>"
  let ?s2 = "?s1\<lparr>ia_Phase := HasListed 0 zero_status [] [] run_start\<rparr>"
  have "ipam_step T sample_pool_spec ?s ?s1"
    using ipam_step.read [of T sample_pool_spec ?s] by (simp add: ipam_init_def)
  moreover have "ipam_step T sample_pool_spec ?s1 ?s2"
    using ipam_step.list [of ?s1 0 zero_status "[]" T sample_pool_spec "[]"]
    by (simp add: ipam_init_def cache_current_def)
  moreover have "ipam_step T sample_pool_spec ?s2 run_filled"
    using ipam_step.save [of ?s2 0 zero_status "[]" "[]" run_start "\<lambda>_ _. run_start" T sample_pool_spec]
    by (simp add: ipam_init_def run_filled_def write_status_def)
  ultimately show ?thesis by (meson ipam_steps.refl ipam_steps.step)
qed

lemma run_filled_status:
  "free_of (ia_Status run_filled) ''primary'' = [''10.0.0.1/24'', ''10.0.0.2/24'']"
  "pending_of (ia_Status run_filled) k ip = None"
proof -
  have "distinct_pools sample_pool_spec" using sample_good_spec by (simp add: good_spec_def)
  moreover have "wf_status zero_status" by (simp add: wf_status_def zero_status_def)
  ultimately show "free_of (ia_Status run_filled) ''primary'' = [''10.0.0.1/24'', ''10.0.0.2/24'']"
    "pending_of (ia_Status run_filled) k ip = None"
    by (simp_all add: run_filled_def write_status_def update_free_of update_pending_of sample_names
        pending_pool_def empty_pending cut_ip_def slash_def pod_ips_def)
      (simp add: zero_status_def)
qed

lemma run_allocates:
  "\<exists>st. allocate ''primary'' (time_Format run_stamp) (ia_Status run_filled) = Some (''10.0.0.1/24'', st)"
  by (simp add: allocate_eq run_filled_status)

lemma run_admits: "ipam_step T sample_pool_spec run_filled run_admitted"
  and run_admitted_parts:
    "ia_Flights run_admitted = [run_flight]" "ia_Pods run_admitted = []" "ia_Seen run_admitted = []"
    "ia_Now run_admitted = run_start" "pending_of (ia_Status run_admitted) ''primary'' ''10.0.0.1/24'' = Some (time_Format run_stamp)"
proof -
  obtain st where st: "allocate ''primary'' (time_Format run_stamp) (ia_Status run_filled) = Some (''10.0.0.1/24'', st)"
    using run_allocates by blast
  have eq: "run_admitted = write_status st run_filled\<lparr>ia_Flights := run_flight # ia_Flights run_filled\<rparr>"
    by (simp add: run_admitted_def st)
  show "ipam_step T sample_pool_spec run_filled run_admitted"
    unfolding eq by (rule ipam_step.admit) (simp_all add: st run_flight_def run_stampable, simp add: run_stamp_def)
  show "ia_Flights run_admitted = [run_flight]" "ia_Pods run_admitted = []" "ia_Seen run_admitted = []"
    "ia_Now run_admitted = run_start"
    "pending_of (ia_Status run_admitted) ''primary'' ''10.0.0.1/24'' = Some (time_Format run_stamp)"
    by (simp_all add: eq write_status_def allocate_pending [OF st])
qed

lemma run_reachable: "ipam_reachable T sample_pool_spec run_filled" "ipam_reachable T sample_pool_spec run_admitted"
  using run_filled_reachable run_admits unfolding ipam_reachable_def by (blast intro: ipam_steps.step)+



theorem ipam_status_wf_witness:
  "wf_status (ia_Status run_admitted) \<and>
   set (free_of (ia_Status run_admitted) ''primary'') \<subseteq> set (spec_addresses sample_pool_spec ''primary'')"
  using ipam_status_wf [OF sample_good_spec run_reachable(2)] by blast


theorem address_recovered_witness:
  "\<exists>s'. ipam_steps sample_timing sample_pool_spec run_admitted s' \<and> ia_Pods s' = [] \<and>
     ''10.0.0.1/24'' \<in> set (available (ia_Status s') ''primary'')"
  using address_recovered [OF sample_good_spec run_reachable(2), of "''10.0.0.1/24''" "''primary''" sample_timing]
  by (simp add: sample_names cut_ip_def slash_def pod_ips_def run_admitted_parts)

text \<open>The pod that the request creates, and what the operator writes when it has not seen that pod.\<close>

definition run_pod :: Pod where
  "run_pod = applyPatch running_pod sample_network [] [] ''10.0.0.1/24'' [] []"

lemma run_pod_ip: "pod_ips [run_pod] = [''10.0.0.1'']"
proof -
  have "list_all no_vlan_env (ps_InitContainers (pod_Spec running_pod))"
    by (simp add: running_pod_def zero_pod_def zero_podspec_def)
  from pod_ips_patch [OF this, of "''10.0.0.1/24''" sample_network "[]" "[]" "[]" "[]"] show ?thesis
    by (simp add: run_pod_def pod_ips_def cut_ip_def slash_def)
qed

text \<open>
  C39: the conditions of the first property are needed, up to the second for the precision of the
  stamps: if the latency of requests, the lag of the cache and the length of a round sum up to more
  than the time-out, then a state is reachable in which the address of an existing pod is free and not
  pending, so that the webhook gives it out again. The pod is created at the last moment, is not yet in
  the cache when the operator lists the pods, and the clock is read when the round is at its longest.
\<close>

theorem timing_bound_needed:
  assumes "pending_timeout < int (tm_Latency T) + int (tm_Lag T) + int (tm_Gap T)"
  shows "\<exists>s. ipam_reachable T sample_pool_spec s \<and>
     ''10.0.0.1/24'' \<in> set (available (ia_Status s) ''primary'') \<and>
     cut_ip ''10.0.0.1/24'' \<in> set (pod_ips (map lv_Pod (ia_Pods s)))"
proof -
  let ?spec = sample_pool_spec and ?s0 = run_admitted
  define c l g where "c = run_start + int (tm_Latency T)" and "l = c + int (tm_Lag T)" and "g = l + int (tm_Gap T)"
  let ?e = "\<lparr> lv_Created = c, lv_Pod = run_pod \<rparr>" and ?v = "ia_Version run_admitted" and ?st = "ia_Status run_admitted"
  let ?st' = "update_status ?spec [] [] (\<lambda>_ _. g) ?st"
  let ?s1 = "?s0\<lparr>ia_Now := c\<rparr>"
  let ?s2 = "?s1\<lparr>ia_Flights := [], ia_Pods := [?e]\<rparr>"
  let ?s3 = "?s2\<lparr>ia_Now := l\<rparr>"
  let ?s4 = "?s3\<lparr>ia_Phase := HasRead ?v ?st\<rparr>"
  let ?s5 = "?s4\<lparr>ia_Phase := HasListed ?v ?st [] [] l\<rparr>"
  let ?s6 = "?s5\<lparr>ia_Now := g\<rparr>"
  let ?s7 = "write_status ?st' ?s6\<lparr>ia_Phase := Idle\<rparr>"
  note [simp] = run_admitted_parts
  have order: "run_start \<le> c" "c \<le> l" "l \<le> g" by (simp_all add: c_def l_def g_def)
  have "ipam_step T ?spec ?s0 ?s1" by (rule ipam_step.tick) (simp add: order)
  moreover have "ipam_step T ?spec ?s1 ?s2"
    using ipam_step.create [of ?s1 "[]" run_flight "[]" T running_pod ?spec sample_network "[]" "[]" "[]" "[]"]
    by (simp add: last_moment_def run_flight_def run_stamp_def c_def run_pod_def running_pod_def
        zero_pod_def zero_podspec_def)
  moreover have "ipam_step T ?spec ?s2 ?s3" using ipam_step.tick [of ?s2 l T ?spec] order by simp
  moreover have "ipam_step T ?spec ?s3 ?s4" using ipam_step.read [of T ?spec ?s3] by simp
  moreover have "ipam_step T ?spec ?s4 ?s5"
    using ipam_step.list [of ?s4 ?v ?st "[]" T ?spec "[]"] by (simp add: cache_current_def l_def)
  moreover have "ipam_step T ?spec ?s5 ?s6" using ipam_step.tick [of ?s5 g T ?spec] order by simp
  moreover have "ipam_step T ?spec ?s6 ?s7"
    using ipam_step.save [of ?s6 ?v ?st "[]" "[]" l "\<lambda>_ _. g" T ?spec] order by (simp add: g_def)
  ultimately have "ipam_reachable T ?spec ?s7"
    using run_reachable(2) unfolding ipam_reachable_def by (meson ipam_steps.step)
  moreover have "''10.0.0.1/24'' \<in> set (available ?st' ''primary'')"
  proof -
    have ok: "status_ok ?spec ?st" using reachable_status_ok [OF run_reachable(2) sample_good_spec] by blast
    have "\<not> pending_pool ?spec ?st ''10.0.0.1''"
      using status_okD(3) [OF ok, of "''10.0.0.1''"] by (auto simp: pending_pool_def sample_names)
    moreover have "distinct_pools ?spec" using sample_good_spec by (simp add: good_spec_def)
    moreover have "deadline run_stamp < g" using assms by (simp add: run_stampable g_def l_def c_def)
    ultimately show ?thesis
      by (simp add: available_def update_free_of update_pending_of [OF status_okD(1) [OF ok]] sample_names
          expired_stamp run_stampable cut_ip_def slash_def pod_ips_def)
  qed
  moreover have "cut_ip ''10.0.0.1/24'' \<in> set (pod_ips [run_pod])"
    by (simp add: run_pod_ip cut_ip_def slash_def)
  ultimately show ?thesis by (intro exI [of _ ?s7]) (simp add: write_status_def)
qed

text \<open>Requests and the cache are immediate, but a round may take 36 seconds.\<close>

definition slow_rounds :: timing where
  "slow_rounds = \<lparr> tm_Latency = 0, tm_Lag = 0, tm_Gap = 36000000000 \<rparr>"

theorem timing_bound_needed_witness:
  "\<exists>s. ipam_reachable slow_rounds sample_pool_spec s \<and>
     ''10.0.0.1/24'' \<in> set (available (ia_Status s) ''primary'') \<and>
     ''10.0.0.1'' \<in> set (pod_ips (map lv_Pod (ia_Pods s)))"
  using timing_bound_needed [of slow_rounds]
  by (simp add: slow_rounds_def pending_timeout_def Second_def ReconcilerPendingIPsTimeoutSeconds_def
      cut_ip_def slash_def)

end
