(* ===== verification/GoNet.thy ===== *)
theory GoNet
  imports GoStrings
begin

text \<open>
  Go's package \<open>net\<close> as far as the daemons use it: addresses (\<open>ParseIP\<close>, for both families),
  masks (\<open>CIDRMask\<close>), networks (\<open>ParseCIDR\<close>), with the text of an IPv4 address and the proof
  that parsing it gives its octets.
\<close>

unbundle bit_operations_syntax

text \<open>An address is its bytes: 4, or 16 with the IPv4 ones mapped; \<open>[]\<close> is the nil address or mask.\<close>

type_synonym octet = "8 word"
type_synonym ip = "octet list"

record IPNet =
  in_IP :: ip
  in_Mask :: "octet list"

definition v4_in_v6_prefix :: ip where
  "v4_in_v6_prefix = replicate 10 0 @ [0xFF, 0xFF]"

subsection \<open>Parsing addresses\<close>

text \<open>
  \<open>parseIPv4Fields\<close>: the loop over the text with the value and the length of the current field,
  the fields so far, whether this is the first byte, and whether the byte before it was a dot.
\<close>

fun ipv4_loop :: "string \<Rightarrow> nat \<Rightarrow> nat \<Rightarrow> octet list \<Rightarrow> bool \<Rightarrow> octet list option" where
  "ipv4_loop [] val digLen fs edge =
     (if length fs < 3 then None else Some (fs @ [of_nat val]))"
| "ipv4_loop (c # cs) val digLen fs edge =
     (if is_digit c then
        (if digLen = 1 \<and> val = 0 then None
         else let val' = val * 10 + digit_val c
              in if 255 < val' then None else ipv4_loop cs val' (digLen + 1) fs False)
      else if c = CHR ''.'' then
        (if edge \<or> cs = [] then None
         else if length fs = 3 then None
         else ipv4_loop cs 0 0 (fs @ [of_nat val]) True)
      else None)"

definition parseIPv4Fields :: "string \<Rightarrow> octet list option" where
  "parseIPv4Fields s = ipv4_loop s 0 0 [] True"

definition hex_value :: "char \<Rightarrow> nat option" where
  "hex_value c =
     (let n = (of_char c :: nat) in
      if 48 \<le> n \<and> n \<le> 57 then Some (n - 48)
      else if 97 \<le> n \<and> n \<le> 102 then Some (n - 87)
      else if 65 \<le> n \<and> n \<le> 70 then Some (n - 55)
      else None)"

text \<open>One group of at most four hex digits: its value and the rest of the text.\<close>

fun hex_group :: "string \<Rightarrow> nat \<Rightarrow> nat \<Rightarrow> (nat \<times> nat \<times> string) option" where
  "hex_group [] off acc = Some (off, acc, [])"
| "hex_group (c # cs) off acc =
     (case hex_value c of
        None \<Rightarrow> Some (off, acc, c # cs)
      | Some h \<Rightarrow> if 3 < off then None else hex_group cs (off + 1) (acc * 16 + h))"

text \<open>
  The loop of \<open>parseIPv6\<close>: the bytes so far, the place of the ellipsis; the result is the
  bytes, the ellipsis and what is left of the text. At most eight groups are read.
\<close>

fun ipv6_loop :: "nat \<Rightarrow> string \<Rightarrow> ip \<Rightarrow> nat option \<Rightarrow> (ip \<times> nat option \<times> string) option" where
  "ipv6_loop 0 s bytes ellipsis = Some (bytes, ellipsis, s)"
| "ipv6_loop (Suc n) s bytes ellipsis =
     (case hex_group s 0 0 of
        None \<Rightarrow> None
      | Some (off, acc, rest) \<Rightarrow>
          if off = 0 then None
          else if rest \<noteq> [] \<and> hd rest = CHR ''.'' then
            (if ellipsis = None \<and> length bytes \<noteq> 12 then None
             else if 16 < length bytes + 4 then None
             else case parseIPv4Fields s of
                    None \<Rightarrow> None
                  | Some v4 \<Rightarrow> Some (bytes @ v4, ellipsis, []))
          else
            (let bytes' = bytes @ [of_nat (acc div 256), of_nat acc]
             in case rest of
                  [] \<Rightarrow> Some (bytes', ellipsis, [])
                | c # r \<Rightarrow>
                    if c \<noteq> CHR '':'' \<or> r = [] then None
                    else if hd r = CHR '':'' then
                      (if ellipsis \<noteq> None then None
                       else if tl r = [] then Some (bytes', Some (length bytes'), [])
                       else ipv6_loop n (tl r) bytes' (Some (length bytes')))
                    else ipv6_loop n r bytes' ellipsis))"

definition expand_ellipsis :: "ip \<times> nat option \<times> string \<Rightarrow> ip option" where
  "expand_ellipsis r =
     (let (bytes, ellipsis, rest) = r
      in if rest \<noteq> [] then None
         else if length bytes < 16 then
           (case ellipsis of
              None \<Rightarrow> None
            | Some e \<Rightarrow> Some (take e bytes @ replicate (16 - length bytes) 0 @ drop e bytes))
         else if ellipsis \<noteq> None then None else Some bytes)"

text \<open>An address with a zone is not accepted by the callers, so a percent sign is an error here.\<close>

definition parseIPv6 :: "string \<Rightarrow> ip option" where
  "parseIPv6 s =
     (if CHR ''%'' \<in> set s then None
      else if take 2 s = ''::'' then
        (if drop 2 s = [] then Some (replicate 16 0)
         else Option.bind (ipv6_loop 8 (drop 2 s) [] (Some 0)) expand_ellipsis)
      else Option.bind (ipv6_loop 8 s [] None) expand_ellipsis)"

text \<open>\<open>netip.ParseAddr\<close>: the 16 bytes and the number of bits of the family.\<close>

fun ip_family :: "string \<Rightarrow> char option" where
  "ip_family [] = None"
| "ip_family (c # cs) =
     (if c = CHR ''.'' \<or> c = CHR '':'' \<or> c = CHR ''%'' then Some c else ip_family cs)"

definition ParseAddr :: "string \<Rightarrow> (ip \<times> nat) option" where
  "ParseAddr s =
     (if ip_family s = Some (CHR ''.'') then map_option (\<lambda>b. (v4_in_v6_prefix @ b, 32)) (parseIPv4Fields s)
      else if ip_family s = Some (CHR '':'') then map_option (\<lambda>b. (b, 128)) (parseIPv6 s)
      else None)"

definition ParseIP :: "string \<Rightarrow> ip" where
  "ParseIP s = (case ParseAddr s of None \<Rightarrow> [] | Some (b, n) \<Rightarrow> b)"

definition To4 :: "ip \<Rightarrow> ip" where
  "To4 b =
     (if length b = 4 then b
      else if length b = 16 \<and> take 12 b = v4_in_v6_prefix then drop 12 b else [])"

subsection \<open>Masks and networks\<close>

fun mask_bytes :: "nat \<Rightarrow> nat \<Rightarrow> octet list" where
  "mask_bytes 0 n = []"
| "mask_bytes (Suc l) n =
     (if 8 \<le> n then 0xFF # mask_bytes l (n - 8)
      else NOT (drop_bit n (0xFF :: octet)) # mask_bytes l 0)"

lemma mask_bytes_length: "length (mask_bytes l n) = l"
  by (induction l arbitrary: n) auto

definition CIDRMask :: "int \<Rightarrow> nat \<Rightarrow> octet list" where
  "CIDRMask ones bits =
     (if bits \<noteq> 32 \<and> bits \<noteq> 128 then []
      else if ones < 0 \<or> int bits < ones then []
      else mask_bytes (bits div 8) (nat ones))"

definition and_bytes :: "ip \<Rightarrow> octet list \<Rightarrow> ip" where
  "and_bytes a m = map (\<lambda>(x, y). x AND y) (zip a m)"

definition ip_Mask :: "ip \<Rightarrow> octet list \<Rightarrow> ip" where
  "ip_Mask a m =
     (let m' = (if length m = 16 \<and> length a = 4 \<and> take 12 m = replicate 12 0xFF then drop 12 m else m);
          a' = (if length m' = 4 \<and> length a = 16 \<and> take 12 a = v4_in_v6_prefix then drop 12 a else a)
      in if length a' \<noteq> length m' then [] else and_bytes a' m')"

text \<open>\<open>dtoi\<close>: a decimal prefix below a bound, its length, and whether there is one.\<close>

fun dtoi_loop :: "string \<Rightarrow> nat \<Rightarrow> nat \<Rightarrow> nat \<times> nat \<times> bool" where
  "dtoi_loop [] n i = (if i = 0 then (0, 0, False) else (n, i, True))"
| "dtoi_loop (c # cs) n i =
     (if is_digit c then
        (let n' = n * 10 + digit_val c
         in if 0xFFFFFF \<le> n' then (0xFFFFFF, i, False) else dtoi_loop cs n' (i + 1))
      else if i = 0 then (0, 0, False) else (n, i, True))"

text \<open>\<open>ParseCIDR\<close>: the address itself, and the network it lies in.\<close>

definition ParseCIDR :: "string \<Rightarrow> (ip \<times> IPNet) option" where
  "ParseCIDR s =
     (let (addr, mask, found) = strings_Cut s ''/''
      in if \<not> found then None
         else case ParseAddr addr of
                None \<Rightarrow> None
              | Some (b, bits) \<Rightarrow>
                  (let (n, i, ok) = dtoi_loop mask 0 0
                   in if \<not> ok \<or> i \<noteq> length mask \<or> bits < n then None
                      else let m = CIDRMask (int n) bits
                           in Some (b, \<lparr> in_IP = ip_Mask b m, in_Mask = m \<rparr>)))"

text \<open>
  Whether \<open>IPNet.String\<close> gives \<open>0.0.0.0/0\<close>: an IPv4 network number of zeros with a mask of zeros
  (a nil network, a nil address or a mask of another length print as \<open><nil>\<close>).
\<close>

definition network_number :: "IPNet \<Rightarrow> (ip \<times> octet list) option" where
  "network_number n =
     (let a = (if To4 (in_IP n) \<noteq> [] then To4 (in_IP n) else in_IP n); m = in_Mask n
      in if length a \<noteq> 4 \<and> length a \<noteq> 16 then None
         else if length m = 4 then (if length a = 4 then Some (a, m) else None)
         else if length m = 16 then Some (a, if length a = 4 then drop 12 m else m)
         else None)"

definition prints_as_default :: "IPNet option \<Rightarrow> bool" where
  "prints_as_default n =
     (case n of
        None \<Rightarrow> False
      | Some net \<Rightarrow> network_number net = Some (replicate 4 0, replicate 4 0))"

subsection \<open>The text of an IPv4 address\<close>

definition ipv4_text :: "octet \<Rightarrow> octet \<Rightarrow> octet \<Rightarrow> octet \<Rightarrow> string" where
  "ipv4_text a b c d = strings_Join (map (\<lambda>x. fmt_nat (unat x)) [a, b, c, d]) ''.''"

declare ipv4_loop.simps(2) [simp del]

lemma ipv4_digit_step:
  "d < 10 \<Longrightarrow> ipv4_loop (digit_char d # cs) v k fs e =
     (if k = 1 \<and> v = 0 then None else if 255 < v * 10 + d then None
      else ipv4_loop cs (v * 10 + d) (k + 1) fs False)"
  by (simp add: ipv4_loop.simps(2) digit_char_props Let_def)

text \<open>An octet in decimal has one, two or three digits, the first of them not zero.\<close>

lemma octet_digits:
  assumes "n < 256"
  obtains (one) "n < 10" "fmt_nat n = [digit_char n]"
  | (two) "n div 10 \<noteq> 0" "n div 10 < 10" "fmt_nat n = [digit_char (n div 10), digit_char (n mod 10)]"
  | (three) "n div 100 \<noteq> 0" "n div 100 < 10" "n div 100 * 10 + n div 10 mod 10 = n div 10"
      "fmt_nat n = [digit_char (n div 100), digit_char (n div 10 mod 10), digit_char (n mod 10)]"
proof -
  consider "n < 10" | "10 \<le> n" "n < 100" | "100 \<le> n" by linarith
  then show ?thesis
  proof cases
    case 1
    then show ?thesis by (intro one) (simp_all add: fmt_nat.simps [of n])
  next
    case 2
    then have "n div 10 < 10" "n div 10 \<noteq> 0" by (simp_all add: div_eq_0_iff less_mult_imp_div_less)
    with 2 show ?thesis by (intro two) (simp_all add: fmt_nat.simps [of n] fmt_nat.simps [of "n div 10"])
  next
    case 3
    then have d: "n div 100 < 10" "n div 100 \<noteq> 0" using assms by (simp_all add: div_eq_0_iff less_mult_imp_div_less)
    moreover have "n div 10 div 10 = n div 100" by (simp add: div_mult2_eq [symmetric])
    moreover have "\<not> n div 10 < 10" "\<not> n < 10" using 3 by (simp_all add: div_less_iff_less_mult)
    ultimately have "fmt_nat n = [digit_char (n div 100), digit_char (n div 10 mod 10), digit_char (n mod 10)]"
      by (simp add: fmt_nat.simps [of n] fmt_nat.simps [of "n div 10"] fmt_nat.simps [of "n div 100"])
    moreover have "n div 100 * 10 + n div 10 mod 10 = n div 10"
      using div_mult_mod_eq [of "n div 10" 10] by (simp add: div_mult2_eq [symmetric])
    ultimately show ?thesis using d by (intro three)
  qed
qed

lemma ipv4_octet:
  assumes "n < 256"
  shows "\<exists>k. ipv4_loop (fmt_nat n @ rest) 0 0 fs e = ipv4_loop rest n k fs False"
  using assms
proof (cases rule: octet_digits)
  case one
  then show ?thesis by (simp add: ipv4_digit_step) blast
next
  case two
  moreover have "n div 10 * 10 + n mod 10 = n" by simp
  ultimately show ?thesis using assms by (auto simp: ipv4_digit_step)
next
  case three
  moreover have "n div 10 \<le> 255" "n div 10 * 10 + n mod 10 = n" using assms by simp_all
  ultimately show ?thesis using assms by (auto simp: ipv4_digit_step)
qed

lemma ipv4_dot:
  "ipv4_loop (CHR ''.'' # cs) v k fs False =
     (if cs = [] \<or> length fs = 3 then None else ipv4_loop cs 0 0 (fs @ [of_nat v]) True)"
  by (simp add: ipv4_loop.simps(2) is_digit_def)

lemma unat_octet: "unat (x :: octet) < 256"
  using unsigned_less [of x, where ?'a = nat] by simp

lemma ipv4_next:
  assumes "length fs < 3"
  shows "ipv4_loop (fmt_nat (unat x) @ CHR ''.'' # fmt_nat (unat y) @ rest) 0 0 fs e =
      ipv4_loop (fmt_nat (unat y) @ rest) 0 0 (fs @ [x]) True"
  using ipv4_octet [OF unat_octet, of x "CHR ''.'' # fmt_nat (unat y) @ rest" fs e] assms fmt_nat_nonempty
  by (auto simp: ipv4_dot)

lemma parse_ipv4_text: "parseIPv4Fields (ipv4_text a b c d) = Some [a, b, c, d]"
proof -
  have one: "\<exists>k. ipv4_loop (fmt_nat (unat x) @ rest) 0 0 fs e = ipv4_loop rest (unat x) k fs False" for x :: octet and rest fs e
    by (rule ipv4_octet [OF unat_octet])
  obtain k where "ipv4_loop (fmt_nat (unat d) @ []) 0 0 [a, b, c] True = ipv4_loop [] (unat d) k [a, b, c] False"
    using one by blast
  then show ?thesis
    unfolding parseIPv4Fields_def ipv4_text_def
    using ipv4_next [of "[]" a b _ True] ipv4_next [of "[a]" b c _ True] ipv4_next [of "[a, b]" c d "[]" True]
    by simp
qed

lemma ip_family_digits: "\<forall>x \<in> set s. is_digit x \<Longrightarrow> ip_family (s @ CHR ''.'' # r) = Some (CHR ''.'')"
  by (induction s) (auto simp: is_digit_def)

lemma ip_family_text: "ip_family (ipv4_text a b c d) = Some (CHR ''.'')"
  using ip_family_digits [OF fmt_nat_digits] by (simp add: ipv4_text_def)

text \<open>Parsing the text of an IPv4 address gives its octets.\<close>

lemma ParseIP_ipv4_text: "ParseIP (ipv4_text a b c d) = v4_in_v6_prefix @ [a, b, c, d]"
  by (simp add: ParseIP_def ParseAddr_def ip_family_text parse_ipv4_text)

lemma slash_notin_ipv4_text: "CHR ''/'' \<notin> set (ipv4_text a b c d)"
proof -
  have "CHR ''/'' \<notin> set (fmt_nat n)" for n
    using fmt_nat_digits [of n] by (auto simp: is_digit_def)
  then show ?thesis by (simp add: ipv4_text_def)
qed

lemma dtoi_digits:
  assumes "\<forall>c \<in> set s. is_digit c" and "dec_value n s < 0xFFFFFF" and "0 < i \<or> s \<noteq> []"
  shows "dtoi_loop s n i = (dec_value n s, i + length s, True)"
  using assms
proof (induction s arbitrary: n i)
  case Nil
  then show ?case by (simp add: dec_value_def)
next
  case (Cons c s)
  have "n * 10 + digit_val c \<le> dec_value (n * 10 + digit_val c) s" by (rule dec_value_ge)
  moreover have "dec_value n (c # s) = dec_value (n * 10 + digit_val c) s" by (simp add: dec_value_def)
  ultimately show ?case using Cons.prems Cons.IH [of "n * 10 + digit_val c" "i + 1"] by simp
qed

lemma ParseCIDR_text:
  assumes "n \<le> 32"
  shows "ParseCIDR (ipv4_text a b c d @ CHR ''/'' # fmt_nat n) =
    Some (v4_in_v6_prefix @ [a, b, c, d],
      \<lparr> in_IP = and_bytes [a, b, c, d] (CIDRMask (int n) 32), in_Mask = CIDRMask (int n) 32 \<rparr>)"
proof -
  have "strings_Cut (ipv4_text a b c d @ CHR ''/'' # fmt_nat n) ''/'' = (ipv4_text a b c d, fmt_nat n, True)"
    by (rule strings_Cut_char_append [OF slash_notin_ipv4_text])
  moreover have "dtoi_loop (fmt_nat n) 0 0 = (n, length (fmt_nat n), True)"
    using dtoi_digits [OF fmt_nat_digits, of 0 n 0] assms fmt_nat_nonempty by (simp add: dec_value_fmt_nat)
  moreover have "length (CIDRMask (int n) 32) = 4"
    using assms by (simp add: CIDRMask_def mask_bytes_length)
  moreover have "ip_Mask (v4_in_v6_prefix @ [a, b, c, d]) m = and_bytes [a, b, c, d] m" if "length m = 4" for m
    using that by (simp add: ip_Mask_def Let_def v4_in_v6_prefix_def)
  ultimately show ?thesis
    using assms by (simp add: ParseCIDR_def ParseAddr_def ip_family_text parse_ipv4_text Let_def)
qed

text \<open>A text without a slash is no network, and neither is an empty one an address.\<close>

lemma ParseCIDR_no_slash: "CHR ''/'' \<notin> set s \<Longrightarrow> ParseCIDR s = None"
  by (simp add: ParseCIDR_def strings_Cut_char_none)

lemma ParseIP_with_length: "ParseIP (ipv4_text a b c d @ CHR ''/'' # r) = []"
proof -
  have one: "\<exists>k. ipv4_loop (fmt_nat (unat x) @ rest) 0 0 fs e = ipv4_loop rest (unat x) k fs False" for x :: octet and rest fs e
    by (rule ipv4_octet [OF unat_octet])
  obtain k where "ipv4_loop (fmt_nat (unat d) @ CHR ''/'' # r) 0 0 [a, b, c] True =
      ipv4_loop (CHR ''/'' # r) (unat d) k [a, b, c] False" using one by blast
  then have "parseIPv4Fields (ipv4_text a b c d @ CHR ''/'' # r) = None"
    using ipv4_next [of "[]" a b _ True] ipv4_next [of "[a]" b c _ True]
      ipv4_next [of "[a, b]" c d "CHR ''/'' # r" True]
    by (simp add: parseIPv4Fields_def ipv4_text_def ipv4_loop.simps(2) is_digit_def)
  moreover have "ip_family (ipv4_text a b c d @ CHR ''/'' # r) = Some (CHR ''.'')"
    using ip_family_digits [OF fmt_nat_digits] by (simp add: ipv4_text_def)
  ultimately show ?thesis by (simp add: ParseIP_def ParseAddr_def)
qed

end
