(* ===== verification/Node.thy ===== *)
theory Node
  imports Traces GoNet
begin

text \<open>
  The node a daemon runs on as a parameter: a record of operations on a state \<open>'w\<close> of any type, with
  the environment variables, the network links, addresses and routes of the kernel (the library
  \<open>netlink\<close>), the commands it executes, the directory \<open>/sys/class/net\<close>, HTTP, the statistics of
  \<open>/proc\<close> (\<open>procfs\<close>), the making of a Kubernetes client (\<open>n_InClusterConfig\<close>, \<open>n_NewClient\<close>) and of a
  leader elector for a namespace, a lock and an identity (\<open>n_NewElector\<close>). Nothing is assumed about what they return. \<open>traced_node\<close> logs every call, in order.
\<close>

subsection \<open>Links and routes\<close>

text \<open>
  A link as the library describes it: one of the two kinds that the daemons create, or any other,
  with the name of its type. The macvlan links created here are all in bridge mode.
\<close>

datatype LinkKind = VlanLink int | MacvlanLink | OtherLink string

record Link =
  lk_Name :: string
  lk_Index :: int
  lk_ParentIndex :: int
  lk_OperState :: string
  lk_Kind :: LinkKind

definition NewLink :: "string \<Rightarrow> int \<Rightarrow> LinkKind \<Rightarrow> Link" where
  "NewLink name parent kind = \<lparr> lk_Name = name, lk_Index = 0, lk_ParentIndex = parent,
     lk_OperState = ''unknown'', lk_Kind = kind \<rparr>"

fun link_type :: "LinkKind \<Rightarrow> string" where
  "link_type (VlanLink i) = ''vlan''"
| "link_type MacvlanLink = ''macvlan''"
| "link_type (OtherLink t) = t"

text \<open>The fields of a netlink route that the program sets or reads.\<close>

record KRoute =
  kr_LinkIndex :: int
  kr_Dst :: "IPNet option"
  kr_Gw :: ip
  kr_Src :: ip
  kr_ScopeLink :: bool

definition zero_route_on :: "int \<Rightarrow> IPNet \<Rightarrow> KRoute" where
  "zero_route_on index dst = \<lparr> kr_LinkIndex = index, kr_Dst = Some dst, kr_Gw = [], kr_Src = [], kr_ScopeLink = False \<rparr>"

text \<open>How a command fails: with an exit code, then with what it wrote to its error stream, or not at all.\<close>

datatype exec_error = ExitError string | ExecFailed go_error

record NetDevLine =
  nd_Name :: string
  nd_RxBytes :: "64 word"
  nd_TxBytes :: "64 word"
  nd_RxPackets :: "64 word"
  nd_TxPackets :: "64 word"

subsection \<open>The operations\<close>

text \<open>
  \<open>LinkAdd\<close> and \<open>LinkSetUp\<close> take a pointer, through which the library may fill in the index: the
  link comes back with the error.
\<close>

record 'w node =
  n_Env :: "string \<Rightarrow> string"
  n_Getpid :: int64
  n_Hostname :: "('w, go_error + string) state"
  n_LinkByName :: "string \<Rightarrow> ('w, go_error + Link) state"
  n_LinkList :: "('w, go_error + Link list) state"
  n_RouteList :: "Link \<Rightarrow> ('w, go_error + KRoute list) state"
  n_LinkAdd :: "Link \<Rightarrow> ('w, Link \<times> go_error option) state"
  n_LinkDel :: "Link \<Rightarrow> ('w, go_error option) state"
  n_LinkSetUp :: "Link \<Rightarrow> ('w, Link \<times> go_error option) state"
  n_LinkSetNsPid :: "Link \<Rightarrow> int \<Rightarrow> ('w, go_error option) state"
  n_AddrAdd :: "Link \<Rightarrow> IPNet \<Rightarrow> ('w, go_error option) state"
  n_AddrDel :: "Link \<Rightarrow> IPNet \<Rightarrow> ('w, go_error option) state"
  n_RouteAdd :: "KRoute \<Rightarrow> ('w, go_error option) state"
  n_ReadDir :: "string \<Rightarrow> ('w, go_error + string list) state"
  n_Exec :: "string list \<Rightarrow> ('w, exec_error + string) state"
  n_HttpPost :: "string \<Rightarrow> string \<Rightarrow> ('w, go_error + HttpResponse option) state"
  n_NewProcFS :: "('w, go_error option) state"
  n_NetDev :: "('w, go_error + NetDevLine list) state"
  n_InClusterConfig :: "('w, go_error option) state"
  n_NewClient :: "('w, go_error option) state"
  n_NewElector :: "string \<Rightarrow> string \<Rightarrow> string \<Rightarrow> ('w, go_error option) state"
  n_Time :: "('w, int) state"

subsection \<open>How a step of a process ends\<close>

text \<open>
  It returns, exits the process with a code, crashes with a panic, or never returns. \<open>go_on\<close> runs
  the next step after one that returned.
\<close>

datatype 'a proc = Done 'a | Exits int | Crashes string | Blocks

definition go_on :: "('w, 'a proc) state \<Rightarrow> ('a \<Rightarrow> ('w, 'b proc) state) \<Rightarrow> ('w, 'b proc) state" where
  "go_on m k = do {
     r \<leftarrow> m;
     (case r of Done x \<Rightarrow> k x | Exits c \<Rightarrow> ret (Exits c) | Crashes p \<Rightarrow> ret (Crashes p) | Blocks \<Rightarrow> ret Blocks)
   }"

text \<open>A call whose error is fatal: the process logs it and exits with code 1.\<close>

definition or_exit :: "('w, 'e + 'a) state \<Rightarrow> ('a \<Rightarrow> ('w, 'b proc) state) \<Rightarrow> ('w, 'b proc) state" where
  "or_exit m k = do {
     r \<leftarrow> m;
     (case r of Inl e \<Rightarrow> ret (Exits 1) | Inr x \<Rightarrow> k x)
   }"

lemma run_go_on [run_simps]:
  "run_state (go_on m k) s =
     (case run_state m s of
        (Done x, s') \<Rightarrow> run_state (k x) s'
      | (Exits c, s') \<Rightarrow> (Exits c, s')
      | (Crashes p, s') \<Rightarrow> (Crashes p, s')
      | (Blocks, s') \<Rightarrow> (Blocks, s'))"
  by (simp add: go_on_def split: prod.split proc.split)

lemma run_or_exit [run_simps]:
  "run_state (or_exit m k) s =
     (case run_state m s of
        (Inl e, s') \<Rightarrow> (Exits 1, s')
      | (Inr x, s') \<Rightarrow> run_state (k x) s')"
  by (simp add: or_exit_def split: prod.split sum.split)

text \<open>An error that means the thing is already there.\<close>

definition isFileExistsErr :: "go_error \<Rightarrow> bool" where
  "isFileExistsErr e = strings_Contains (error_text e) ''file exists''"

subsection \<open>The log of calls\<close>

text \<open>
  A call with its arguments and its result. A link that the library may have filled in appears twice, as it
  was passed and as it came back.
\<close>

datatype node_call =
    LookedUp string "go_error + Link" | ListedLinks "go_error + Link list" | ListedRoutes Link "go_error + KRoute list"
  | AddedLink Link Link "go_error option" | DeletedLink Link "go_error option"
  | SetUp Link Link "go_error option" | MovedLink Link int "go_error option"
  | AddedAddr Link IPNet "go_error option" | DeletedAddr Link IPNet "go_error option"
  | AddedRoute KRoute "go_error option"
  | MadeElector string string string "go_error option"
  | ReadTheDir string "go_error + string list" | Executed "string list" "exec_error + string"
  | Posted string string "go_error + HttpResponse option"

definition no_error :: "'e option \<Rightarrow> bool" where
  "no_error e \<longleftrightarrow> e = None"

lemma no_error_simps [simp]: "no_error None" "\<not> no_error (Some e)"
  by (simp_all add: no_error_def)

definition traced_node :: "'w node \<Rightarrow> ('w \<times> node_call list) node" where
  "traced_node N =
     \<lparr> n_Env = n_Env N, n_Getpid = n_Getpid N,
       n_Hostname = log_call (n_Hostname N) (\<lambda>_. []),
       n_LinkByName = (\<lambda>s. log_call (n_LinkByName N s) (\<lambda>r. [LookedUp s r])),
       n_LinkList = log_call (n_LinkList N) (\<lambda>r. [ListedLinks r]),
       n_RouteList = (\<lambda>l. log_call (n_RouteList N l) (\<lambda>r. [ListedRoutes l r])),
       n_LinkAdd = (\<lambda>l. log_call (n_LinkAdd N l) (\<lambda>r. [AddedLink l (fst r) (snd r)])),
       n_LinkDel = (\<lambda>l. log_call (n_LinkDel N l) (\<lambda>r. [DeletedLink l r])),
       n_LinkSetUp = (\<lambda>l. log_call (n_LinkSetUp N l) (\<lambda>r. [SetUp l (fst r) (snd r)])),
       n_LinkSetNsPid = (\<lambda>l p. log_call (n_LinkSetNsPid N l p) (\<lambda>r. [MovedLink l p r])),
       n_AddrAdd = (\<lambda>l a. log_call (n_AddrAdd N l a) (\<lambda>r. [AddedAddr l a r])),
       n_AddrDel = (\<lambda>l a. log_call (n_AddrDel N l a) (\<lambda>r. [DeletedAddr l a r])),
       n_RouteAdd = (\<lambda>r. log_call (n_RouteAdd N r) (\<lambda>e. [AddedRoute r e])),
       n_ReadDir = (\<lambda>d. log_call (n_ReadDir N d) (\<lambda>r. [ReadTheDir d r])),
       n_Exec = (\<lambda>c. log_call (n_Exec N c) (\<lambda>r. [Executed c r])),
       n_HttpPost = (\<lambda>u b. log_call (n_HttpPost N u b) (\<lambda>r. [Posted u b r])),
       n_NewProcFS = log_call (n_NewProcFS N) (\<lambda>_. []),
       n_NetDev = log_call (n_NetDev N) (\<lambda>_. []),
       n_InClusterConfig = log_call (n_InClusterConfig N) (\<lambda>_. []),
       n_NewClient = log_call (n_NewClient N) (\<lambda>_. []),
       n_NewElector = (\<lambda>ns l i. log_call (n_NewElector N ns l i) (\<lambda>r. [MadeElector ns l i r])),
       n_Time = log_call (n_Time N) (\<lambda>_. []) \<rparr>"

lemma traced_node_simps [run_simps]:
  "n_Env (traced_node N) = n_Env N"
  "n_Getpid (traced_node N) = n_Getpid N"
  "n_Hostname (traced_node N) = log_call (n_Hostname N) (\<lambda>_. [])"
  "n_LinkByName (traced_node N) s = log_call (n_LinkByName N s) (\<lambda>r. [LookedUp s r])"
  "n_LinkList (traced_node N) = log_call (n_LinkList N) (\<lambda>r. [ListedLinks r])"
  "n_RouteList (traced_node N) l = log_call (n_RouteList N l) (\<lambda>r. [ListedRoutes l r])"
  "n_LinkAdd (traced_node N) l = log_call (n_LinkAdd N l) (\<lambda>r. [AddedLink l (fst r) (snd r)])"
  "n_LinkDel (traced_node N) l = log_call (n_LinkDel N l) (\<lambda>r. [DeletedLink l r])"
  "n_LinkSetUp (traced_node N) l = log_call (n_LinkSetUp N l) (\<lambda>r. [SetUp l (fst r) (snd r)])"
  "n_LinkSetNsPid (traced_node N) l p = log_call (n_LinkSetNsPid N l p) (\<lambda>r. [MovedLink l p r])"
  "n_AddrAdd (traced_node N) l a = log_call (n_AddrAdd N l a) (\<lambda>r. [AddedAddr l a r])"
  "n_AddrDel (traced_node N) l a = log_call (n_AddrDel N l a) (\<lambda>r. [DeletedAddr l a r])"
  "n_RouteAdd (traced_node N) kr = log_call (n_RouteAdd N kr) (\<lambda>e. [AddedRoute kr e])"
  "n_ReadDir (traced_node N) d = log_call (n_ReadDir N d) (\<lambda>r. [ReadTheDir d r])"
  "n_Exec (traced_node N) c = log_call (n_Exec N c) (\<lambda>r. [Executed c r])"
  "n_HttpPost (traced_node N) u b = log_call (n_HttpPost N u b) (\<lambda>r. [Posted u b r])"
  "n_NewProcFS (traced_node N) = log_call (n_NewProcFS N) (\<lambda>_. [])"
  "n_NetDev (traced_node N) = log_call (n_NetDev N) (\<lambda>_. [])"
  "n_InClusterConfig (traced_node N) = log_call (n_InClusterConfig N) (\<lambda>_. [])"
  "n_NewClient (traced_node N) = log_call (n_NewClient N) (\<lambda>_. [])"
  "n_NewElector (traced_node N) ns lname i =
     log_call (n_NewElector N ns lname i) (\<lambda>r. [MadeElector ns lname i r])"
  "n_Time (traced_node N) = log_call (n_Time N) (\<lambda>_. [])"
  by (simp_all add: traced_node_def)

subsection \<open>What the steps append to the log\<close>

lemma emits_go_on:
  assumes "emits m R"
    and "\<And>c new. R (Exits c) new \<Longrightarrow> S (Exits c) new"
    and "\<And>p new. R (Crashes p) new \<Longrightarrow> S (Crashes p) new"
    and "\<And>new. R Blocks new \<Longrightarrow> S Blocks new"
    and "\<And>x new. R (Done x) new \<Longrightarrow> emits (k x) (\<lambda>b new'. S b (new @ new'))"
  shows "emits (go_on m k) S"
  unfolding go_on_def
  using assms(2-) by (intro emits_bind [OF assms(1)]) (auto intro: emits_ret split: proc.split)

lemma emits_or_exit:
  assumes "emits m R" and "\<And>e new. R (Inl e) new \<Longrightarrow> S (Exits 1) new"
    and "\<And>x new. R (Inr x) new \<Longrightarrow> emits (k x) (\<lambda>b new'. S b (new @ new'))"
  shows "emits (or_exit m k) S"
  unfolding or_exit_def
  using assms(2-) by (intro emits_bind [OF assms(1)]) (auto intro: emits_ret split: sum.split)

lemma emits_log_or_exit:
  "(\<And>e. S (Exits 1) (c (Inl e))) \<Longrightarrow> (\<And>x. emits (k x) (\<lambda>b new. S b (c (Inr x) @ new))) \<Longrightarrow>
   emits (or_exit (log_call m c) k) S"
  by (rule emits_or_exit [OF emits_log_call [where R = "\<lambda>a new. new = c a"]]) auto

lemmas node_rules = emits_log_or_exit emits_rules

lemma only_or_exit [emits_intro]: "only P m \<Longrightarrow> (\<And>x. only P (k x)) \<Longrightarrow> only P (or_exit m k)"
  unfolding or_exit_def by (intro emits_intro) auto

lemma only_go_on [emits_intro]: "only P m \<Longrightarrow> (\<And>x. only P (k x)) \<Longrightarrow> only P (go_on m k)"
  unfolding go_on_def by (rule only_bind) (auto intro: emits_intro split: proc.split)

text \<open>The calls that remove a link of a name, if there is one: both daemons do this before they add theirs.\<close>

definition removes_old :: "string \<Rightarrow> node_call list \<Rightarrow> bool" where
  "removes_old name tr \<longleftrightarrow>
     (\<exists>e. tr = [LookedUp name (Inl e)]) \<or> (\<exists>link. tr = [LookedUp name (Inr link), DeletedLink link None])"

end
