(* ===== verification/Worker.thy ===== *)
theory Worker
  imports Node ApiJson Defaulter
begin

text \<open>
  The init container of a worker pod (\<open>cmd/worker/main.go\<close>): it asks the manager of its network for
  a macvlan interface in its own network namespace, gives it the address and adds the routes that
  the webhook put into its environment.
\<close>

subsection \<open>The process\<close>

definition isAlreadyExists :: "go_error \<Rightarrow> bool" where
  "isAlreadyExists e = strings_Contains (error_text e) ''file exists''"

definition nsid_command :: "string list" where
  "nsid_command = [''bash'', ''-c'', ''readlink /proc/$$/ns/net | grep -o '' @ quote @ ''[0-9]'' @ [CHR 0x5C] @ ''+'' @ quote]"

definition macvlan_url :: "string \<Rightarrow> string" where
  "macvlan_url networkName = ''http://'' @ networkName @ ''-service.vlanman-system:61410/macvlan''"

text \<open>The prefix length of the address; a text that does not parse counts as 32.\<close>

definition worker_ipnet :: "'w node \<Rightarrow> IPNet" where
  "worker_ipnet N =
     (let (i, err) = strconv_ParseInt (n_Env N ''MACVLAN_SUBNET'') 64;
          snInt = (if err \<noteq> None then 32 else i)
      in \<lparr> in_IP = ParseIP (n_Env N ''MACVLAN_IP''), in_Mask = CIDRMask snInt 32 \<rparr>)"

text \<open>The netlink route of a route of the pool; the error of parsing the prefix length is ignored.\<close>

definition worker_route :: "int \<Rightarrow> ip \<Rightarrow> Route \<Rightarrow> KRoute" where
  "worker_route index src r =
     (let (addr, maskStr0, found) = strings_Cut (rt_Destination r) ''/'';
          maskStr = (if \<not> found then ''32'' else maskStr0);
          (mask, err) = strconv_ParseInt maskStr 64;
          route = zero_route_on index \<lparr> in_IP = ParseIP addr, in_Mask = CIDRMask mask 32 \<rparr>;
          route1 = (case rt_Via r of None \<Rightarrow> route | Some v \<Rightarrow> route\<lparr>kr_Gw := ParseIP v\<rparr>);
          route2 = (if rt_ScopeLink r then route1\<lparr>kr_ScopeLink := True\<rparr> else route1)
      in if rt_Source r = ''self'' then route2\<lparr>kr_Src := src\<rparr> else route2)"

fun worker_routes :: "'w node \<Rightarrow> int \<Rightarrow> ip \<Rightarrow> Route list \<Rightarrow> ('w, unit proc) state" where
  "worker_routes N index src [] = ret (Done ())"
| "worker_routes N index src (r # rs) = do {
     err \<leftarrow> n_RouteAdd N (worker_route index src r);
     (case err of Some e \<Rightarrow> ret (Exits 1) | None \<Rightarrow> worker_routes N index src rs)
   }"

definition worker_add_routes :: "'w node \<Rightarrow> Link \<Rightarrow> ip \<Rightarrow> ('w, unit proc) state" where
  "worker_add_routes N link src =
     (case unmarshal_routes (n_Env N ''ROUTES'') of
        None \<Rightarrow> ret (Exits 1)
      | Some routes \<Rightarrow> worker_routes N (lk_Index link) src (elems routes))"

text \<open>From the manager's response on.\<close>

definition worker_configure :: "'w node \<Rightarrow> int64 \<Rightarrow> ('w, unit proc) state" where
  "worker_configure N vlanId =
     or_exit (n_LinkByName N (''macvlan'' @ strconv_FormatInt (sint vlanId))) (\<lambda>link0. do {
       (link, err) \<leftarrow> n_LinkSetUp N link0;
       (if err \<noteq> None then ret (Exits 1)
        else do {
          let ipnet = worker_ipnet N;
          err2 \<leftarrow> n_AddrAdd N link ipnet;
          (case err2 of
             None \<Rightarrow> worker_add_routes N link (in_IP ipnet)
           | Some e \<Rightarrow> if \<not> isAlreadyExists e then ret (Exits 1)
                        else worker_add_routes N link (in_IP ipnet))
        })
     })"

definition worker_response :: "'w node \<Rightarrow> HttpResponse option \<Rightarrow> ('w, unit proc) state" where
  "worker_response N resp =
     (case resp of
        None \<Rightarrow> ret (Exits 1)
      | Some h \<Rightarrow>
          if hr_StatusCode h \<noteq> 200 then ret (Exits 1)
          else case hr_Body h of
                 None \<Rightarrow> ret (Crashes nil_panic)
               | Some (Inl e) \<Rightarrow> ret (Exits 1)
               | Some (Inr out) \<Rightarrow>
                   (case Unmarshal mresp_dec out of
                      None \<Rightarrow> ret (Exits 1)
                    | Some mvrd \<Rightarrow> worker_configure N (mresp_Id mvrd)))"

definition worker_main :: "'w node \<Rightarrow> ('w, unit proc) state" where
  "worker_main N =
     or_exit (n_Exec N nsid_command) (\<lambda>nsidStr.
       let (nsid, err) = strconv_ParseInt (strings_TrimSpace nsidStr) 64
       in if err \<noteq> None then ret (Exits 1)
          else or_exit (n_HttpPost N (macvlan_url (n_Env N ''VLAN_NETWORK''))
                 (Marshal mreq_enc \<lparr> mreq_NsID = word_of_int nsid \<rparr>)) (worker_response N))"

subsection \<open>Its calls\<close>

lemma emits_worker_routes:
  "emits (worker_routes (traced_node N) index src rs) (\<lambda>r tr.
     r = Done () \<longrightarrow> tr = map (\<lambda>x. AddedRoute (worker_route index src x) None) rs)"
proof (induction rs)
  case Nil
  then show ?case by (simp add: emits_ret)
next
  case (Cons x xs)
  show ?case
    unfolding worker_routes.simps traced_node_simps
    by (intro node_rules emits_weaken [OF Cons]) auto
qed

text \<open>
  All calls of a worker that succeeds, in order, and how each follows from the answers to those before.
\<close>

definition worker_calls :: "'w node \<Rightarrow> Route list \<Rightarrow> node_call list \<Rightarrow> bool" where
  "worker_calls N routes tr \<longleftrightarrow>
     (\<exists>out nsid body reply link0 link err.
        strconv_ParseInt (strings_TrimSpace out) 64 = (nsid, None) \<and> Unmarshal mresp_dec body = Some reply \<and>
        (case err of None \<Rightarrow> True | Some e \<Rightarrow> isAlreadyExists e) \<and>
        tr = [Executed nsid_command (Inr out),
          Posted (macvlan_url (n_Env N ''VLAN_NETWORK'')) (Marshal mreq_enc \<lparr> mreq_NsID = word_of_int nsid \<rparr>)
            (Inr (Some \<lparr> hr_StatusCode = 200, hr_Body = Some (Inr body) \<rparr>)),
          LookedUp (''macvlan'' @ strconv_FormatInt (sint (mresp_Id reply))) (Inr link0), SetUp link0 link None,
          AddedAddr link (worker_ipnet N) err] @
         map (\<lambda>x. AddedRoute (worker_route (lk_Index link) (in_IP (worker_ipnet N)) x) None) routes)"

text \<open>The calls after the reply.\<close>

definition configure_calls :: "'w node \<Rightarrow> int64 \<Rightarrow> Route list \<Rightarrow> node_call list \<Rightarrow> bool" where
  "configure_calls N vlanId routes tr \<longleftrightarrow>
     (\<exists>link0 link err. (case err of None \<Rightarrow> True | Some e \<Rightarrow> isAlreadyExists e) \<and>
        tr = [LookedUp (''macvlan'' @ strconv_FormatInt (sint vlanId)) (Inr link0), SetUp link0 link None,
          AddedAddr link (worker_ipnet N) err] @
         map (\<lambda>x. AddedRoute (worker_route (lk_Index link) (in_IP (worker_ipnet N)) x) None) routes)"

lemma worker_ipnet_traced: "worker_ipnet (traced_node N) = worker_ipnet N"
  by (simp add: worker_ipnet_def traced_node_simps)

lemma emits_worker_configure:
  "emits (worker_configure (traced_node N) vlanId) (\<lambda>r tr. r = Done () \<longrightarrow>
     (\<exists>routes. unmarshal_routes (n_Env N ''ROUTES'') = Some routes \<and>
        configure_calls N vlanId (elems routes) tr))"
  unfolding worker_configure_def worker_add_routes_def traced_node_simps Let_def worker_ipnet_traced
  by (intro node_rules emits_weaken [OF emits_worker_routes])
    (auto simp: configure_calls_def split: option.split)

lemma worker_callsI:
  assumes "strconv_ParseInt (strings_TrimSpace out) 64 = (nsid, None)" and "Unmarshal mresp_dec body = Some reply"
    and "hr_StatusCode h = 200" and "hr_Body h = Some (Inr body)" and "configure_calls N (mresp_Id reply) routes tr"
  shows "worker_calls N routes (Executed nsid_command (Inr out) #
     Posted (macvlan_url (n_Env N ''VLAN_NETWORK'')) (Marshal mreq_enc \<lparr> mreq_NsID = word_of_int nsid \<rparr>) (Inr (Some h)) # tr)"
proof -
  have "h = \<lparr> hr_StatusCode = 200, hr_Body = Some (Inr body) \<rparr>"
    using assms(3,4) by (metis (full_types) HttpResponse.surjective old.unit.exhaust)
  with assms(1,2,5) show ?thesis
    unfolding worker_calls_def configure_calls_def by auto
qed

lemma emits_worker_main:
  "emits (worker_main (traced_node N)) (\<lambda>r tr. r = Done () \<longrightarrow>
     (\<exists>routes. unmarshal_routes (n_Env N ''ROUTES'') = Some routes \<and> worker_calls N (elems routes) tr))"
  unfolding worker_main_def worker_response_def traced_node_simps Let_def
  by (intro node_rules emits_weaken [OF emits_worker_configure]) (auto intro: worker_callsI)

subsection \<open>From the webhook to the interface\<close>

lemma mask_text: "n \<le> 32 \<Longrightarrow> strconv_ParseInt (fmt_nat n) 64 = (int n, None)"
  using ParseInt_FormatInt [of 64 "int n"] by (simp add: strconv_FormatInt_def)

lemma split_ip_text:
  "split_ip (ipv4_text a b c d @ CHR ''/'' # fmt_nat n) = (ipv4_text a b c d, fmt_nat n)"
  using strings_Cut_char_append [OF slash_notin_ipv4_text, of a b c d "fmt_nat n"] by (simp add: split_ip_def slash_def)

text \<open>The environment that Kubernetes gives the container that the webhook added.\<close>

definition env_of_patch :: "Pod \<Rightarrow> VlanNetwork \<Rightarrow> string \<Rightarrow> string gomap \<Rightarrow> string \<Rightarrow> EnvVar list" where
  "env_of_patch pod network ip endpoints routes =
     ct_Env (hd (ps_InitContainers (pod_Spec (applyPatch pod network [] [] ip endpoints routes))))"

lemma env_of_patch_values:
  assumes "list_all (\<lambda>e. env (ev_Name e) = ev_Value e) (env_of_patch pod network ip endpoints routes)"
  shows "env ''VLAN_NETWORK'' = net_Name network" and "env ''MACVLAN_IP'' = fst (split_ip ip)"
    and "env ''MACVLAN_SUBNET'' = snd (split_ip ip)" and "env ''ROUTES'' = routes"
  using assms by (simp_all add: env_of_patch_def init_containers_patch init_container_def env_var_def)

text \<open>
  C4: what the webhook allocated is what the pod's interface gets. For a pod patched with an IPv4
  address \<open>a.b.c.d/n\<close> and the routes of its pool, an init container that succeeds has read the number
  of its network namespace, asked the manager of that network for a macvlan interface for that
  namespace, looked up and set up the link with the id in the manager's reply, given this link exactly that
  address and mask (or it had it already), and then added to it exactly the routes of the pool, in their
  order, each of them successfully; it has made no other call.
\<close>

theorem worker_attaches:
  assumes "list_all (\<lambda>e. n_Env N (ev_Name e) = ev_Value e)
      (env_of_patch pod network (ipv4_text a b c d @ CHR ''/'' # fmt_nat n) endpoints (marshal_routes routes))"
    and "n \<le> 32" and "wf_slice ascii_route routes"
  shows "case run_state (worker_main (traced_node N)) (w, []) of (r, (w', tr)) \<Rightarrow> r = Done () \<longrightarrow>
     (\<exists>out nsid body reply link0 link err.
        strconv_ParseInt (strings_TrimSpace out) 64 = (nsid, None) \<and> Unmarshal mresp_dec body = Some reply \<and>
        (case err of None \<Rightarrow> True | Some e \<Rightarrow> strings_Contains (error_text e) ''file exists'') \<and>
        tr = [Executed nsid_command (Inr out),
              Posted (macvlan_url (net_Name network)) (Marshal mreq_enc \<lparr> mreq_NsID = word_of_int nsid \<rparr>)
                (Inr (Some \<lparr> hr_StatusCode = 200, hr_Body = Some (Inr body) \<rparr>)),
              LookedUp (''macvlan'' @ strconv_FormatInt (sint (mresp_Id reply))) (Inr link0), SetUp link0 link None,
              AddedAddr link \<lparr> in_IP = v4_in_v6_prefix @ [a, b, c, d], in_Mask = CIDRMask (int n) 32 \<rparr> err] @
             map (\<lambda>x. AddedRoute (worker_route (lk_Index link) (v4_in_v6_prefix @ [a, b, c, d]) x) None)
               (elems routes))"
proof -
  note env = env_of_patch_values [OF assms(1), unfolded split_ip_text fst_conv snd_conv]
  have ipnet: "worker_ipnet N = \<lparr> in_IP = v4_in_v6_prefix @ [a, b, c, d], in_Mask = CIDRMask (int n) 32 \<rparr>"
    by (simp add: worker_ipnet_def env mask_text [OF assms(2)] ParseIP_ipv4_text)
  have "unmarshal_routes (n_Env N ''ROUTES'') = Some routes"
    using unmarshal_marshal_routes [OF assms(3)] by (simp add: env)
  then have "case run_state (worker_main (traced_node N)) (w, []) of (r, (w', tr)) \<Rightarrow> r = Done () \<longrightarrow>
      worker_calls N (elems routes) tr"
    using emits_run [OF emits_worker_main, of N w] by (auto split: prod.splits)
  then show ?thesis by (simp only: worker_calls_def isAlreadyExists_def env ipnet IPNet.select_convs)
qed

text \<open>A node on which everything succeeds; the state counts nothing.\<close>

definition willing_node :: "(string \<Rightarrow> string) \<Rightarrow> string \<Rightarrow> unit node" where
  "willing_node env reply =
     \<lparr> n_Env = env, n_Getpid = 1, n_Hostname = ret (Inr ''node1''),
       n_LinkByName = (\<lambda>s. ret (Inr ((NewLink s 1 MacvlanLink)\<lparr>lk_Index := 7\<rparr>))),
       n_LinkList = ret (Inr []), n_RouteList = (\<lambda>l. ret (Inr [])),
       n_LinkAdd = (\<lambda>l. ret (l, None)), n_LinkDel = (\<lambda>l. ret None), n_LinkSetUp = (\<lambda>l. ret (l, None)),
       n_LinkSetNsPid = (\<lambda>l p. ret None), n_AddrAdd = (\<lambda>l a. ret None), n_AddrDel = (\<lambda>l a. ret None),
       n_RouteAdd = (\<lambda>r. ret None), n_ReadDir = (\<lambda>d. ret (Inr [])),
       n_Exec = (\<lambda>c. ret (Inr (''42'' @ [CHR 0x0A]))),
       n_HttpPost = (\<lambda>u b. ret (Inr (Some \<lparr> hr_StatusCode = 200, hr_Body = Some (Inr reply) \<rparr>))),
       n_NewProcFS = ret None, n_NetDev = ret (Inr []), n_InClusterConfig = ret None, n_NewClient = ret None,
       n_NewElector = (\<lambda>ns l i. ret None), n_Time = ret 0 \<rparr>"

definition sample_routes :: "Route slice" where
  "sample_routes = Some [\<lparr> rt_Destination = ''192.168.0.0/16'', rt_Via = Some ''10.0.0.1'', rt_Source = ''self'',
     rt_ScopeLink = False \<rparr>]"

definition sample_worker_env :: "string \<Rightarrow> string" where
  "sample_worker_env k =
     (if k = ''VLAN_NETWORK'' then ''net1'' else if k = ''MACVLAN_IP'' then ''10.0.0.2''
      else if k = ''MACVLAN_SUBNET'' then ''24'' else if k = ''ROUTES'' then marshal_routes sample_routes
      else [])"

definition sample_node :: "unit node" where
  "sample_node = willing_node sample_worker_env (Marshal mresp_enc \<lparr> mresp_Id = 42 \<rparr>)"

lemma sample_routes_ascii: "wf_slice ascii_route sample_routes"
  by (simp add: wf_slice_def sample_routes_def ascii_route_def)

lemma sample_nsid: "strconv_ParseInt (strings_TrimSpace (''42'' @ [CHR 0x0A])) 64 = (42, None)"
  by (simp add: strings_TrimSpace_def is_space_def strconv_ParseInt_def strconv_ParseUint_def is_digit_def
      digit_val_def Let_def)

lemma sample_worker_done:
  "\<exists>tr. run_state (worker_main (traced_node sample_node)) ((), []) = (Done (), ((), tr))"
proof -
  have "unmarshal_routes (marshal_routes sample_routes) = Some sample_routes"
    by (rule unmarshal_marshal_routes [OF sample_routes_ascii])
  then show ?thesis
    using sample_nsid mresp_codec.Unmarshal_Marshal [of "\<lparr> mresp_Id = 42 \<rparr>"]
    by (simp add: worker_main_def worker_response_def worker_configure_def worker_add_routes_def sample_node_def
        willing_node_def run_simps Let_def sample_worker_env_def sample_routes_def)
qed

lemma sample_address_text: "ipv4_text 10 0 0 2 @ CHR ''/'' # fmt_nat 24 = ''10.0.0.2/24''"
  by code_simp

theorem worker_attaches_witness:
  "\<exists>w' tr link err. run_state (worker_main (traced_node sample_node)) ((), []) = (Done (), (w', tr)) \<and>
     AddedAddr link \<lparr> in_IP = v4_in_v6_prefix @ [10, 0, 0, 2], in_Mask = CIDRMask 24 32 \<rparr> err \<in> set tr"
proof -
  obtain w' tr where run: "run_state (worker_main (traced_node sample_node)) ((), []) = (Done (), (w', tr))"
    using sample_worker_done by auto
  have "list_all (\<lambda>e. n_Env sample_node (ev_Name e) = ev_Value e)
      (env_of_patch zero_pod (zero_network\<lparr>net_Meta := zero_meta\<lparr>meta_Name := ''net1''\<rparr>\<rparr>)
        (ipv4_text 10 0 0 2 @ CHR ''/'' # fmt_nat 24) [] (marshal_routes sample_routes))"
    unfolding env_of_patch_def init_containers_patch split_ip_text
    by (simp add: init_container_def env_var_def managers_text_def sample_node_def willing_node_def
        sample_worker_env_def net_Name_def ipv4_text_def) (code_simp)
  from worker_attaches [where n = 24 and w = "()", OF this _ sample_routes_ascii, simplified run]
  obtain out body link0 link err and reply :: MacvlanResponse and nsid where
    "tr = [Executed nsid_command (Inr out),
           Posted (macvlan_url ''net1'') (Marshal mreq_enc \<lparr> mreq_NsID = word_of_int nsid \<rparr>)
             (Inr (Some \<lparr> hr_StatusCode = 200, hr_Body = Some (Inr body) \<rparr>)),
           LookedUp (''macvlan'' @ strconv_FormatInt (sint (mresp_Id reply))) (Inr link0), SetUp link0 link None,
           AddedAddr link \<lparr> in_IP = v4_in_v6_prefix @ [10, 0, 0, 2], in_Mask = CIDRMask 24 32 \<rparr> err] @
          map (\<lambda>x. AddedRoute (worker_route (lk_Index link) (v4_in_v6_prefix @ [10, 0, 0, 2]) x) None)
            (elems sample_routes)"
    by (auto simp: net_Name_def)
  with run show ?thesis by (auto simp del: append.simps)
qed

end
