(* ===== verification/InterfaceMain.thy ===== *)
theory InterfaceMain
  imports Node InterfaceJobs
begin

text \<open>
  The interface job (\<open>cmd/interface/main.go\<close>): it runs on a node in the host's network namespace,
  creates the VLAN interface on the parent the mapping names, or the one with the default route, and
  moves it into the network namespace of the manager's process.
\<close>

subsection \<open>The parent interface\<close>

fun find_default_loop :: "'w node \<Rightarrow> Link list \<Rightarrow> ('w, go_error + Link) state" where
  "find_default_loop N [] = ret (Inl (Errorf ''Default route not found''))"
| "find_default_loop N (l # ls) = do {
     r \<leftarrow> n_RouteList N l;
     (case r of
        Inl err \<Rightarrow> ret (Inl (Errorf (''Error listing routes for device '' @ lk_Name l @ '': '' @ error_text err)))
      | Inr routes \<Rightarrow>
          if routes = [] then find_default_loop N ls
          else if list_ex (\<lambda>r. prints_as_default (kr_Dst r)) routes then ret (Inr l)
          else find_default_loop N ls)
   }"

definition findDefaultInterface :: "'w node \<Rightarrow> ('w, go_error + Link) state" where
  "findDefaultInterface N =
     (case ParseCIDR ''0.0.0.0/0'' of
        None \<Rightarrow> ret (Inl (Errorf ''Error parsing CIDR''))
      | Some dflt \<Rightarrow> do {
          r \<leftarrow> n_LinkList N;
          (case r of
             Inl err \<Rightarrow> ret (Inl (Errorf (''Error listing links: '' @ error_text err)))
           | Inr links \<Rightarrow> find_default_loop N links)
        })"

subsection \<open>The process\<close>

text \<open>The clean-up after a failed step: its own error is only logged.\<close>

definition delete_and_exit :: "'w node \<Rightarrow> Link \<Rightarrow> ('w, unit proc) state" where
  "delete_and_exit N vlan = do { err \<leftarrow> n_LinkDel N vlan; ret (Exits 1) }"

text \<open>The link is added, set up and moved to the namespace of the process.\<close>

definition create_vlan :: "'w node \<Rightarrow> Link \<Rightarrow> int \<Rightarrow> ('w, unit proc) state" where
  "create_vlan N vlan0 PID = do {
     (vlan, err) \<leftarrow> n_LinkAdd N vlan0;
     (case err of
        Some e \<Rightarrow> if isFileExistsErr e then ret (Exits 0) else ret (Exits 1)
      | None \<Rightarrow> do {
          (vlan1, err1) \<leftarrow> n_LinkSetUp N vlan;
          (if err1 \<noteq> None then delete_and_exit N vlan1
           else do {
             err2 \<leftarrow> n_LinkSetNsPid N vlan1 PID;
             (if err2 \<noteq> None then delete_and_exit N vlan1 else ret (Exits 0))
           })
        })
   }"

text \<open>A link of the same name is deleted first.\<close>

definition replace_vlan :: "'w node \<Rightarrow> Link \<Rightarrow> int \<Rightarrow> ('w, unit proc) state" where
  "replace_vlan N vlan PID = do {
     r \<leftarrow> n_LinkByName N (lk_Name vlan);
     (case r of
        Inl e \<Rightarrow> create_vlan N vlan PID
      | Inr link \<Rightarrow> do {
          err \<leftarrow> n_LinkDel N link;
          (if err \<noteq> None then ret (Exits 1) else create_vlan N vlan PID)
        })
   }"

definition find_parent :: "'w node \<Rightarrow> string \<Rightarrow> ('w, go_error + Link) state" where
  "find_parent N name = (if name = [] then findDefaultInterface N else n_LinkByName N name)"

definition interface_main :: "'w node \<Rightarrow> ('w, unit proc) state" where
  "interface_main N =
     (let envID = n_Env N ''ID''; (ID, err) = strconv_ParseInt envID 64;
          (PID, err2) = strconv_ParseInt (n_Env N ''PID'') 64;
          name = n_Env N ''INTERFACE''
      in if err \<noteq> None then ret (Exits 1)
         else if err2 \<noteq> None then ret (Exits 1)
         else or_exit (find_parent N name) (\<lambda>dflt.
                replace_vlan N (NewLink (''vlan'' @ envID) (lk_Index dflt) (VlanLink ID)) PID))"

subsection \<open>How it ends\<close>

fun looks_only :: "node_call \<Rightarrow> bool" where
  "looks_only (LookedUp s r) = True"
| "looks_only (ListedLinks r) = True"
| "looks_only (ListedRoutes l r) = True"
| "looks_only _ = False"

text \<open>
  The calls that find the parent link: the look-up of its name, or, without a name, the list of all links
  and their routes up to the first link with the default route.
\<close>

definition finds_parent :: "string \<Rightarrow> node_call list \<Rightarrow> Link \<Rightarrow> bool" where
  "finds_parent name tr d \<longleftrightarrow> list_all looks_only tr \<and>
     (if name \<noteq> [] then tr = [LookedUp name (Inr d)]
      else \<exists>links mid routes. tr = ListedLinks (Inr links) # mid @ [ListedRoutes d (Inr routes)] \<and> d \<in> set links \<and>
        list_ex (\<lambda>r. prints_as_default (kr_Dst r)) routes)"

text \<open>The link is added, set up and moved; each step works on what the one before returned.\<close>

definition adds_and_moves :: "Link \<Rightarrow> int \<Rightarrow> node_call list \<Rightarrow> bool" where
  "adds_and_moves vlan pid tr \<longleftrightarrow> (\<exists>v1 v2. tr = [AddedLink vlan v1 None, SetUp v1 v2 None, MovedLink v2 pid None])"

text \<open>The link is added, a later step fails, and the deletion of this very link is tried.\<close>

definition adds_and_deletes :: "Link \<Rightarrow> int \<Rightarrow> node_call list \<Rightarrow> bool" where
  "adds_and_deletes vlan pid tr \<longleftrightarrow>
     (\<exists>v1 v2 e res. tr = [AddedLink vlan v1 None, SetUp v1 v2 (Some e), DeletedLink v2 res] \<or>
        tr = [AddedLink vlan v1 None, SetUp v1 v2 None, MovedLink v2 pid (Some e), DeletedLink v2 res])"

definition fails_to_add :: "Link \<Rightarrow> bool \<Rightarrow> node_call list \<Rightarrow> bool" where
  "fails_to_add vlan there tr \<longleftrightarrow>
     (\<exists>v1 e. tr = [AddedLink vlan v1 (Some e)] \<and> strings_Contains (error_text e) ''file exists'' = there)"

text \<open>The calls of \<open>create_vlan\<close>, by exit code.\<close>

definition vlan_created :: "Link \<Rightarrow> int \<Rightarrow> unit proc \<Rightarrow> node_call list \<Rightarrow> bool" where
  "vlan_created vlan pid r tr \<longleftrightarrow>
     (r = Exits 0 \<and> (adds_and_moves vlan pid tr \<or> fails_to_add vlan True tr)) \<or>
     (r = Exits 1 \<and> (adds_and_deletes vlan pid tr \<or> fails_to_add vlan False tr))"

lemma emits_create_vlan: "emits (create_vlan (traced_node N) vlan pid) (vlan_created vlan pid)"
  unfolding create_vlan_def delete_and_exit_def traced_node_simps
  by (intro node_rules)
    (auto simp: vlan_created_def adds_and_moves_def adds_and_deletes_def fails_to_add_def isFileExistsErr_def)

lemma emits_find_default:
  "emits (find_default_loop (traced_node N) ls) (\<lambda>r tr. list_all looks_only tr \<and>
     (case r of Inl e \<Rightarrow> True | Inr d \<Rightarrow> \<exists>mid routes. tr = mid @ [ListedRoutes d (Inr routes)] \<and> d \<in> set ls \<and>
        list_ex (\<lambda>r. prints_as_default (kr_Dst r)) routes))"
proof (induction ls)
  case (Cons l ls)
  show ?case
    unfolding find_default_loop.simps traced_node_simps
    by (intro node_rules emits_weaken [OF Cons]) (auto split: sum.splits)
qed (auto intro: emits_ret)

lemma emits_parent:
  "emits (find_parent (traced_node N) name) (\<lambda>r tr. list_all looks_only tr \<and>
     (case r of Inl e \<Rightarrow> True | Inr d \<Rightarrow> finds_parent name tr d))"
proof (cases "name = []")
  case True
  then show ?thesis
    unfolding find_parent_def findDefaultInterface_def traced_node_simps
    by (simp only: if_True, intro node_rules emits_weaken [OF emits_find_default])
      (auto simp: finds_parent_def split: sum.splits)
next
  case False
  then show ?thesis
    unfolding find_parent_def traced_node_simps
    by (simp only: if_False) (intro emits_log_call, auto simp: finds_parent_def split: sum.split)
qed

definition vlan_replaced :: "Link \<Rightarrow> int \<Rightarrow> unit proc \<Rightarrow> node_call list \<Rightarrow> bool" where
  "vlan_replaced vlan pid r tr \<longleftrightarrow>
     (\<exists>link e. r = Exits 1 \<and> tr = [LookedUp (lk_Name vlan) (Inr link), DeletedLink link (Some e)]) \<or>
     (\<exists>old post. removes_old (lk_Name vlan) old \<and> tr = old @ post \<and> vlan_created vlan pid r post)"

lemma vlan_replacedI:
  "vlan_created vlan pid r post \<Longrightarrow> vlan_replaced vlan pid r (LookedUp (lk_Name vlan) (Inl e) # post)"
  "vlan_created vlan pid r post \<Longrightarrow>
     vlan_replaced vlan pid r (LookedUp (lk_Name vlan) (Inr l) # DeletedLink l None # post)"
  "vlan_replaced vlan pid (Exits 1) [LookedUp (lk_Name vlan) (Inr l), DeletedLink l (Some e)]"
  unfolding vlan_replaced_def
    apply (rule disjI2, rule exI [of _ "[LookedUp (lk_Name vlan) (Inl e)]"], rule exI [of _ post])
    apply (simp add: removes_old_def)
   apply (rule disjI2, rule exI [of _ "[LookedUp (lk_Name vlan) (Inr l), DeletedLink l None]"], rule exI [of _ post])
   apply (simp add: removes_old_def)
  apply simp
  done

lemma emits_replace_vlan: "emits (replace_vlan (traced_node N) vlan pid) (vlan_replaced vlan pid)"
  unfolding replace_vlan_def traced_node_simps
  by (intro node_rules emits_weaken [OF emits_create_vlan]) (auto intro: vlan_replacedI)

text \<open>The exit code and what the calls say about it.\<close>

definition vlan_outcome :: "string \<Rightarrow> string \<Rightarrow> int \<Rightarrow> int \<Rightarrow> unit proc \<Rightarrow> node_call list \<Rightarrow> bool" where
  "vlan_outcome iface name vid pid r tr \<longleftrightarrow>
     (if r = Exits 0 then
        (\<exists>look d old post. tr = look @ old @ post \<and> finds_parent iface look d \<and> removes_old name old \<and>
           (adds_and_moves (NewLink name (lk_Index d) (VlanLink vid)) pid post \<or>
            fails_to_add (NewLink name (lk_Index d) (VlanLink vid)) True post))
      else r = Exits 1 \<and>
        ((\<forall>v v1. AddedLink v v1 None \<notin> set tr) \<or>
         (\<exists>look d old post. tr = look @ old @ post \<and> finds_parent iface look d \<and> removes_old name old \<and>
            adds_and_deletes (NewLink name (lk_Index d) (VlanLink vid)) pid post)))"

lemma looks_only_not_added: "list_all looks_only pre \<Longrightarrow> AddedLink v v1 e \<notin> set pre"
  by (induction pre) auto

lemma vlan_replaced_outcome:
  assumes "finds_parent iface look d" and "vlan_replaced (NewLink name (lk_Index d) (VlanLink vid)) pid r tr"
  shows "vlan_outcome iface name vid pid r (look @ tr)"
proof -
  let ?vlan = "NewLink name (lk_Index d) (VlanLink vid)"
  have looks: "AddedLink v v1 e \<notin> set look" for v v1 e
    using assms(1) looks_only_not_added by (simp add: finds_parent_def)
  consider (fail) link e where "r = Exits 1" "tr = [LookedUp name (Inr link), DeletedLink link (Some e)]"
    | (create) old post where "removes_old name old" "tr = old @ post" "vlan_created ?vlan pid r post"
    using assms(2) unfolding vlan_replaced_def by (auto simp: NewLink_def)
  then show ?thesis
  proof cases
    case create
    have old: "AddedLink v v1 e \<notin> set old" for v v1 e
      using create(1) by (auto simp: removes_old_def)
    consider "r = Exits 0" "adds_and_moves ?vlan pid post \<or> fails_to_add ?vlan True post"
      | "r = Exits 1" "adds_and_deletes ?vlan pid post" | "r = Exits 1" "fails_to_add ?vlan False post"
      using create(3) unfolding vlan_created_def by blast
    then show ?thesis
    proof cases
      case 3
      then have "AddedLink v v1 None \<notin> set post" for v v1 by (auto simp: fails_to_add_def)
      with 3 looks old show ?thesis by (simp add: vlan_outcome_def create(2))
    qed (use assms(1) create(1,2) in \<open>auto simp: vlan_outcome_def\<close>)
  qed (use looks in \<open>simp add: vlan_outcome_def\<close>)
qed

lemma emits_interface_main:
  assumes "strconv_ParseInt (n_Env N ''ID'') 64 = (vid, None)" and "strconv_ParseInt (n_Env N ''PID'') 64 = (pid, None)"
  shows "emits (interface_main (traced_node N))
    (vlan_outcome (n_Env N ''INTERFACE'') (''vlan'' @ n_Env N ''ID'') vid pid)"
proof -
  let ?name = "''vlan'' @ n_Env N ''ID''" and ?iface = "n_Env N ''INTERFACE''"
  have "interface_main (traced_node N) = or_exit (find_parent (traced_node N) ?iface)
      (\<lambda>dflt. replace_vlan (traced_node N) (NewLink ?name (lk_Index dflt) (VlanLink vid)) pid)"
    by (simp add: interface_main_def traced_node_simps assms Let_def)
  then show ?thesis
  proof (simp only:, intro emits_or_exit [OF emits_parent])
    fix d look
    assume "list_all looks_only look \<and> (case Inr d of Inl e \<Rightarrow> True | Inr d \<Rightarrow> finds_parent ?iface look d)"
    then show "emits (replace_vlan (traced_node N) (NewLink ?name (lk_Index d) (VlanLink vid)) pid)
        (\<lambda>r new. vlan_outcome ?iface ?name vid pid r (look @ new))"
      by (intro emits_weaken [OF emits_replace_vlan] vlan_replaced_outcome) auto
  qed (auto simp: vlan_outcome_def looks_only_not_added)
qed

text \<open>
  C7: the job that the operator makes for a manager pod creates the VLAN interface it should. The
  process always exits, with 0 or 1. With 0 it has found the parent (the interface mapped to the pod's
  node, or else the link with the default route), removed a link of the same name if there was one, and its
  last calls successfully added the link \<open>vlan<id>\<close> with the VLAN id of the network on the index of the parent,
  set it up and moved it into the namespace of the manager's process, unless adding it failed because
  such a link exists, which also counts as success. With 1 it has added no link, or its last call tries to
  delete the very link it added, which could not be set up or moved (the deletion may fail, too).
\<close>

theorem interface_job_outcome:
  "\<exists>c. ps_Containers (job_PodSpec (interfaceFromDaemon p pid vid ttl img net pp mappings fixup)) = [c] \<and>
     (case run_state (interface_main (traced_node (N\<lparr>n_Env := container_env c\<rparr>))) (w, []) of (r, (w', tr)) \<Rightarrow>
        vlan_outcome (mapped_interface (elems mappings) (ps_NodeName (pod_Spec p)))
          (''vlan'' @ strconv_FormatInt (sint vid)) (sint vid) (sint pid) r tr)"
proof -
  let ?job = "interfaceFromDaemon p pid vid ttl img net pp mappings fixup"
  obtain c where c: "ps_Containers (job_PodSpec ?job) = [c]"
    and env: "container_env c ''ID'' = strconv_FormatInt (sint vid)" "container_env c ''PID'' = strconv_FormatInt (sint pid)"
      "container_env c ''INTERFACE'' = mapped_interface (elems mappings) (ps_NodeName (pod_Spec p))"
    by (auto simp: interfaceFromDaemon_def Let_def container_env_def)
  let ?N = "N\<lparr>n_Env := container_env c\<rparr>"
  have "emits (interface_main (traced_node ?N))
      (vlan_outcome (mapped_interface (elems mappings) (ps_NodeName (pod_Spec p)))
        (''vlan'' @ strconv_FormatInt (sint vid)) (sint vid) (sint pid))"
    using emits_interface_main [of ?N "sint vid" "sint pid"] by (simp add: env ParseInt_FormatInt_word)
  from emits_run [OF this, of w] show ?thesis
    using c by auto
qed

end
