(* ===== verification/Watcher.thy ===== *)
theory Watcher
  imports Node Actions
begin

text \<open>
  The watcher of the VLAN interface in the manager daemon (\<open>cmd/manager/watch.go\<close>, and
  \<open>downgradeStatus\<close> of \<open>cmd/manager/main.go\<close>): every half second it looks for the interface, sets
  it up when it is there, and records the connection as down when it is not.
\<close>

record VlanWatcher =
  vw_ID :: int64
  vw_Exists :: bool
  vw_UP :: bool
  vw_Link :: "Link option"

definition NewWatcher :: "int64 \<Rightarrow> VlanWatcher" where
  "NewWatcher i = \<lparr> vw_ID = i, vw_Exists = False, vw_UP = False, vw_Link = None \<rparr>"

definition vlan_name :: "int64 \<Rightarrow> string" where
  "vlan_name i = ''vlan'' @ strconv_FormatInt (sint i)"

text \<open>\<open>downgradeStatus\<close>: its errors are only logged.\<close>

definition downgradeStatus :: "'w kube \<Rightarrow> string \<Rightarrow> string \<Rightarrow> ('w, unit) state" where
  "downgradeStatus K ownerName hostname = do {
     r \<leftarrow> k_GetNetwork K ownerName;
     (case r of
        Inl err \<Rightarrow> ret ()
      | Inr connection \<Rightarrow> do {
          u \<leftarrow> k_UpdateStatus K
            (connection\<lparr>net_Status := set_connection_state hostname StateDown (net_Status connection)\<rparr>);
          ret ()
        })
   }"

text \<open>
  The stores the watcher makes to its fields, which other goroutines read: when it has set up the
  interface, and when the interface is not there.
\<close>

datatype watcher_store = StoreExists bool | StoreUP bool | StoreLink Link

fun apply_store :: "watcher_store \<Rightarrow> VlanWatcher \<Rightarrow> VlanWatcher" where
  "apply_store (StoreExists b) v = v\<lparr>vw_Exists := b\<rparr>"
| "apply_store (StoreUP b) v = v\<lparr>vw_UP := b\<rparr>"
| "apply_store (StoreLink l) v = v\<lparr>vw_Link := Some l\<rparr>"

definition found_stores :: "Link \<Rightarrow> watcher_store list" where
  "found_stores link = [StoreUP True, StoreLink link]"

definition lost_stores :: "watcher_store list" where
  "lost_stores = [StoreExists False, StoreUP False]"

text \<open>
  The loop over the directory: the stores it makes, in order, and whether the interface was seen. A
  failure to find or set up the link ends it.
\<close>

fun watch_entries :: "'w node \<Rightarrow> string \<Rightarrow> string list \<Rightarrow> ('w, watcher_store list \<times> bool) state" where
  "watch_entries N ifaceName [] = ret ([], False)"
| "watch_entries N ifaceName (ent # ents) =
     (if ent = ifaceName then do {
        r \<leftarrow> n_LinkByName N ifaceName;
        (case r of
           Inl err \<Rightarrow> ret ([StoreExists True], True)
         | Inr link \<Rightarrow> do {
             (link1, err) \<leftarrow> n_LinkSetUp N link;
             (if err \<noteq> None then ret ([StoreExists True], True)
              else do {
                (stores, exsts) \<leftarrow> watch_entries N ifaceName ents;
                ret (StoreExists True # found_stores link1 @ stores, True)
              })
           })
      } else watch_entries N ifaceName ents)"

definition watch_round ::
    "'w node \<Rightarrow> 'w kube \<Rightarrow> ('w, unit) state \<Rightarrow> VlanWatcher \<Rightarrow> ('w, VlanWatcher outcome) state" where
  "watch_round N K downgrade v = do {
     k_Sleep K (Second div 2);
     r \<leftarrow> n_ReadDir N ''/sys/class/net'';
     (case r of
        Inl err \<Rightarrow> ret (Err err)
      | Inr ents \<Rightarrow> do {
          (stores, exsts) \<leftarrow> watch_entries N (vlan_name (vw_ID v)) ents;
          let v1 = fold apply_store stores v;
          (if \<not> exsts then do { downgrade; ret (Ok (fold apply_store lost_stores v1)) }
           else ret (Ok v1))
        })
   }"

text \<open>\<open>Watch\<close>: rounds without end, of which the model makes as many as there is fuel.\<close>

fun Watch :: "nat \<Rightarrow> 'w node \<Rightarrow> 'w kube \<Rightarrow> ('w, unit) state \<Rightarrow> VlanWatcher \<Rightarrow> ('w, VlanWatcher \<times> unit outcome) state" where
  "Watch 0 N K downgrade v = ret (v, Hangs)"
| "Watch (Suc fuel) N K downgrade v = do {
     r \<leftarrow> watch_round N K downgrade v;
     (case r of
        Ok v1 \<Rightarrow> Watch fuel N K downgrade v1
      | Err e \<Rightarrow> ret (v, Err e)
      | Panics p \<Rightarrow> ret (v, Panics p)
      | Hangs \<Rightarrow> ret (v, Hangs))
   }"

subsection \<open>The invariant of the watcher\<close>

text \<open>An interface that counts as up exists and its link is known.\<close>

definition watcher_ok :: "VlanWatcher \<Rightarrow> bool" where
  "watcher_ok v \<longleftrightarrow> (if vw_UP v then vw_Exists v \<and> vw_Link v \<noteq> None else True)"

lemma watch_entries_ok:
  assumes "run_state (watch_entries N ifaceName ents) w = ((stores, e), w')" and "watcher_ok v"
  shows "watcher_ok (fold apply_store stores v) \<and> vw_ID (fold apply_store stores v) = vw_ID v \<and>
    (e \<longleftrightarrow> ifaceName \<in> set ents)"
  using assms
proof (induction ents arbitrary: v stores e w w')
  case (Cons ent ents)
  show ?case
  proof (cases "ent = ifaceName")
    case True
    have ok: "watcher_ok (v\<lparr>vw_Exists := True\<rparr>)" "watcher_ok (v\<lparr>vw_Exists := True, vw_UP := True, vw_Link := Some l\<rparr>)" for l
      using Cons.prems(2) by (simp_all add: watcher_ok_def split: if_splits)
    obtain r w1 where look: "run_state (n_LinkByName N ifaceName) w = (r, w1)" by (metis prod.collapse)
    show ?thesis
    proof (cases r)
      case (Inl e)
      with Cons.prems look True ok show ?thesis by (auto simp: Let_def)
    next
      case (Inr link)
      obtain l err w2 where up: "run_state (n_LinkSetUp N link) w1 = ((l, err), w2)" by (metis prod.collapse)
      obtain rest e2 w3 where rest: "run_state (watch_entries N ifaceName ents) w2 = ((rest, e2), w3)"
        by (metis prod.collapse)
      show ?thesis
        using Cons.prems look up True Inr ok rest
          Cons.IH [OF rest, of "v\<lparr>vw_Exists := True, vw_UP := True, vw_Link := Some l\<rparr>"]
        by (auto simp: found_stores_def split: if_splits)
    qed
  next
    case False
    with Cons show ?thesis by auto
  qed
qed simp

lemma watch_round_ok:
  assumes "run_state (watch_round N K downgrade v) w = (Ok v', w')" and "watcher_ok v"
  shows "watcher_ok v' \<and> vw_ID v' = vw_ID v"
proof -
  obtain w1 where sl: "run_state (k_Sleep K (Second div 2)) w = ((), w1)" by (metis old.unit.exhaust prod.collapse)
  obtain r w2 where rd: "run_state (n_ReadDir N ''/sys/class/net'') w1 = (r, w2)" by (metis prod.collapse)
  show ?thesis
  proof (cases r)
    case (Inr ents)
    obtain stores e w3 where en: "run_state (watch_entries N (vlan_name (vw_ID v)) ents) w2 = ((stores, e), w3)"
      by (metis prod.collapse)
    have "watcher_ok (v1\<lparr>vw_Exists := False, vw_UP := False\<rparr>)" for v1 by (simp add: watcher_ok_def)
    then show ?thesis
      using assms sl rd Inr en watch_entries_ok [OF en assms(2)]
      by (auto simp: watch_round_def lost_stores_def Let_def split: if_splits prod.splits)
  qed (use assms sl rd in \<open>simp add: watch_round_def\<close>)
qed

text \<open>A round can only fail with the error of reading the directory, and then does nothing more.\<close>

lemma watch_round_fails:
  assumes "run_state (watch_round N K downgrade v) w = (Err e, w')"
  shows "\<exists>w1. run_state (n_ReadDir N ''/sys/class/net'') w1 = (Inl e, w')"
  using assms
  by (auto simp: watch_round_def Let_def split: sum.splits prod.splits if_splits)

lemma watch_round_ends: "fst (run_state (watch_round N K downgrade v) w) \<noteq> Panics p"
  "fst (run_state (watch_round N K downgrade v) w) \<noteq> Hangs"
  by (auto simp: watch_round_def Let_def split: sum.split prod.split)

lemma Watch_ok:
  assumes "watcher_ok v"
  shows "case run_state (Watch fuel N K downgrade v) w of ((v', r), w') \<Rightarrow>
    watcher_ok v' \<and> vw_ID v' = vw_ID v \<and>
    (case r of Hangs \<Rightarrow> True | Err e \<Rightarrow> \<exists>w1. run_state (n_ReadDir N ''/sys/class/net'') w1 = (Inl e, w') | _ \<Rightarrow> False)"
  using assms
proof (induction fuel arbitrary: v w)
  case (Suc fuel)
  obtain r w1 where one: "run_state (watch_round N K downgrade v) w = (r, w1)" by (metis prod.collapse)
  have "r \<noteq> Panics p" "r \<noteq> Hangs" for p
    using watch_round_ends [where v = v and w = w] one by (metis fst_conv)+
  then show ?case
  proof (cases r)
    case (Ok v1)
    have v1: "watcher_ok v1 \<and> vw_ID v1 = vw_ID v"
      by (rule watch_round_ok [OF one [unfolded Ok] Suc.prems])
    show ?thesis
      using Suc.IH [OF conjunct1 [OF v1], of w1] v1 one Ok by simp
  next
    case (Err e)
    then show ?thesis using one Suc.prems watch_round_fails [OF one [unfolded Err]] by simp
  qed (use one Suc.prems in auto)
qed simp

lemma new_watcher_ok: "watcher_ok (NewWatcher i)"
  by (simp add: watcher_ok_def NewWatcher_def)

text \<open>
  C13: however the node answers, after any number of rounds of the watcher an interface that counts
  as up is one that exists and whose link is known, which is what the readiness probe and the set-up
  rely on; and the watcher only ever stops because the directory could not be read: it returns the error
  of that read, which was the last thing it did.
\<close>

theorem watcher_invariant:
  "case run_state (Watch fuel N K downgrade (NewWatcher i)) w of ((v, r), w') \<Rightarrow>
     (if vw_UP v then vw_Exists v \<and> vw_Link v \<noteq> None else True) \<and> vw_ID v = i \<and>
     (case r of
        Hangs \<Rightarrow> True
      | Err e \<Rightarrow> \<exists>w1. run_state (n_ReadDir N ''/sys/class/net'') w1 = (Inl e, w')
      | _ \<Rightarrow> False)"
  using Watch_ok [OF new_watcher_ok [of i], where fuel = fuel and N = N and K = K and downgrade = downgrade and w = w]
  by (simp add: watcher_ok_def NewWatcher_def)

subsection \<open>What a lost interface does to the status\<close>

text \<open>
  C17: when the interface is gone the daemon writes at most one status, that of its own network as it
  just read it, in which only the connection of its own host changes: it becomes down, with the summary
  recomputed, and no pending or free address changes.
\<close>

theorem downgrade_writes_own_state:
  "case run_state (downgradeStatus (traced K) owner host) (w, []) of (r, (w', tr)) \<Rightarrow>
     (case run_state (k_GetNetwork K owner) w of
        (Inl e, w1) \<Rightarrow> tr = [GotNetwork owner]
      | (Inr net, w1) \<Rightarrow> \<exists>net' ok. tr = [GotNetwork owner, UpdatedStatus net' ok] \<and>
          net_key net' = net_key net \<and>
          (\<forall>k. map_lookup (elems (st_State (net_Status net'))) k =
             (if k = host then Some StateDown else map_lookup (elems (st_State (net_Status net))) k)) \<and>
          st_FreeIPs (net_Status net') = st_FreeIPs (net_Status net) \<and>
          st_PendingIPs (net_Status net') = st_PendingIPs (net_Status net) \<and>
          take 9 (st_ShortState (net_Status net')) = ''Unhealthy'')"
proof -
  have short: "take 9 (st_ShortState (set_connection_state host StateDown s)) = ''Unhealthy''" for s
  proof -
    let ?m = "map_assign host StateDown (elems (st_State s))"
    have "map_lookup ?m host = Some StateDown" by (simp add: gomap_simps)
    then have "(host, StateDown) \<in> set ?m" by (simp add: map_lookup_def map_of_SomeD)
    then have "\<not> (\<forall>(k, v) \<in> set ?m. v = StateUp)" by (force simp: StateUp_def StateDown_def)
    then show ?thesis by (simp add: set_connection_state_def UpdateShortState_value)
  qed
  then show ?thesis
    by (auto simp: downgradeStatus_def run_simps net_key_def set_connection_state_lookup
        set_connection_state_def UpdateShortState_frame gomap_simps split: sum.split prod.split)
qed

subsection \<open>Between the stores\<close>

text \<open>What a reader sees after the first \<open>k\<close> of these stores.\<close>

definition watcher_after :: "watcher_store list \<Rightarrow> nat \<Rightarrow> VlanWatcher \<Rightarrow> VlanWatcher" where
  "watcher_after stores k v = fold apply_store (take k stores) v"

text \<open>A loop over the directory that sets up the interface makes these stores first.\<close>

lemma watch_entries_first_stores:
  assumes "run_state (watch_entries N ifaceName ents) w = ((stores, e), w')" and "StoreUP True \<in> set stores"
  shows "\<exists>link rest. stores = StoreExists True # found_stores link @ rest"
  using assms
  by (induction ents arbitrary: stores e w w')
    (auto simp: found_stores_def split: if_splits sum.splits prod.splits)

end
