(* ===== verification/ManagerDaemon.thy ===== *)
theory ManagerDaemon
  imports Watcher ApiJson
begin

text \<open>
  The manager daemon (\<open>cmd/manager/main.go\<close>): its environment, the HTTP handlers, the gateway
  interface with its routes, and what happens when the daemon becomes or stops being the leader.
\<close>

subsection \<open>Environment and state\<close>

record ManagerEnvs =
  me_ownerNetName :: string
  me_namespace :: string
  me_vlanID :: int64
  me_lockName :: string
  me_Gateways :: "Gateway slice"

text \<open>The package variables; a nil \<open>vlanWatcher\<close> or \<open>gatewayLink\<close> is \<^verbatim>\<open>None\<close>.\<close>

record globals =
  g_vlanWatcher :: "VlanWatcher option"
  g_gatewayLink :: "Link option"
  g_vlanID :: int64
  g_gatewayIPNets :: "IPNet list"
  g_leaderChanges :: int
  g_lastLeaderChange :: "int option"
  g_envs :: ManagerEnvs

definition MaxInt :: int where "MaxInt = 2 ^ 63 - 1"
definition MinInt :: int where "MinInt = - (2 ^ 63)"

text \<open>\<open>getEnvs\<close>: an empty owner or id, an id that is no number, or gateways that are no JSON end the process.\<close>

definition manager_gateways :: "string \<Rightarrow> Gateway slice option" where
  "manager_gateways gatewaysJSON =
     (if gatewaysJSON \<noteq> [] then unmarshal_gateways gatewaysJSON else Some (Some []))"

definition getEnvs :: "'w node \<Rightarrow> ManagerEnvs proc" where
  "getEnvs N =
     (let ownerNetName = n_Env N ''OWNER_NETWORK''; vid = n_Env N ''VLAN_ID'';
          (vlanID64, err) = strconv_ParseInt vid 64
      in if ownerNetName = [] then Exits 1
         else if vid = [] then Exits 1
         else if err \<noteq> None then Exits 1
         else if MaxInt < vlanID64 \<or> vlanID64 < MinInt then Exits 1
         else case manager_gateways (n_Env N ''GATEWAYS'') of
                None \<Rightarrow> Exits 1
              | Some gateways \<Rightarrow>
                  Done \<lparr> me_ownerNetName = ownerNetName, me_namespace = n_Env N ''NAMESPACE'',
                         me_vlanID = word_of_int vlanID64, me_lockName = n_Env N ''LOCK_NAME'',
                         me_Gateways = gateways \<rparr>)"

text \<open>\<open>createK8sClient\<close>: a configuration error is returned before the client is made.\<close>

definition createK8sClient :: "'w node \<Rightarrow> ('w, go_error option) state" where
  "createK8sClient N = do {
     err \<leftarrow> n_InClusterConfig N;
     (case err of
        Some e \<Rightarrow> ret (Some (Errorf (''Error creating config for k8s client: '' @ error_text e)))
      | None \<Rightarrow> do {
          err2 \<leftarrow> n_NewClient N;
          (case err2 of
             Some e \<Rightarrow> ret (Some (Errorf (''Error creating k8s client: '' @ error_text e)))
           | None \<Rightarrow> ret None)
        })
   }"

definition testProcFS :: "'w node \<Rightarrow> ('w, go_error option) state" where
  "testProcFS N = do {
     err \<leftarrow> n_NewProcFS N;
     (case err of
        Some e \<Rightarrow> ret (Some e)
      | None \<Rightarrow> do { r \<leftarrow> n_NetDev N; ret (err_of r) })
   }"

text \<open>\<open>main\<close> up to the start of the server: the state in which it serves.\<close>

definition manager_main :: "'w node \<Rightarrow> ('w, globals proc) state" where
  "manager_main N = do {
     err \<leftarrow> createK8sClient N;
     (case err of
        Some e \<Rightarrow> ret (Crashes (''Unable to create k8s client: '' @ error_text e))
      | None \<Rightarrow> go_on (ret (getEnvs N)) (\<lambda>envs. do {
          err2 \<leftarrow> testProcFS N;
          (case err2 of
             Some e \<Rightarrow> ret (Exits 1)
           | None \<Rightarrow> ret (Done \<lparr> g_vlanWatcher = Some (NewWatcher (me_vlanID envs)), g_gatewayLink = None,
               g_vlanID = me_vlanID envs, g_gatewayIPNets = [], g_leaderChanges = 0,
               g_lastLeaderChange = None, g_envs = envs \<rparr>))
        }))
   }"

subsection \<open>Names of links\<close>

definition macvlan_name :: "int64 \<Rightarrow> string" where
  "macvlan_name i = ''macvlan'' @ strconv_FormatInt (sint i)"

definition gateway_name :: "int64 \<Rightarrow> string" where
  "gateway_name i = ''macvlangw'' @ strconv_FormatInt (sint i)"

subsection \<open>Handlers\<close>

record reply =
  rp_Status :: int
  rp_Body :: string

definition pid_handler :: "'w node \<Rightarrow> reply" where
  "pid_handler N = \<lparr> rp_Status = 200, rp_Body = Encode pid_enc \<lparr> pid_PID = n_Getpid N \<rparr> \<rparr>"

definition ready_handler :: "globals \<Rightarrow> reply" where
  "ready_handler g =
     (case g_vlanWatcher g of
        None \<Rightarrow> \<lparr> rp_Status = 500, rp_Body = [] \<rparr>
      | Some v \<Rightarrow> \<lparr> rp_Status = (if vw_UP v then 200 else 500), rp_Body = [] \<rparr>)"

definition write_error :: reply where
  "write_error = \<lparr> rp_Status = 500, rp_Body = Encode mresp_enc \<lparr> mresp_Id = 0 \<rparr> \<rparr>"

definition lsns_command :: "int64 \<Rightarrow> string list" where
  "lsns_command nsid = [''bash'', ''-c'', ''lsns | grep '' @ strconv_FormatInt (sint nsid) @
     '' | awk '' @ quote @ ''{print $4}'' @ quote]"

text \<open>The first line of the output, or all of it without surrounding space when there is one line.\<close>

definition first_pid :: "string \<Rightarrow> string" where
  "first_pid out =
     (if CHR 0x0A \<in> set out then takeWhile (\<lambda>c. c \<noteq> CHR 0x0A) out else strings_TrimSpace out)"

definition netns_command :: "string \<Rightarrow> string \<Rightarrow> string list" where
  "netns_command name PID = [''ip'', ''link'', ''set'', name, ''netns'', strings_TrimSpace PID]"

text \<open>Moving the link to the namespace; an existing one there counts as success.\<close>

definition macvlan_move :: "'w node \<Rightarrow> globals \<Rightarrow> string \<Rightarrow> int64 \<Rightarrow> ('w, reply) state" where
  "macvlan_move N g name nsid = do {
     r \<leftarrow> n_Exec N (lsns_command nsid);
     (case r of
        Inl e \<Rightarrow> ret write_error
      | Inr PIDs \<Rightarrow> do {
          r2 \<leftarrow> n_Exec N (netns_command name (first_pid PIDs));
          (let ok = ret \<lparr> rp_Status = 200, rp_Body = Encode mresp_enc \<lparr> mresp_Id = me_vlanID (g_envs g) \<rparr> \<rparr>
           in case r2 of
                Inl (ExecFailed e) \<Rightarrow> ret write_error
              | Inl (ExitError stderr) \<Rightarrow> if \<not> strings_Contains stderr ''File exists'' then ret write_error else ok
              | Inr out \<Rightarrow> ok)
        })
   }"

definition macvlan_create :: "'w node \<Rightarrow> globals \<Rightarrow> Link \<Rightarrow> int64 \<Rightarrow> ('w, reply) state" where
  "macvlan_create N g m0 nsid = do {
     (m1, err) \<leftarrow> n_LinkAdd N m0;
     (if err \<noteq> None then ret write_error
      else do {
        (m2, err2) \<leftarrow> n_LinkSetUp N m1;
        (if err2 \<noteq> None then do { err3 \<leftarrow> n_LinkDel N m2; ret write_error }
         else macvlan_move N g (lk_Name m0) nsid)
      })
   }"

definition macvlan_replace :: "'w node \<Rightarrow> globals \<Rightarrow> Link \<Rightarrow> int64 \<Rightarrow> ('w, reply) state" where
  "macvlan_replace N g m nsid = do {
     r \<leftarrow> n_LinkByName N (lk_Name m);
     (case r of
        Inr link \<Rightarrow> do {
          err \<leftarrow> n_LinkDel N link;
          (if err \<noteq> None then ret write_error else macvlan_create N g m nsid)
        }
      | Inl e \<Rightarrow> macvlan_create N g m nsid)
   }"

text \<open>The body of the request is nil, fails to be read, or is a text.\<close>

definition macvlan_handler :: "'w node \<Rightarrow> globals \<Rightarrow> (go_error + string) option \<Rightarrow> ('w, reply) state" where
  "macvlan_handler N g body =
     (case body of
        None \<Rightarrow> ret write_error
      | Some (Inl e) \<Rightarrow> ret write_error
      | Some (Inr out) \<Rightarrow>
          (case Unmarshal mreq_dec out of
             None \<Rightarrow> ret write_error
           | Some mvr \<Rightarrow> do {
               r \<leftarrow> n_LinkByName N (vlan_name (g_vlanID g));
               (case r of
                  Inl e \<Rightarrow> ret write_error
                | Inr vlan \<Rightarrow>
                    macvlan_replace N g (NewLink (macvlan_name (g_vlanID g)) (lk_Index vlan) MacvlanLink) (mreq_NsID mvr))
             }))"

subsection \<open>Routes of the gateways\<close>

definition cidr_error :: "string \<Rightarrow> go_error" where
  "cidr_error s = Foreign (''invalid CIDR address: '' @ s)"

text \<open>The netlink route of a route of a gateway: the next hop is parsed as a network, too.\<close>

definition gateway_route :: "int \<Rightarrow> string \<Rightarrow> Route \<Rightarrow> go_error + KRoute" where
  "gateway_route index address r =
     (case ParseCIDR (rt_Destination r) of
        None \<Rightarrow> Inl (cidr_error (rt_Destination r))
      | Some (_, ipnet) \<Rightarrow>
          (let finish = (\<lambda>route. Inr (if rt_Source r = ''self'' then route\<lparr>kr_Src := ParseIP address\<rparr> else route))
           in case rt_Via r of
                None \<Rightarrow> finish (zero_route_on index ipnet)
              | Some via \<Rightarrow>
                  (case ParseCIDR via of
                     None \<Rightarrow> Inl (cidr_error via)
                   | Some (_, gwIpnet) \<Rightarrow> finish ((zero_route_on index ipnet)\<lparr>kr_Gw := in_IP gwIpnet\<rparr>))))"

text \<open>The routes of all gateways in order; the first failure ends it. A nil link panics on its attributes.\<close>

definition all_routes :: "Gateway list \<Rightarrow> (string \<times> Route) list" where
  "all_routes gws = concat (map (\<lambda>gw. map (\<lambda>r. (gw_Address gw, r)) (elems (gw_Routes gw))) gws)"

fun setup_routes_loop :: "'w node \<Rightarrow> Link option \<Rightarrow> (string \<times> Route) list \<Rightarrow> ('w, go_error option proc) state" where
  "setup_routes_loop N link [] = ret (Done None)"
| "setup_routes_loop N None ((address, r) # rs) =
     (case gateway_route 0 address r of
        Inl err \<Rightarrow> ret (Done (Some err))
      | Inr _ \<Rightarrow> ret (Crashes nil_panic))"
| "setup_routes_loop N (Some link) ((address, r) # rs) =
     (case gateway_route (lk_Index link) address r of
        Inl err \<Rightarrow> ret (Done (Some err))
      | Inr route \<Rightarrow> do {
          e \<leftarrow> n_RouteAdd N route;
          (case e of Some err \<Rightarrow> ret (Done (Some err)) | None \<Rightarrow> setup_routes_loop N (Some link) rs)
        })"

definition setupRoutes :: "'w node \<Rightarrow> globals \<Rightarrow> ('w, go_error option proc) state" where
  "setupRoutes N g =
     (case g_gatewayLink g of
        Some link \<Rightarrow> setup_routes_loop N (Some link) (all_routes (elems (me_Gateways (g_envs g))))
      | None \<Rightarrow>
          (case g_vlanWatcher g of
             None \<Rightarrow> ret (Crashes nil_panic)
           | Some v \<Rightarrow> setup_routes_loop N (vw_Link v) (all_routes (elems (me_Gateways (g_envs g))))))"

subsection \<open>Leadership\<close>

fun add_addresses :: "'w node \<Rightarrow> Link \<Rightarrow> IPNet list \<Rightarrow> ('w, unit proc) state" where
  "add_addresses N link [] = ret (Done ())"
| "add_addresses N link (a # as) = do {
     err \<leftarrow> n_AddrAdd N link a;
     (case err of
        Some e \<Rightarrow> if \<not> isFileExistsErr e then ret (Exits 1) else add_addresses N link as
      | None \<Rightarrow> add_addresses N link as)
   }"

fun remove_addresses :: "'w node \<Rightarrow> Link \<Rightarrow> IPNet list \<Rightarrow> ('w, unit proc) state" where
  "remove_addresses N link [] = ret (Done ())"
| "remove_addresses N link (a # as) = do {
     err \<leftarrow> n_AddrDel N link a;
     (case err of
        Some e \<Rightarrow> if \<not> isFileExistsErr e then ret (Exits 1) else remove_addresses N link as
      | None \<Rightarrow> remove_addresses N link as)
   }"

text \<open>The error of the routes is dropped.\<close>

definition addIPAddress :: "'w node \<Rightarrow> globals \<Rightarrow> ('w, unit proc) state" where
  "addIPAddress N g =
     or_exit (n_LinkByName N (gateway_name (me_vlanID (g_envs g)))) (\<lambda>link.
     go_on (add_addresses N link (g_gatewayIPNets g)) (\<lambda>_.
     go_on (setupRoutes N g) (\<lambda>_. ret (Done ()))))"

definition removeIPAddress :: "'w node \<Rightarrow> globals \<Rightarrow> ('w, unit proc) state" where
  "removeIPAddress N g =
     or_exit (n_LinkByName N (gateway_name (me_vlanID (g_envs g)))) (\<lambda>link.
       remove_addresses N link (g_gatewayIPNets g))"

definition logNewLeader :: "'w node \<Rightarrow> globals \<Rightarrow> ('w, globals) state" where
  "logNewLeader N g = do {
     now \<leftarrow> n_Time N;
     ret (g\<lparr>g_leaderChanges := g_leaderChanges g + 1, g_lastLeaderChange := Some now\<rparr>)
   }"

definition getValues :: "globals \<Rightarrow> int \<times> int option" where
  "getValues g = (g_leaderChanges g, g_lastLeaderChange g)"

subsection \<open>The watcher's process\<close>

text \<open>
  The part of \<open>interfaceSetup\<close> that runs on its own: the watcher, whose downgrade is that of the
  daemon's network and host, and which ends the process when it fails.
\<close>

definition run_watcher :: "nat \<Rightarrow> 'w node \<Rightarrow> 'w kube \<Rightarrow> string \<Rightarrow> globals \<Rightarrow> ('w, globals \<times> unit proc) state" where
  "run_watcher fuel N K hostname g =
     (case g_vlanWatcher g of
        None \<Rightarrow> ret (g, Crashes nil_panic)
      | Some v \<Rightarrow> do {
          (v1, r) \<leftarrow> Watch fuel N K (downgradeStatus K (me_ownerNetName (g_envs g)) hostname) v;
          ret (g\<lparr>g_vlanWatcher := Some v1\<rparr>,
               case r of Ok u \<Rightarrow> Done () | Err e \<Rightarrow> Exits 1 | Panics p \<Rightarrow> Crashes p | Hangs \<Rightarrow> Blocks)
        })"

subsection \<open>Set-up of the gateway\<close>

text \<open>
  The poll of the flag, once every half second. The watcher runs at the same time: \<open>seen n\<close> is what the
  read number \<open>n\<close> of the shared watcher sees. The poll returns the number of the next read.
\<close>

fun wait_up :: "nat \<Rightarrow> 'w kube \<Rightarrow> (nat \<Rightarrow> VlanWatcher) \<Rightarrow> nat \<Rightarrow> ('w, nat proc) state" where
  "wait_up 0 K seen n = ret Blocks"
| "wait_up (Suc fuel) K seen n =
     (if vw_UP (seen n) then ret (Done (Suc n))
      else do { k_Sleep K (Second div 2); wait_up fuel K seen (Suc n) })"

definition gateway_ipnet :: "Gateway \<Rightarrow> IPNet" where
  "gateway_ipnet gw =
     (let (gwAddr, gwSubnetStr0, found) = strings_Cut (gw_Address gw) ''/'';
          gwSubnetStr = (if \<not> found then ''32'' else gwSubnetStr0);
          (gwSubnet, err) = strconv_ParseInt gwSubnetStr 64
      in \<lparr> in_IP = ParseIP gwAddr, in_Mask = CIDRMask gwSubnet 32 \<rparr>)"

text \<open>An existing macvlan of that name is taken over.\<close>

definition make_gateway :: "'w node \<Rightarrow> Link \<Rightarrow> ('w, Link proc) state" where
  "make_gateway N m0 = do {
     (m1, err) \<leftarrow> n_LinkAdd N m0;
     go_on
       (if err \<noteq> None then
          or_exit (n_LinkByName N (lk_Name m0)) (\<lambda>alreadyExists.
            if lk_Kind alreadyExists \<noteq> MacvlanLink then ret (Exits 1) else ret (Done alreadyExists))
        else ret (Done m1))
       (\<lambda>m2. do {
         (m3, err2) \<leftarrow> n_LinkSetUp N m2;
         (if err2 \<noteq> None then ret (Exits 1) else ret (Done m3))
       })
   }"

text \<open>
  \<open>interfaceSetup\<close> after the interface came up: without gateways the routes and no more, otherwise
  the gateway link and the elector, whose callbacks are the functions above; the result is the state
  when the election runs.
\<close>

definition setup_gateway :: "'w node \<Rightarrow> string \<Rightarrow> globals \<Rightarrow> ('w, globals proc) state" where
  "setup_gateway N hostname g =
     (if elems (me_Gateways (g_envs g)) = [] then
        go_on (setupRoutes N g) (\<lambda>_. ret (Done g))
      else
        (let g1 = g\<lparr>g_gatewayIPNets := map gateway_ipnet (elems (me_Gateways (g_envs g)))\<rparr>
         in case Option.bind (g_vlanWatcher g) vw_Link of
              None \<Rightarrow> ret (Crashes nil_panic)
            | Some parent \<Rightarrow>
                go_on (make_gateway N (NewLink (gateway_name (me_vlanID (g_envs g))) (lk_Index parent) MacvlanLink))
                  (\<lambda>gw. do {
                    err \<leftarrow> n_NewElector N (me_namespace (g_envs g)) (me_lockName (g_envs g)) hostname;
                    (if err \<noteq> None then ret (Exits 1) else ret (Done (g1\<lparr>g_gatewayLink := Some gw\<rparr>)))
                  })))"

text \<open>
  The goroutine that \<open>interfaceSetup\<close> starts is \<open>run_watcher\<close>; its stores are what \<open>seen\<close> shows, in the
  poll and once more when the link is read. A daemon without a watcher crashes on the first read.
\<close>

definition interfaceSetup :: "nat \<Rightarrow> 'w node \<Rightarrow> 'w kube \<Rightarrow> (nat \<Rightarrow> VlanWatcher) \<Rightarrow> globals \<Rightarrow> ('w, globals proc) state" where
  "interfaceSetup fuel N K seen g = do {
     r \<leftarrow> n_Hostname N;
     (case r of
        Inl err \<Rightarrow> ret (Crashes (''Couldn'' @ quote @ ''t get hostname: '' @ error_text err))
      | Inr hostname \<Rightarrow>
          (case g_vlanWatcher g of
             None \<Rightarrow> ret (Crashes nil_panic)
           | Some v \<Rightarrow> go_on (wait_up fuel K seen 0) (\<lambda>n.
               setup_gateway N hostname (g\<lparr>g_vlanWatcher := Some (seen n)\<rparr>))))
   }"

end
