(* ===== verification/ManagerFacts.thy ===== *)
theory ManagerFacts
  imports ManagerDaemon Worker
begin

text \<open>
  What the manager daemon does, whatever the node answers: the calls behind each reply of the
  \<open>macvlan\<close> handler and their fit with the worker that asks, the routes of the gateways, and the
  steps at the start and the change of the leader.
\<close>

subsection \<open>The macvlan handler\<close>

definition macvlan_ok :: "globals \<Rightarrow> reply" where
  "macvlan_ok g = \<lparr> rp_Status = 200, rp_Body = Encode mresp_enc \<lparr> mresp_Id = me_vlanID (g_envs g) \<rparr> \<rparr>"

text \<open>The move to the namespace succeeded, or the link was there.\<close>

definition moved :: "exec_error + string \<Rightarrow> bool" where
  "moved r \<longleftrightarrow> (case r of
     Inl (ExecFailed e) \<Rightarrow> False | Inl (ExitError stderr) \<Rightarrow> strings_Contains stderr ''File exists'' | Inr out \<Rightarrow> True)"

text \<open>
  The calls that give a link to the namespace: the link is added on the index of the VLAN interface and
  set up, the process of the namespace is found, and the link is moved to the first one found.
\<close>

definition macvlan_given :: "globals \<Rightarrow> (go_error + string) option \<Rightarrow> node_call list \<Rightarrow> bool" where
  "macvlan_given g body tr \<longleftrightarrow>
     (\<exists>inp req vlan old m1 m2 out res.
        body = Some (Inr inp) \<and> Unmarshal mreq_dec inp = Some req \<and> removes_old (macvlan_name (g_vlanID g)) old \<and>
        moved res \<and>
        tr = LookedUp (vlan_name (g_vlanID g)) (Inr vlan) # old @
          [AddedLink (NewLink (macvlan_name (g_vlanID g)) (lk_Index vlan) MacvlanLink) m1 None, SetUp m1 m2 None,
           Executed (lsns_command (mreq_NsID req)) (Inr out),
           Executed (netns_command (macvlan_name (g_vlanID g)) (first_pid out)) res])"

text \<open>A link that could not be set up is one whose deletion is the last call.\<close>

definition cleans_up :: "node_call list \<Rightarrow> bool" where
  "cleans_up tr \<longleftrightarrow> (\<forall>m1 m2 e. SetUp m1 m2 (Some e) \<in> set tr \<longrightarrow> (\<exists>d. last tr = DeletedLink m2 d))"

definition macvlan_outcome :: "globals \<Rightarrow> (go_error + string) option \<Rightarrow> reply \<Rightarrow> node_call list \<Rightarrow> bool" where
  "macvlan_outcome g body r tr \<longleftrightarrow>
     (if macvlan_given g body tr then r = macvlan_ok g else r = write_error \<and> cleans_up tr)"

lemma macvlan_replies [simp]: "rp_Status write_error = 500" "rp_Status (macvlan_ok g) = 200"
  by (simp_all add: write_error_def macvlan_ok_def)

text \<open>The calls from the creation of the link \<open>m\<close> on, by reply.\<close>

definition macvlan_created :: "globals \<Rightarrow> Link \<Rightarrow> int64 \<Rightarrow> reply \<Rightarrow> node_call list \<Rightarrow> bool" where
  "macvlan_created g m nsid r tr \<longleftrightarrow>
     (\<exists>m1 e. r = write_error \<and> tr = [AddedLink m m1 (Some e)]) \<or>
     (\<exists>m1 m2 e d. r = write_error \<and> tr = [AddedLink m m1 None, SetUp m1 m2 (Some e), DeletedLink m2 d]) \<or>
     (\<exists>m1 m2 e. r = write_error \<and> tr = [AddedLink m m1 None, SetUp m1 m2 None, Executed (lsns_command nsid) (Inl e)]) \<or>
     (\<exists>m1 m2 out res. r = (if moved res then macvlan_ok g else write_error) \<and>
        tr = [AddedLink m m1 None, SetUp m1 m2 None, Executed (lsns_command nsid) (Inr out),
              Executed (netns_command (lk_Name m) (first_pid out)) res])"

lemma emits_macvlan_move:
  "emits (macvlan_move (traced_node N) g name nsid) (\<lambda>r tr.
     (\<exists>e. r = write_error \<and> tr = [Executed (lsns_command nsid) (Inl e)]) \<or>
     (\<exists>out res. r = (if moved res then macvlan_ok g else write_error) \<and>
        tr = [Executed (lsns_command nsid) (Inr out), Executed (netns_command name (first_pid out)) res]))"
  unfolding macvlan_move_def traced_node_simps Let_def macvlan_ok_def [symmetric]
  by (intro node_rules) (auto intro!: emits_ret simp: moved_def split: exec_error.split)

lemma emits_macvlan_create:
  "emits (macvlan_create (traced_node N) g m nsid) (macvlan_created g m nsid)"
  unfolding macvlan_create_def traced_node_simps
  by (intro node_rules emits_weaken [OF emits_macvlan_move]) (auto simp: macvlan_created_def)

lemma macvlan_created_outcome:
  assumes "macvlan_created g (NewLink (macvlan_name (g_vlanID g)) (lk_Index vlan) MacvlanLink) (mreq_NsID req) r tr"
    and "removes_old (macvlan_name (g_vlanID g)) old" and "Unmarshal mreq_dec inp = Some req"
  shows "macvlan_outcome g (Some (Inr inp)) r (LookedUp (vlan_name (g_vlanID g)) (Inr vlan) # old @ tr)"
  using assms unfolding macvlan_created_def removes_old_def
  by (elim disjE exE conjE)
    (auto simp: macvlan_outcome_def macvlan_given_def removes_old_def cleans_up_def NewLink_def)

fun prepares :: "node_call \<Rightarrow> bool" where
  "prepares (SetUp l m e) = False"
| "prepares (Executed c r) = False"
| "prepares _ = True"

lemma macvlan_error_outcome:
  assumes "list_all prepares tr"
  shows "macvlan_outcome g body write_error tr"
proof -
  have "\<not> macvlan_given g body tr" using assms by (auto simp: macvlan_given_def)
  moreover have "SetUp m1 m2 e \<notin> set tr" for m1 m2 e using assms by (auto simp: list_all_iff)
  ultimately show ?thesis by (simp add: macvlan_outcome_def cleans_up_def)
qed

lemmas macvlan_created_after =
  macvlan_created_outcome [where old = "[LookedUp (macvlan_name (g_vlanID g)) (Inl e)]" for g e, simplified]
  macvlan_created_outcome [where old = "[LookedUp (macvlan_name (g_vlanID g)) (Inr l), DeletedLink l None]" for g l, simplified]

lemma emits_macvlan_handler: "emits (macvlan_handler (traced_node N) g body) (macvlan_outcome g body)"
  unfolding macvlan_handler_def macvlan_replace_def traced_node_simps
  by (intro node_rules emits_weaken [OF emits_macvlan_create])
    (auto intro!: macvlan_error_outcome macvlan_created_after simp: removes_old_def NewLink_def)

text \<open>
  C11: whatever the request and the node's answers, the handler replies, with 200 or 500, and never
  takes the daemon down. It replies 200, with the VLAN id of the daemon, exactly if the link reached the
  requested namespace: it found the VLAN interface, removed an old macvlan link if there was one, added the
  macvlan link of its id on the VLAN interface's index, set it up, listed the processes of the namespace in
  the request, and moved the link to the first one, or was told that it exists there. Otherwise it replies
  500 with the id 0, and if the link could not be set up its last call was to delete it.
\<close>

theorem macvlan_handler_calls:
  "case run_state (macvlan_handler (traced_node N) g body) (w, []) of (r, (w', tr)) \<Rightarrow> macvlan_outcome g body r tr"
  by (rule emits_run [OF emits_macvlan_handler])

lemma macvlan_outcome_200:
  assumes "macvlan_outcome g body r tr" and "rp_Status r = 200"
  shows "r = macvlan_ok g \<and>
    (\<exists>index m1. AddedLink (NewLink (macvlan_name (g_vlanID g)) index MacvlanLink) m1 None \<in> set tr)"
  using assms unfolding macvlan_outcome_def macvlan_given_def by (fastforce split: if_splits)

subsection \<open>The macvlan handler and the worker\<close>

lemma manager_main_id:
  assumes "run_state (manager_main N) w = (Done g, w')"
  shows "g_vlanID g = me_vlanID (g_envs g)" "getEnvs N = Done (g_envs g)"
  using assms
  by (auto simp: manager_main_def go_on_def run_simps split: option.splits prod.splits proc.splits)

lemma worker_after_200:
  assumes "rp_Body r = Encode mresp_enc \<lparr> mresp_Id = i \<rparr>"
  shows "worker_response W (Some \<lparr> hr_StatusCode = 200, hr_Body = Some (Inr (rp_Body r)) \<rparr>) = worker_configure W i"
  using assms mresp_codec.Unmarshal_Encode [of "\<lparr> mresp_Id = i \<rparr>"] by (simp add: worker_response_def)

lemma worker_configure_first_call:
  "\<exists>found rest. snd (snd (run_state (worker_configure (traced_node W) i) (u, []))) = LookedUp (macvlan_name i) found # rest"
proof -
  have "emits (worker_configure (traced_node W) i) (\<lambda>r tr. \<exists>found rest. tr = LookedUp (macvlan_name i) found # rest)"
    unfolding worker_configure_def worker_add_routes_def traced_node_simps Let_def worker_ipnet_traced
    by (intro node_rules emits_weaken [OF emits_worker_routes]) (auto simp: macvlan_name_def)
  from emits_run [OF this, of u] show ?thesis by (auto split: prod.splits)
qed

text \<open>
  C5: the manager and the worker agree on the interface. If a started daemon answers a request of its
  \<open>macvlan\<close> handler with 200, it has added a link, and the first thing the worker that gets this answer
  does, whatever its own network namespace holds, is to look up a link of exactly that name.
\<close>

theorem macvlan_handshake:
  assumes "run_state (manager_main M) w0 = (Done g, w1)"
    and "run_state (macvlan_handler (traced_node N) g body) (w, []) = (r, (w', tr))"
    and "rp_Status r = 200"
  shows "\<exists>link added found rest. AddedLink link added None \<in> set tr \<and>
    snd (snd (run_state (worker_response (traced_node W)
      (Some \<lparr> hr_StatusCode = rp_Status r, hr_Body = Some (Inr (rp_Body r)) \<rparr>)) (u, [])))
    = LookedUp (lk_Name link) found # rest"
proof -
  have "macvlan_outcome g body r tr"
    using emits_run [OF emits_macvlan_handler, where w = w] assms(2) by (metis (no_types, lifting) case_prod_conv)
  then obtain index added where r: "r = macvlan_ok g"
    and link: "AddedLink (NewLink (macvlan_name (g_vlanID g)) index MacvlanLink) added None \<in> set tr"
    using assms(3) by (auto dest: macvlan_outcome_200)
  have "worker_response (traced_node W) (Some \<lparr> hr_StatusCode = rp_Status r, hr_Body = Some (Inr (rp_Body r)) \<rparr>)
      = worker_configure (traced_node W) (g_vlanID g)"
    using worker_after_200 [of r "g_vlanID g"] assms(3) manager_main_id(1) [OF assms(1)] by (simp add: r macvlan_ok_def)
  moreover obtain found rest where "snd (snd (run_state (worker_configure (traced_node W) (g_vlanID g)) (u, [])))
      = LookedUp (macvlan_name (g_vlanID g)) found # rest"
    by (rule exE [OF worker_configure_first_call], erule exE)
  ultimately show ?thesis using link by (metis NewLink_def Link.select_convs(1))
qed

text \<open>A daemon on a willing node, and a request for the namespace 42.\<close>

definition sample_manager_env :: "string \<Rightarrow> string" where
  "sample_manager_env k = (if k = ''OWNER_NETWORK'' then ''net1'' else if k = ''VLAN_ID'' then ''7'' else [])"

definition manager_node :: "unit node" where
  "manager_node = willing_node sample_manager_env []"

definition sample_manager_envs :: ManagerEnvs where
  "sample_manager_envs = \<lparr> me_ownerNetName = ''net1'', me_namespace = [], me_vlanID = 7, me_lockName = [],
     me_Gateways = Some [] \<rparr>"

definition sample_globals :: globals where
  "sample_globals = \<lparr> g_vlanWatcher = Some (NewWatcher 7), g_gatewayLink = None, g_vlanID = 7,
     g_gatewayIPNets = [], g_leaderChanges = 0, g_lastLeaderChange = None, g_envs = sample_manager_envs \<rparr>"

definition sample_request :: "(go_error + string) option" where
  "sample_request = Some (Inr (Marshal mreq_enc \<lparr> mreq_NsID = 42 \<rparr>))"

lemma sample_getEnvs: "getEnvs manager_node = Done sample_manager_envs"
  by (simp add: getEnvs_def manager_node_def willing_node_def sample_manager_env_def sample_manager_envs_def
      manager_gateways_def strconv_ParseInt_def strconv_ParseUint_def is_digit_def digit_val_def Let_def
      MaxInt_def MinInt_def)

lemma sample_manager_main: "run_state (manager_main manager_node) () = (Done sample_globals, ())"
  by (simp add: manager_main_def sample_getEnvs run_simps createK8sClient_def testProcFS_def)
    (simp add: manager_node_def willing_node_def run_simps sample_globals_def sample_manager_envs_def)

lemma sample_macvlan:
  "\<exists>tr. run_state (macvlan_handler (traced_node manager_node) sample_globals sample_request) ((), [])
     = (macvlan_ok sample_globals, ((), tr))"
  using mreq_codec.Unmarshal_Marshal [of "\<lparr> mreq_NsID = 42 \<rparr>"]
  by (simp add: macvlan_handler_def macvlan_replace_def macvlan_create_def macvlan_move_def sample_request_def
      manager_node_def willing_node_def run_simps Let_def macvlan_ok_def)

theorem macvlan_handshake_witness:
  "\<exists>r tr link added found rest. run_state (macvlan_handler (traced_node manager_node) sample_globals sample_request) ((), [])
     = (r, ((), tr)) \<and> AddedLink link added None \<in> set tr \<and>
    snd (snd (run_state (worker_response (traced_node sample_node)
      (Some \<lparr> hr_StatusCode = rp_Status r, hr_Body = Some (Inr (rp_Body r)) \<rparr>)) ((), [])))
    = LookedUp (lk_Name link) found # rest"
  using sample_macvlan macvlan_handshake [OF sample_manager_main, of manager_node sample_request "()" _ "()" _ sample_node "()"]
  by (metis macvlan_replies(2))

end
