(* ===== verification/DaemonSetup.thy ===== *)
theory DaemonSetup
  imports ManagerFacts
begin

text \<open>
  The set-up of the manager daemon: its environment comes back from the daemon set, it waits for its
  interface, sets up the gateway, and hands the addresses over with the leadership; and what the
  routes of a gateway become, compared with the routes of a pool.
\<close>

subsection \<open>From the daemon set to the daemon\<close>

lemma no_gateways_text: "unmarshal_gateways [] = None"
  by code_simp

lemma manager_gateways_marshal:
  "wf_slice ascii_gateway gs \<Longrightarrow> manager_gateways (marshal_gateways gs) = Some gs"
  using unmarshal_marshal_gateways [of gs] no_gateways_text unfolding manager_gateways_def by (metis option.distinct(1))

lemma int64_in_range: "\<not> (MaxInt < sint (x :: int64) \<or> sint x < MinInt)"
  using sint_ge [of x] sint_lt [of x] by (simp add: MaxInt_def MinInt_def not_less)

text \<open>
  C6: what the operator wrote into a daemon set is what the daemon runs with. For every manager set
  with an owner, the container of its daemon set starts a daemon whose environment is read without an
  error and holds the owner's name, the VLAN id, the gateways with their routes, the namespace of the
  operator, and the name of the leader election's lease for the network.
\<close>

theorem manager_env_roundtrip:
  assumes "ms_OwnerNetworkName mgr \<noteq> []" and "wf_slice ascii_gateway (ms_Gateways mgr)"
  shows "\<exists>d c. daemonSetFromManager mgr e = Inr d \<and> c = hd (ps_Containers (ds_PodSpec d)) \<and>
    getEnvs (N\<lparr>n_Env := container_env c\<rparr>) = Done
      \<lparr> me_ownerNetName = ms_OwnerNetworkName mgr, me_namespace = env_NamespaceName e,
        me_vlanID = ms_VlanID mgr, me_lockName = LeaderElectionLeaseName @ ''-'' @ ms_OwnerNetworkName mgr,
        me_Gateways = ms_Gateways mgr \<rparr>"
proof -
  have "strconv_FormatInt i \<noteq> []" for i
    using fmt_nat_nonempty by (simp add: strconv_FormatInt_def)
  then show ?thesis
    using assms int64_in_range [of "ms_VlanID mgr"]
    by (simp add: daemonSetFromManager_def manager_container_def manager_env_def getEnvs_def container_env_def Let_def
        ParseInt_FormatInt_word manager_gateways_marshal)
qed

definition sample_gateways :: "Gateway slice" where
  "sample_gateways = Some [\<lparr> gw_Address = ''10.0.0.1/24'', gw_Routes = sample_routes \<rparr>]"

definition sample_manager_set :: ManagerSet where
  "sample_manager_set = \<lparr> ms_OwnerNetworkName = ''net1'', ms_VlanID = 7, ms_Gateways = sample_gateways,
     ms_ManagerAffinity = None, ms_Mappings = None \<rparr>"

lemma sample_gateway_slice_ascii: "wf_slice ascii_gateway sample_gateways"
  using sample_routes_ascii by (simp add: wf_slice_def sample_gateways_def ascii_gateway_def)

theorem manager_env_roundtrip_witness:
  "\<exists>d. daemonSetFromManager sample_manager_set sample_envs = Inr d \<and>
    (\<exists>envs. getEnvs (manager_node\<lparr>n_Env := container_env (hd (ps_Containers (ds_PodSpec d)))\<rparr>) = Done envs \<and>
       me_Gateways envs = sample_gateways)"
  using manager_env_roundtrip [of sample_manager_set sample_envs manager_node] sample_gateway_slice_ascii
  by (auto simp: sample_manager_set_def)

subsection \<open>Waiting for the interface\<close>

text \<open>The state after \<open>k\<close> sleeps of half a second.\<close>

fun slept :: "'w kube \<Rightarrow> nat \<Rightarrow> 'w \<Rightarrow> 'w" where
  "slept K 0 w = w"
| "slept K (Suc k) w = slept K k (snd (run_state (k_Sleep K (Second div 2)) w))"

lemma wait_up_run:
  assumes "vw_UP (seen (n + k))" and "\<And>i. i < k \<Longrightarrow> \<not> vw_UP (seen (n + i))" and "k < fuel"
  shows "run_state (wait_up fuel K seen n) w = (Done (Suc (n + k)), slept K k w)"
  using assms
proof (induction k arbitrary: n fuel w)
  case 0
  then show ?case by (cases fuel) (simp_all add: run_simps)
next
  case (Suc k)
  then obtain f where f: "fuel = Suc f" "k < f" by (cases fuel) auto
  have "\<not> vw_UP (seen n)" using Suc.prems(2) [of 0] by simp
  moreover have "run_state (wait_up f K seen (Suc n)) v = (Done (Suc (Suc n + k)), slept K k v)" for v
    using Suc.prems Suc.IH [of "Suc n" f v] f by force
  ultimately show ?case by (simp add: f(1) run_simps split: prod.split)
qed

lemma wait_up_blocks:
  assumes "\<And>i. i < fuel \<Longrightarrow> \<not> vw_UP (seen (n + i))"
  shows "fst (run_state (wait_up fuel K seen n) w) = Blocks"
  using assms
proof (induction fuel arbitrary: n w)
  case 0
  then show ?case by (simp add: run_simps)
next
  case (Suc f)
  then have "\<not> vw_UP (seen n)" by force
  moreover have "fst (run_state (wait_up f K seen (Suc n)) v) = Blocks" for v
    using Suc.prems Suc.IH [of "Suc n" v] by force
  ultimately show ?case by (simp add: run_simps split: prod.split)
qed

text \<open>
  C14: the set-up waits exactly as long as the interface is down. On a node that knows its name, with
  the interface up at the read number \<open>k\<close> of the watcher and down at all before, the set-up ends its poll
  after \<open>k\<close> sleeps and goes on with the gateway and what the next read sees of the watcher, and any larger
  number of allowed reads gives the same run. With the interface down at every allowed read it is still
  polling. (Without a watcher, which \<open>main\<close> always makes, it would crash at once.)
\<close>

theorem setup_waits_for_interface:
  assumes "run_state (n_Hostname N) w = (Inr h, w1)"
  shows "if g_vlanWatcher g = None then run_state (interfaceSetup fuel N K seen g) w = (Crashes nil_panic, w1)
    else (vw_UP (seen k) \<and> (\<forall>i < k. \<not> vw_UP (seen i)) \<and> k < fuel \<longrightarrow>
      run_state (interfaceSetup fuel N K seen g) w =
        run_state (setup_gateway N h (g\<lparr>g_vlanWatcher := Some (seen (Suc k))\<rparr>)) (slept K k w1)) \<and>
    ((\<forall>i < fuel. \<not> vw_UP (seen i)) \<longrightarrow> fst (run_state (interfaceSetup fuel N K seen g) w) = Blocks)"
  using assms wait_up_run [of seen 0 k fuel K w1] wait_up_blocks [of fuel seen 0 K w1]
  by (auto simp: interfaceSetup_def run_simps split: prod.split)

text \<open>The interface comes up at the third read.\<close>

definition sample_seen :: "nat \<Rightarrow> VlanWatcher" where
  "sample_seen i = (if 2 \<le> i then \<lparr> vw_ID = 7, vw_Exists = True, vw_UP = True, vw_Link = Some (NewLink ''vlan7'' 1 (VlanLink 7)) \<rparr>
     else NewWatcher 7)"

theorem setup_waits_for_interface_witness:
  "\<forall>K :: unit kube. run_state (interfaceSetup 5 manager_node K sample_seen sample_globals) ()
     = run_state (setup_gateway manager_node ''node1'' (sample_globals\<lparr>g_vlanWatcher := Some (sample_seen 3)\<rparr>)) ()"
proof
  fix K :: "unit kube"
  have "run_state (n_Hostname manager_node) () = (Inr ''node1'', ())"
    by (simp add: manager_node_def willing_node_def run_simps)
  then show "run_state (interfaceSetup 5 manager_node K sample_seen sample_globals) ()
     = run_state (setup_gateway manager_node ''node1'' (sample_globals\<lparr>g_vlanWatcher := Some (sample_seen 3)\<rparr>)) ()"
    using setup_waits_for_interface [where seen = sample_seen and k = 2 and fuel = 5 and K = K and g = sample_globals]
    by (simp add: sample_seen_def NewWatcher_def sample_globals_def)
qed

text \<open>
  C19: the set-up can read a link that is still nil. Let the loop of the watcher over the directory set up the
  interface of a daemon with gateways. Then there is a point among the stores that this loop makes to the
  fresh watcher at which a set-up that polls the flag and reads the link crashes: the flag is stored before
  the link, and the read of the attributes of the nil link panics.
\<close>

theorem setup_may_read_nil_link:
  assumes "run_state (watch_entries N (vlan_name i) ents) w = ((stores, found), w')" and "StoreUP True \<in> set stores"
    and "run_state (n_Hostname N') u = (Inr h, u')" and "g_vlanWatcher g \<noteq> None"
    and "elems (me_Gateways (g_envs g)) \<noteq> []"
  shows "\<exists>k. run_state (interfaceSetup (Suc fuel) N' K (\<lambda>n. watcher_after stores k (NewWatcher i)) g) u
    = (Crashes nil_panic, u')"
proof -
  obtain link rest where stores: "stores = StoreExists True # found_stores link @ rest"
    using watch_entries_first_stores [OF assms(1,2)] by blast
  let ?v = "watcher_after stores 2 (NewWatcher i)"
  have "vw_UP ?v" "vw_Link ?v = None"
    by (simp_all add: stores watcher_after_def found_stores_def NewWatcher_def numeral_2_eq_2)
  then show ?thesis
    using assms(3-5) by (intro exI [of _ 2]) (auto simp: interfaceSetup_def run_simps setup_gateway_def Let_def)
qed

text \<open>The watcher of a started daemon never returns: it goes on, or the daemon exits with 1.\<close>

lemma watcher_keeps_running:
  assumes "run_state (manager_main M) w0 = (Done g, w1)"
  shows "snd (fst (run_state (run_watcher fuel N K hostname g) w)) \<in> {Exits 1, Blocks}"
proof -
  have "g_vlanWatcher g = Some (NewWatcher (me_vlanID (g_envs g)))"
    using assms by (auto simp: manager_main_def go_on_def run_simps split: option.splits prod.splits proc.splits)
  then show ?thesis
    using Watch_ok [OF new_watcher_ok [of "me_vlanID (g_envs g)"], where fuel = fuel and N = N and K = K and
        downgrade = "downgradeStatus K (me_ownerNetName (g_envs g)) hostname" and w = w]
    by (auto simp: run_watcher_def run_simps split: prod.splits outcome.splits)
qed

subsection \<open>Leadership\<close>

text \<open>An answer that counts as success: no error, or that the address is there.\<close>

definition tolerated :: "go_error option \<Rightarrow> bool" where
  "tolerated e \<longleftrightarrow> (case e of None \<Rightarrow> True | Some err \<Rightarrow> strings_Contains (error_text err) ''file exists'')"

text \<open>One call \<open>c\<close> for each network, in order, all tolerated; and calls up to the first that is not.\<close>

definition each_done :: "(IPNet \<Rightarrow> go_error option \<Rightarrow> node_call) \<Rightarrow> IPNet list \<Rightarrow> node_call list \<Rightarrow> bool" where
  "each_done c nets tr \<longleftrightarrow> (\<exists>errs. length errs = length nets \<and> list_all tolerated errs \<and> tr = map2 c nets errs)"

definition stopped_at :: "(IPNet \<Rightarrow> go_error option \<Rightarrow> node_call) \<Rightarrow> IPNet list \<Rightarrow> node_call list \<Rightarrow> bool" where
  "stopped_at c nets tr \<longleftrightarrow>
     (\<exists>before a after pre err. nets = before @ a # after \<and> each_done c before pre \<and> \<not> tolerated (Some err) \<and>
        tr = pre @ [c a (Some err)])"

fun adds_route :: "node_call \<Rightarrow> bool" where
  "adds_route (AddedRoute r e) = True"
| "adds_route _ = False"

text \<open>
  A change of the leadership. It exits with 1 if the link is not found or a call for an address fails; it
  ends if all calls were made on the link that was found, one for each address, and then makes only calls
  of the given kind.
\<close>

definition moves ::
    "string \<Rightarrow> (Link \<Rightarrow> IPNet \<Rightarrow> go_error option \<Rightarrow> node_call) \<Rightarrow> IPNet list \<Rightarrow> (node_call \<Rightarrow> bool) \<Rightarrow>
     unit proc \<Rightarrow> node_call list \<Rightarrow> bool" where
  "moves name c nets then_calls r tr \<longleftrightarrow>
     (\<exists>e. r = Exits 1 \<and> tr = [LookedUp name (Inl e)]) \<or>
     (\<exists>link calls. r = Exits 1 \<and> tr = LookedUp name (Inr link) # calls \<and> stopped_at (c link) nets calls) \<or>
     (\<exists>link calls rest. r = Done () \<and> tr = LookedUp name (Inr link) # calls @ rest \<and> each_done (c link) nets calls \<and>
        list_all then_calls rest)"

definition address_calls ::
    "(IPNet \<Rightarrow> go_error option \<Rightarrow> node_call) \<Rightarrow> IPNet list \<Rightarrow> unit proc \<Rightarrow> node_call list \<Rightarrow> bool" where
  "address_calls c nets r tr \<longleftrightarrow> (r = Done () \<and> each_done c nets tr) \<or> (r = Exits 1 \<and> stopped_at c nets tr)"

lemma address_calls_Nil: "address_calls c [] (Done ()) []"
  by (simp add: address_calls_def each_done_def)

lemma each_done_Cons: "tolerated e \<Longrightarrow> each_done c as tr \<Longrightarrow> each_done c (a # as) (c a e # tr)"
  unfolding each_done_def by (metis (no_types, lifting) length_Cons list.pred_inject(2) list.simps(9) prod.case zip_Cons_Cons)

lemma address_calls_Cons:
  assumes "tolerated e" and "address_calls c as r tr"
  shows "address_calls c (a # as) r (c a e # tr)"
proof -
  have "stopped_at c (a # as) (c a e # tr)" if st: "stopped_at c as tr"
  proof -
    obtain before b after pre err where "as = before @ b # after" "each_done c before pre" "\<not> tolerated (Some err)"
        "tr = pre @ [c b (Some err)]"
      using st unfolding stopped_at_def by blast
    then show ?thesis
      unfolding stopped_at_def using each_done_Cons [OF assms(1)]
      by (intro exI [of _ "a # before"] exI [of _ b] exI [of _ after] exI [of _ "c a e # pre"] exI [of _ err]) simp
  qed
  then show ?thesis
    using assms each_done_Cons unfolding address_calls_def by blast
qed

lemma address_calls_stop:
  assumes "\<not> tolerated (Some e)"
  shows "address_calls c (a # as) (Exits 1) [c a (Some e)]"
  using assms unfolding address_calls_def stopped_at_def
  by (intro disjI2 conjI exI [of _ "[]"] exI [of _ a] exI [of _ as] exI [of _ e]) (simp_all add: each_done_def)

lemma tolerated_simps: "tolerated None" "tolerated (Some e) \<longleftrightarrow> isFileExistsErr e"
  by (simp_all add: tolerated_def isFileExistsErr_def)

lemmas address_rules = address_calls_Nil address_calls_Cons address_calls_stop

lemma emits_add_addresses: "emits (add_addresses (traced_node N) link as) (address_calls (AddedAddr link) as)"
proof (induction as)
  case (Cons a as)
  then show ?case
    unfolding add_addresses.simps traced_node_simps
    by (intro node_rules emits_weaken [OF Cons]) (auto simp: tolerated_simps intro: address_rules)
qed (simp add: emits_ret address_rules)

lemma emits_remove_addresses:
  "emits (remove_addresses (traced_node N) link as) (address_calls (DeletedAddr link) as)"
proof (induction as)
  case (Cons a as)
  then show ?case
    unfolding remove_addresses.simps traced_node_simps
    by (intro node_rules emits_weaken [OF Cons]) (auto simp: tolerated_simps intro: address_rules)
qed (simp add: emits_ret address_rules)

lemma emits_setup_routes:
  "emits (setup_routes_loop (traced_node N) (Some link) rs) (\<lambda>r tr. (\<exists>x. r = Done x) \<and> list_all adds_route tr)"
proof (induction rs)
  case (Cons r rs)
  then show ?case
    unfolding traced_node_simps
    by (cases r; simp only: setup_routes_loop.simps traced_node_simps)
      (intro node_rules emits_weaken [OF Cons]; auto)
qed (simp add: emits_ret)

lemma movesI:
  "moves name c nets P (Exits 1) [LookedUp name (Inl e)]"
  "address_calls (c link) nets (Exits n) tr \<Longrightarrow> moves name c nets P (Exits n) (LookedUp name (Inr link) # tr)"
  "address_calls (c link) nets (Done ()) tr \<Longrightarrow> list_all P rest \<Longrightarrow>
     moves name c nets P (Done ()) (LookedUp name (Inr link) # tr @ rest)"
  by (auto simp: moves_def address_calls_def)

lemma emits_addIPAddress:
  assumes "g_gatewayLink g = Some gw"
  shows "emits (addIPAddress (traced_node N) g)
    (moves (gateway_name (me_vlanID (g_envs g))) AddedAddr (g_gatewayIPNets g) adds_route)"
proof -
  have routes: "emits (setupRoutes (traced_node N) g) (\<lambda>r tr. (\<exists>x. r = Done x) \<and> list_all adds_route tr)"
    using emits_setup_routes by (simp add: setupRoutes_def assms)
  have no_other: "\<not> address_calls c nets (Crashes p) tr" "\<not> address_calls c nets Blocks tr" for c nets p tr
    by (simp_all add: address_calls_def)
  show ?thesis
    unfolding addIPAddress_def traced_node_simps
    by (intro node_rules emits_go_on [OF emits_add_addresses] emits_go_on [OF routes])
      (auto intro: movesI simp: no_other)
qed

lemma emits_removeIPAddress:
  "emits (removeIPAddress (traced_node N) g)
    (moves (gateway_name (me_vlanID (g_envs g))) DeletedAddr (g_gatewayIPNets g) (\<lambda>_. False))"
proof -
  have "moves name c nets P r (LookedUp name (Inr link) # tr)" if "address_calls (c link) nets r tr" for name c nets P r link tr
    using that movesI(2) movesI(3) [of c link nets tr P "[]" name] by (cases r) (auto simp: address_calls_def)
  then show ?thesis
    unfolding removeIPAddress_def traced_node_simps
    by (intro node_rules emits_weaken [OF emits_remove_addresses]) (auto intro: movesI(1))
qed

lemma setup_gateway_state:
  assumes "run_state (setup_gateway N h g0) w = (Done g, w')" and "elems (me_Gateways (g_envs g0)) \<noteq> []"
  shows "g_gatewayIPNets g = map gateway_ipnet (elems (me_Gateways (g_envs g0)))" and "\<exists>gw. g_gatewayLink g = Some gw"
    and "g_envs g = g_envs g0"
  using assms
  by (auto simp: setup_gateway_def Let_def run_simps split: option.splits prod.splits proc.splits if_splits)

lemma gateway_ipnet_text:
  "n \<le> 32 \<Longrightarrow> gateway_ipnet \<lparr> gw_Address = ipv4_text a b c d @ CHR ''/'' # fmt_nat n, gw_Routes = rs \<rparr>
     = \<lparr> in_IP = v4_in_v6_prefix @ [a, b, c, d], in_Mask = CIDRMask (int n) 32 \<rparr>"
  using strings_Cut_char_append [OF slash_notin_ipv4_text, of a b c d "fmt_nat n"]
  by (simp add: gateway_ipnet_def mask_text ParseIP_ipv4_text)

text \<open>A gateway with the address \<open>a.b.c.d/n\<close>, and the address with its mask.\<close>

fun gateway_at :: "octet \<times> octet \<times> octet \<times> octet \<times> nat \<times> Route slice \<Rightarrow> Gateway" where
  "gateway_at (a, b, c, d, n, rs) = \<lparr> gw_Address = ipv4_text a b c d @ CHR ''/'' # fmt_nat n, gw_Routes = rs \<rparr>"

fun address_at :: "octet \<times> octet \<times> octet \<times> octet \<times> nat \<times> Route slice \<Rightarrow> IPNet" where
  "address_at (a, b, c, d, n, rs) = \<lparr> in_IP = v4_in_v6_prefix @ [a, b, c, d], in_Mask = CIDRMask (int n) 32 \<rparr>"

text \<open>
  C12: leadership moves exactly the gateways' addresses. After a set-up for gateways \<open>a.b.c.d/n\<close>, the
  step that makes the daemon the leader looks up the gateway link of its VLAN and adds to this link just those
  addresses with their masks, one call each, in order. It ends when every call succeeded or was told that
  the address exists, after which it only adds routes; and it exits with 1 exactly if the link is not
  found or a call for an address fails otherwise, which is then the last call. The step that ends the
  leadership does the same with removals, and adds no routes.
\<close>

theorem leadership_moves_addresses:
  assumes "run_state (setup_gateway M h g0) w0 = (Done g, w1)"
    and "elems (me_Gateways (g_envs g0)) = map gateway_at specs" and "specs \<noteq> []"
    and "list_all (\<lambda>(a, b, c, d, n, rs). n \<le> 32) specs"
  shows "(case run_state (addIPAddress (traced_node N) g) (w, []) of (r, (w', tr)) \<Rightarrow>
      moves (gateway_name (me_vlanID (g_envs g0))) AddedAddr (map address_at specs) adds_route r tr) \<and>
    (case run_state (removeIPAddress (traced_node N) g) (w, []) of (r, (w', tr)) \<Rightarrow>
      moves (gateway_name (me_vlanID (g_envs g0))) DeletedAddr (map address_at specs) (\<lambda>_. False) r tr)"
proof -
  have gateways: "elems (me_Gateways (g_envs g0)) \<noteq> []" using assms(2,3) by simp
  have "gateway_ipnet (gateway_at s) = address_at s" if "s \<in> set specs" for s
    using that assms(4) gateway_ipnet_text by (cases s) (auto simp: list_all_iff)
  then have nets: "g_gatewayIPNets g = map address_at specs"
    using setup_gateway_state(1) [OF assms(1) gateways] by (simp add: assms(2))
  obtain gw where gw: "g_gatewayLink g = Some gw"
    using setup_gateway_state(2) [OF assms(1) gateways] by blast
  show ?thesis
    using emits_run [OF emits_addIPAddress [OF gw, of N], of w]
      emits_run [OF emits_removeIPAddress [where N = N and g = g], of w]
    by (simp only: nets setup_gateway_state(3) [OF assms(1) gateways])
qed

definition sample_leader_globals :: globals where
  "sample_leader_globals = sample_globals
     \<lparr> g_vlanWatcher := Some ((NewWatcher 7)\<lparr>vw_Link := Some (NewLink ''vlan7'' 1 (VlanLink 7))\<rparr>),
       g_envs := sample_manager_envs\<lparr>me_Gateways := Some [gateway_at (10, 0, 0, 1, 24, None)]\<rparr> \<rparr>"

lemma sample_setup:
  "\<exists>g. run_state (setup_gateway manager_node ''node1'' sample_leader_globals) () = (Done g, ())"
  by (simp add: setup_gateway_def make_gateway_def sample_leader_globals_def manager_node_def willing_node_def
      run_simps Let_def)

theorem leadership_moves_addresses_witness:
  "\<exists>g. run_state (setup_gateway manager_node ''node1'' sample_leader_globals) () = (Done g, ()) \<and>
    (case run_state (addIPAddress (traced_node manager_node) g) ((), []) of (r, (w', tr)) \<Rightarrow>
       moves (gateway_name 7) AddedAddr [address_at (10, 0, 0, 1, 24, None)] adds_route r tr)"
proof -
  obtain g where "run_state (setup_gateway manager_node ''node1'' sample_leader_globals) () = (Done g, ())"
    using sample_setup by blast
  with leadership_moves_addresses [OF this, of "[(10, 0, 0, 1, 24, None)]" manager_node "()"]
  show ?thesis by (auto simp: sample_leader_globals_def sample_manager_envs_def)
qed

text \<open>The watcher of the sample daemon finds its interface; its set-up reads between the stores.\<close>

theorem setup_may_read_nil_link_witness:
  "\<exists>stores. fst (run_state (watch_entries manager_node (vlan_name 7) [vlan_name 7]) ()) = (stores, True) \<and>
     (\<forall>K :: unit kube. \<exists>k. fst (run_state (interfaceSetup 1 manager_node K
        (\<lambda>n. watcher_after stores k (NewWatcher 7)) sample_leader_globals) ()) = Crashes nil_panic)"
proof -
  let ?l = "(NewLink (vlan_name 7) 1 MacvlanLink)\<lparr>lk_Index := 7\<rparr>"
  let ?stores = "StoreExists True # found_stores ?l @ []"
  have run: "run_state (watch_entries manager_node (vlan_name 7) [vlan_name 7]) () = ((?stores, True), ())"
    by (simp add: manager_node_def willing_node_def run_simps)
  then have 1: "fst (run_state (watch_entries manager_node (vlan_name 7) [vlan_name 7]) ()) = (?stores, True)" by simp
  have host: "run_state (n_Hostname manager_node) () = (Inr ''node1'', ())"
    by (simp add: manager_node_def willing_node_def run_simps)
  have "\<exists>k. run_state (interfaceSetup (Suc 0) manager_node K (\<lambda>n. watcher_after ?stores k (NewWatcher 7))
      sample_leader_globals) () = (Crashes nil_panic, ())" for K :: "unit kube"
    by (rule setup_may_read_nil_link [OF run _ host])
      (simp_all add: found_stores_def sample_leader_globals_def)
  then have "\<forall>K :: unit kube. \<exists>k. fst (run_state (interfaceSetup 1 manager_node K
      (\<lambda>n. watcher_after ?stores k (NewWatcher 7)) sample_leader_globals) ()) = Crashes nil_panic"
    unfolding One_nat_def by (metis fst_conv)
  with 1 show ?thesis by blast
qed

subsection \<open>Routes of gateways and routes of pools\<close>

definition route_to :: "octet \<Rightarrow> octet \<Rightarrow> octet \<Rightarrow> octet \<Rightarrow> nat \<Rightarrow> string option \<Rightarrow> string \<Rightarrow> Route" where
  "route_to a b c d n via src = \<lparr> rt_Destination = ipv4_text a b c d @ CHR ''/'' # fmt_nat n, rt_Via = via,
     rt_Source = src, rt_ScopeLink = False \<rparr>"

text \<open>
  C18: the daemon rejects a next hop that the resource's documentation asks for. For a route whose
  next hop is an IPv4 address, the worker of a pool sets exactly this address as its gateway; on a
  gateway the same route is an invalid network, the set-up of the routes makes no call for it and
  ends with that error, whatever routes come after it.
\<close>

theorem gateway_via_address_rejected:
  assumes "n \<le> 32"
  shows "kr_Gw (worker_route index src (route_to a b c d n (Some (ipv4_text e f g h)) s))
      = v4_in_v6_prefix @ [e, f, g, h] \<and>
    run_state (setup_routes_loop N link ((address, route_to a b c d n (Some (ipv4_text e f g h)) s) # rs)) w
      = (Done (Some (cidr_error (ipv4_text e f g h))), w)"
proof -
  have via: "ParseCIDR (ipv4_text e f g h) = None"
    by (rule ParseCIDR_no_slash [OF slash_notin_ipv4_text])
  have "gateway_route i address (route_to a b c d n (Some (ipv4_text e f g h)) s)
      = Inl (cidr_error (ipv4_text e f g h))" for i
    by (simp add: gateway_route_def route_to_def ParseCIDR_text [OF assms] via)
  then show ?thesis
    by (cases link) (simp_all add: run_simps worker_route_def route_to_def ParseIP_ipv4_text Let_def
        split: prod.split)
qed

theorem gateway_via_address_rejected_witness:
  "run_state (setup_routes_loop manager_node None
     [(''10.0.0.1/24'', route_to 192 168 0 0 16 (Some (ipv4_text 10 0 0 1)) ''self'')]) ()
     = (Done (Some (cidr_error (ipv4_text 10 0 0 1))), ())"
  using gateway_via_address_rejected [of 16 7 "[]" 192 168 0 0 10 0 0 1 "''self''" manager_node None
      "''10.0.0.1/24''" "[]" "()"] by simp

text \<open>
  With a prefix length on the next hop and on the gateway's address, the route is set, but not
  as written: its gateway is the number of the network the next hop is in, not the next hop, and a
  source \<open>self\<close> leaves the source empty.
\<close>

theorem gateway_route_as_set:
  assumes "n \<le> 32" and "m \<le> 32"
  shows "gateway_route index (ipv4_text x y z t @ CHR ''/'' # fmt_nat k)
      (route_to a b c d n (Some (ipv4_text e f g h @ CHR ''/'' # fmt_nat m)) ''self'') =
    Inr \<lparr> kr_LinkIndex = index,
      kr_Dst = Some \<lparr> in_IP = and_bytes [a, b, c, d] (CIDRMask (int n) 32), in_Mask = CIDRMask (int n) 32 \<rparr>,
      kr_Gw = and_bytes [e, f, g, h] (CIDRMask (int m) 32), kr_Src = [], kr_ScopeLink = False \<rparr>"
  by (simp add: gateway_route_def route_to_def ParseCIDR_text [OF assms(1)] ParseCIDR_text [OF assms(2)]
      ParseIP_with_length zero_route_on_def Let_def)

theorem gateway_route_as_set_witness:
  "gateway_route 7 (ipv4_text 10 0 0 1 @ CHR ''/'' # fmt_nat 24)
      (route_to 192 168 0 0 16 (Some (ipv4_text 10 0 0 254 @ CHR ''/'' # fmt_nat 24)) ''self'') =
    Inr \<lparr> kr_LinkIndex = 7, kr_Dst = Some \<lparr> in_IP = [192, 168, 0, 0], in_Mask = [255, 255, 0, 0] \<rparr>,
      kr_Gw = [10, 0, 0, 0], kr_Src = [], kr_ScopeLink = False \<rparr>"
proof -
  have "and_bytes [192, 168, 0, 0] (CIDRMask (int 16) 32) = [192, 168, 0, 0]"
    "CIDRMask (int 16) 32 = [255, 255, 0, 0]" "and_bytes [10, 0, 0, 254] (CIDRMask (int 24) 32) = [10, 0, 0, 0]"
    by code_simp+
  then show ?thesis
    using gateway_route_as_set [of 16 24 7 10 0 0 1 24 192 168 0 0 10 0 0 254] by simp
qed

text \<open>A destination without a length, which the documentation counts as 32, is rejected, too.\<close>

lemma gateway_destination_needs_length:
  "gateway_route index address \<lparr> rt_Destination = ipv4_text a b c d, rt_Via = via, rt_Source = src, rt_ScopeLink = sl \<rparr>
     = Inl (cidr_error (ipv4_text a b c d))"
  by (simp add: gateway_route_def ParseCIDR_no_slash [OF slash_notin_ipv4_text])

end
