(* ===== verification/Collector.thy ===== *)
theory Collector
  imports ManagerFacts
begin

text \<open>
  The metrics of the manager daemon (\<open>cmd/manager/collector.go\<close>). The Prometheus library is a
  parameter: \<open>accepts d vs\<close> says whether \<open>MustNewConstMetric\<close> makes a metric of the
  description \<open>d\<close> with the label values \<open>vs\<close>, or panics. A float is kept as what it is converted from.
\<close>

subsection \<open>Data\<close>

record Desc =
  dc_FqName :: string
  dc_Help :: string
  dc_VariableLabels :: "string list"
  dc_ConstLabels :: "string gomap"

datatype ValueType = CounterValue | GaugeValue

text \<open>A float made from an integer, or from a duration in seconds.\<close>

datatype float64 = Float64 int | Seconds int

record Metric =
  mt_Desc :: Desc
  mt_Type :: ValueType
  mt_Value :: float64
  mt_Labels :: "string list"

record ManagerCollector =
  mc_LeaderChangeCnt :: Desc
  mc_SecsSinceLeaderChange :: Desc
  mc_BytesIn :: Desc
  mc_BytesOut :: Desc
  mc_PacketsIn :: Desc
  mc_PacketsOut :: Desc
  mc_InterfaceState :: Desc
  mc_Namespace :: string

definition NewDesc :: "string \<Rightarrow> string \<Rightarrow> string list \<Rightarrow> string gomap \<Rightarrow> Desc" where
  "NewDesc name help labels consts =
     \<lparr> dc_FqName = name, dc_Help = help, dc_VariableLabels = labels, dc_ConstLabels = consts \<rparr>"

definition dev_labels :: "string list" where
  "dev_labels = [''interface'', ''type'', ''id'']"

text \<open>The collector that \<open>NewManagerCollector\<close> registers; the id is not used there.\<close>

definition NewManagerCollector :: "string \<Rightarrow> int64 \<Rightarrow> ManagerCollector" where
  "NewManagerCollector network i =
     (let ns = ''vlanman'' in
      \<lparr> mc_LeaderChangeCnt = NewDesc (ns @ ''_leader_change_cnt'')
          ''Number of times the leader election changed leaders'' [] [(''network'', network)],
        mc_SecsSinceLeaderChange = NewDesc (ns @ ''_seconds_since_leader_change_cnt'')
          ''Number of seconds since the last leader change'' [] [(''network'', network)],
        mc_BytesIn = NewDesc (ns @ ''_bytes_in'') ''Number of bytes received on the interface'' dev_labels [],
        mc_BytesOut = NewDesc (ns @ ''_bytes_out'') ''Number of bytes sent on the interface'' dev_labels [],
        mc_PacketsIn = NewDesc (ns @ ''_packets_in'') ''Number of packets received on the interface'' dev_labels [],
        mc_PacketsOut = NewDesc (ns @ ''_packets_out'') ''Number of packets sent on the interface'' dev_labels [],
        mc_InterfaceState = NewDesc (ns @ ''_interface_state'') (''State of the interface, value of 1 means ''
          @ quote @ ''up'' @ quote) [''interface'', ''state'', ''type'', ''id''] [],
        mc_Namespace = ns \<rparr>)"

definition Describe :: "ManagerCollector \<Rightarrow> Desc list" where
  "Describe mc =
     [mc_LeaderChangeCnt mc, mc_SecsSinceLeaderChange mc, mc_BytesIn mc, mc_BytesOut mc, mc_PacketsIn mc,
      mc_PacketsOut mc, mc_InterfaceState mc]"

subsection \<open>Collecting\<close>

text \<open>Metrics made and sent one after the other; the first that is not accepted panics.\<close>

fun send_metrics :: "(Desc \<Rightarrow> string list \<Rightarrow> bool) \<Rightarrow> Metric list \<Rightarrow> Metric list \<times> unit proc" where
  "send_metrics accepts [] = ([], Done ())"
| "send_metrics accepts (m # ms) =
     (if accepts (mt_Desc m) (mt_Labels m)
      then (let (sent, r) = send_metrics accepts ms in (m # sent, r))
      else ([], Crashes ''MustNewConstMetric''))"

definition const_metric :: "Desc \<Rightarrow> ValueType \<Rightarrow> float64 \<Rightarrow> string list \<Rightarrow> Metric" where
  "const_metric d t v ls = \<lparr> mt_Desc = d, mt_Type = t, mt_Value = v, mt_Labels = ls \<rparr>"

definition dev_metrics :: "ManagerCollector \<Rightarrow> string \<Rightarrow> NetDevLine \<Rightarrow> Link \<Rightarrow> Metric list" where
  "dev_metrics mc vid dev link =
     (let labels = [nd_Name dev, link_type (lk_Kind link), vid] in
      [const_metric (mc_BytesIn mc) GaugeValue (Float64 (uint (nd_RxBytes dev))) labels,
       const_metric (mc_BytesOut mc) GaugeValue (Float64 (uint (nd_TxBytes dev))) labels,
       const_metric (mc_PacketsIn mc) GaugeValue (Float64 (uint (nd_RxPackets dev))) labels,
       const_metric (mc_PacketsOut mc) GaugeValue (Float64 (uint (nd_TxPackets dev))) labels,
       const_metric (mc_InterfaceState mc) GaugeValue
         (Float64 (if lk_OperState link = ''up'' then 1 else 0))
         [nd_Name dev, lk_OperState link, link_type (lk_Kind link), vid]])"

text \<open>A device whose link is not found is skipped.\<close>

definition collectDevInfo ::
    "'w node \<Rightarrow> (Desc \<Rightarrow> string list \<Rightarrow> bool) \<Rightarrow> ManagerCollector \<Rightarrow> NetDevLine \<Rightarrow> ('w, Metric list \<times> unit proc) state" where
  "collectDevInfo N accepts mc dev = do {
     r \<leftarrow> n_LinkByName N (nd_Name dev);
     ret (case r of
            Inl err \<Rightarrow> ([], Done ())
          | Inr link \<Rightarrow> send_metrics accepts (dev_metrics mc (n_Env N ''VLAN_ID'') dev link))
   }"

text \<open>What is sent first is kept; a panic ends it.\<close>

definition send_then :: "Metric list \<times> unit proc \<Rightarrow> ('w, Metric list \<times> unit proc) state \<Rightarrow> ('w, Metric list \<times> unit proc) state" where
  "send_then first k =
     (case first of
        (sent, Done u) \<Rightarrow> do { (more, r) \<leftarrow> k; ret (sent @ more, r) }
      | (sent, r) \<Rightarrow> ret (sent, r))"

fun collect_devs ::
    "'w node \<Rightarrow> (Desc \<Rightarrow> string list \<Rightarrow> bool) \<Rightarrow> ManagerCollector \<Rightarrow> NetDevLine list \<Rightarrow> ('w, Metric list \<times> unit proc) state" where
  "collect_devs N accepts mc [] = ret ([], Done ())"
| "collect_devs N accepts mc (dev # devs) = do {
     first \<leftarrow> collectDevInfo N accepts mc dev;
     send_then first (collect_devs N accepts mc devs)
   }"

definition collect_net ::
    "'w node \<Rightarrow> (Desc \<Rightarrow> string list \<Rightarrow> bool) \<Rightarrow> ManagerCollector \<Rightarrow> ('w, Metric list \<times> unit proc) state" where
  "collect_net N accepts mc = do {
     err \<leftarrow> n_NewProcFS N;
     (if err \<noteq> None then ret ([], Done ())
      else do {
        nd \<leftarrow> n_NetDev N;
        (case nd of Inl err2 \<Rightarrow> ret ([], Done ()) | Inr devs \<Rightarrow> collect_devs N accepts mc devs)
      })
   }"

text \<open>The time since the last change saturates as \<open>time.Since\<close> does.\<close>

definition since :: "int \<Rightarrow> int \<Rightarrow> int" where
  "since now t = max MinInt (min MaxInt (now - t))"

definition Collect ::
    "'w node \<Rightarrow> (Desc \<Rightarrow> string list \<Rightarrow> bool) \<Rightarrow> globals \<Rightarrow> ManagerCollector \<Rightarrow> ('w, Metric list \<times> unit proc) state" where
  "Collect N accepts g mc =
     (let (cnt, secs) = getValues g in
      send_then (send_metrics accepts [const_metric (mc_LeaderChangeCnt mc) CounterValue (Float64 cnt) []])
        (case secs of
           None \<Rightarrow> collect_net N accepts mc
         | Some t \<Rightarrow> do {
             now \<leftarrow> n_Time N;
             send_then (send_metrics accepts
                 [const_metric (mc_SecsSinceLeaderChange mc) GaugeValue (Seconds (since now t)) []])
               (collect_net N accepts mc)
           }))"

subsection \<open>What is collected\<close>

text \<open>A run that makes metrics of the collector only, and does not panic.\<close>

definition good_metric :: "ManagerCollector \<Rightarrow> (string \<Rightarrow> bool) \<Rightarrow> Metric \<Rightarrow> bool" where
  "good_metric mc valid m \<longleftrightarrow>
     mt_Desc m \<in> set (Describe mc) \<and> length (mt_Labels m) = length (dc_VariableLabels (mt_Desc m)) \<and>
     list_all valid (mt_Labels m)"

text \<open>The identity of a metric for the registry: the name of its description and its label values.\<close>

definition identity :: "Metric \<Rightarrow> string \<times> string list" where
  "identity m = (dc_FqName (mt_Desc m), mt_Labels m)"

definition collects :: "ManagerCollector \<Rightarrow> (string \<Rightarrow> bool) \<Rightarrow> string set \<Rightarrow> Metric list \<times> unit proc \<Rightarrow> bool" where
  "collects mc valid names r \<longleftrightarrow> snd r = Done () \<and> list_all (good_metric mc valid) (fst r) \<and>
     distinct (map identity (fst r)) \<and>
     (\<forall>m \<in> set (fst r). dc_VariableLabels (mt_Desc m) \<noteq> [] \<and> hd (mt_Labels m) \<in> names)"

lemma send_metrics_good:
  assumes "\<And>d ls. length ls = length (dc_VariableLabels d) \<and> list_all valid ls \<Longrightarrow> accepts d ls"
    and "list_all (good_metric mc valid) ms"
  shows "send_metrics accepts ms = (ms, Done ())"
  using assms(2) by (induction ms) (auto simp: good_metric_def assms(1))

text \<open>The documented behaviour of the node: its texts are valid, the devices have different names.\<close>

definition orderly :: "'w node \<Rightarrow> (string \<Rightarrow> bool) \<Rightarrow> bool" where
  "orderly N valid \<longleftrightarrow> valid (n_Env N ''VLAN_ID'') \<and>
     (\<forall>w w' devs. run_state (n_NetDev N) w = (Inr devs, w') \<longrightarrow>
        distinct (map nd_Name devs) \<and> (\<forall>d \<in> set devs. valid (nd_Name d))) \<and>
     (\<forall>s w w' link. run_state (n_LinkByName N s) w = (Inr link, w') \<longrightarrow>
        valid (link_type (lk_Kind link)) \<and> valid (lk_OperState link))"

lemma dev_metrics_collected:
  assumes "mc = NewManagerCollector net i"
    and "valid vid" "valid (nd_Name dev)" "valid (link_type (lk_Kind link))" "valid (lk_OperState link)"
  shows "collects mc valid {nd_Name dev} (dev_metrics mc vid dev link, Done ())"
  using assms(2-)
  by (simp add: collects_def dev_metrics_def good_metric_def const_metric_def Describe_def identity_def
      assms(1) NewManagerCollector_def NewDesc_def dev_labels_def Let_def)

lemma collects_nil: "collects mc valid {} ([], Done ())"
  by (simp add: collects_def)

lemma collects_append:
  assumes "collects mc valid A r1" and "collects mc valid B r2" and "A \<inter> B = {}"
  shows "collects mc valid (A \<union> B) (fst r1 @ fst r2, snd r2)"
proof -
  have "identity m1 \<noteq> identity m2" if "m1 \<in> set (fst r1)" "m2 \<in> set (fst r2)" for m1 m2
    using that assms unfolding collects_def identity_def by (metis IntI empty_iff prod.inject)
  then have "identity ` set (fst r1) \<inter> identity ` set (fst r2) = {}" by (auto; metis)
  with assms(1,2) show ?thesis by (auto simp: collects_def)
qed

lemma collects_mono: "collects mc valid A r \<Longrightarrow> A \<subseteq> B \<Longrightarrow> collects mc valid B r"
  unfolding collects_def by blast

lemma run_send_then:
  "snd first = Done () \<Longrightarrow> fst (run_state (send_then first k) w)
     = (fst first @ fst (fst (run_state k w)), snd (fst (run_state k w)))"
  by (cases first) (auto simp: send_then_def run_simps split: prod.split)

lemma collect_dev_collects:
  assumes "mc = NewManagerCollector net i" and "orderly N valid" and "valid (nd_Name dev)"
    and "\<And>d ls. length ls = length (dc_VariableLabels d) \<and> list_all valid ls \<Longrightarrow> accepts d ls"
  shows "collects mc valid {nd_Name dev} (fst (run_state (collectDevInfo N accepts mc dev) w))"
proof (cases "run_state (n_LinkByName N (nd_Name dev)) w")
  case (Pair r w')
  show ?thesis
  proof (cases r)
    case (Inl e)
    with Pair show ?thesis by (simp add: collectDevInfo_def run_simps collects_def)
  next
    case (Inr link)
    with Pair assms(2) have "valid (link_type (lk_Kind link))" "valid (lk_OperState link)" "valid (n_Env N ''VLAN_ID'')"
      unfolding orderly_def by blast+
    then have "collects mc valid {nd_Name dev} (dev_metrics mc (n_Env N ''VLAN_ID'') dev link, Done ())"
      using assms(1,3) by (intro dev_metrics_collected)
    moreover from this have "send_metrics accepts (dev_metrics mc (n_Env N ''VLAN_ID'') dev link)
        = (dev_metrics mc (n_Env N ''VLAN_ID'') dev link, Done ())"
      using assms(4) by (intro send_metrics_good [where mc = mc and valid = valid]) (auto simp: collects_def)
    ultimately show ?thesis using Pair Inr by (simp add: collectDevInfo_def run_simps)
  qed
qed

lemma collect_devs_collects:
  assumes "mc = NewManagerCollector net i" and "orderly N valid"
    and "\<And>d ls. length ls = length (dc_VariableLabels d) \<and> list_all valid ls \<Longrightarrow> accepts d ls"
    and "distinct (map nd_Name devs)" and "\<forall>d \<in> set devs. valid (nd_Name d)"
  shows "collects mc valid (set (map nd_Name devs)) (fst (run_state (collect_devs N accepts mc devs) w))"
  using assms(4,5)
proof (induction devs arbitrary: w)
  case Nil
  then show ?case by (simp add: run_simps collects_nil)
next
  case (Cons dev devs)
  let ?first = "run_state (collectDevInfo N accepts mc dev) w"
  have first: "collects mc valid {nd_Name dev} (fst ?first)"
    using collect_dev_collects [OF assms(1,2) _ assms(3)] Cons.prems(2) by simp
  have rest: "collects mc valid (set (map nd_Name devs)) (fst (run_state (collect_devs N accepts mc devs) v))" for v
    using Cons by simp
  have "{nd_Name dev} \<inter> set (map nd_Name devs) = {}" using Cons.prems(1) by auto
  from collects_append [OF first rest this]
  have "collects mc valid (set (map nd_Name (dev # devs)))
      (fst (run_state (send_then (fst ?first) (collect_devs N accepts mc devs)) (snd ?first)))"
    using first by (subst run_send_then) (auto simp: collects_def)
  then show ?case by (simp add: run_simps split_beta)
qed

lemma collect_net_collects:
  assumes "mc = NewManagerCollector net i" and "orderly N valid"
    and "\<And>d ls. length ls = length (dc_VariableLabels d) \<and> list_all valid ls \<Longrightarrow> accepts d ls"
  shows "collects mc valid UNIV (fst (run_state (collect_net N accepts mc) w))"
proof -
  have devs: "collects mc valid UNIV (fst (run_state (collect_devs N accepts mc devs) v'))"
    if "run_state (n_NetDev N) v = (Inr devs, v')" for v v' devs
  proof -
    have "distinct (map nd_Name devs) \<and> (\<forall>d \<in> set devs. valid (nd_Name d))"
      using that assms(2) unfolding orderly_def by blast
    then show ?thesis
      using collect_devs_collects [OF assms(1,2), of accepts devs v'] assms(3) collects_mono by blast
  qed
  have nil: "collects mc valid UNIV ([], Done ())"
    by (rule collects_mono [OF collects_nil]) simp
  show ?thesis
    using devs nil by (auto simp: collect_net_def run_simps split: prod.split sum.split)
qed

text \<open>
  C15: a scrape never takes the daemon down and never gives the registry two metrics with one
  identity. If the library accepts a metric whenever it has as many valid label values as its
  description has variable labels, and the node's device names are valid and different, then whatever
  calls fail, \<open>Collect\<close> ends, begins with the count of leader changes, makes only metrics of
  descriptions that \<open>Describe\<close> announced, and no two of them agree in name and label values.
\<close>

theorem collect_sound:
  assumes "\<forall>d ls. length ls = length (dc_VariableLabels d) \<and> list_all valid ls \<longrightarrow> accepts d ls"
    and "orderly N valid"
  shows "case run_state (Collect N accepts g (NewManagerCollector net i)) w of ((ms, r), w') \<Rightarrow>
    r = Done () \<and> list_all (good_metric (NewManagerCollector net i) valid) ms \<and> distinct (map identity ms) \<and>
    mt_Value (hd ms) = Float64 (g_leaderChanges g)"
proof -
  let ?mc = "NewManagerCollector net i"
  let ?cnt = "const_metric (mc_LeaderChangeCnt ?mc) CounterValue (Float64 (g_leaderChanges g)) []"
  let ?secs = "\<lambda>s. const_metric (mc_SecsSinceLeaderChange ?mc) GaugeValue (Seconds s) []"
  have good: "good_metric ?mc valid ?cnt" "good_metric ?mc valid (?secs s)" for s
    by (simp_all add: good_metric_def const_metric_def Describe_def NewManagerCollector_def NewDesc_def Let_def)
  have sends: "send_metrics accepts [?cnt] = ([?cnt], Done ())" "send_metrics accepts [?secs s] = ([?secs s], Done ())" for s
    using assms(1) good by (intro send_metrics_good [where mc = ?mc and valid = valid]; simp)+
  have other: "identity ?cnt \<noteq> identity (?secs s)" for s
    by (simp add: identity_def const_metric_def NewManagerCollector_def NewDesc_def Let_def)
  have net: "collects ?mc valid UNIV (fst (run_state (collect_net N accepts ?mc) v))" for v
    using collect_net_collects [OF refl assms(2)] assms(1) by blast
  have labels: "mt_Labels m \<noteq> []" if "m \<in> set (fst (fst (run_state (collect_net N accepts ?mc) v)))" for m v
    using net [of v] that unfolding collects_def good_metric_def list_all_iff by (metis length_0_conv)
  have new: "identity ?cnt \<notin> identity ` set (fst (fst (run_state (collect_net N accepts ?mc) v)))"
      "identity (?secs s) \<notin> identity ` set (fst (fst (run_state (collect_net N accepts ?mc) v)))" for s v
    using labels [of _ v] by (force simp: identity_def const_metric_def)+
  show ?thesis
  proof (cases "g_lastLeaderChange g")
    case None
    then have "fst (run_state (Collect N accepts g ?mc) w) =
        (?cnt # fst (fst (run_state (collect_net N accepts ?mc) w)), Done ())"
      using net [of w] by (simp add: Collect_def getValues_def sends run_send_then collects_def del: send_metrics.simps)
    then show ?thesis
      using net [of w] good new(1) [of w] unfolding collects_def
      by (auto simp: const_metric_def split: prod.splits)
  next
    case (Some t)
    obtain now v where "run_state (n_Time N) w = (now, v)" by (rule prod.exhaust)
    with Some have "fst (run_state (Collect N accepts g ?mc) w) =
        (?cnt # ?secs (since now t) # fst (fst (run_state (collect_net N accepts ?mc) v)), Done ())"
      using net [of v]
      by (simp add: Collect_def getValues_def sends run_send_then collects_def run_simps del: send_metrics.simps)
    then show ?thesis
      using net [of v] good new [where v = v] other [of "since now t"] unfolding collects_def
      by (auto simp: const_metric_def split: prod.splits)
  qed
qed

definition sample_dev :: "string \<Rightarrow> NetDevLine" where
  "sample_dev name = \<lparr> nd_Name = name, nd_RxBytes = 1, nd_TxBytes = 2, nd_RxPackets = 3, nd_TxPackets = 4 \<rparr>"

definition metrics_node :: "unit node" where
  "metrics_node = manager_node\<lparr>n_NetDev := ret (Inr [sample_dev ''eth0'', sample_dev ''vlan7''])\<rparr>"

definition strict_library :: "Desc \<Rightarrow> string list \<Rightarrow> bool" where
  "strict_library d ls \<longleftrightarrow> length ls = length (dc_VariableLabels d) \<and> list_all ascii ls"

theorem collect_sound_witness:
  "case run_state (Collect metrics_node strict_library sample_globals (NewManagerCollector ''net1'' 7)) () of ((ms, r), w') \<Rightarrow>
     r = Done () \<and> distinct (map identity ms) \<and> length ms = 11"
proof -
  have "orderly metrics_node ascii"
    by (auto simp: orderly_def metrics_node_def manager_node_def willing_node_def sample_manager_env_def sample_dev_def
        run_simps NewLink_def)
  moreover have "\<forall>d ls. length ls = length (dc_VariableLabels d) \<and> list_all ascii ls \<longrightarrow> strict_library d ls"
    by (simp add: strict_library_def)
  moreover have "length (fst (fst (run_state (Collect metrics_node strict_library sample_globals
      (NewManagerCollector ''net1'' 7)) ()))) = 11"
    by (simp add: Collect_def getValues_def sample_globals_def collect_net_def collectDevInfo_def send_then_def
        dev_metrics_def const_metric_def NewManagerCollector_def NewDesc_def dev_labels_def strict_library_def
        metrics_node_def manager_node_def willing_node_def sample_manager_env_def sample_dev_def NewLink_def
        run_simps Let_def)
  ultimately show ?thesis
    using collect_sound [where valid = ascii and accepts = strict_library and N = metrics_node and g = sample_globals and
        net = "''net1''" and i = 7 and w = "()"]
    by (auto split: prod.splits)
qed

text \<open>What is registered has different names, too.\<close>

lemma described_distinct: "distinct (map dc_FqName (Describe (NewManagerCollector net i)))"
  by (simp add: Describe_def NewManagerCollector_def NewDesc_def Let_def)

end
