(* ===== verification/OperatorMain.thy ===== *)
theory OperatorMain
  imports InterfaceJobs Node
begin

text \<open>
  The start of the operator (\<open>cmd/operator/main.go\<close>): its environment, the reconciler and the two
  webhooks it registers with controller-runtime, and the health checks. The library is a parameter, a
  record of operations that may fail; a builder's \<open>Complete\<close> is given what is registered.
\<close>

subsection \<open>The library\<close>

text \<open>A reconciler for a kind with the other kinds it watches, a validator and a defaulter for a kind.\<close>

datatype registration =
    ControllerFor string "string list" Envs
  | ValidatorFor string Envs
  | DefaulterFor string Envs

record 'w library =
  lib_GetConfig :: "('w, go_error option) state"
  lib_NewManager :: "int \<Rightarrow> string \<Rightarrow> ('w, bool \<times> go_error option) state"
  lib_Complete :: "registration \<Rightarrow> ('w, go_error option) state"
  lib_AddHealthzCheck :: "string \<Rightarrow> ('w, go_error option) state"
  lib_AddReadyzCheck :: "string \<Rightarrow> ('w, go_error option) state"
  lib_Start :: "('w, go_error option) state"

datatype library_call = Completed registration bool | AddedCheck string bool | Started bool

definition traced_library :: "'w library \<Rightarrow> ('w \<times> library_call list) library" where
  "traced_library L =
     \<lparr> lib_GetConfig = log_call (lib_GetConfig L) (\<lambda>_. []),
       lib_NewManager = (\<lambda>p d. log_call (lib_NewManager L p d) (\<lambda>_. [])),
       lib_Complete = (\<lambda>g. log_call (lib_Complete L g) (\<lambda>e. [Completed g (no_error e)])),
       lib_AddHealthzCheck = (\<lambda>n. log_call (lib_AddHealthzCheck L n) (\<lambda>e. [AddedCheck n (no_error e)])),
       lib_AddReadyzCheck = (\<lambda>n. log_call (lib_AddReadyzCheck L n) (\<lambda>e. [AddedCheck n (no_error e)])),
       lib_Start = log_call (lib_Start L) (\<lambda>e. [Started (no_error e)]) \<rparr>"

lemma traced_library_simps [run_simps]:
  "lib_GetConfig (traced_library L) = log_call (lib_GetConfig L) (\<lambda>_. [])"
  "lib_NewManager (traced_library L) p d = log_call (lib_NewManager L p d) (\<lambda>_. [])"
  "lib_Complete (traced_library L) g = log_call (lib_Complete L g) (\<lambda>e. [Completed g (no_error e)])"
  "lib_AddHealthzCheck (traced_library L) n = log_call (lib_AddHealthzCheck L n) (\<lambda>e. [AddedCheck n (no_error e)])"
  "lib_AddReadyzCheck (traced_library L) n = log_call (lib_AddReadyzCheck L n) (\<lambda>e. [AddedCheck n (no_error e)])"
  "lib_Start (traced_library L) = log_call (lib_Start L) (\<lambda>e. [Started (no_error e)])"
  by (simp_all add: traced_library_def)

subsection \<open>The environment\<close>

definition WebhookServerPort :: int where "WebhookServerPort = 8443"
definition WebhookServerCertDir :: string where "WebhookServerCertDir = ''/etc/webhook/certs''"

text \<open>
  The time to live of the jobs, with the error of its parse. The code reads a value that does not
  parse as none, but the variable \<open>err\<close> keeps the error.
\<close>

definition parse_ttl :: "string \<Rightarrow> int option \<times> num_error option" where
  "parse_ttl s = (let (ttlEnv, err) = strconv_ParseInt s 32 in (if err \<noteq> None then None else Some ttlEnv, err))"

definition operator_envs :: "(string \<Rightarrow> string) \<Rightarrow> int \<Rightarrow> int option \<Rightarrow> Envs" where
  "operator_envs env podTimeout ttl =
     \<lparr> env_NamespaceName = env ''NAMESPACE_NAME'',
       env_VlanManagerImage = env ''MANAGER_POD_IMAGE'',
       env_VlanManagerPullPolicy = env ''MANAGER_PULL_POLICY'',
       env_IsTest = False,
       env_WaitForPodTimeoutSeconds = podTimeout,
       env_IsManagerIPMonitoringEnabled = (env ''MANAGER_IP_MONITORING_ENABLED'' = ''true''),
       env_IsMonitoringEnabled = (env ''MONITORING_ENABLED'' = ''true''),
       env_MonitoringScrapeInterval = env ''MONITORING_SCRAPE_INTERVAL'',
       env_MonitoringReleaseName = env ''MONITORING_RELEASE_NAME'',
       env_TTL = ttl,
       env_InterfacePodImage = env ''INTERFACE_POD_IMAGE'',
       env_InterfacePodPullPolicy = env ''INTERFACE_PULL_POLICY'',
       env_WorkerInitImage = env ''WORKER_IMAGE'',
       env_WorkerInitPullPolicy = env ''WORKER_PULL_POLICY'',
       env_ServiceAccountName = env ''SERVICE_ACCOUNT_NAME'' \<rparr>"

subsection \<open>The process\<close>

definition SetupWithManager :: "'w library \<Rightarrow> Envs \<Rightarrow> ('w, go_error option) state" where
  "SetupWithManager L e = lib_Complete L (ControllerFor ''VlanNetwork'' [''Pod''] e)"

definition SetupVlanmanWebhookWithManager_v1 :: "'w library \<Rightarrow> Envs \<Rightarrow> ('w, go_error option) state" where
  "SetupVlanmanWebhookWithManager_v1 L e = lib_Complete L (ValidatorFor ''VlanNetwork'' e)"

definition SetupVlanmanWebhookWithManager_corev1 :: "'w library \<Rightarrow> Envs \<Rightarrow> ('w, go_error option) state" where
  "SetupVlanmanWebhookWithManager_corev1 L e = lib_Complete L (DefaulterFor ''Pod'' e)"

text \<open>A step whose error ends the process with code 1.\<close>

definition must :: "('w, go_error option) state \<Rightarrow> ('w, 'b proc) state \<Rightarrow> ('w, 'b proc) state" where
  "must m k = do { err \<leftarrow> m; (if err \<noteq> None then ret (Exits 1) else k) }"

text \<open>From the environment on.\<close>

definition operator_register :: "'w library \<Rightarrow> Envs \<Rightarrow> ('w, unit proc) state" where
  "operator_register L e =
     must (SetupWithManager L e)
     (must (SetupVlanmanWebhookWithManager_v1 L e)
     (must (SetupVlanmanWebhookWithManager_corev1 L e)
     (must (lib_AddHealthzCheck L ''healthz'')
     (must (lib_AddReadyzCheck L ''readyz'')
     (must (lib_Start L) (ret (Done ())))))))"

definition operator_main :: "'w library \<Rightarrow> (string \<Rightarrow> string) \<Rightarrow> ('w, unit proc) state" where
  "operator_main L env =
     must (lib_GetConfig L) (do {
       (mgr, err) \<leftarrow> lib_NewManager L WebhookServerPort WebhookServerCertDir;
       (if err \<noteq> None \<or> \<not> mgr then ret (Exits 1)
        else
          let (podTimeout, err2) = strconv_ParseInt (env ''POD_WAIT_TIMEOUT'') 64
          in if err2 \<noteq> None then ret (Exits 1)
             else
               let (ttl, err3) = parse_ttl (env ''JOB_TTL'');
                   e = operator_envs env podTimeout ttl
               in if err3 \<noteq> None then ret (Exits 1) else operator_register L e)
     })"

subsection \<open>What is started\<close>

definition startup_calls :: "Envs \<Rightarrow> library_call list" where
  "startup_calls e =
     [Completed (ControllerFor ''VlanNetwork'' [''Pod''] e) True, Completed (ValidatorFor ''VlanNetwork'' e) True,
      Completed (DefaulterFor ''Pod'' e) True, AddedCheck ''healthz'' True, AddedCheck ''readyz'' True, Started True]"

definition operator_outcome :: "Envs \<Rightarrow> unit proc \<Rightarrow> library_call list \<Rightarrow> bool" where
  "operator_outcome e r tr \<longleftrightarrow>
     (if r = Done () then tr = startup_calls e
      else r = Exits 1 \<and> butlast tr = take (length tr - 1) (startup_calls e) \<and> Started True \<notin> set tr)"

lemma emits_must:
  assumes "\<And>e. S (Exits 1) (c (Some e))" and "emits k (\<lambda>b new. S b (c None @ new))"
  shows "emits (must (log_call m c) k) S"
  unfolding must_def
  by (rule emits_bind [OF emits_log_call [where R = "\<lambda>a new. new = c a"]]) (auto simp: assms emits_ret)

lemma emits_operator_register: "emits (operator_register (traced_library L) e) (operator_outcome e)"
  unfolding operator_register_def SetupWithManager_def SetupVlanmanWebhookWithManager_v1_def
    SetupVlanmanWebhookWithManager_corev1_def traced_library_simps
  by (intro emits_must emits_ret) (simp_all add: operator_outcome_def startup_calls_def)

text \<open>
  C16: the operator starts with exactly the reconciler, the validator, the defaulter and the two checks,
  all given one environment, or it exits with 1 at the first failing step and is not started. It
  registers anything only if both the pod timeout and the time to live of the jobs parse: the
  environment always holds a time to live, and every interface job made with it expires.
\<close>

theorem operator_startup:
  "case run_state (operator_main (traced_library L) env) (w, []) of (r, (w', tr)) \<Rightarrow>
     (r = Exits 1 \<and> tr = []) \<or>
     (\<exists>podTimeout ttl. strconv_ParseInt (env ''POD_WAIT_TIMEOUT'') 64 = (podTimeout, None) \<and>
        strconv_ParseInt (env ''JOB_TTL'') 32 = (ttl, None) \<and>
        operator_outcome (operator_envs env podTimeout (Some ttl)) r tr)"
proof -
  have "emits (operator_main (traced_library L) env) (\<lambda>r tr. (r = Exits 1 \<and> tr = []) \<or>
     (\<exists>podTimeout ttl. strconv_ParseInt (env ''POD_WAIT_TIMEOUT'') 64 = (podTimeout, None) \<and>
        strconv_ParseInt (env ''JOB_TTL'') 32 = (ttl, None) \<and>
        operator_outcome (operator_envs env podTimeout (Some ttl)) r tr))"
    unfolding operator_main_def traced_library_simps parse_ttl_def Let_def
    by (intro emits_must emits_rules emits_weaken [OF emits_operator_register])
      (auto split: prod.splits if_splits)
  from emits_run [OF this] show ?thesis .
qed

text \<open>Without a time to live, which the code means to read as none, the operator does not start.\<close>

lemma operator_needs_ttl:
  assumes "snd (strconv_ParseInt (env ''JOB_TTL'') 32) \<noteq> None"
  shows "fst (run_state (operator_main L env) w) = Exits 1"
  using assms by (auto simp: operator_main_def must_def parse_ttl_def Let_def run_simps split: prod.splits option.splits)

end
