(* ===== verification/Utils.thy ===== *)
theory Utils
  imports GoNet Outcome Node
begin

text \<open>
  What is left of \<open>pkg/utils\<close> and \<open>pkg/comms\<close>, which nothing uses: addresses, admission requests, the location of the
  caller, the fatal exit. The regular expression is its set of matches, written as the rests that a
  match can leave.
\<close>

subsection \<open>Addresses\<close>

definition char_between :: "nat \<Rightarrow> nat \<Rightarrow> char \<Rightarrow> bool" where
  "char_between lo hi c \<longleftrightarrow> lo \<le> (of_char c :: nat) \<and> (of_char c :: nat) \<le> hi"

text \<open>The classes of characters that the alternatives for one octet consist of.\<close>

definition octet_shapes :: "(char \<Rightarrow> bool) list list" where
  "octet_shapes =
     [[char_between 50 50, char_between 53 53, char_between 48 53],
      [char_between 50 50, char_between 48 52, char_between 48 57],
      [char_between 48 49, char_between 48 57, char_between 48 57],
      [char_between 48 49, char_between 48 57],
      [char_between 48 57, char_between 48 57],
      [char_between 48 57]]"

definition octet_rests :: "string \<Rightarrow> string list" where
  "octet_rests s = concat (map (\<lambda>p.
     if list_all2 (\<lambda>f c. f c) p (take (length p) s) then [drop (length p) s] else []) octet_shapes)"

definition dotted_rests :: "string \<Rightarrow> string list" where
  "dotted_rests s = (case s of [] \<Rightarrow> [] | c # r \<Rightarrow> if c = CHR ''.'' then octet_rests r else [])"

definition ipv4_here :: "string \<Rightarrow> bool" where
  "ipv4_here s \<longleftrightarrow> concat (map dotted_rests (concat (map dotted_rests (concat (map dotted_rests (octet_rests s)))))) \<noteq> []"

definition is_word :: "char \<Rightarrow> bool" where
  "is_word c \<longleftrightarrow> char_between 48 57 c \<or> char_between 65 90 c \<or> char_between 97 122 c \<or> c = CHR ''_''"

text \<open>A match may begin after any character that is not one of a word: every octet begins with a digit.\<close>

fun ipv4_scan :: "bool \<Rightarrow> string \<Rightarrow> bool" where
  "ipv4_scan word [] = False"
| "ipv4_scan word (c # s) = (\<not> word \<and> ipv4_here (c # s) \<or> ipv4_scan (is_word c) s)"

definition IsValidIPv4 :: "string \<Rightarrow> bool" where
  "IsValidIPv4 ip = ipv4_scan False ip"

fun octet_bytes :: "string list \<Rightarrow> octet list \<Rightarrow> num_error + octet list" where
  "octet_bytes [] bs = Inr bs"
| "octet_bytes (s # ss) bs =
     (case strconv_ParseUint s 8 of
        (i, Some err) \<Rightarrow> Inl err
      | (i, None) \<Rightarrow> octet_bytes ss (bs @ [of_nat i]))"

definition IpToByteArray :: "string \<Rightarrow> num_error + octet list" where
  "IpToByteArray ip = octet_bytes (strings_Split ip CHR ''.'') []"

subsection \<open>Requests\<close>

text \<open>
  The review is read by the library's \<open>unmarshal\<close>; \<open>has_request\<close> says whether its request is set and
  \<open>quoted\<close> is the text of \<open>%q\<close>. The body is what could be read of it: a failure to read is dropped.
\<close>

definition ParseRequest ::
    "(string \<Rightarrow> string) \<Rightarrow> (string \<Rightarrow> go_error + 'a) \<Rightarrow> ('a \<Rightarrow> bool) \<Rightarrow> string \<Rightarrow> string option \<Rightarrow> go_error + 'a" where
  "ParseRequest quoted unmarshal has_request contentType r_Body =
     (if contentType \<noteq> ''application/json'' then
        Inl (Errorf (''Content-Type: '' @ quoted contentType @ '' should be '' @ quoted ''application/json''))
      else case r_Body of
        None \<Rightarrow> Inl (UnrecoverableError
          ''While unmarshaling admission request in ParseRequest, request.Body is nil''
          (Some (Sentinel ErrUnrecoverable)))
      | Some body \<Rightarrow>
          if body = [] then Inl (Errorf ''admission request body is empty'')
          else (case unmarshal body of
                  Inl err \<Rightarrow> Inl (Errorf (''could not parse admission review request: '' @ error_text err))
                | Inr a \<Rightarrow>
                    if \<not> has_request a then Inl (Errorf ''admission review can't be used: Request field is nil'')
                    else Inr a))"

subsection \<open>Logging\<close>

definition Fatal :: "go_error option \<Rightarrow> unit proc" where
  "Fatal err = (if err \<noteq> None then Exits 1 else Done ())"

text \<open>The copies of the caller's location in this package: other texts around it.\<close>

definition utils_CallerInfo_String :: "(go_error \<Rightarrow> string) \<Rightarrow> CallerInfo \<Rightarrow> string" where
  "utils_CallerInfo_String errText ci =
     (case ci_Err ci of
        Some e \<Rightarrow> ''Error extracting location information: '' @ errText e
      | None \<Rightarrow> ci_FunctionName ci @ '' in file '' @ ci_File ci @ '' at line '' @ strconv_FormatInt (ci_Line ci))"

definition utils_GetCallerInfo :: "nat \<Rightarrow> (string \<times> string \<times> int) option \<Rightarrow> CallerInfo" where
  "utils_GetCallerInfo n frame =
     (if n \<noteq> 1 then
        \<lparr> ci_FunctionName = [], ci_File = [], ci_Line = 0,
          ci_Err = Some (UnrecoverableError ''Couldn't get runtime.callers for logging, returned 0''
            (Some (Sentinel ErrNilUnrecoverable))) \<rparr>
      else case frame of
        None \<Rightarrow> \<lparr> ci_FunctionName = [], ci_File = [], ci_Line = 0,
          ci_Err = Some (UnrecoverableError ''Frames pointer returned from CallersFrames is nil''
            (Some (Sentinel ErrNilUnrecoverable))) \<rparr>
      | Some (fn, file, line) \<Rightarrow>
          \<lparr> ci_FunctionName = fn, ci_File = file, ci_Line = line, ci_Err = None \<rparr>)"

subsection \<open>Messages of pkg/comms without a use\<close>

record AddVlanRequest =
  avr_ID :: int64

record AddVlanResponse =
  avp_Err :: "go_error option"

subsection \<open>Addresses in decimal\<close>

lemma char_between_digit: "d < 10 \<Longrightarrow> char_between lo hi (digit_char d) \<longleftrightarrow> lo \<le> 48 + d \<and> 48 + d \<le> hi"
  by (simp add: char_between_def digit_char_def)

lemma octet_shape:
  assumes "n < 256"
  shows "\<exists>p \<in> set octet_shapes. list_all2 (\<lambda>f c. f c) p (fmt_nat n)"
  using assms
proof (cases rule: octet_digits)
  case three
  let ?h = "n div 100" and ?t = "n div 10 mod 10" and ?u = "n mod 10"
  have small: "?u \<le> 9" "?t \<le> 9" by presburger+
  have n: "100 * ?h + 10 * ?t + ?u = n" using three(3) div_mult_mod_eq [of n 10] by linarith
  then have "?h = 1 \<or> ?h = 2 \<and> ?t < 5 \<or> ?h = 2 \<and> ?t = 5 \<and> ?u \<le> 5"
    using assms three(1) by linarith
  then show ?thesis
    unfolding octet_shapes_def three(4) using small by (elim disjE conjE) (simp_all add: char_between_digit)
qed (auto simp: octet_shapes_def char_between_digit)

lemma octet_rests_text:
  assumes "n < 256"
  shows "r \<in> set (octet_rests (fmt_nat n @ r))"
proof -
  obtain p where p: "p \<in> set octet_shapes" "list_all2 (\<lambda>f c. f c) p (fmt_nat n)"
    using octet_shape [OF assms] by blast
  have "length p = length (fmt_nat n)" using p(2) by (rule list_all2_lengthD)
  then have "r \<in> set (if list_all2 (\<lambda>f c. f c) p (take (length p) (fmt_nat n @ r)) then [drop (length p) (fmt_nat n @ r)] else [])"
    using p(2) by simp
  then show ?thesis using p(1) by (auto simp: octet_rests_def)
qed

lemma dotted_rests_text: "n < 256 \<Longrightarrow> r \<in> set (dotted_rests (CHR ''.'' # fmt_nat n @ r))"
  by (simp add: dotted_rests_def octet_rests_text)

lemma in_concat_map: "x \<in> set xs \<Longrightarrow> y \<in> set (f x) \<Longrightarrow> y \<in> set (concat (map f xs))"
  by auto

lemma ipv4_hereI:
  "x \<in> set (octet_rests s) \<Longrightarrow> y \<in> set (dotted_rests x) \<Longrightarrow> z \<in> set (dotted_rests y) \<Longrightarrow>
   t \<in> set (dotted_rests z) \<Longrightarrow> ipv4_here s"
  using in_concat_map [OF in_concat_map [OF in_concat_map]] unfolding ipv4_here_def by (metis list.set(1) empty_iff)

lemma ipv4_here_text: "ipv4_here (ipv4_text a b c d @ post)"
proof -
  have "ipv4_text a b c d @ post = fmt_nat (unat a) @ CHR ''.'' # fmt_nat (unat b) @ CHR ''.'' #
      fmt_nat (unat c) @ CHR ''.'' # fmt_nat (unat d) @ post"
    by (simp add: ipv4_text_def)
  then show ?thesis
    by (simp only:) (rule ipv4_hereI [OF octet_rests_text dotted_rests_text dotted_rests_text dotted_rests_text];
      rule unat_octet)
qed

text \<open>
  The expression has no anchors: any text with an address in it, not right after a letter or a digit,
  counts as a valid address.
\<close>

lemma valid_ipv4_unanchored:
  assumes "pre = [] \<or> \<not> is_word (last pre)"
  shows "IsValidIPv4 (pre @ ipv4_text a b c d @ post)"
proof -
  have ne: "ipv4_text a b c d @ post \<noteq> []" using fmt_nat_nonempty by (simp add: ipv4_text_def)
  have here: "ipv4_scan False (ipv4_text a b c d @ post)"
    using ne ipv4_here_text by (metis ipv4_scan.simps(2) list.exhaust)
  have "ipv4_scan w (pre @ ipv4_text a b c d @ post)" if "pre \<noteq> []" "\<not> is_word (last pre)" for pre w
    using that by (induction pre arbitrary: w) (auto simp: here split: if_splits)
  then show ?thesis
    using here assms by (cases "pre = []") (auto simp: IsValidIPv4_def)
qed

lemma IpToByteArray_text: "IpToByteArray (ipv4_text a b c d) = Inr [a, b, c, d]"
proof -
  have dot: "CHR ''.'' \<notin> set (fmt_nat n)" for n
    using fmt_nat_digits [of n] by (auto simp: is_digit_def)
  have "strings_Split (ipv4_text a b c d) CHR ''.'' = map (\<lambda>x. fmt_nat (unat x)) [a, b, c, d]"
    unfolding ipv4_text_def using dot by (intro strings_Split_Join) auto
  moreover have "strconv_ParseUint (fmt_nat (unat x)) 8 = (unat x, None)" for x :: octet
    using unat_octet [of x] by (simp add: ParseUint_fmt_nat)
  ultimately show ?thesis by (simp add: IpToByteArray_def)
qed

text \<open>The number of octets is not checked.\<close>

lemma IpToByteArray_short: "IpToByteArray ''10.1'' = Inr [10, 1]"
  by code_simp

end
