(* ===== verification/DeepCopy.thy ===== *)
theory DeepCopy
  imports Defaulter
begin

text \<open>
  Networks as objects that share maps. The copies of \<open>api/v1/zz_generated.deepcopy.go\<close> assign the
  specification and the status, so a copy has the maps of the original; the client that the operator
  and its webhooks read through (controller-runtime) hands out such copies of the objects in its cache.
  A store holds the maps by their addresses, one component for each of their types. The allocation of
  the webhook, written over the store, is refined to the allocation on values that the rest of the
  development uses, and shown to change the cached object, too.
\<close>

subsection \<open>Objects and the store\<close>

record store =
  so_Next :: nat
  so_State :: "nat \<Rightarrow> ConnectionState gomap"
  so_Free :: "nat \<Rightarrow> string slice gomap"
  so_Pending :: "nat \<Rightarrow> nat option gomap"
  so_Stamps :: "nat \<Rightarrow> string gomap"

record StatusObject =
  sr_FreeIPs :: "nat option"
  sr_PendingIPs :: "nat option"
  sr_State :: "nat option"
  sr_ShortState :: string

record NetworkObject =
  no_Meta :: ObjectMeta
  no_Spec :: VlanNetworkSpec
  no_Status :: StatusObject

record NetworkListObject =
  nl_Items :: "NetworkObject slice"

text \<open>The value that an object stands for.\<close>

definition view_pending :: "store \<Rightarrow> nat option gomap \<Rightarrow> string gomap option gomap" where
  "view_pending s m = map_range (\<lambda>k. map_option (so_Stamps s)) m"

definition view_status :: "store \<Rightarrow> StatusObject \<Rightarrow> VlanNetworkStatus" where
  "view_status s r =
     \<lparr> st_FreeIPs = map_option (so_Free s) (sr_FreeIPs r),
       st_PendingIPs = map_option (\<lambda>p. view_pending s (so_Pending s p)) (sr_PendingIPs r),
       st_State = map_option (so_State s) (sr_State r), st_ShortState = sr_ShortState r \<rparr>"

definition view_network :: "store \<Rightarrow> NetworkObject \<Rightarrow> VlanNetwork" where
  "view_network s n =
     \<lparr> net_Meta = no_Meta n, net_Spec = no_Spec n, net_Status = view_status s (no_Status n) \<rparr>"

subsection \<open>The copies\<close>

text \<open>The library copies the metadata deeply; the other fields are assigned.\<close>

definition DeepCopyInto :: "NetworkObject \<Rightarrow> NetworkObject" where
  "DeepCopyInto src = \<lparr> no_Meta = no_Meta src, no_Spec = no_Spec src, no_Status = no_Status src \<rparr>"

definition DeepCopy :: "NetworkObject option \<Rightarrow> NetworkObject option" where
  "DeepCopy src = (case src of None \<Rightarrow> None | Some n \<Rightarrow> Some (DeepCopyInto n))"

definition DeepCopyObject :: "NetworkObject option \<Rightarrow> NetworkObject option" where
  "DeepCopyObject src = (case DeepCopy src of None \<Rightarrow> None | Some c \<Rightarrow> Some c)"

definition List_DeepCopyInto :: "NetworkListObject \<Rightarrow> NetworkListObject" where
  "List_DeepCopyInto src =
     (case nl_Items src of
        None \<Rightarrow> \<lparr> nl_Items = None \<rparr>
      | Some items \<Rightarrow> \<lparr> nl_Items = Some (map DeepCopyInto items) \<rparr>)"

definition List_DeepCopy :: "NetworkListObject option \<Rightarrow> NetworkListObject option" where
  "List_DeepCopy src = (case src of None \<Rightarrow> None | Some l \<Rightarrow> Some (List_DeepCopyInto l))"

definition List_DeepCopyObject :: "NetworkListObject option \<Rightarrow> NetworkListObject option" where
  "List_DeepCopyObject src = (case List_DeepCopy src of None \<Rightarrow> None | Some c \<Rightarrow> Some c)"

subsection \<open>The operations that write\<close>

text \<open>A nil map is replaced by a new one; the address of the map comes with it.\<close>

definition make_pending :: "store \<Rightarrow> StatusObject \<Rightarrow> store \<times> StatusObject \<times> nat" where
  "make_pending s r =
     (case sr_PendingIPs r of
        Some p \<Rightarrow> (s, r, p)
      | None \<Rightarrow> (s\<lparr>so_Next := so_Next s + 1, so_Pending := (so_Pending s)(so_Next s := [])\<rparr>,
                r\<lparr>sr_PendingIPs := Some (so_Next s)\<rparr>, so_Next s))"

definition make_free :: "store \<Rightarrow> StatusObject \<Rightarrow> store \<times> StatusObject \<times> nat" where
  "make_free s r =
     (case sr_FreeIPs r of
        Some p \<Rightarrow> (s, r, p)
      | None \<Rightarrow> (s\<lparr>so_Next := so_Next s + 1, so_Free := (so_Free s)(so_Next s := [])\<rparr>,
                r\<lparr>sr_FreeIPs := Some (so_Next s)\<rparr>, so_Next s))"

definition make_stamps :: "store \<Rightarrow> nat option option \<Rightarrow> store \<times> nat" where
  "make_stamps s inner =
     (case inner of
        Some (Some i) \<Rightarrow> (s, i)
      | _ \<Rightarrow> (s\<lparr>so_Next := so_Next s + 1, so_Stamps := (so_Stamps s)(so_Next s := [])\<rparr>, so_Next s))"

text \<open>The allocation of \<open>Default\<close>, from \<open>PopulateStatus\<close> to the assignment of the pending map.\<close>

definition allocate_object ::
    "string \<Rightarrow> string \<Rightarrow> store \<Rightarrow> StatusObject \<Rightarrow> store \<times> (string \<times> StatusObject) option" where
  "allocate_object pool stamp s r =
     (let (s1, r1, pend) = make_pending s r;
          (s2, r2, free) = make_free s1 r1;
          s3 = s2\<lparr>so_Free := (so_Free s2)(free := populate_free [pool] (so_Free s2 free))\<rparr>;
          (s4, inner) = make_stamps s3 (map_lookup (so_Pending s3 pend) pool)
      in case first_free (elems (the_default None (map_lookup (so_Free s4 free) pool))) (so_Stamps s4 inner) of
           None \<Rightarrow> (s4, None)
         | Some ip \<Rightarrow>
             (s4\<lparr>so_Stamps := (so_Stamps s4)(inner := map_assign ip stamp (so_Stamps s4 inner)),
                so_Pending := (so_Pending s4)(pend := map_assign pool (Some inner) (so_Pending s4 pend))\<rparr>,
              Some (ip, r2)))"

text \<open>The three statements that record the state of a connection.\<close>

definition mark_object :: "string \<Rightarrow> ConnectionState \<Rightarrow> store \<Rightarrow> StatusObject \<Rightarrow> store \<times> StatusObject" where
  "mark_object name v s r =
     (let (s1, p) = (case sr_State r of
            Some p \<Rightarrow> (s, p)
          | None \<Rightarrow> (s\<lparr>so_Next := so_Next s + 1, so_State := (so_State s)(so_Next s := [])\<rparr>, so_Next s));
          s2 = s1\<lparr>so_State := (so_State s1)(p := map_assign name v (so_State s1 p))\<rparr>;
          r2 = r\<lparr>sr_State := Some p\<rparr>
      in (s2, r2\<lparr>sr_ShortState := st_ShortState (UpdateShortState (view_status s2 r2))\<rparr>))"

subsection \<open>Refinement\<close>

text \<open>The addresses of an object are allocated, and the pools have different maps of pending addresses.\<close>

definition pending_ok :: "nat \<Rightarrow> nat option gomap \<Rightarrow> bool" where
  "pending_ok n m \<longleftrightarrow> wf_map m \<and>
     (\<forall>k a. (k, Some a) \<in> set m \<longrightarrow> a < n \<and> (\<forall>l. (l, Some a) \<in> set m \<longrightarrow> l = k))"

definition store_ok :: "store \<Rightarrow> StatusObject \<Rightarrow> bool" where
  "store_ok s r \<longleftrightarrow>
     (\<forall>p. sr_PendingIPs r = Some p \<longrightarrow> p < so_Next s \<and> pending_ok (so_Next s) (so_Pending s p)) \<and>
     (\<forall>p. sr_FreeIPs r = Some p \<longrightarrow> p < so_Next s) \<and>
     (\<forall>p. sr_State r = Some p \<longrightarrow> p < so_Next s)"

lemma pending_ok_Suc: "pending_ok n m \<Longrightarrow> pending_ok (Suc n) m"
  by (auto simp: pending_ok_def less_Suc_eq)

lemma pending_ok_empty [simp]: "pending_ok n []"
  by (simp add: pending_ok_def)

lemma map_range_assign: "map_range f (map_assign k v m) = map_assign k (f k v) (map_range f m)"
  by (induction m) (simp_all add: map_range_def map_assign_def split_beta)

lemma map_assign_range_cong:
  "wf_map m \<Longrightarrow> (\<And>l v. (l, v) \<in> set m \<Longrightarrow> l \<noteq> k \<Longrightarrow> f l v = g l v) \<Longrightarrow>
   map_assign k x (map_range f m) = map_assign k x (map_range g m)"
proof (induction m)
  case (Cons e m)
  obtain l v where e: "e = (l, v)" by (cases e)
  show ?case
  proof (cases "l = k")
    case True
    have "b \<noteq> k" if "(b, w) \<in> set m" for b w
      using Cons.prems(1) that True e by (force simp: wf_map_def)
    then have "map_range f m = map_range g m"
      unfolding map_range_def using Cons.prems(2) by (intro map_cong refl) (auto simp: e)
    then show ?thesis using e True by (simp add: map_range_def map_assign_def)
  next
    case False
    have "map_assign k x (map_range f m) = map_assign k x (map_range g m)"
      using Cons by (auto simp: wf_map_def)
    then show ?thesis using Cons.prems(2) [of l v] e False by (simp add: map_range_def map_assign_def)
  qed
qed (simp add: map_range_def)

text \<open>Stamps at the address \<open>i\<close> are seen only under the pool whose map it is.\<close>

lemma view_pending_assign:
  assumes "wf_map m" and "\<And>l. (l, Some i) \<in> set m \<Longrightarrow> l = pool"
  shows "view_pending (s\<lparr>so_Stamps := (so_Stamps s)(i := x)\<rparr>) (map_assign pool (Some i) m)
    = map_assign pool (Some x) (view_pending s m)"
  unfolding view_pending_def map_range_assign
  by (simp, rule map_assign_range_cong [OF assms(1)])
    (use assms(2) in \<open>auto simp: map_option_case split: option.split\<close>)

text \<open>What the parts of \<open>store_ok\<close> give.\<close>

lemma store_okD:
  assumes "store_ok s r"
  shows "sr_PendingIPs r = Some p \<Longrightarrow> p < so_Next s" and "sr_FreeIPs r = Some p \<Longrightarrow> p < so_Next s"
    and "sr_PendingIPs r = Some p \<Longrightarrow> wf_map (so_Pending s p)"
    and "sr_PendingIPs r = Some p \<Longrightarrow> (k, Some a) \<in> set (so_Pending s p) \<Longrightarrow> a < so_Next s"
    and "sr_PendingIPs r = Some p \<Longrightarrow> (k, Some a) \<in> set (so_Pending s p) \<Longrightarrow>
      (l, Some a) \<in> set (so_Pending s p) \<Longrightarrow> l = k"
  using assms unfolding store_ok_def pending_ok_def by blast+

lemma view_pending_fresh:
  assumes "\<And>k a. (k, Some a) \<in> set m \<Longrightarrow> a \<noteq> n"
  shows "view_pending (s\<lparr>so_Next := t, so_Stamps := (so_Stamps s)(n := x)\<rparr>) m = view_pending s m"
  unfolding view_pending_def map_range_def using assms
  by (intro map_cong refl) (force simp: map_option_case split: option.split)

lemma view_pending_same: "so_Stamps s' = so_Stamps s \<Longrightarrow> view_pending s' m = view_pending s m"
  by (simp add: view_pending_def)

lemma make_pending_view:
  assumes "make_pending s r = (s', r', p)" and "store_ok s r"
  shows "sr_PendingIPs r' = Some p" and "store_ok s' r'"
    and "view_status s' r' = (view_status s r)\<lparr>st_PendingIPs := Some (elems (st_PendingIPs (view_status s r)))\<rparr>"
  using assms
  by (auto simp: make_pending_def store_ok_def view_status_def view_pending_def map_range_def less_Suc_eq
      intro: pending_ok_Suc split: option.splits)

lemma make_free_view:
  assumes "make_free s r = (s', r', p)" and "store_ok s r"
  shows "sr_FreeIPs r' = Some p" and "sr_PendingIPs r' = sr_PendingIPs r" and "store_ok s' r'"
    and "view_status s' r' = (view_status s r)\<lparr>st_FreeIPs := Some (elems (st_FreeIPs (view_status s r)))\<rparr>"
proof -
  show "sr_FreeIPs r' = Some p" "sr_PendingIPs r' = sr_PendingIPs r"
    using assms by (auto simp: make_free_def split: option.splits)
  show "store_ok s' r'"
    using assms by (auto simp: make_free_def store_ok_def less_Suc_eq intro: pending_ok_Suc split: option.splits)
  show "view_status s' r' = (view_status s r)\<lparr>st_FreeIPs := Some (elems (st_FreeIPs (view_status s r)))\<rparr>"
    using assms by (auto simp: make_free_def view_status_def view_pending_def split: option.splits)
qed

lemma make_stamps_view:
  assumes "make_stamps s (map_lookup (so_Pending s p) pool) = (s', i)" and "store_ok s r"
    and "sr_PendingIPs r = Some p"
  shows "so_Stamps s' i = elems (the_default None (map_lookup (elems (st_PendingIPs (view_status s r))) pool))"
    and "view_status s' r = view_status s r" and "so_Free s' = so_Free s" and "so_Pending s' = so_Pending s"
    and "\<And>l. (l, Some i) \<in> set (so_Pending s p) \<Longrightarrow> l = pool"
proof -
  note ok = store_okD [OF assms(2)]
  have lookup: "map_lookup (elems (st_PendingIPs (view_status s r))) pool
      = map_option (map_option (so_Stamps s)) (map_lookup (so_Pending s p) pool)"
    by (simp add: view_status_def assms(3) view_pending_def gomap_simps)
  have fresh: "a \<noteq> so_Next s" if "(k, Some a) \<in> set (so_Pending s p)" for k a
    using ok(4) [OF assms(3) that] by simp
  show "so_Stamps s' i = elems (the_default None (map_lookup (elems (st_PendingIPs (view_status s r))) pool))"
    using assms(1) unfolding lookup by (auto simp: make_stamps_def split: option.splits)
  show "view_status s' r = view_status s r"
    using assms(1) view_pending_fresh [OF fresh, where s = s and t = "Suc (so_Next s)" and x = "[]"] assms(3)
    by (auto simp: make_stamps_def view_status_def split: option.splits)
  show "so_Free s' = so_Free s" "so_Pending s' = so_Pending s"
    using assms(1) by (auto simp: make_stamps_def split: option.splits)
  show "l = pool" if "(l, Some i) \<in> set (so_Pending s p)" for l
  proof (cases "map_lookup (so_Pending s p) pool")
    case (Some x)
    show ?thesis
    proof (cases x)
      case (Some a)
      with \<open>map_lookup (so_Pending s p) pool = Some x\<close> have "(pool, Some a) \<in> set (so_Pending s p)"
        by (simp add: map_lookup_def map_of_SomeD)
      moreover have "i = a"
        using assms(1) Some \<open>map_lookup (so_Pending s p) pool = Some x\<close> by (simp add: make_stamps_def)
      ultimately show ?thesis using ok(5) [OF assms(3)] that by blast
    next
      case None
      with assms(1) Some have "i = so_Next s" by (simp add: make_stamps_def)
      with fresh that show ?thesis by blast
    qed
  next
    case None
    with assms(1) have "i = so_Next s" by (simp add: make_stamps_def)
    with fresh that show ?thesis by blast
  qed
qed

text \<open>
  C9: the allocation that works on shared maps computes the allocation on values. For every object
  whose maps are allocated and not shared between its pools, it finds an address exactly if the value
  that the object stands for has one, the same, and the object afterwards stands for the status that
  the allocation on values gives.
\<close>

theorem allocate_object_refines:
  assumes "store_ok s r"
  shows "case allocate_object pool stamp s r of (s', found) \<Rightarrow>
    allocate pool stamp (view_status s r) = map_option (\<lambda>(ip, r'). (ip, view_status s' r')) found"
proof -
  obtain s1 r1 pend where 1: "make_pending s r = (s1, r1, pend)" by (rule prod_cases3)
  obtain s2 r2 free where 2: "make_free s1 r1 = (s2, r2, free)" by (rule prod_cases3)
  let ?s3 = "s2\<lparr>so_Free := (so_Free s2)(free := populate_free [pool] (so_Free s2 free))\<rparr>"
  obtain s4 i where 4: "make_stamps ?s3 (map_lookup (so_Pending ?s3 pend) pool) = (s4, i)" by (rule prod.exhaust)
  note p = make_pending_view [OF 1 assms]
  note f = make_free_view [OF 2 p(2)]
  have refs: "sr_FreeIPs r2 = Some free" "sr_PendingIPs r2 = Some pend" using f(1,2) p(1) by simp_all
  have ok3: "store_ok ?s3 r2" using f(3) by (simp add: store_ok_def)
  have pop: "view_status ?s3 r2 = PopulateStatus (view_status s r) [pool]"
  proof -
    have "view_status ?s3 r2 = (view_status s2 r2)\<lparr>st_FreeIPs := Some (populate_free [pool] (so_Free s2 free))\<rparr>"
      by (simp add: view_status_def refs view_pending_def)
    moreover have "so_Free s2 free = elems (st_FreeIPs (view_status s r))"
      using arg_cong [OF f(4), of st_FreeIPs] p(3) by (simp add: view_status_def refs)
    ultimately show ?thesis using f(4) p(3) by (simp add: PopulateStatus_def)
  qed
  have pend: "sr_PendingIPs r2 = Some pend" by (rule refs(2))
  note m = make_stamps_view [OF 4 ok3 pend]
  let ?st = "PopulateStatus (view_status s r) [pool]"
  have view4: "view_status s4 r2 = ?st" using m(2) pop by simp
  have fr: "elems (the_default None (map_lookup (so_Free s4 free) pool)) = free_of ?st pool"
    unfolding view4 [symmetric] by (simp add: free_of_def view_status_def refs)
  have st: "so_Stamps s4 i = elems (the_default None (map_lookup (elems (st_PendingIPs ?st)) pool))"
    using m(1) pop by simp
  have set: "view_status (s4\<lparr>so_Stamps := (so_Stamps s4)(i := x),
      so_Pending := (so_Pending s4)(pend := map_assign pool (Some i) (so_Pending s4 pend))\<rparr>) r2
      = ?st\<lparr>st_PendingIPs := Some (map_assign pool (Some x) (elems (st_PendingIPs ?st)))\<rparr>" for x
  proof -
    have wf: "wf_map (so_Pending s4 pend)" using store_okD(3) [OF ok3 pend] m(4) by simp
    have "view_pending (s4\<lparr>so_Stamps := (so_Stamps s4)(i := x)\<rparr>) (map_assign pool (Some i) (so_Pending s4 pend))
        = map_assign pool (Some x) (view_pending s4 (so_Pending s4 pend))"
      by (rule view_pending_assign [OF wf]) (use m(4,5) in simp)
    then show ?thesis unfolding view4 [symmetric] by (simp add: view_status_def refs view_pending_def)
  qed
  show ?thesis
    unfolding allocate_object_def 1 2 4 Let_def split fr st allocate_def
    by (auto simp: set split: option.split)
qed

text \<open>With both maps there already, nothing is allocated: the object that comes back is the one given.\<close>

lemma allocate_object_in_place:
  assumes "sr_PendingIPs r = Some p" and "sr_FreeIPs r = Some f"
    and "allocate_object pool stamp s r = (s', Some (ip, r'))"
  shows "r' = r"
  using assms by (auto simp: allocate_object_def make_pending_def make_free_def Let_def split: prod.splits option.splits)

subsection \<open>What a reader of the cache gets\<close>

text \<open>
  C10: the copy that a reader of the cache gets is not isolated. Whatever the webhook allocates on its
  copy is in the cached object at once, before the write of the status and also if that write fails: the
  cached network then stands for the allocated status, and the next allocation from the cache
  never gives the same address.
\<close>

theorem cached_network_changed:
  assumes "store_ok s (no_Status cached)"
    and "sr_PendingIPs (no_Status cached) = Some p" and "sr_FreeIPs (no_Status cached) = Some f"
    and "DeepCopyObject (Some cached) = Some copy"
    and "allocate_object pool stamp s (no_Status copy) = (s', Some (ip, r'))"
  shows "(\<exists>st. allocate pool stamp (net_Status (view_network s cached)) = Some (ip, st) \<and>
       net_Status (view_network s' cached) = st) \<and>
     map_option fst (allocate pool stamp' (net_Status (view_network s' cached))) \<noteq> Some ip"
proof -
  have same: "no_Status copy = no_Status cached"
    using assms(4) by (auto simp: DeepCopyObject_def DeepCopy_def DeepCopyInto_def)
  have r': "r' = no_Status cached"
    by (rule allocate_object_in_place [OF assms(2,3)]) (use assms(5) same in simp)
  have alloc: "allocate pool stamp (view_status s (no_Status cached)) = Some (ip, view_status s' (no_Status cached))"
    using allocate_object_refines [OF assms(1), of pool stamp] assms(5) same r' by simp
  have "pending_of (view_status s' (no_Status cached)) pool ip = Some stamp"
    using allocate_pending [OF alloc] by simp
  then have "ip2 \<noteq> ip" if "allocate pool stamp' (view_status s' (no_Status cached)) = Some (ip2, st)" for ip2 st
    using that by (auto simp: allocate_eq find_Some_iff)
  then show ?thesis
    using alloc by (auto simp: view_network_def split: option.split)
qed

text \<open>Recording a state on the copy refines the operation on values, too, and reaches the cached map.\<close>

lemma mark_object_refines:
  assumes "mark_object name v s r = (s', r')"
  shows "view_status s' r' = set_connection_state name v (view_status s r)"
  using assms
  by (auto simp: mark_object_def Let_def set_connection_state_def view_status_def view_pending_def
      UpdateShortState_def split: option.splits prod.splits)

text \<open>The summary is a field of the copy, so in the cached object it no longer fits the states.\<close>

lemma cached_summary_stale:
  assumes "sr_State (no_Status cached) = Some p" and "mark_object name v s (no_Status (DeepCopyInto cached)) = (s', r')"
  shows "net_Status (view_network s' cached) = (net_Status (view_network s cached))
    \<lparr>st_State := Some (map_assign name v (elems (st_State (net_Status (view_network s cached)))))\<rparr>"
  using assms
  by (auto simp: mark_object_def DeepCopyInto_def Let_def view_network_def view_status_def view_pending_def)

subsection \<open>A cached network with one free address\<close>

definition sample_store :: store where
  "sample_store = \<lparr> so_Next = 2, so_State = (\<lambda>_. []),
     so_Free = (\<lambda>_. [(''primary'', Some [''10.0.0.1/24'', ''10.0.0.2/24''])]),
     so_Pending = (\<lambda>_. []), so_Stamps = (\<lambda>_. []) \<rparr>"

definition sample_cached :: NetworkObject where
  "sample_cached = \<lparr> no_Meta = zero_meta, no_Spec = zero_spec,
     no_Status = \<lparr> sr_FreeIPs = Some 0, sr_PendingIPs = Some 1, sr_State = None, sr_ShortState = [] \<rparr> \<rparr>"

lemma sample_store_ok: "store_ok sample_store (no_Status sample_cached)"
  by (simp add: store_ok_def sample_store_def sample_cached_def)

lemma sample_allocates:
  "\<exists>s'. allocate_object ''primary'' ''now'' sample_store (no_Status sample_cached)
     = (s', Some (''10.0.0.1/24'', no_Status sample_cached))"
  by (simp add: allocate_object_def make_pending_def make_free_def make_stamps_def sample_store_def sample_cached_def
      map_lookup_def map_keys_def slices_Contains_def Let_def)

theorem allocate_object_refines_witness:
  "\<exists>st. allocate ''primary'' ''now'' (view_status sample_store (no_Status sample_cached)) = Some (''10.0.0.1/24'', st)"
proof -
  obtain s' where "allocate_object ''primary'' ''now'' sample_store (no_Status sample_cached)
     = (s', Some (''10.0.0.1/24'', no_Status sample_cached))" using sample_allocates by blast
  then show ?thesis using allocate_object_refines [OF sample_store_ok, of "''primary''" "''now''"] by simp
qed

theorem cached_network_changed_witness:
  "\<exists>s' copy. DeepCopyObject (Some sample_cached) = Some copy \<and>
     allocate_object ''primary'' ''now'' sample_store (no_Status copy) = (s', Some (''10.0.0.1/24'', no_Status copy)) \<and>
     map_option fst (allocate ''primary'' ''later'' (net_Status (view_network s' sample_cached))) \<noteq> Some ''10.0.0.1/24''"
proof -
  have copy: "DeepCopyObject (Some sample_cached) = Some sample_cached"
    by (simp add: DeepCopyObject_def DeepCopy_def DeepCopyInto_def)
  obtain s' where run: "allocate_object ''primary'' ''now'' sample_store (no_Status sample_cached)
     = (s', Some (''10.0.0.1/24'', no_Status sample_cached))" using sample_allocates by blast
  have "sr_PendingIPs (no_Status sample_cached) = Some 1" "sr_FreeIPs (no_Status sample_cached) = Some 0"
    by (simp_all add: sample_cached_def)
  from cached_network_changed [OF sample_store_ok this copy run] show ?thesis
    using copy run by blast
qed

end
