(* ===== verification/Spec2Isabelle.thy ===== *)
theory Spec2Isabelle
  imports GoSlices Errors Api ApiJson ManagerSets InterfaceJobs GoTime Diff Status Traces Actions
    ActionFacts Clients Reconcile Validators Locker Defaulter Ipam
    GoNet Node Worker InterfaceMain Watcher ManagerDaemon ManagerFacts DaemonSetup Collector
    OperatorMain Utils DeepCopy
begin

text \<open>
  A verification development for vlanman, a Kubernetes operator that gives pods interfaces and
  addresses in VLANs.

  \<^bold>\<open>The program.\<close> A cluster-wide resource \<open>VlanNetwork\<close> (\<open>api/v1\<close>) describes a VLAN: its id, pools of
  addresses with routes, gateways, and in its status the free and the pending addresses of each pool
  and the state of each connection. Five processes share it.
  The \<^emph>\<open>operator\<close> (\<open>cmd/operator\<close>, \<open>internal/controller\<close>) compares networks with the daemon sets that
  exist and creates, updates or deletes the managers of a network, runs the jobs that make their
  interfaces, and recomputes the status from the pods.
  Its \<^emph>\<open>webhooks\<close> validate networks (\<open>internal/webhook/v1\<close>) and change created pods
  (\<open>internal/webhook/corev1\<close>): under a lease lock (\<open>pkg/locker\<close>) a pod is given a free address of its
  pool, which becomes pending, and an init container that will ask for the interface.
  The \<^emph>\<open>interface job\<close> (\<open>cmd/interface\<close>) creates the VLAN link on a node and moves it to a manager.
  The \<^emph>\<open>manager daemon\<close> (\<open>cmd/manager\<close>) watches this link, makes macvlan links for worker pods on
  request, and holds the gateways' addresses while it is the leader.
  The \<^emph>\<open>worker\<close> (\<open>cmd/worker\<close>) is the init container: it asks the daemon of its node for a link,
  gives it the address and sets the routes. They talk through environment variables, JSON over HTTP
  and the API server.

  \<^bold>\<open>The library.\<close> \<open>Prelude\<close> holds maps with Go's semantics (\<open>gomap\<close>, nil and empty slices) and the
  simplification collections; \<open>GoStrings\<close>, \<open>GoSlices\<close>, \<open>GoTime\<close>, \<open>GoJson\<close>, \<open>GoNet\<close> the parts of Go's
  library the program uses, with their round trips (decimal numbers, RFC 3339 times, JSON,
  IPv4 texts); \<open>Errors\<close> and \<open>Outcome\<close> every error type with its text and wrapping, and results
  (\<open>Ok\<close>, \<open>Err\<close>, \<open>Panics\<close>, \<open>Hangs\<close>). \<open>Kube\<close> is the API server and the clock, \<open>Node\<close> the host (network
  links, commands, HTTP) as records of operations on a state of any type, of which nothing is assumed;
  \<open>traced\<close> and \<open>traced_node\<close> log the calls (those to the node with their answers), and \<open>Traces\<close> has the rules (\<open>emits\<close>, \<open>only\<close>, \<open>ends_ok\<close>) by which
  a property of all logs of a handler is proved along its code. Locales state the interfaces, among them a
  comparison by key (\<open>keyed_cmp\<close>), codecs (\<open>json_codec\<close>, \<open>slice_codec\<close>), operations that keep a status well
  formed (\<open>status_op\<close>); each is interpreted on the definitions of the code.

  \<^bold>\<open>Components and what is shown.\<close>
  \<^item> \<open>Api\<close>, \<open>ApiJson\<close>, \<open>KubeTypes\<close>: the resource and the messages; every codec is a round trip.
  \<^item> \<open>ManagerSets\<close>, \<open>InterfaceJobs\<close>, \<open>Diff\<close> (\<open>manager.go\<close>, \<open>interface.go\<close>, \<open>vlanman_controller.go\<close>,
    \<open>state.go\<close>): daemon sets read back as what they were made from; the comparison by sorting and
    bisection equals one by lookups; a settled cluster.
  \<^item> \<open>Status\<close>: \<open>updateVlanNetworkStatus\<close> step by step; which addresses are free and which pending
    afterwards.
  \<^item> \<open>Actions\<close>, \<open>ActionFacts\<close>, \<open>Clients\<close>, \<open>Reconcile\<close>: the actions with their polls, the order of
    their calls, retries of conflicts, what a pod event can change.
  \<^item> \<open>Validators\<close>: the verdicts of the validating webhook, and what they leave out.
  \<^item> \<open>Locker\<close>, \<open>Defaulter\<close>: the lock, the allocation and the patch; the operator reads back what was
    allocated; a pod is never admitted without a recorded address.
  \<^item> \<open>Ipam\<close>: the webhook, the operator and its cache of pods, the daemons, pods and time as a step relation
    over the operations above. By rule induction no address is ever held twice in a timely environment,
    and the steps refine a register of held addresses; the bound on the times is needed; without it,
    too, addresses can always be recovered and the status stays well formed.
  \<^item> \<open>DeepCopy\<close>: networks as objects with shared maps (\<open>zz_generated.deepcopy.go\<close>). The allocation over a
    store of maps refines the one on values; but the copies share the maps of the status, so an allocation
    changes the network in the client's cache even when its write fails.
  \<^item> \<open>Worker\<close>, \<open>InterfaceMain\<close>: all calls of a successful worker for a patched pod; the exits
    of the job made by the operator.
  \<^item> \<open>Watcher\<close>, \<open>ManagerDaemon\<close>, \<open>ManagerFacts\<close>, \<open>DaemonSetup\<close>, \<open>Collector\<close>: the daemon; its invariant,
    its reply and the worker's first call, its environment against the daemon set, its wait for the
    interface and the race with the stores of its watcher (the watcher's goroutine is \<open>run_watcher\<close>; the set-up
    takes what each of its reads sees of the shared watcher as a function, and each loop over the directory is a
    list of stores, so a property can place the reads between the stores), the move of addresses with the leadership, the routes of gateways against those of
    pools, and metrics that the registry accepts.
  \<^item> \<open>OperatorMain\<close>, \<open>Utils\<close>: the start of the operator, and helpers without callers.

  \<^bold>\<open>Bounds.\<close> The polls of the code that count (\<open>30\<close> for daemon sets, pods and jobs, three
  attempts at the lock, five repeated status updates) are the recursions' own measures. Those that do
  not count take fuel: the wait for pods and for the address of a daemon (\<open>wait_pods\<close>, \<open>wait_address\<close>),
  the watcher (\<open>Watch\<close>) and the wait for the interface (\<open>wait_up\<close>). Running out is \<open>Hangs\<close> or \<open>Blocks\<close>, a
  result of its own, and \<open>setup_waits_for_interface\<close> says how much is enough.

  \<^bold>\<open>Assumptions of the address management.\<close> A write with a stale version is refused, so the webhook's read,
  allocation and write are one step; the
  specification is fixed and its pools share no address; what a failed write left in the cache of the
  client (\<open>DeepCopy\<close>) is not read again. For safety three times are bounded, the parameters of the steps: from
  the stamp of a request to the creation of its pod, from the creation of a pod to its appearance in the
  operator's cache, and from the operator's listing of pods to its last look at the clock; with one second
  they may sum up to 35 seconds (\<open>timely\<close>). \<open>timing_bound_needed\<close> shows that a larger sum is not safe.

  \<^bold>\<open>Not modelled.\<close> The registration of types (\<open>groupversion_info.go\<close>); logging (\<open>PrometheusLogger\<close>, the loggers) and signals (\<open>begin\<close>); the
  internals of controller-runtime, client-go (the leader election and the lease), netlink, procfs and
  Prometheus, which are parameters; texts of errors of those libraries.
\<close>

end
